(* ===== verification/Prelude.thy ===== *)
theory Prelude
  imports Main "HOL-Library.Monad_Syntax"
begin

text \<open>
  Shared vocabulary of the development: time stamps, the string functions of Go's
  \<^verbatim>\<open>strings\<close> package the program calls, results of fallible calls, tables as lists of rows,
  and the two interfaces every table of the database offers its clients: an append-only
  log (\<open>append_log\<close>) and a table with a key (\<open>keyed_rows\<close>).
\<close>

section \<open>Types\<close>

text \<open>
  A \<^verbatim>\<open>time.Time\<close> is the number of nanoseconds since Go's zero time (0001-01-01 00:00:00 UTC),
  so \<^verbatim>\<open>IsZero\<close> is equality with 0. Every time the program stores is in UTC.
\<close>

type_synonym time = int

abbreviation zero_time :: time where "zero_time \<equiv> 0"

abbreviation second :: time where "second \<equiv> 1000000000"

abbreviation hour :: time where "hour \<equiv> 3600 * second"

text \<open>A fallible call returns an error message or a value.\<close>

type_synonym 'a result = "string + 'a"

text \<open>
  The early returns of a handler: check a condition, take the value of a fallible call, translate
  its error, take an optional value.
\<close>

definition require :: "bool \<Rightarrow> 'e \<Rightarrow> ('e + 'a) \<Rightarrow> 'e + 'a" where
  "require b e k = (if b then k else Inl e)"

definition and_then :: "('e + 'a) \<Rightarrow> ('a \<Rightarrow> 'e + 'b) \<Rightarrow> 'e + 'b" where
  "and_then m f = (case m of Inl e \<Rightarrow> Inl e | Inr x \<Rightarrow> f x)"

definition or_fail :: "('d \<Rightarrow> 'e) \<Rightarrow> ('d + 'a) \<Rightarrow> 'e + 'a" where
  "or_fail g m = (case m of Inl e \<Rightarrow> Inl (g e) | Inr x \<Rightarrow> Inr x)"

definition some_or :: "'e \<Rightarrow> 'a option \<Rightarrow> 'e + 'a" where
  "some_or e x = (case x of None \<Rightarrow> Inl e | Some v \<Rightarrow> Inr v)"

definition none_or :: "'e option \<Rightarrow> ('e + 'a) \<Rightarrow> 'e + 'a" where
  "none_or x k = (case x of None \<Rightarrow> k | Some e \<Rightarrow> Inl e)"

lemma case_Inr_obtain: "(case x of Inl e \<Rightarrow> False | Inr v \<Rightarrow> P v) \<Longrightarrow> \<exists>v. x = Inr v \<and> P v"
  by (cases x) auto

lemma reply_obtain: "(case fst x of Inl e \<Rightarrow> False | Inr v \<Rightarrow> P v) \<Longrightarrow> \<exists>v d. x = (Inr v, d) \<and> P v"
  by (cases x) (auto split: sum.splits)

text \<open>For evaluation they are the conditionals they abbreviate, so that only the branch taken is computed.\<close>

declare require_def [code_unfold] and_then_def [code_unfold] or_fail_def [code_unfold]
  some_or_def [code_unfold] none_or_def [code_unfold]

lemma require_Inr [simp]: "require b e k = Inr x \<longleftrightarrow> b \<and> k = Inr x"
  by (simp add: require_def)

lemma and_then_Inr [simp]: "and_then m f = Inr x \<longleftrightarrow> (\<exists>v. m = Inr v \<and> f v = Inr x)"
  by (simp add: and_then_def split: sum.split)

lemma or_fail_Inr [simp]: "or_fail g m = Inr x \<longleftrightarrow> m = Inr x"
  by (simp add: or_fail_def split: sum.split)

lemma some_or_Inr [simp]: "some_or e v = Inr x \<longleftrightarrow> v = Some x"
  by (simp add: some_or_def split: option.split)

lemma none_or_Inr [simp]: "none_or v k = Inr x \<longleftrightarrow> v = None \<and> k = Inr x"
  by (simp add: none_or_def split: option.split)

lemmas early_return = and_then_Inr or_fail_Inr some_or_Inr none_or_Inr require_Inr option.map_disc_iff
  map_option_is_None sum.inject prod.inject

lemma and_then_simps [simp]: "and_then (Inr x) f = f x" "and_then (Inl e) f = Inl e"
  by (simp_all add: and_then_def)

lemma or_fail_simps [simp]: "or_fail g (Inr x) = Inr x" "or_fail g (Inl e) = Inl (g e)"
  by (simp_all add: or_fail_def)

lemma some_or_simps [simp]: "some_or e None = Inl e" "some_or e (Some x) = Inr x"
  by (simp_all add: some_or_def)

lemma none_or_simps [simp]: "none_or None k = k" "none_or (Some e) k = Inl e"
  by (simp_all add: none_or_def)

lemma require_simps [simp]: "require True e k = k" "require False e k = Inl e"
  by (simp_all add: require_def)

named_theorems table_simps \<open>equations of the table operations\<close>
named_theorems frame_simps \<open>the parts of the state an operation leaves unchanged\<close>

section \<open>Strings\<close>

definition lower_char :: "char \<Rightarrow> char" where
  "lower_char c =
     (let n = of_char c :: nat in if 65 \<le> n \<and> n \<le> 90 then char_of (n + 32) else c)"

text \<open>\<^verbatim>\<open>strings.ToLower\<close>, on ASCII text.\<close>

definition to_lower :: "string \<Rightarrow> string" where
  "to_lower s = map lower_char s"

text \<open>\<^verbatim>\<open>strings.EqualFold\<close>, on ASCII text.\<close>

definition equal_fold :: "string \<Rightarrow> string \<Rightarrow> bool" where
  "equal_fold a b \<longleftrightarrow> to_lower a = to_lower b"

definition has_prefix :: "string \<Rightarrow> string \<Rightarrow> bool" where
  "has_prefix s p \<longleftrightarrow> take (length p) s = p"

definition is_space :: "char \<Rightarrow> bool" where
  "is_space c \<longleftrightarrow> (let n = of_char c :: nat in n = 32 \<or> (9 \<le> n \<and> n \<le> 13))"

definition trim_by :: "(char \<Rightarrow> bool) \<Rightarrow> string \<Rightarrow> string" where
  "trim_by P s = rev (dropWhile P (rev (dropWhile P s)))"

text \<open>\<^verbatim>\<open>strings.TrimSpace\<close>.\<close>

definition trim_space :: "string \<Rightarrow> string" where
  "trim_space s = trim_by is_space s"

text \<open>\<^verbatim>\<open>strings.TrimRight(s, "/")\<close>.\<close>

definition trim_right_slash :: "string \<Rightarrow> string" where
  "trim_right_slash s = rev (dropWhile (\<lambda>c. c = CHR ''/'') (rev s))"

text \<open>The UTF-8 bytes of a dash in the program's messages.\<close>

definition em_dash :: string where
  "em_dash = map char_of [226 :: nat, 128, 148]"

text \<open>\<^verbatim>\<open>strings.Join\<close>.\<close>

fun join :: "string \<Rightarrow> string list \<Rightarrow> string" where
  "join sep [] = ''''"
| "join sep [s] = s"
| "join sep (s # t # ss) = s @ sep @ join sep (t # ss)"

text \<open>\<^verbatim>\<open>strings.Contains\<close> (and SQL's \<^verbatim>\<open>strpos(s, t) > 0\<close>).\<close>

fun contains :: "string \<Rightarrow> string \<Rightarrow> bool" where
  "contains [] t \<longleftrightarrow> t = []"
| "contains (c # s) t \<longleftrightarrow> has_prefix (c # s) t \<or> contains s t"

lemma of_char_lower:
  "(of_char (lower_char c) :: nat) =
     (let n = of_char c in if 65 \<le> n \<and> n \<le> 90 then n + 32 else n)"
  by (simp add: lower_char_def Let_def)

lemma lower_char_idem [simp]: "lower_char (lower_char c) = lower_char c"
proof -
  have "\<not> (65 \<le> (of_char (lower_char c) :: nat) \<and> (of_char (lower_char c) :: nat) \<le> 90)"
    by (simp add: of_char_lower Let_def)
  then show ?thesis
    by (simp only: lower_char_def [of "lower_char c"] Let_def if_False)
qed

lemma to_lower_idem [simp]: "to_lower (to_lower s) = to_lower s"
  by (simp add: to_lower_def)

lemma to_lower_eq_Nil [simp]: "to_lower s = [] \<longleftrightarrow> s = []"
  by (simp add: to_lower_def)

lemma to_lower_append: "to_lower (s @ t) = to_lower s @ to_lower t"
  by (simp add: to_lower_def)

lemma equal_fold_refl [simp]: "equal_fold s s"
  by (simp add: equal_fold_def)

lemma has_prefix_append [simp]: "has_prefix (p @ s) p"
  by (simp add: has_prefix_def)

lemma has_prefix_Nil [simp]: "has_prefix s []"
  by (simp add: has_prefix_def)

lemma contains_refl [simp]: "contains s s"
  by (cases s) (simp_all add: has_prefix_def)

lemma contains_append_left [intro]: "contains s t \<Longrightarrow> contains (u @ s) t"
  by (induction u) auto

lemma contains_has_prefix: "has_prefix s t \<Longrightarrow> contains s t"
  by (cases s) (simp_all add: has_prefix_def)

lemma contains_prefix [simp]: "contains (t @ v) t"
  by (simp add: contains_has_prefix)

lemma contains_infix [simp]: "contains (u @ t @ v) t"
  by (rule contains_append_left) simp

text \<open>\<^verbatim>\<open>strconv.Itoa\<close> on a natural number.\<close>

function decimal :: "nat \<Rightarrow> string" where
  "decimal n = (if n < 10 then [char_of (48 + n)] else decimal (n div 10) @ [char_of (48 + n mod 10)])"
  by auto
termination by (relation "measure (\<lambda>n. n)") auto

declare decimal.simps [simp del]

text \<open>\<^verbatim>\<open>%q\<close>: a double-quoted Go string, with Go's escapes (bytes from 128 on as they are).\<close>

definition hex_digit :: "nat \<Rightarrow> char" where
  "hex_digit n = (if n < 10 then char_of (48 + n) else char_of (87 + n))"

definition quote_char :: "char \<Rightarrow> string" where
  "quote_char c =
     (let n = of_char c :: nat in
      if n = 34 \<or> n = 92 then [char_of (92 :: nat), c]
      else if n = 7 then [char_of (92 :: nat), CHR ''a'']
      else if n = 8 then [char_of (92 :: nat), CHR ''b'']
      else if n = 9 then [char_of (92 :: nat), CHR ''t'']
      else if n = 10 then [char_of (92 :: nat), CHR ''n'']
      else if n = 11 then [char_of (92 :: nat), CHR ''v'']
      else if n = 12 then [char_of (92 :: nat), CHR ''f'']
      else if n = 13 then [char_of (92 :: nat), CHR ''r'']
      else if n < 32 \<or> n = 127 then [char_of (92 :: nat), CHR ''x'', hex_digit (n div 16), hex_digit (n mod 16)]
      else [c])"

definition go_quote :: "string \<Rightarrow> string" where
  "go_quote s = [char_of (34 :: nat)] @ concat (map quote_char s) @ [char_of (34 :: nat)]"

section \<open>Rows\<close>

text \<open>
  \<^verbatim>\<open>ORDER BY k DESC LIMIT 1\<close>: the first row with the greatest key (SQL leaves the choice
  between equal keys open; the model takes the first in table order).
\<close>

fun latest_by :: "('r \<Rightarrow> int) \<Rightarrow> 'r list \<Rightarrow> 'r option" where
  "latest_by k [] = None"
| "latest_by k (r # rs) =
     (case latest_by k rs of None \<Rightarrow> Some r | Some r' \<Rightarrow> if k r' \<le> k r then Some r else Some r')"

lemma latest_by_None [simp]: "latest_by k rs = None \<longleftrightarrow> rs = []"
  by (cases rs) (auto split: option.splits)

lemma latest_by_Some: "latest_by k rs = Some r \<Longrightarrow> r \<in> set rs \<and> (\<forall>x \<in> set rs. k x \<le> k r)"
proof (induction rs arbitrary: r)
  case Nil
  then show ?case by simp
next
  case (Cons a rs)
  show ?case
  proof (cases "latest_by k rs")
    case None
    with Cons.prems show ?thesis by simp
  next
    case (Some b)
    then have "b \<in> set rs" "\<forall>x \<in> set rs. k x \<le> k b" using Cons.IH by auto
    with Cons.prems Some show ?thesis by (fastforce split: if_splits)
  qed
qed

lemma latest_by_in: "latest_by k rs = Some r \<Longrightarrow> r \<in> set rs"
  by (simp add: latest_by_Some)

lemma find_Some: "List.find P xs = Some x \<Longrightarrow> P x \<and> x \<in> set xs"
  by (induction xs) (auto split: if_splits)

lemma find_exists: "x \<in> set xs \<Longrightarrow> P x \<Longrightarrow> \<exists>y. List.find P xs = Some y"
  by (induction xs) auto

text \<open>\<^verbatim>\<open>UPDATE t SET .. WHERE p\<close>: every row that matches is rewritten in place.\<close>

definition update_rows :: "('r \<Rightarrow> bool) \<Rightarrow> ('r \<Rightarrow> 'r) \<Rightarrow> 'r list \<Rightarrow> 'r list" where
  "update_rows p f rs = map (\<lambda>r. if p r then f r else r) rs"

text \<open>\<^verbatim>\<open>INSERT .. ON CONFLICT (key) DO UPDATE\<close>: the conflicting row is merged in place.\<close>

definition upsert_row :: "('r \<Rightarrow> 'r \<Rightarrow> bool) \<Rightarrow> ('r \<Rightarrow> 'r \<Rightarrow> 'r) \<Rightarrow> 'r \<Rightarrow> 'r list \<Rightarrow> 'r list" where
  "upsert_row same merge r rs =
     (if list_ex (same r) rs then map (\<lambda>x. if same r x then merge r x else x) rs else rs @ [r])"

lemma set_update_rows: "set (update_rows p f rs) = (\<lambda>r. if p r then f r else r) ` set rs"
  by (simp add: update_rows_def)

lemma length_update_rows [simp]: "length (update_rows p f rs) = length rs"
  by (simp add: update_rows_def)

lemma update_rows_Nil [simp]: "update_rows p f [] = []"
  by (simp add: update_rows_def)

lemma update_rows_Cons [simp]:
  "update_rows p f (r # rs) = (if p r then f r else r) # update_rows p f rs"
  by (simp add: update_rows_def)

lemma update_rows_id: "(\<And>r. r \<in> set rs \<Longrightarrow> \<not> p r) \<Longrightarrow> update_rows p f rs = rs"
  by (induction rs) auto

lemma map_update_rows:
  "(\<And>r. p r \<Longrightarrow> g (f r) = g r) \<Longrightarrow> map g (update_rows p f rs) = map g rs"
  by (simp add: update_rows_def)

lemma update_rows_settles:
  assumes "p \<in> set (update_rows (\<lambda>r. K r \<and> g r \<noteq> v) f rs)" and "\<And>r. g (f r) = v" and "K p"
  shows "g p = v"
  using assms by (auto simp: set_update_rows)

lemma latest_by_update_all:
  assumes "rs \<noteq> []" and "\<And>r. k (f r) = t"
  shows "latest_by k (map f rs) = Some (f (hd rs))"
  using assms
proof (induction rs)
  case Nil
  then show ?case by simp
next
  case (Cons r rs)
  show ?case
  proof (cases "rs = []")
    case True
    then show ?thesis by simp
  next
    case False
    then have "latest_by k (map f rs) = Some (f (hd rs))" using Cons by simp
    then show ?thesis using Cons.prems by simp
  qed
qed

lemma filter_update_rows:
  assumes "\<And>r. p r \<Longrightarrow> p (f r)"
  shows "filter p (update_rows p f rs) = map f (filter p rs)"
  by (induction rs) (simp_all add: assms)

lemma filter_update_rows_other:
  assumes "\<And>r. r \<in> set rs \<Longrightarrow> p r \<Longrightarrow> \<not> q r" and "\<And>r. q (f r) = q r"
  shows "filter q (update_rows p f rs) = filter q rs"
  using assms(1) by (induction rs) (auto simp: assms(2))

section \<open>Interfaces of the tables\<close>

text \<open>
  An append-only log: the client reads \<open>entries\<close> and adds with \<open>add\<close>; nothing that was
  recorded is lost or changed.
\<close>

locale append_log =
  fixes entries :: "'db \<Rightarrow> 'e list" and add :: "'x \<Rightarrow> 'db \<Rightarrow> 'db" and new :: "'x \<Rightarrow> 'db \<Rightarrow> 'e list"
  assumes entries_add: "entries (add x d) = entries d @ new x d"
begin

lemma recorded_kept: "e \<in> set (entries d) \<Longrightarrow> e \<in> set (entries (add x d))"
  by (simp add: entries_add)

lemma entries_prefix: "\<exists>es. entries (add x d) = entries d @ es"
  by (simp add: entries_add)

lemma entries_fold_prefix: "\<exists>es. entries (fold add xs d) = entries d @ es"
proof (induction xs arbitrary: d)
  case Nil
  then show ?case by simp
next
  case (Cons x xs)
  from Cons.IH [of "add x d"] show ?case by (auto simp: entries_add)
qed

lemma fold_recorded_kept: "e \<in> set (entries d) \<Longrightarrow> e \<in> set (entries (fold add xs d))"
  using entries_fold_prefix [of xs d] by auto

end

text \<open>
  A table with a key: \<open>put\<close> stores a row under a key, \<open>get\<close> reads it back, and no other key is
  touched; with \<open>del\<close> a row can be removed.
\<close>

locale keyed_table =
  fixes get :: "'t \<Rightarrow> 'k \<Rightarrow> 'r option" and put :: "'k \<Rightarrow> 'r \<Rightarrow> 't \<Rightarrow> 't"
  assumes get_put: "get (put k' r t) k = (if k = k' then Some r else get t k)"
begin

lemma get_put_same [simp]: "get (put k r t) k = Some r"
  by (simp add: get_put)

lemma get_put_other: "k \<noteq> k' \<Longrightarrow> get (put k' r t) k = get t k"
  by (simp add: get_put)

lemma get_put_put: "get (put k' r (put k' r' t)) k = get (put k' r t) k"
  by (simp add: get_put)

lemma all_rows_put:
  assumes "\<And>k r. get t k = Some r \<Longrightarrow> P k r" and "P k' r'"
  shows "get (put k' r' t) k = Some r \<Longrightarrow> P k r"
  using assms by (auto simp: get_put split: if_splits)

end

locale keyed_rows = keyed_table get put
  for get :: "'t \<Rightarrow> 'k \<Rightarrow> 'r option" and put :: "'k \<Rightarrow> 'r \<Rightarrow> 't \<Rightarrow> 't" +
  fixes del :: "'k \<Rightarrow> 't \<Rightarrow> 't"
  assumes get_del: "get (del k' t) k = (if k = k' then None else get t k)"
begin

lemma get_del_put: "get (del k' (put k' r t)) k = get (del k' t) k"
  by (simp add: get_put get_del)

lemma all_rows_del:
  assumes "\<And>k r. get t k = Some r \<Longrightarrow> P k r"
  shows "get (del k' t) k = Some r \<Longrightarrow> P k r"
  using assms by (auto simp: get_del split: if_splits)

end

end
