(* ===== verification/Json.thy ===== *)
theory Json
  imports Prelude
begin

text \<open>
  JSON documents as \<^verbatim>\<open>encoding/json\<close> and Postgres \<^verbatim>\<open>jsonb\<close> columns hold them, with the
  conventions of Go's struct tags: \<open>json_fields\<close> drops what \<^verbatim>\<open>omitempty\<close> omits, the decoders
  read an absent or null field as the zero value and fail on a value of another kind.
  A \<open>JTime\<close> leaf is the RFC 3339 text of a \<^verbatim>\<open>time.Time\<close>.
\<close>

datatype json =
    JNull
  | JBool bool
  | JInt int
  | JStr string
  | JTime time
  | JArr "json list"
  | JObj "(string \<times> json) list"

section \<open>Encoding\<close>

definition json_fields :: "(string \<times> json option) list \<Rightarrow> json" where
  "json_fields kvs = JObj (List.map_filter (\<lambda>(k, v). map_option (Pair k) v) kvs)"

text \<open>An omitted field reads as null.\<close>

definition json_or :: "json option \<Rightarrow> json \<Rightarrow> json" where
  "json_or v d = (case v of None \<Rightarrow> d | Some j \<Rightarrow> j)"

definition omit_str :: "string \<Rightarrow> json option" where
  "omit_str s = (if s = '''' then None else Some (JStr s))"

definition enc_opt :: "('a \<Rightarrow> json) \<Rightarrow> 'a option \<Rightarrow> json" where
  "enc_opt f x = (case x of None \<Rightarrow> JNull | Some y \<Rightarrow> f y)"

text \<open>
  \<^verbatim>\<open>time.Time\<close> marshals only years 0 to 9999; \<^verbatim>\<open>json.Marshal\<close> fails on a document that holds
  any other time. The bounds are the first instants of year 0 and of year 10000.
\<close>

definition time_ok :: "time \<Rightarrow> bool" where
  "time_ok t \<longleftrightarrow> -366 * 24 * hour \<le> t \<and> t < 3652059 * 24 * hour"

fun json_ok :: "json \<Rightarrow> bool" where
  "json_ok (JTime t) \<longleftrightarrow> time_ok t"
| "json_ok (JArr js) \<longleftrightarrow> (\<forall>j \<in> set js. json_ok j)"
| "json_ok (JObj kvs) \<longleftrightarrow> (\<forall>kv \<in> set kvs. json_ok (snd kv))"
| "json_ok _ \<longleftrightarrow> True"

section \<open>Decoding\<close>

definition jget :: "string \<Rightarrow> json \<Rightarrow> json" where
  "jget k j = (case j of JObj kvs \<Rightarrow> (case map_of kvs k of None \<Rightarrow> JNull | Some v \<Rightarrow> v) | _ \<Rightarrow> JNull)"

definition is_obj :: "json \<Rightarrow> bool" where
  "is_obj j \<longleftrightarrow> (case j of JObj _ \<Rightarrow> True | _ \<Rightarrow> False)"

fun dec_str :: "json \<Rightarrow> string option" where
  "dec_str JNull = Some ''''"
| "dec_str (JStr s) = Some s"
| "dec_str _ = None"

fun dec_int :: "json \<Rightarrow> int option" where
  "dec_int JNull = Some 0"
| "dec_int (JInt i) = Some i"
| "dec_int _ = None"

fun dec_bool :: "json \<Rightarrow> bool option" where
  "dec_bool JNull = Some False"
| "dec_bool (JBool b) = Some b"
| "dec_bool _ = None"

fun dec_time :: "json \<Rightarrow> time option" where
  "dec_time JNull = Some zero_time"
| "dec_time (JTime t) = Some t"
| "dec_time _ = None"

definition dec_opt :: "(json \<Rightarrow> 'a option) \<Rightarrow> json \<Rightarrow> 'a option option" where
  "dec_opt f j = (if j = JNull then Some None else map_option Some (f j))"

fun dec_list :: "(json \<Rightarrow> 'a option) \<Rightarrow> json \<Rightarrow> 'a list option" where
  "dec_list f JNull = Some []"
| "dec_list f (JArr js) = those (map f js)"
| "dec_list f _ = None"

text \<open>A struct decodes from an object; null leaves it at its zero value.\<close>

definition dec_struct :: "(json \<Rightarrow> 'a option) \<Rightarrow> json \<Rightarrow> 'a option" where
  "dec_struct f j = (case j of JObj _ \<Rightarrow> f j | JNull \<Rightarrow> f (JObj []) | _ \<Rightarrow> None)"

section \<open>Reading back what was written\<close>

lemma jget_json_fields_Nil [simp]: "jget k (json_fields []) = JNull"
  by (simp add: jget_def json_fields_def List.map_filter_def)

lemma jget_json_fields_Cons [simp]:
  "jget k (json_fields ((k', v) # kvs)) =
     (if k = k' then json_or v (jget k (json_fields kvs)) else jget k (json_fields kvs))"
  by (simp add: jget_def json_fields_def List.map_filter_def json_or_def split: option.split)

lemma json_or_Some [simp]: "json_or (Some j) d = j"
  by (simp add: json_or_def)

lemma json_fields_is_obj [simp]: "is_obj (json_fields kvs)"
  by (simp add: is_obj_def json_fields_def)

lemma dec_struct_json_fields [simp]: "dec_struct f (json_fields kvs) = f (json_fields kvs)"
  by (simp add: dec_struct_def json_fields_def)

lemma json_fields_not_null [simp]: "json_fields kvs \<noteq> JNull" "JNull \<noteq> json_fields kvs"
  by (simp_all add: json_fields_def)

lemma dec_omit_str [simp]:
  "dec_str (json_or (omit_str s) JNull) = Some s"
  by (simp add: omit_str_def json_or_def)

lemma dec_opt_enc_opt:
  assumes "\<And>x. f (g x) = Some x" and "\<And>x. g x \<noteq> JNull"
  shows "dec_opt f (enc_opt g x) = Some x"
  using assms(1) assms(2) [of "the x"]
  by (cases x) (auto simp: dec_opt_def enc_opt_def)

lemma dec_opt_enc_time [simp]: "dec_opt dec_time (enc_opt JTime x) = Some x"
  by (rule dec_opt_enc_opt) simp_all

lemma dec_opt_omit [simp]:
  assumes "\<And>x. f (g x) = Some x" and "\<And>x. g x \<noteq> JNull"
  shows "dec_opt f (json_or (map_option g x) JNull) = Some x"
  using assms(1) assms(2) [of "the x"]
  by (cases x) (auto simp: dec_opt_def json_or_def)

lemma those_map_inverse: "(\<And>x. f (g x) = Some x) \<Longrightarrow> those (map f (map g xs)) = Some xs"
  by (induction xs) simp_all

lemma those_map_comp_inverse [simp]:
  "(\<And>x. f (g x) = Some x) \<Longrightarrow> those (map (f \<circ> g) xs) = Some xs"
  using those_map_inverse [of f g xs] by simp

lemma dec_list_map [simp]:
  "(\<And>x. f (g x) = Some x) \<Longrightarrow> dec_list f (JArr (map g xs)) = Some xs"
  by (simp only: dec_list.simps those_map_inverse)

lemma dec_list_strs: "dec_list dec_str (JArr (map JStr xs)) = Some xs"
  by (rule dec_list_map) simp

lemma dec_opt_strs [simp]:
  "dec_opt (dec_list dec_str) (enc_opt (\<lambda>ss. JArr (map JStr ss)) x) = Some x"
  by (rule dec_opt_enc_opt, rule dec_list_map) simp_all

end
