(* ===== verification/Contract.thy ===== *)
theory Contract
  imports Json
begin

text \<open>
  The canonical contract (\<^verbatim>\<open>internal/contract/contract.go\<close>): one record per struct, with
  the JSON encoding its field tags prescribe and the decoding of a stored document, the
  content hash, the trustee block and the coordinator's sub-contract. A party's signature
  block is reached through the interface \<open>signed_party\<close>, which every kind of party provides.
\<close>

section \<open>The structs and their JSON\<close>

text \<open>
  A workload's environment is a Go map; it is kept as the list of its entries in key order,
  the order \<^verbatim>\<open>encoding/json\<close> writes them in. An empty one is omitted.
\<close>

definition omit_env :: "(string \<times> string) list \<Rightarrow> json option" where
  "omit_env kvs = (if kvs = [] then None else Some (JObj (map (\<lambda>(k, v). (k, JStr v)) kvs)))"

fun dec_env :: "json \<Rightarrow> (string \<times> string) list option" where
  "dec_env JNull = Some []"
| "dec_env (JObj kvs) = those (map (\<lambda>(k, j). map_option (Pair k) (dec_str j)) kvs)"
| "dec_env _ = None"

lemma dec_omit_env [simp]:
  "dec_env (json_or (omit_env kvs) JNull) = Some kvs"
proof -
  have "those (map (\<lambda>(k, j). map_option (Pair k) (dec_str j)) (map (\<lambda>(k, v). (k, JStr v)) kvs)) = Some kvs"
    by (rule those_map_inverse) auto
  then show ?thesis by (simp add: omit_env_def json_or_def)
qed

record signature =
  sg_signed_at :: "time option"
  sg_signer :: "string"
  sg_algorithm :: "string"
  sg_signed_hash :: "string"
  sg_value :: "string"
  sg_withdrawn_at :: "time option"

definition zero_signature :: signature where
  "zero_signature = \<lparr>sg_signed_at = None, sg_signer = '''', sg_algorithm = '''',
     sg_signed_hash = '''', sg_value = '''', sg_withdrawn_at = None\<rparr>"

definition enc_signature :: "signature \<Rightarrow> json" where
  "enc_signature x = json_fields
    [(''signed_at'', Some (enc_opt JTime (sg_signed_at x))),
     (''signer'', omit_str (sg_signer x)),
     (''algorithm'', omit_str (sg_algorithm x)),
     (''signed_hash'', omit_str (sg_signed_hash x)),
     (''value'', omit_str (sg_value x)),
     (''withdrawn_at'', map_option JTime (sg_withdrawn_at x))]"

definition dec_signature :: "json \<Rightarrow> signature option" where
  "dec_signature j = do {
     signed_at \<leftarrow> dec_opt dec_time (jget ''signed_at'' j);
     signer \<leftarrow> dec_str (jget ''signer'' j);
     algorithm \<leftarrow> dec_str (jget ''algorithm'' j);
     signed_hash \<leftarrow> dec_str (jget ''signed_hash'' j);
     value \<leftarrow> dec_str (jget ''value'' j);
     withdrawn_at \<leftarrow> dec_opt dec_time (jget ''withdrawn_at'' j);
     Some \<lparr>sg_signed_at = signed_at, sg_signer = signer, sg_algorithm = algorithm,
       sg_signed_hash = signed_hash, sg_value = value, sg_withdrawn_at = withdrawn_at\<rparr> }"

lemma dec_enc_signature [simp]: "dec_signature (enc_signature x) = Some x"
  by (cases x) (simp add: enc_signature_def dec_signature_def)

lemma dec_struct_enc_signature [simp]: "dec_struct dec_signature (enc_signature x) = Some x"
  by (metis dec_enc_signature dec_struct_json_fields enc_signature_def)

lemma enc_signature_not_null [simp]: "enc_signature x \<noteq> JNull"
  by (simp add: enc_signature_def)

record constraints =
  cn_accessibility_level :: "string"
  cn_restricted_to :: "string list option"
  cn_consent_valid_until :: "time option"

definition enc_constraints :: "constraints \<Rightarrow> json" where
  "enc_constraints x = json_fields
    [(''accessibility_level'', Some (JStr (cn_accessibility_level x))),
     (''restricted_to'', Some (enc_opt (\<lambda>ss. JArr (map JStr ss)) (cn_restricted_to x))),
     (''consent_valid_until'', map_option JTime (cn_consent_valid_until x))]"

definition dec_constraints :: "json \<Rightarrow> constraints option" where
  "dec_constraints j = do {
     accessibility_level \<leftarrow> dec_str (jget ''accessibility_level'' j);
     restricted_to \<leftarrow> dec_opt (dec_list dec_str) (jget ''restricted_to'' j);
     consent_valid_until \<leftarrow> dec_opt dec_time (jget ''consent_valid_until'' j);
     Some \<lparr>cn_accessibility_level = accessibility_level, cn_restricted_to = restricted_to,
       cn_consent_valid_until = consent_valid_until\<rparr> }"

lemma dec_enc_constraints [simp]: "dec_constraints (enc_constraints x) = Some x"
  by (cases x) (simp add: enc_constraints_def dec_constraints_def)

lemma dec_struct_enc_constraints [simp]: "dec_struct dec_constraints (enc_constraints x) = Some x"
  by (metis dec_enc_constraints dec_struct_json_fields enc_constraints_def)

lemma enc_constraints_not_null [simp]: "enc_constraints x \<noteq> JNull"
  by (simp add: enc_constraints_def)

record trustee =
  tr_kbs_url :: "string"
  tr_key_resource_path :: "string"

definition zero_trustee :: trustee where
  "zero_trustee = \<lparr>tr_kbs_url = '''', tr_key_resource_path = ''''\<rparr>"

definition enc_trustee :: "trustee \<Rightarrow> json" where
  "enc_trustee x = json_fields
    [(''kbs_url'', Some (JStr (tr_kbs_url x))),
     (''key_resource_path'', Some (JStr (tr_key_resource_path x)))]"

definition dec_trustee :: "json \<Rightarrow> trustee option" where
  "dec_trustee j = do {
     kbs_url \<leftarrow> dec_str (jget ''kbs_url'' j);
     key_resource_path \<leftarrow> dec_str (jget ''key_resource_path'' j);
     Some \<lparr>tr_kbs_url = kbs_url, tr_key_resource_path = key_resource_path\<rparr> }"

lemma dec_enc_trustee [simp]: "dec_trustee (enc_trustee x) = Some x"
  by (cases x) (simp add: enc_trustee_def dec_trustee_def)

lemma dec_struct_enc_trustee [simp]: "dec_struct dec_trustee (enc_trustee x) = Some x"
  by (metis dec_enc_trustee dec_struct_json_fields enc_trustee_def)

lemma enc_trustee_not_null [simp]: "enc_trustee x \<noteq> JNull"
  by (simp add: enc_trustee_def)

record user_party =
  up_id :: "string"
  up_name :: "string"
  up_datablob_url :: "string"
  up_signature :: "signature"

definition enc_user_party :: "user_party \<Rightarrow> json" where
  "enc_user_party x = json_fields
    [(''id'', Some (JStr (up_id x))),
     (''name'', Some (JStr (up_name x))),
     (''datablob_url'', Some (JStr (up_datablob_url x))),
     (''signature'', Some (enc_signature (up_signature x)))]"

definition dec_user_party :: "json \<Rightarrow> user_party option" where
  "dec_user_party j = do {
     id \<leftarrow> dec_str (jget ''id'' j);
     name \<leftarrow> dec_str (jget ''name'' j);
     datablob_url \<leftarrow> dec_str (jget ''datablob_url'' j);
     signature \<leftarrow> dec_struct dec_signature (jget ''signature'' j);
     Some \<lparr>up_id = id, up_name = name, up_datablob_url = datablob_url,
       up_signature = signature\<rparr> }"

lemma dec_enc_user_party [simp]: "dec_user_party (enc_user_party x) = Some x"
  by (cases x) (simp add: enc_user_party_def dec_user_party_def)

lemma dec_struct_enc_user_party [simp]: "dec_struct dec_user_party (enc_user_party x) = Some x"
  by (metis dec_enc_user_party dec_struct_json_fields enc_user_party_def)

lemma enc_user_party_not_null [simp]: "enc_user_party x \<noteq> JNull"
  by (simp add: enc_user_party_def)

record data_party =
  dp_id :: "string"
  dp_name :: "string"
  dp_dataset_id :: "string"
  dp_dataset_name :: "string"
  dp_dataset_version :: "string"
  dp_data_url :: "string"
  dp_constraints :: "constraints"
  dp_trustee :: "trustee option"
  dp_signature :: "signature"

definition enc_data_party :: "data_party \<Rightarrow> json" where
  "enc_data_party x = json_fields
    [(''id'', Some (JStr (dp_id x))),
     (''name'', Some (JStr (dp_name x))),
     (''dataset_id'', omit_str (dp_dataset_id x)),
     (''dataset_name'', Some (JStr (dp_dataset_name x))),
     (''dataset_version'', Some (JStr (dp_dataset_version x))),
     (''data_url'', Some (JStr (dp_data_url x))),
     (''constraints'', Some (enc_constraints (dp_constraints x))),
     (''trustee'', map_option enc_trustee (dp_trustee x)),
     (''signature'', Some (enc_signature (dp_signature x)))]"

definition dec_data_party :: "json \<Rightarrow> data_party option" where
  "dec_data_party j = do {
     id \<leftarrow> dec_str (jget ''id'' j);
     name \<leftarrow> dec_str (jget ''name'' j);
     dataset_id \<leftarrow> dec_str (jget ''dataset_id'' j);
     dataset_name \<leftarrow> dec_str (jget ''dataset_name'' j);
     dataset_version \<leftarrow> dec_str (jget ''dataset_version'' j);
     data_url \<leftarrow> dec_str (jget ''data_url'' j);
     constraints \<leftarrow> dec_struct dec_constraints (jget ''constraints'' j);
     trustee \<leftarrow> dec_opt (dec_struct dec_trustee) (jget ''trustee'' j);
     signature \<leftarrow> dec_struct dec_signature (jget ''signature'' j);
     Some \<lparr>dp_id = id, dp_name = name, dp_dataset_id = dataset_id,
       dp_dataset_name = dataset_name, dp_dataset_version = dataset_version,
       dp_data_url = data_url, dp_constraints = constraints, dp_trustee = trustee,
       dp_signature = signature\<rparr> }"

lemma dec_enc_data_party [simp]: "dec_data_party (enc_data_party x) = Some x"
  by (cases x) (simp add: enc_data_party_def dec_data_party_def)

lemma dec_struct_enc_data_party [simp]: "dec_struct dec_data_party (enc_data_party x) = Some x"
  by (metis dec_enc_data_party dec_struct_json_fields enc_data_party_def)

lemma enc_data_party_not_null [simp]: "enc_data_party x \<noteq> JNull"
  by (simp add: enc_data_party_def)

record app_party =
  ap_id :: "string"
  ap_name :: "string"
  ap_app_name :: "string"
  ap_container_image :: "string"
  ap_container_digest :: "string"
  ap_constraints :: "constraints"
  ap_signature :: "signature"

definition enc_app_party :: "app_party \<Rightarrow> json" where
  "enc_app_party x = json_fields
    [(''id'', Some (JStr (ap_id x))),
     (''name'', Some (JStr (ap_name x))),
     (''app_name'', Some (JStr (ap_app_name x))),
     (''container_image'', Some (JStr (ap_container_image x))),
     (''container_digest'', Some (JStr (ap_container_digest x))),
     (''constraints'', Some (enc_constraints (ap_constraints x))),
     (''signature'', Some (enc_signature (ap_signature x)))]"

definition dec_app_party :: "json \<Rightarrow> app_party option" where
  "dec_app_party j = do {
     id \<leftarrow> dec_str (jget ''id'' j);
     name \<leftarrow> dec_str (jget ''name'' j);
     app_name \<leftarrow> dec_str (jget ''app_name'' j);
     container_image \<leftarrow> dec_str (jget ''container_image'' j);
     container_digest \<leftarrow> dec_str (jget ''container_digest'' j);
     constraints \<leftarrow> dec_struct dec_constraints (jget ''constraints'' j);
     signature \<leftarrow> dec_struct dec_signature (jget ''signature'' j);
     Some \<lparr>ap_id = id, ap_name = name, ap_app_name = app_name,
       ap_container_image = container_image, ap_container_digest = container_digest,
       ap_constraints = constraints, ap_signature = signature\<rparr> }"

lemma dec_enc_app_party [simp]: "dec_app_party (enc_app_party x) = Some x"
  by (cases x) (simp add: enc_app_party_def dec_app_party_def)

lemma dec_struct_enc_app_party [simp]: "dec_struct dec_app_party (enc_app_party x) = Some x"
  by (metis dec_enc_app_party dec_struct_json_fields enc_app_party_def)

lemma enc_app_party_not_null [simp]: "enc_app_party x \<noteq> JNull"
  by (simp add: enc_app_party_def)

record workload_resources =
  wr_cpu :: "string"
  wr_memory :: "string"

definition enc_workload_resources :: "workload_resources \<Rightarrow> json" where
  "enc_workload_resources x = json_fields
    [(''cpu'', omit_str (wr_cpu x)),
     (''memory'', omit_str (wr_memory x))]"

definition dec_workload_resources :: "json \<Rightarrow> workload_resources option" where
  "dec_workload_resources j = do {
     cpu \<leftarrow> dec_str (jget ''cpu'' j);
     memory \<leftarrow> dec_str (jget ''memory'' j);
     Some \<lparr>wr_cpu = cpu, wr_memory = memory\<rparr> }"

lemma dec_enc_workload_resources [simp]: "dec_workload_resources (enc_workload_resources x) = Some x"
  by (cases x) (simp add: enc_workload_resources_def dec_workload_resources_def)

lemma dec_struct_enc_workload_resources [simp]: "dec_struct dec_workload_resources (enc_workload_resources x) = Some x"
  by (metis dec_enc_workload_resources dec_struct_json_fields enc_workload_resources_def)

lemma enc_workload_resources_not_null [simp]: "enc_workload_resources x \<noteq> JNull"
  by (simp add: enc_workload_resources_def)

record workload =
  wl_image :: "string"
  wl_resources :: "workload_resources"
  wl_env :: "(string \<times> string) list"

definition enc_workload :: "workload \<Rightarrow> json" where
  "enc_workload x = json_fields
    [(''image'', Some (JStr (wl_image x))),
     (''resources'', Some (enc_workload_resources (wl_resources x))),
     (''env'', omit_env (wl_env x))]"

definition dec_workload :: "json \<Rightarrow> workload option" where
  "dec_workload j = do {
     image \<leftarrow> dec_str (jget ''image'' j);
     resources \<leftarrow> dec_struct dec_workload_resources (jget ''resources'' j);
     env \<leftarrow> dec_env (jget ''env'' j);
     Some \<lparr>wl_image = image, wl_resources = resources, wl_env = env\<rparr> }"

lemma dec_enc_workload [simp]: "dec_workload (enc_workload x) = Some x"
  by (cases x) (simp add: enc_workload_def dec_workload_def)

lemma dec_struct_enc_workload [simp]: "dec_struct dec_workload (enc_workload x) = Some x"
  by (metis dec_enc_workload dec_struct_json_fields enc_workload_def)

lemma enc_workload_not_null [simp]: "enc_workload x \<noteq> JNull"
  by (simp add: enc_workload_def)

record job_trustee =
  jt_kbs_url :: "string"
  jt_key_resource_path :: "string"

definition enc_job_trustee :: "job_trustee \<Rightarrow> json" where
  "enc_job_trustee x = json_fields
    [(''kbsUrl'', Some (JStr (jt_kbs_url x))),
     (''keyResourcePath'', Some (JStr (jt_key_resource_path x)))]"

definition dec_job_trustee :: "json \<Rightarrow> job_trustee option" where
  "dec_job_trustee j = do {
     kbs_url \<leftarrow> dec_str (jget ''kbsUrl'' j);
     key_resource_path \<leftarrow> dec_str (jget ''keyResourcePath'' j);
     Some \<lparr>jt_kbs_url = kbs_url, jt_key_resource_path = key_resource_path\<rparr> }"

lemma dec_enc_job_trustee [simp]: "dec_job_trustee (enc_job_trustee x) = Some x"
  by (cases x) (simp add: enc_job_trustee_def dec_job_trustee_def)

lemma dec_struct_enc_job_trustee [simp]: "dec_struct dec_job_trustee (enc_job_trustee x) = Some x"
  by (metis dec_enc_job_trustee dec_struct_json_fields enc_job_trustee_def)

lemma enc_job_trustee_not_null [simp]: "enc_job_trustee x \<noteq> JNull"
  by (simp add: enc_job_trustee_def)

record attestation =
  at_required :: "bool"
  at_service :: "string"
  at_policy_id :: "string"

definition enc_attestation :: "attestation \<Rightarrow> json" where
  "enc_attestation x = json_fields
    [(''required'', Some (JBool (at_required x))),
     (''service'', Some (JStr (at_service x))),
     (''policy_id'', Some (JStr (at_policy_id x)))]"

definition dec_attestation :: "json \<Rightarrow> attestation option" where
  "dec_attestation j = do {
     required \<leftarrow> dec_bool (jget ''required'' j);
     service \<leftarrow> dec_str (jget ''service'' j);
     policy_id \<leftarrow> dec_str (jget ''policy_id'' j);
     Some \<lparr>at_required = required, at_service = service, at_policy_id = policy_id\<rparr> }"

lemma dec_enc_attestation [simp]: "dec_attestation (enc_attestation x) = Some x"
  by (cases x) (simp add: enc_attestation_def dec_attestation_def)

lemma dec_struct_enc_attestation [simp]: "dec_struct dec_attestation (enc_attestation x) = Some x"
  by (metis dec_enc_attestation dec_struct_json_fields enc_attestation_def)

lemma enc_attestation_not_null [simp]: "enc_attestation x \<noteq> JNull"
  by (simp add: enc_attestation_def)

record resource_allocation =
  ra_cpu_cores :: "int"
  ra_ram_mb :: "int"
  ra_gpu :: "string"
  ra_sgx_enabled :: "bool"
  ra_tdx_enabled :: "bool"
  ra_sev_snp_enabled :: "bool"
  ra_sev_enabled :: "bool"
  ra_nitro_enclave_enabled :: "bool"

definition enc_resource_allocation :: "resource_allocation \<Rightarrow> json" where
  "enc_resource_allocation x = json_fields
    [(''cpu_cores'', Some (JInt (ra_cpu_cores x))),
     (''ram_mb'', Some (JInt (ra_ram_mb x))),
     (''gpu'', Some (JStr (ra_gpu x))),
     (''sgx_enabled'', Some (JBool (ra_sgx_enabled x))),
     (''tdx_enabled'', Some (JBool (ra_tdx_enabled x))),
     (''sev_snp_enabled'', Some (JBool (ra_sev_snp_enabled x))),
     (''sev_enabled'', Some (JBool (ra_sev_enabled x))),
     (''nitro_enclave_enabled'', Some (JBool (ra_nitro_enclave_enabled x)))]"

definition dec_resource_allocation :: "json \<Rightarrow> resource_allocation option" where
  "dec_resource_allocation j = do {
     cpu_cores \<leftarrow> dec_int (jget ''cpu_cores'' j);
     ram_mb \<leftarrow> dec_int (jget ''ram_mb'' j);
     gpu \<leftarrow> dec_str (jget ''gpu'' j);
     sgx_enabled \<leftarrow> dec_bool (jget ''sgx_enabled'' j);
     tdx_enabled \<leftarrow> dec_bool (jget ''tdx_enabled'' j);
     sev_snp_enabled \<leftarrow> dec_bool (jget ''sev_snp_enabled'' j);
     sev_enabled \<leftarrow> dec_bool (jget ''sev_enabled'' j);
     nitro_enclave_enabled \<leftarrow> dec_bool (jget ''nitro_enclave_enabled'' j);
     Some \<lparr>ra_cpu_cores = cpu_cores, ra_ram_mb = ram_mb, ra_gpu = gpu,
       ra_sgx_enabled = sgx_enabled, ra_tdx_enabled = tdx_enabled,
       ra_sev_snp_enabled = sev_snp_enabled, ra_sev_enabled = sev_enabled,
       ra_nitro_enclave_enabled = nitro_enclave_enabled\<rparr> }"

lemma dec_enc_resource_allocation [simp]: "dec_resource_allocation (enc_resource_allocation x) = Some x"
  by (cases x) (simp add: enc_resource_allocation_def dec_resource_allocation_def)

lemma dec_struct_enc_resource_allocation [simp]: "dec_struct dec_resource_allocation (enc_resource_allocation x) = Some x"
  by (metis dec_enc_resource_allocation dec_struct_json_fields enc_resource_allocation_def)

lemma enc_resource_allocation_not_null [simp]: "enc_resource_allocation x \<noteq> JNull"
  by (simp add: enc_resource_allocation_def)

record infra_party =
  ip_id :: "string"
  ip_name :: "string"
  ip_region :: "string"
  ip_attestation :: "attestation"
  ip_resource_allocation :: "resource_allocation"
  ip_constraints :: "constraints"
  ip_signature :: "signature"

definition enc_infra_party :: "infra_party \<Rightarrow> json" where
  "enc_infra_party x = json_fields
    [(''id'', Some (JStr (ip_id x))),
     (''name'', Some (JStr (ip_name x))),
     (''region'', Some (JStr (ip_region x))),
     (''attestation'', Some (enc_attestation (ip_attestation x))),
     (''resource_allocation'', Some (enc_resource_allocation (ip_resource_allocation x))),
     (''constraints'', Some (enc_constraints (ip_constraints x))),
     (''signature'', Some (enc_signature (ip_signature x)))]"

definition dec_infra_party :: "json \<Rightarrow> infra_party option" where
  "dec_infra_party j = do {
     id \<leftarrow> dec_str (jget ''id'' j);
     name \<leftarrow> dec_str (jget ''name'' j);
     region \<leftarrow> dec_str (jget ''region'' j);
     attestation \<leftarrow> dec_struct dec_attestation (jget ''attestation'' j);
     resource_allocation \<leftarrow> dec_struct dec_resource_allocation (jget ''resource_allocation'' j);
     constraints \<leftarrow> dec_struct dec_constraints (jget ''constraints'' j);
     signature \<leftarrow> dec_struct dec_signature (jget ''signature'' j);
     Some \<lparr>ip_id = id, ip_name = name, ip_region = region, ip_attestation = attestation,
       ip_resource_allocation = resource_allocation, ip_constraints = constraints,
       ip_signature = signature\<rparr> }"

lemma dec_enc_infra_party [simp]: "dec_infra_party (enc_infra_party x) = Some x"
  by (cases x) (simp add: enc_infra_party_def dec_infra_party_def)

lemma dec_struct_enc_infra_party [simp]: "dec_struct dec_infra_party (enc_infra_party x) = Some x"
  by (metis dec_enc_infra_party dec_struct_json_fields enc_infra_party_def)

lemma enc_infra_party_not_null [simp]: "enc_infra_party x \<noteq> JNull"
  by (simp add: enc_infra_party_def)

record parties =
  pt_user :: "user_party"
  pt_data_providers :: "data_party list"
  pt_data_provider_count :: "int"
  pt_application_providers :: "app_party list"
  pt_infra_providers :: "infra_party list"
  pt_infra_provider_count :: "int"

definition enc_parties :: "parties \<Rightarrow> json" where
  "enc_parties x = json_fields
    [(''user'', Some (enc_user_party (pt_user x))),
     (''data_providers'', Some (JArr (map enc_data_party (pt_data_providers x)))),
     (''data_provider_count'', Some (JInt (pt_data_provider_count x))),
     (''application_providers'', Some (JArr (map enc_app_party (pt_application_providers x)))),
     (''infra_providers'', Some (JArr (map enc_infra_party (pt_infra_providers x)))),
     (''infra_provider_count'', Some (JInt (pt_infra_provider_count x)))]"

definition dec_parties :: "json \<Rightarrow> parties option" where
  "dec_parties j = do {
     user \<leftarrow> dec_struct dec_user_party (jget ''user'' j);
     data_providers \<leftarrow> dec_list (dec_struct dec_data_party) (jget ''data_providers'' j);
     data_provider_count \<leftarrow> dec_int (jget ''data_provider_count'' j);
     application_providers \<leftarrow> dec_list (dec_struct dec_app_party) (jget ''application_providers'' j);
     infra_providers \<leftarrow> dec_list (dec_struct dec_infra_party) (jget ''infra_providers'' j);
     infra_provider_count \<leftarrow> dec_int (jget ''infra_provider_count'' j);
     Some \<lparr>pt_user = user, pt_data_providers = data_providers,
       pt_data_provider_count = data_provider_count,
       pt_application_providers = application_providers,
       pt_infra_providers = infra_providers,
       pt_infra_provider_count = infra_provider_count\<rparr> }"

lemma dec_enc_parties [simp]: "dec_parties (enc_parties x) = Some x"
  by (cases x) (simp add: enc_parties_def dec_parties_def)

lemma dec_struct_enc_parties [simp]: "dec_struct dec_parties (enc_parties x) = Some x"
  by (metis dec_enc_parties dec_struct_json_fields enc_parties_def)

lemma enc_parties_not_null [simp]: "enc_parties x \<noteq> JNull"
  by (simp add: enc_parties_def)

record lifecycle =
  lc_created_at :: "time"
  lc_valid_from :: "time"
  lc_valid_until :: "time"
  lc_requested_valid_until :: "time option"

definition enc_lifecycle :: "lifecycle \<Rightarrow> json" where
  "enc_lifecycle x = json_fields
    [(''created_at'', Some (JTime (lc_created_at x))),
     (''valid_from'', Some (JTime (lc_valid_from x))),
     (''valid_until'', Some (JTime (lc_valid_until x))),
     (''requested_valid_until'', map_option JTime (lc_requested_valid_until x))]"

definition dec_lifecycle :: "json \<Rightarrow> lifecycle option" where
  "dec_lifecycle j = do {
     created_at \<leftarrow> dec_time (jget ''created_at'' j);
     valid_from \<leftarrow> dec_time (jget ''valid_from'' j);
     valid_until \<leftarrow> dec_time (jget ''valid_until'' j);
     requested_valid_until \<leftarrow> dec_opt dec_time (jget ''requested_valid_until'' j);
     Some \<lparr>lc_created_at = created_at, lc_valid_from = valid_from,
       lc_valid_until = valid_until, lc_requested_valid_until = requested_valid_until\<rparr> }"

lemma dec_enc_lifecycle [simp]: "dec_lifecycle (enc_lifecycle x) = Some x"
  by (cases x) (simp add: enc_lifecycle_def dec_lifecycle_def)

lemma dec_struct_enc_lifecycle [simp]: "dec_struct dec_lifecycle (enc_lifecycle x) = Some x"
  by (metis dec_enc_lifecycle dec_struct_json_fields enc_lifecycle_def)

lemma enc_lifecycle_not_null [simp]: "enc_lifecycle x \<noteq> JNull"
  by (simp add: enc_lifecycle_def)

record session_info =
  si_id :: "string"
  si_session_id :: "string"
  si_requested_by :: "string"

definition enc_session_info :: "session_info \<Rightarrow> json" where
  "enc_session_info x = json_fields
    [(''id'', Some (JStr (si_id x))),
     (''session_id'', Some (JStr (si_session_id x))),
     (''requested_by'', Some (JStr (si_requested_by x)))]"

definition dec_session_info :: "json \<Rightarrow> session_info option" where
  "dec_session_info j = do {
     id \<leftarrow> dec_str (jget ''id'' j);
     session_id \<leftarrow> dec_str (jget ''session_id'' j);
     requested_by \<leftarrow> dec_str (jget ''requested_by'' j);
     Some \<lparr>si_id = id, si_session_id = session_id, si_requested_by = requested_by\<rparr> }"

lemma dec_enc_session_info [simp]: "dec_session_info (enc_session_info x) = Some x"
  by (cases x) (simp add: enc_session_info_def dec_session_info_def)

lemma dec_struct_enc_session_info [simp]: "dec_struct dec_session_info (enc_session_info x) = Some x"
  by (metis dec_enc_session_info dec_struct_json_fields enc_session_info_def)

lemma enc_session_info_not_null [simp]: "enc_session_info x \<noteq> JNull"
  by (simp add: enc_session_info_def)

record contract =
  ct_project_id :: "string"
  ct_contract_id :: "string"
  ct_job_id :: "string"
  ct_version :: "int"
  ct_lifecycle :: "lifecycle"
  ct_technique :: "string"
  ct_compute_choice :: "string"
  ct_purpose :: "string"
  ct_workload :: "workload option"
  ct_trustee :: "job_trustee option"
  ct_callback_url :: "string"
  ct_parties :: "parties"
  ct_session_info :: "session_info"
  ct_contract_hash :: "string"
  ct_governance_signature :: "signature option"
  ct_amendment :: "signature option"

definition enc_contract :: "contract \<Rightarrow> json" where
  "enc_contract x = json_fields
    [(''project_id'', Some (JStr (ct_project_id x))),
     (''contract_id'', Some (JStr (ct_contract_id x))),
     (''job_id'', omit_str (ct_job_id x)),
     (''version'', Some (JInt (ct_version x))),
     (''lifecycle'', Some (enc_lifecycle (ct_lifecycle x))),
     (''technique'', Some (JStr (ct_technique x))),
     (''compute_choice'', Some (JStr (ct_compute_choice x))),
     (''purpose'', omit_str (ct_purpose x)),
     (''workload'', map_option enc_workload (ct_workload x)),
     (''trustee'', map_option enc_job_trustee (ct_trustee x)),
     (''callbackUrl'', omit_str (ct_callback_url x)),
     (''parties'', Some (enc_parties (ct_parties x))),
     (''session_info'', Some (enc_session_info (ct_session_info x))),
     (''contract_hash'', omit_str (ct_contract_hash x)),
     (''governance_signature'', map_option enc_signature (ct_governance_signature x)),
     (''amendment'', map_option enc_signature (ct_amendment x))]"

definition dec_contract :: "json \<Rightarrow> contract option" where
  "dec_contract j = do {
     project_id \<leftarrow> dec_str (jget ''project_id'' j);
     contract_id \<leftarrow> dec_str (jget ''contract_id'' j);
     job_id \<leftarrow> dec_str (jget ''job_id'' j);
     version \<leftarrow> dec_int (jget ''version'' j);
     lifecycle \<leftarrow> dec_struct dec_lifecycle (jget ''lifecycle'' j);
     technique \<leftarrow> dec_str (jget ''technique'' j);
     compute_choice \<leftarrow> dec_str (jget ''compute_choice'' j);
     purpose \<leftarrow> dec_str (jget ''purpose'' j);
     workload \<leftarrow> dec_opt (dec_struct dec_workload) (jget ''workload'' j);
     trustee \<leftarrow> dec_opt (dec_struct dec_job_trustee) (jget ''trustee'' j);
     callback_url \<leftarrow> dec_str (jget ''callbackUrl'' j);
     parties \<leftarrow> dec_struct dec_parties (jget ''parties'' j);
     session_info \<leftarrow> dec_struct dec_session_info (jget ''session_info'' j);
     contract_hash \<leftarrow> dec_str (jget ''contract_hash'' j);
     governance_signature \<leftarrow> dec_opt (dec_struct dec_signature) (jget ''governance_signature'' j);
     amendment \<leftarrow> dec_opt (dec_struct dec_signature) (jget ''amendment'' j);
     Some \<lparr>ct_project_id = project_id, ct_contract_id = contract_id, ct_job_id = job_id,
       ct_version = version, ct_lifecycle = lifecycle, ct_technique = technique,
       ct_compute_choice = compute_choice, ct_purpose = purpose,
       ct_workload = workload, ct_trustee = trustee, ct_callback_url = callback_url,
       ct_parties = parties, ct_session_info = session_info,
       ct_contract_hash = contract_hash,
       ct_governance_signature = governance_signature, ct_amendment = amendment\<rparr> }"

lemma dec_enc_contract [simp]: "dec_contract (enc_contract x) = Some x"
  by (cases x) (simp add: enc_contract_def dec_contract_def)

lemma dec_struct_enc_contract [simp]: "dec_struct dec_contract (enc_contract x) = Some x"
  by (metis dec_enc_contract dec_struct_json_fields enc_contract_def)

lemma enc_contract_not_null [simp]: "enc_contract x \<noteq> JNull"
  by (simp add: enc_contract_def)

section \<open>A party's signature block\<close>

text \<open>
  What every kind of party offers those who sign, verify and hash: reading and replacing its
  signature block, with nothing else of the party depending on it.
\<close>

locale signed_party =
  fixes sig_of :: "'p \<Rightarrow> signature" and set_sig :: "signature \<Rightarrow> 'p \<Rightarrow> 'p"
  assumes sig_of_set_sig: "sig_of (set_sig s p) = s"
    and set_sig_set_sig: "set_sig s (set_sig t p) = set_sig s p"
    and set_sig_sig_of: "set_sig (sig_of p) p = p"
begin

lemma blank_eq_iff: "set_sig z p = set_sig z q \<longleftrightarrow> (\<exists>s. q = set_sig s p)"
  by (metis set_sig_set_sig set_sig_sig_of)

lemma map_blank_set_sig: "map (set_sig z) (map (\<lambda>p. set_sig (f p) p) ps) = map (set_sig z) ps"
  by (simp add: set_sig_set_sig)

lemma map_blank_update_rows:
  "map (set_sig z) (update_rows P (\<lambda>p. set_sig (f p) p) ps) = map (set_sig z) ps"
  by (rule map_update_rows) (simp add: set_sig_set_sig)

lemma map_blank_idem: "map (set_sig z) (map (set_sig z) ps) = map (set_sig z) ps"
  by (simp add: set_sig_set_sig)

lemma map_blank_eq_iff:
  "map (set_sig z) ps = map (set_sig z) qs \<longleftrightarrow> list_all2 (\<lambda>p q. \<exists>s. q = set_sig s p) ps qs"
  by (auto simp: list_all2_conv_all_nth list_eq_iff_nth_eq blank_eq_iff)

end

definition set_user_sig :: "signature \<Rightarrow> user_party \<Rightarrow> user_party" where
  "set_user_sig s p = p\<lparr>up_signature := s\<rparr>"

definition set_data_sig :: "signature \<Rightarrow> data_party \<Rightarrow> data_party" where
  "set_data_sig s p = p\<lparr>dp_signature := s\<rparr>"

definition set_app_sig :: "signature \<Rightarrow> app_party \<Rightarrow> app_party" where
  "set_app_sig s p = p\<lparr>ap_signature := s\<rparr>"

definition set_infra_sig :: "signature \<Rightarrow> infra_party \<Rightarrow> infra_party" where
  "set_infra_sig s p = p\<lparr>ip_signature := s\<rparr>"

interpretation user_sig: signed_party up_signature set_user_sig
  by unfold_locales (simp_all add: set_user_sig_def)

interpretation data_sig: signed_party dp_signature set_data_sig
  by unfold_locales (simp_all add: set_data_sig_def)

interpretation app_sig: signed_party ap_signature set_app_sig
  by unfold_locales (simp_all add: set_app_sig_def)

interpretation infra_sig: signed_party ip_signature set_infra_sig
  by unfold_locales (simp_all add: set_infra_sig_def)

section \<open>The content hash\<close>

text \<open>
  The cryptographic primitives and parsers of Go's standard library that the program calls.
  \<open>json_bytes\<close> is the byte serialisation of a document and \<open>sha256_hex\<close> the hex digest.
\<close>

datatype public_key =
    RsaKey string nat  \<comment> \<open>an RSA key and the bit length of its modulus\<close>
  | OtherKey string

record crypto =
  json_bytes :: "json \<Rightarrow> string"
  sha256_sum :: "string \<Rightarrow> string"
  hex_encode :: "string \<Rightarrow> string"
  pem_decode :: "string \<Rightarrow> (string \<times> string) option"
  pem_encode :: "string \<Rightarrow> string"
  parse_pkix :: "string \<Rightarrow> public_key result"
  base64_decode :: "string \<Rightarrow> string result"
  base64_encode :: "string \<Rightarrow> string"
  rsa_verify :: "string \<Rightarrow> string \<Rightarrow> string \<Rightarrow> bool"

definition without_signatures :: "contract \<Rightarrow> contract" where
  "without_signatures c =
     (let ps = ct_parties c in
      c\<lparr>ct_parties := ps
         \<lparr>pt_user := set_user_sig zero_signature (pt_user ps),
          pt_data_providers := map (set_data_sig zero_signature) (pt_data_providers ps),
          pt_application_providers := map (set_app_sig zero_signature) (pt_application_providers ps),
          pt_infra_providers := map (set_infra_sig zero_signature) (pt_infra_providers ps)\<rparr>\<rparr>)"

text \<open>What the hash covers: the contract with its hash and every signature block blanked.\<close>

definition unsigned :: "contract \<Rightarrow> contract" where
  "unsigned c =
     without_signatures
       (c\<lparr>ct_contract_hash := '''', ct_governance_signature := None, ct_amendment := None\<rparr>)"

definition compute_hash :: "crypto \<Rightarrow> contract \<Rightarrow> string result" where
  "compute_hash C c =
     (let b = enc_contract (unsigned c) in
      if json_ok b then Inr (''sha256:'' @ hex_encode C (sha256_sum C (json_bytes C b)))
      else Inl ''json: Time.MarshalJSON: year outside of range [0,9999]'')"

lemma unsigned_idem [simp]: "unsigned (unsigned c) = unsigned c"
  by (simp add: unsigned_def without_signatures_def Let_def user_sig.set_sig_set_sig
      data_sig.set_sig_set_sig app_sig.set_sig_set_sig infra_sig.set_sig_set_sig o_def)

lemma compute_hash_unsigned: "unsigned c = unsigned c' \<Longrightarrow> compute_hash C c = compute_hash C c'"
  by (simp add: compute_hash_def)

lemma enc_contract_inject [simp]: "enc_contract c = enc_contract c' \<longleftrightarrow> c = c'"
  by (metis dec_enc_contract option.inject)

text \<open>Changing a signature block, the hash or gov_layer's own signatures is invisible to the hash.\<close>

definition with_data_providers :: "(data_party list \<Rightarrow> data_party list) \<Rightarrow> contract \<Rightarrow> contract" where
  "with_data_providers f c =
     c\<lparr>ct_parties := (ct_parties c)\<lparr>pt_data_providers := f (pt_data_providers (ct_parties c))\<rparr>\<rparr>"

definition with_infra_providers :: "(infra_party list \<Rightarrow> infra_party list) \<Rightarrow> contract \<Rightarrow> contract" where
  "with_infra_providers f c =
     c\<lparr>ct_parties := (ct_parties c)\<lparr>pt_infra_providers := f (pt_infra_providers (ct_parties c))\<rparr>\<rparr>"

abbreviation data_providers :: "contract \<Rightarrow> data_party list" where
  "data_providers c \<equiv> pt_data_providers (ct_parties c)"

abbreviation infra_providers :: "contract \<Rightarrow> infra_party list" where
  "infra_providers c \<equiv> pt_infra_providers (ct_parties c)"

abbreviation application_providers :: "contract \<Rightarrow> app_party list" where
  "application_providers c \<equiv> pt_application_providers (ct_parties c)"

abbreviation user_party :: "contract \<Rightarrow> user_party" where
  "user_party c \<equiv> pt_user (ct_parties c)"

lemma unsigned_set_hash [simp]: "unsigned (c\<lparr>ct_contract_hash := h\<rparr>) = unsigned c"
  by (simp add: unsigned_def)

lemma unsigned_set_governance [simp]: "unsigned (c\<lparr>ct_governance_signature := g\<rparr>) = unsigned c"
  by (simp add: unsigned_def)

lemma unsigned_set_amendment [simp]: "unsigned (c\<lparr>ct_amendment := a\<rparr>) = unsigned c"
  by (simp add: unsigned_def)

lemma unsigned_data_sigs [simp]:
  "unsigned (with_data_providers (update_rows P (\<lambda>p. set_data_sig (f p) p)) c) = unsigned c"
  by (simp add: unsigned_def without_signatures_def with_data_providers_def Let_def
      data_sig.map_blank_update_rows)

lemma unsigned_infra_sigs [simp]:
  "unsigned (with_infra_providers (update_rows P (\<lambda>p. set_infra_sig (f p) p)) c) = unsigned c"
  by (simp add: unsigned_def without_signatures_def with_infra_providers_def Let_def
      infra_sig.map_blank_update_rows)

lemma compute_hash_unsigned_simps [simp]:
  "compute_hash C (c\<lparr>ct_contract_hash := h\<rparr>) = compute_hash C c"
  "compute_hash C (c\<lparr>ct_governance_signature := g\<rparr>) = compute_hash C c"
  "compute_hash C (c\<lparr>ct_amendment := a\<rparr>) = compute_hash C c"
  "compute_hash C (with_data_providers (update_rows P (\<lambda>p. set_data_sig (f p) p)) c) = compute_hash C c"
  "compute_hash C (with_infra_providers (update_rows Q (\<lambda>p. set_infra_sig (f' p) p)) c) = compute_hash C c"
  by (simp_all add: compute_hash_def)

lemma with_data_providers_simps [simp]:
  "data_providers (with_data_providers f c) = f (data_providers c)"
  "infra_providers (with_data_providers f c) = infra_providers c"
  "application_providers (with_data_providers f c) = application_providers c"
  "user_party (with_data_providers f c) = user_party c"
  "ct_contract_hash (with_data_providers f c) = ct_contract_hash c"
  "ct_contract_id (with_data_providers f c) = ct_contract_id c"
  "ct_job_id (with_data_providers f c) = ct_job_id c"
  "ct_technique (with_data_providers f c) = ct_technique c"
  "ct_version (with_data_providers f c) = ct_version c"
  "ct_lifecycle (with_data_providers f c) = ct_lifecycle c"
  "ct_governance_signature (with_data_providers f c) = ct_governance_signature c"
  "ct_amendment (with_data_providers f c) = ct_amendment c"
  by (simp_all add: with_data_providers_def)

lemma with_infra_providers_simps [simp]:
  "infra_providers (with_infra_providers g c) = g (infra_providers c)"
  "data_providers (with_infra_providers g c) = data_providers c"
  "application_providers (with_infra_providers g c) = application_providers c"
  "user_party (with_infra_providers g c) = user_party c"
  "ct_contract_hash (with_infra_providers g c) = ct_contract_hash c"
  "ct_contract_id (with_infra_providers g c) = ct_contract_id c"
  "ct_job_id (with_infra_providers g c) = ct_job_id c"
  "ct_technique (with_infra_providers g c) = ct_technique c"
  "ct_version (with_infra_providers g c) = ct_version c"
  "ct_lifecycle (with_infra_providers g c) = ct_lifecycle c"
  "ct_governance_signature (with_infra_providers g c) = ct_governance_signature c"
  "ct_amendment (with_infra_providers g c) = ct_amendment c"
  by (simp_all add: with_infra_providers_def)

section \<open>Trustee block and sub-contract\<close>

definition new_trustee :: "string \<Rightarrow> string \<Rightarrow> string \<Rightarrow> trustee option" where
  "new_trustee kbs_url dataset_name dataset_id =
     (if kbs_url = '''' then None
      else let resource = (if dataset_id = '''' then dataset_name else dataset_id)
           in Some \<lparr>tr_kbs_url = kbs_url,
                   tr_key_resource_path = ''default/'' @ dataset_name @ ''-key/'' @ resource\<rparr>)"

record sub_contract =
  sc_contract_id :: string
  sc_workload :: "workload option"
  sc_trustee :: "job_trustee option"
  sc_callback_url :: string

definition env_get :: "string \<Rightarrow> (string \<times> string) list \<Rightarrow> string" where
  "env_get k env = (case map_of env k of None \<Rightarrow> '''' | Some v \<Rightarrow> v)"

definition new_sub_contract :: "contract \<Rightarrow> sub_contract \<times> string list" where
  "new_sub_contract c =
     (let wl = ct_workload c; tr = ct_trustee c;
          missing =
            (if ct_contract_id c = '''' then [''contract_id''] else []) @
            (if (case wl of None \<Rightarrow> True | Some w \<Rightarrow> wl_image w = '''') then [''workload.image''] else []) @
            (if (case wl of None \<Rightarrow> True | Some w \<Rightarrow> env_get ''DATASET_URL'' (wl_env w) = '''')
             then [''workload.env.DATASET_URL''] else []) @
            (if (case tr of None \<Rightarrow> True
                 | Some t \<Rightarrow> jt_kbs_url t = '''' \<or> jt_key_resource_path t = '''')
             then [''trustee''] else [])
      in (\<lparr>sc_contract_id = ct_contract_id c, sc_workload = wl, sc_trustee = tr,
           sc_callback_url = ct_callback_url c\<rparr>, missing))"

lemma sub_contract_complete:
  "snd (new_sub_contract c) = [] \<longleftrightarrow>
     ct_contract_id c \<noteq> '''' \<and>
     (\<exists>w. ct_workload c = Some w \<and> wl_image w \<noteq> '''' \<and> env_get ''DATASET_URL'' (wl_env w) \<noteq> '''') \<and>
     (\<exists>t. ct_trustee c = Some t \<and> jt_kbs_url t \<noteq> '''' \<and> jt_key_resource_path t \<noteq> '''')"
  by (simp add: new_sub_contract_def Let_def split: option.split)

end
