(* ===== verification/World.thy ===== *)
theory World
  imports Contract
begin

text \<open>
  What a request sees besides its own input and the database: the clock, the process
  environment, the identity providers, the other services' HTTP answers, the programs it
  runs, and which database calls fail. The configuration (\<^verbatim>\<open>internal/config/config.go\<close>) and
  the server value (\<^verbatim>\<open>httpapi.Server\<close>) are records of what the modelled handlers read.
\<close>

section \<open>Time layouts\<close>

abbreviation rfc3339 :: string where "rfc3339 \<equiv> ''2006-01-02T15:04:05Z07:00''"

abbreviation date_layout :: string where "date_layout \<equiv> ''2006-01-02''"

abbreviation minute_layout :: string where "minute_layout \<equiv> ''2006-01-02 15:04 UTC''"

section \<open>Errors\<close>

text \<open>A handler's failure: HTTP status, error code and message of the JSON body.\<close>

datatype http_error = HttpError (he_status: nat) (he_code: string) (he_message: string)

type_synonym 'a response = "http_error + 'a"

section \<open>The database calls\<close>

text \<open>
  A call of a method of \<^verbatim>\<open>internal/db\<close>: its Go name and the arguments that tell two calls of
  one request apart. \<open>w_fault\<close> says which calls fail during the request, and with what message.
\<close>

datatype db_call = Db string "string list"

section \<open>The outside world\<close>

text \<open>
  The answer to an HTTP call: the transport failed, or a status with the body, decoded when it
  is JSON. A program run gives its standard output (decoded when it is JSON) or its error.
\<close>

datatype http_outcome = NetFail string | HttpReply nat "json option"

record world =
  w_now :: time
  w_fault :: "db_call \<Rightarrow> string option"
  w_getenv :: "string \<Rightarrow> string"
  w_jwt :: "string \<Rightarrow> string \<Rightarrow> (bool \<times> json) result"  \<comment> \<open>JWKS URL, token: \<^verbatim>\<open>token.Valid\<close> and the claims\<close>
  w_access_token :: "string \<Rightarrow> (bool \<times> json) result"  \<comment> \<open>\<^verbatim>\<open>ValidateAccessToken\<close>: the key sets of \<^verbatim>\<open>KEYCLOAK_JWKS_URL\<close>\<close>
  w_new_id :: "string \<Rightarrow> nat \<Rightarrow> string"  \<comment> \<open>\<^verbatim>\<open>newID(prefix)\<close> when so many ids were drawn\<close>
  w_parse_time :: "string \<Rightarrow> string \<Rightarrow> time option"  \<comment> \<open>\<^verbatim>\<open>time.Parse(layout, value)\<close>, in UTC\<close>
  w_format_time :: "string \<Rightarrow> time \<Rightarrow> string"  \<comment> \<open>\<^verbatim>\<open>t.UTC().Format(layout)\<close>\<close>
  w_query_escape :: "string \<Rightarrow> string"  \<comment> \<open>\<^verbatim>\<open>url.QueryEscape\<close>\<close>
  w_http_get :: "string \<Rightarrow> string \<Rightarrow> http_outcome"  \<comment> \<open>URL, bearer token\<close>
  w_http_post :: "string \<Rightarrow> string \<Rightarrow> json \<Rightarrow> http_outcome"  \<comment> \<open>URL, bearer token, body\<close>
  w_exec :: "string list \<Rightarrow> (string \<times> json option) result"

section \<open>Configuration and server\<close>

record config =
  cfg_data_provider_jwks_url :: string
  cfg_provider_key_jwks_url :: string
  cfg_data_provider_role :: string
  cfg_require_infra_approval :: bool
  cfg_flotilla_vm_client_id :: string
  cfg_catalogue_base_url :: string
  cfg_iudx_apd_policy_url :: string
  cfg_iudx_policy_callback_url :: string
  cfg_require_signed_contract :: bool
  cfg_coordinator_addr :: string
  cfg_grpcurl_bin :: string
  cfg_kbs_url :: string
  cfg_default_result_url :: string
  cfg_result_read_url :: string
  cfg_contract_callback_url :: string
  cfg_fl_contract_validity :: time
  cfg_tee_azure_rg :: string
  cfg_tee_vm_name :: string
  cfg_tee_enclave_base_url :: string
  cfg_tee_vm_ip :: string
  cfg_tee_enclave_port :: string
  cfg_tee_maa_issuers :: "string list"
  cfg_tee_expected_measurement :: string
  cfg_tee_attestation_required :: bool
  cfg_tee_attestation_ttl :: time
  cfg_tee_start_timeout :: time
  cfg_tee_output_timeout :: time
  cfg_tee_clock_leeway :: time
  cfg_orchestrator_client_id :: string
  cfg_orchestrator_role :: string

text \<open>
  gov_layer's key pair: the public half as PEM and RSA signing of a SHA-256 digest, which can
  fail.
\<close>

record gov_key =
  gk_public_key_pem :: string
  gk_rsa_sign :: "string \<Rightarrow> string result"

record server =
  srv_cfg :: config
  srv_crypto :: crypto
  srv_gov_key :: "gov_key option"
  srv_has_db :: bool

end
