(* ===== verification/Identity.thy ===== *)
theory Identity
  imports World
begin

text \<open>
  Who is calling and which party of a contract that is: provider ids derived from usernames,
  the caller read from a Keycloak token's claims, the roles, the token checks shared by the
  handlers, and a dataset's catalogue id.
\<close>

section \<open>Provider ids\<close>

definition is_slug_char :: "char \<Rightarrow> bool" where
  "is_slug_char c \<longleftrightarrow> (let n = of_char c :: nat in (97 \<le> n \<and> n \<le> 122) \<or> (48 \<le> n \<and> n \<le> 57))"

text \<open>\<^verbatim>\<open>nonSlugChars.ReplaceAllString(s, "-")\<close>: each run of other characters becomes one dash.\<close>

fun slug_runs :: "bool \<Rightarrow> string \<Rightarrow> string" where
  "slug_runs in_run [] = []"
| "slug_runs in_run (c # cs) =
     (if is_slug_char c then c # slug_runs False cs
      else if in_run then slug_runs True cs else CHR ''-'' # slug_runs True cs)"

abbreviation is_dash :: "char \<Rightarrow> bool" where
  "is_dash c \<equiv> c = CHR ''-''"

definition slugify :: "string \<Rightarrow> string" where
  "slugify s = trim_by is_dash (slug_runs False s)"

definition provider_id_for_username :: "string \<Rightarrow> string" where
  "provider_id_for_username username =
     (let s = to_lower username; s = (if s = '''' then ''unknown'' else s)
      in ''provider-'' @ slugify s)"

definition party_provider_id :: "data_party \<Rightarrow> string" where
  "party_provider_id p =
     (if has_prefix (dp_id p) ''provider-'' then dp_id p else provider_id_for_username (dp_name p))"

lemma party_provider_id_set_sig [simp]: "party_provider_id (set_data_sig s p) = party_provider_id p"
  by (simp add: party_provider_id_def set_data_sig_def)



lemma set_trim_by: "set (trim_by P s) \<subseteq> set s"
  unfolding trim_by_def by (metis set_dropWhileD set_rev subsetI)

lemma slug_runs_chars: "c \<in> set (slug_runs b s) \<Longrightarrow> is_slug_char c \<or> is_dash c"
  by (induction b s rule: slug_runs.induct) (auto split: if_splits)

lemma hd_trim_by: "trim_by P s \<noteq> [] \<Longrightarrow> \<not> P (hd (trim_by P s))"
proof -
  assume ne: "trim_by P s \<noteq> []"
  let ?t = "dropWhile P s"
  have t: "?t = trim_by P s @ rev (takeWhile P (rev ?t))"
    by (simp add: trim_by_def flip: rev_append)
  have "?t \<noteq> []"
  proof
    assume "?t = []"
    then show False using ne unfolding trim_by_def by (simp only: rev.simps dropWhile.simps simp_thms)
  qed
  then have "\<not> P (hd ?t)" by (rule hd_dropWhile)
  moreover have "hd ?t = hd (trim_by P s)" using ne by (subst t) simp
  ultimately show ?thesis by simp
qed

lemma last_trim_by: "trim_by P s \<noteq> [] \<Longrightarrow> \<not> P (last (trim_by P s))"
  by (simp add: trim_by_def last_rev hd_dropWhile)

lemma is_slug_char_not_dash: "is_slug_char c \<Longrightarrow> \<not> is_dash c"
  by (auto simp: is_slug_char_def)

text \<open>A provider id is the prefix and a slug of lower-case letters, digits and inner dashes.\<close>

definition is_slug :: "string \<Rightarrow> bool" where
  "is_slug s \<longleftrightarrow> list_all (\<lambda>c. is_slug_char c \<or> is_dash c) s \<and>
     (s \<noteq> [] \<longrightarrow> \<not> is_dash (hd s) \<and> \<not> is_dash (last s))"

lemma slugify_is_slug: "is_slug (slugify s)"
  unfolding is_slug_def slugify_def list_all_iff
  using set_trim_by [of is_dash "slug_runs False s"] slug_runs_chars hd_trim_by last_trim_by
  by blast

lemma provider_id_lower: "provider_id_for_username (to_lower u) = provider_id_for_username u"
  by (simp add: provider_id_for_username_def)

section \<open>Claims and callers\<close>

text \<open>\<^verbatim>\<open>v, _ := claims[k].(string)\<close>: the empty string when absent or not a string.\<close>

definition claim_str :: "string \<Rightarrow> json \<Rightarrow> string" where
  "claim_str k claims = (case jget k claims of JStr s \<Rightarrow> s | _ \<Rightarrow> '''')"

fun json_strings :: "json \<Rightarrow> string list" where
  "json_strings (JArr js) = concat (map (\<lambda>j. case j of JStr s \<Rightarrow> [s] | _ \<Rightarrow> []) js)"
| "json_strings _ = []"

text \<open>\<^verbatim>\<open>claims["realm_access"].(map)["roles"].([]any)\<close>, its strings.\<close>

definition realm_roles :: "json \<Rightarrow> string list" where
  "realm_roles claims = json_strings (jget ''roles'' (jget ''realm_access'' claims))"

record provider_caller =
  pc_token :: string
  pc_username :: string
  pc_user_id :: string
  pc_names :: "string list"
  pc_roles :: "string list"

definition login_name :: "json \<Rightarrow> string" where
  "login_name claims =
     (let u = claim_str ''preferred_username'' claims
      in if u = '''' then claim_str ''email'' claims else u)"

definition caller_from_claims :: "string \<Rightarrow> json \<Rightarrow> provider_caller" where
  "caller_from_claims token claims =
     (let sub = claim_str ''sub'' claims in
      \<lparr>pc_token = token, pc_username = login_name claims, pc_user_id = sub,
       pc_names =
         concat (map (\<lambda>k. let v = claim_str k claims in
             if v = '''' then [] else [provider_id_for_username v, to_lower v])
           [''preferred_username'', ''email'']) @
         (if sub = '''' then [] else [to_lower sub]),
       pc_roles = realm_roles claims\<rparr>)"

definition caller_owns :: "provider_caller \<Rightarrow> string \<Rightarrow> bool" where
  "caller_owns c provider_id \<longleftrightarrow> provider_id \<noteq> '''' \<and>
     (List.member (pc_names c) provider_id \<or> List.member (pc_names c) (to_lower provider_id))"

definition caller_is :: "provider_caller \<Rightarrow> data_party \<Rightarrow> bool" where
  "caller_is c p \<longleftrightarrow> dp_id p \<noteq> '''' \<and>
     (List.member (pc_names c) (party_provider_id p) \<or> List.member (pc_names c) (to_lower (dp_id p)))"

definition data_provider_role :: "server \<Rightarrow> string" where
  "data_provider_role S =
     (if cfg_data_provider_role (srv_cfg S) \<noteq> '''' then cfg_data_provider_role (srv_cfg S)
      else ''data-provider'')"

definition has_provider_key_role :: "string list \<Rightarrow> string \<Rightarrow> string \<Rightarrow> bool" where
  "has_provider_key_role roles role dp_role =
     (if List.member roles role then True
      else if role = ''data-provider'' then List.member roles ''provider'' \<or> List.member roles dp_role
      else False)"

section \<open>Token checks\<close>

text \<open>
  The loop over the key sets: blank URLs are skipped, the first token that validates ends it,
  otherwise the last attempt's outcome stands. \<open>None\<close>: nothing was tried.
\<close>

fun try_jwks :: "world \<Rightarrow> string \<Rightarrow> string list \<Rightarrow> (bool \<times> json) result option \<Rightarrow>
    (bool \<times> json) result option" where
  "try_jwks W tok [] acc = acc"
| "try_jwks W tok (url # urls) acc =
     (if url = '''' then try_jwks W tok urls acc
      else case w_jwt W url tok of
          Inr (True, claims) \<Rightarrow> Some (Inr (True, claims))
        | r \<Rightarrow> try_jwks W tok urls (Some r))"

definition bearer_token :: "string \<Rightarrow> string option" where
  "bearer_token auth =
     (if has_prefix auth ''Bearer '' \<and> drop 7 auth \<noteq> '''' then Some (drop 7 auth) else None)"

definition reject_flotilla_vm_token :: "server \<Rightarrow> json \<Rightarrow> http_error option" where
  "reject_flotilla_vm_token S claims =
     (if cfg_flotilla_vm_client_id (srv_cfg S) = '''' then None
      else if claim_str ''azp'' claims \<noteq> cfg_flotilla_vm_client_id (srv_cfg S) then None
      else Some (HttpError 403 ''VM_TOKEN_NOT_ALLOWED'' ''''))"

definition validated_claims :: "server \<Rightarrow> world \<Rightarrow> string \<Rightarrow> string list \<Rightarrow> json response" where
  "validated_claims S W tok urls =
     (case try_jwks W tok urls None of
        Some (Inr (True, claims)) \<Rightarrow>
          (case reject_flotilla_vm_token S claims of Some e \<Rightarrow> Inl e | None \<Rightarrow> Inr claims)
      | _ \<Rightarrow> Inl (HttpError 401 ''INVALID_OR_EXPIRED_TOKEN'' ''''))"

definition dev_token_claims ::
  "server \<Rightarrow> world \<Rightarrow> string \<Rightarrow> string \<Rightarrow> (string \<times> json) response" where
  "dev_token_claims S W whose auth =
     (case bearer_token auth of
        None \<Rightarrow> Inl (HttpError 401 ''MISSING_AUTH_TOKEN''
          (''send the '' @ whose @ '''s dev Keycloak token as the Bearer token''))
      | Some tok \<Rightarrow>
          (case validated_claims S W tok
              [cfg_data_provider_jwks_url (srv_cfg S), cfg_provider_key_jwks_url (srv_cfg S)] of
             Inl e \<Rightarrow> Inl e | Inr claims \<Rightarrow> Inr (tok, claims)))"

definition approver_from_token ::
  "server \<Rightarrow> world \<Rightarrow> string \<Rightarrow> string \<Rightarrow> provider_caller response" where
  "approver_from_token S W whose auth =
     (case dev_token_claims S W whose auth of
        Inl e \<Rightarrow> Inl e | Inr (tok, claims) \<Rightarrow> Inr (caller_from_claims tok claims))"

record provider_identity =
  pi_username :: string
  pi_user_id :: string
  pi_roles :: "string list"

definition provider_token_identity ::
  "server \<Rightarrow> world \<Rightarrow> string \<Rightarrow> provider_identity response" where
  "provider_token_identity S W auth =
     (case bearer_token auth of
        None \<Rightarrow> Inl (HttpError 401 ''MISSING_AUTH_TOKEN'' '''')
      | Some tok \<Rightarrow>
          (case validated_claims S W tok
              [cfg_provider_key_jwks_url (srv_cfg S), cfg_data_provider_jwks_url (srv_cfg S)] of
             Inl e \<Rightarrow> Inl e
           | Inr claims \<Rightarrow>
               (let u = login_name claims; i = claim_str ''sub'' claims in
                if u = '''' \<or> i = '''' then Inl (HttpError 401 ''INVALID_TOKEN_CLAIMS'' '''')
                else Inr \<lparr>pi_username = u, pi_user_id = i, pi_roles = realm_roles claims\<rparr>)))"

text \<open>Whoever passes is named by a token one of the two key sets validated, never by the VM client.\<close>

lemma try_jwks_valid:
  "try_jwks W tok urls acc = Some (Inr (True, claims)) \<Longrightarrow> acc \<noteq> Some (Inr (True, claims)) \<Longrightarrow>
   \<exists>url \<in> set urls. url \<noteq> '''' \<and> w_jwt W url tok = Inr (True, claims)"
proof (induction urls arbitrary: acc)
  case Nil
  then show ?case by simp
next
  case (Cons url urls)
  consider (blank) "url = ''''" | (ok) cl where "url \<noteq> ''''" "w_jwt W url tok = Inr (True, cl)"
    | (err) e where "url \<noteq> ''''" "w_jwt W url tok = Inl e"
    | (bad) cl where "url \<noteq> ''''" "w_jwt W url tok = Inr (False, cl)"
    by (metis (full_types) old.sum.exhaust surj_pair)
  then show ?case
  proof cases
    case blank
    then show ?thesis using Cons by auto
  next
    case ok
    then show ?thesis using Cons.prems by auto
  next
    case err
    then show ?thesis using Cons.IH [of "Some (Inl e)"] Cons.prems by auto
  next
    case bad
    then show ?thesis using Cons.IH [of "Some (Inr (False, cl))"] Cons.prems by auto
  qed
qed

lemma validated_claims_sound:
  assumes "validated_claims S W tok urls = Inr claims"
  shows "(\<exists>url \<in> set urls. url \<noteq> '''' \<and> w_jwt W url tok = Inr (True, claims)) \<and>
    (cfg_flotilla_vm_client_id (srv_cfg S) \<noteq> '''' \<longrightarrow>
       claim_str ''azp'' claims \<noteq> cfg_flotilla_vm_client_id (srv_cfg S))"
proof -
  have "try_jwks W tok urls None = Some (Inr (True, claims))"
    and "reject_flotilla_vm_token S claims = None"
    using assms by (auto simp: validated_claims_def split: option.splits sum.splits prod.splits bool.splits)
  then show ?thesis
    using try_jwks_valid [of W tok urls None claims]
    by (auto simp: reject_flotilla_vm_token_def split: if_splits)
qed

text \<open>\<^verbatim>\<open>ValidateAccessToken\<close> on the header without its \<^verbatim>\<open>Bearer\<close> prefix, as the consumer's routes call it.\<close>

definition access_token_claims :: "world \<Rightarrow> string \<Rightarrow> json response" where
  "access_token_claims W auth =
     (let tok = (if has_prefix auth ''Bearer '' then drop 7 auth else auth);
          refused = HttpError 401 ''UNAUTHORIZED'' ''invalid Keycloak token''
      in if tok = '''' then Inl refused
         else case w_access_token W tok of
             Inr (True, claims) \<Rightarrow> Inr claims
           | _ \<Rightarrow> Inl refused)"

definition is_contract_user :: "json \<Rightarrow> contract \<Rightarrow> bool" where
  "is_contract_user claims c \<longleftrightarrow>
     claim_str ''sub'' claims \<noteq> '''' \<and> equal_fold (claim_str ''sub'' claims) (up_id (user_party c))"

section \<open>A dataset's catalogue id\<close>

definition is_hex_char :: "char \<Rightarrow> bool" where
  "is_hex_char c \<longleftrightarrow> (let n = of_char c :: nat in
     (48 \<le> n \<and> n \<le> 57) \<or> (97 \<le> n \<and> n \<le> 102) \<or> (65 \<le> n \<and> n \<le> 70))"

definition is_uuid :: "string \<Rightarrow> bool" where
  "is_uuid s \<longleftrightarrow> length s = 36 \<and>
     list_all (\<lambda>(i, c). if List.member [8, 13, 18, 23] i then is_dash c else is_hex_char c)
       (zip [0..<36] s)"

definition catalogue_item_id :: "data_party \<Rightarrow> string" where
  "catalogue_item_id p =
     (if dp_dataset_id p \<noteq> '''' then dp_dataset_id p
      else if is_uuid (dp_dataset_name p) then dp_dataset_name p else '''')"

definition approval_item :: "data_party \<Rightarrow> string" where
  "approval_item p =
     (let i = catalogue_item_id p in if i \<noteq> '''' then i else dp_dataset_name p)"

lemma approval_item_set_sig [simp]: "approval_item (set_data_sig s p) = approval_item p"
  by (simp add: approval_item_def catalogue_item_id_def set_data_sig_def Let_def)

end
