(* ===== verification/Database.thy ===== *)
theory Database
  imports Identity
begin

text \<open>
  The Postgres tables (\<^verbatim>\<open>internal/db/db.go\<close>) as lists of rows in insertion order, and the
  methods of \<^verbatim>\<open>internal/db\<close> on them. A read returns an error message or its value; a write
  returns in addition the new state, unchanged when the call fails. The contract column holds
  the JSON document, decoded by the callers.
\<close>

section \<open>Tables\<close>

record contract_row =
  cr_id :: string
  cr_project_id :: string
  cr_session_id :: string
  cr_output_owner_id :: string
  cr_finalized :: bool
  cr_pathway :: string
  cr_contract :: json
  cr_job_id :: "string option"
  cr_sign_requests_sent_at :: "time option"
  cr_finalized_at :: "time option"
  cr_tee_enabled_at :: "time option"
  cr_updated_at :: time

record final_contract =
  fc_job_id :: string
  fc_contract_id :: string
  fc_contract_hash :: string
  fc_contract :: json
  fc_created_at :: time

record audit_entry =
  ae_job_id :: string
  ae_type :: string
  ae_provider_id :: string
  ae_item :: string
  ae_status :: string
  ae_has_role :: bool
  ae_in_catalogue :: bool
  ae_reason :: string
  ae_checked_at :: time

record contract_event =
  ev_contract_id :: string
  ev_job_id :: string
  ev_event :: string
  ev_detail :: string
  ev_actor :: string
  ev_at :: time

record job_participant =
  jp_job_id :: string
  jp_contract_id :: string
  jp_technique :: string
  jp_role :: string
  jp_participant_id :: string
  jp_user_id :: string
  jp_username :: string
  jp_item_id :: string
  jp_item_name :: string
  jp_status :: string
  jp_created_at :: time
  jp_updated_at :: time

record notification =
  nf_id :: string
  nf_recipient_id :: string
  nf_recipient_username :: string
  nf_sender_username :: string
  nf_message :: string
  nf_payload :: json
  nf_read :: bool
  nf_read_at :: "time option"
  nf_created_at :: time
  nf_response :: "string option"
  nf_response_message :: "string option"
  nf_responded_at :: "time option"

record key_row =
  kr_username :: string
  kr_user_id :: string
  kr_role :: string
  kr_public_key_pem :: string
  kr_fingerprint :: string
  kr_updated_at :: time

record removed_provider =
  rp_submission_id :: string
  rp_username :: string
  rp_reason :: string
  rp_removed_at :: time

record project_row =
  pj_project_id :: string
  pj_session_id :: string
  pj_owner :: string
  pj_providers :: "string list"
  pj_created_at :: time
  pj_updated_at :: time

record gateway_cert =
  gc_serial :: string
  gc_submission_id :: string
  gc_project_id :: string
  gc_contract_id :: string
  gc_job_id :: string
  gc_server_ip :: string
  gc_fingerprint :: string
  gc_not_after :: time
  gc_requested_by :: string

record vm_entry =
  vm_role :: string
  vm_participant :: string
  vm_ip_address :: string
  vm_updated_at :: time

record db =
  t_contracts :: "contract_row list"
  t_final :: "final_contract list"
  t_audit :: "audit_entry list"
  t_events :: "contract_event list"
  t_participants :: "job_participant list"
  t_notifications :: "notification list"
  t_keys :: "key_row list"
  t_removed :: "removed_provider list"
  t_projects :: "project_row list"
  t_gateway_certs :: "gateway_cert list"
  t_vms :: "vm_entry list"

text \<open>A call that fails returns its error; otherwise the value, or the value and the new state.\<close>

definition db_read :: "world \<Rightarrow> string \<Rightarrow> string list \<Rightarrow> 'a \<Rightarrow> 'a result" where
  "db_read W m args v = (case w_fault W (Db m args) of Some e \<Rightarrow> Inl e | None \<Rightarrow> Inr v)"

definition db_write :: "world \<Rightarrow> string \<Rightarrow> string list \<Rightarrow> 'a \<Rightarrow> db \<Rightarrow> db \<Rightarrow> 'a result \<times> db" where
  "db_write W m args v d' d =
     (case w_fault W (Db m args) of Some e \<Rightarrow> (Inl e, d) | None \<Rightarrow> (Inr v, d'))"

lemma db_read_Inr [simp]: "db_read W m args v = Inr x \<longleftrightarrow> w_fault W (Db m args) = None \<and> x = v"
  by (auto simp: db_read_def split: option.splits)

lemma db_write_Inr: "db_write W m args v d' d = (Inr x, e) \<longleftrightarrow>
    w_fault W (Db m args) = None \<and> x = v \<and> e = d'"
  by (auto simp: db_write_def split: option.splits)

lemma db_write_cases: "snd (db_write W m args v d' d) = d \<or> snd (db_write W m args v d' d) = d'"
  by (simp add: db_write_def split: option.split)

section \<open>Contracts\<close>

text \<open>\<^verbatim>\<open>contract->>'contract_id' = $1\<close>\<close>

definition row_has_contract_id :: "string \<Rightarrow> contract_row \<Rightarrow> bool" where
  "row_has_contract_id cid r \<longleftrightarrow> jget ''contract_id'' (cr_contract r) = JStr cid"

definition get_contract_by_contract_id :: "world \<Rightarrow> db \<Rightarrow> string \<Rightarrow> json option result" where
  "get_contract_by_contract_id W d cid =
     db_read W ''GetContractByContractID'' [cid]
       (map_option cr_contract (latest_by cr_updated_at (filter (row_has_contract_id cid) (t_contracts d))))"

definition get_contract_by_job_id :: "world \<Rightarrow> db \<Rightarrow> string \<Rightarrow> json option result" where
  "get_contract_by_job_id W d job_id =
     db_read W ''GetContractByJobID'' [job_id]
       (map_option cr_contract (List.find (\<lambda>r. cr_job_id r = Some job_id) (t_contracts d)))"

definition get_contract_by_session :: "world \<Rightarrow> db \<Rightarrow> string \<Rightarrow> json option result" where
  "get_contract_by_session W d session_id =
     db_read W ''GetContractBySession'' [session_id]
       (map_option cr_contract
         (latest_by cr_updated_at (filter (\<lambda>r. cr_session_id r = session_id) (t_contracts d))))"

definition get_contract_by_project_id :: "world \<Rightarrow> db \<Rightarrow> string \<Rightarrow> json option result" where
  "get_contract_by_project_id W d project_id =
     db_read W ''GetContractByProjectID'' [project_id]
       (map_option cr_contract (List.find (\<lambda>r. cr_project_id r = project_id) (t_contracts d)))"

definition get_job_id_by_contract_id :: "world \<Rightarrow> db \<Rightarrow> string \<Rightarrow> string result" where
  "get_job_id_by_contract_id W d cid =
     db_read W ''GetJobIDByContractID'' [cid]
       (case latest_by cr_updated_at (filter (row_has_contract_id cid) (t_contracts d)) of
          None \<Rightarrow> '''' | Some r \<Rightarrow> (case cr_job_id r of None \<Rightarrow> '''' | Some j \<Rightarrow> j))"

definition put_document :: "json \<Rightarrow> time \<Rightarrow> contract_row \<Rightarrow> contract_row" where
  "put_document raw now r = r\<lparr>cr_contract := raw, cr_updated_at := now\<rparr>"

definition update_contract_by_contract_id ::
  "world \<Rightarrow> string \<Rightarrow> json \<Rightarrow> db \<Rightarrow> bool result \<times> db" where
  "update_contract_by_contract_id W cid raw d =
     db_write W ''UpdateContractByContractID'' [cid]
       (list_ex (row_has_contract_id cid) (t_contracts d))
       (d\<lparr>t_contracts := update_rows (row_has_contract_id cid) (put_document raw (w_now W)) (t_contracts d)\<rparr>) d"

text \<open>
  The unique indexes of \<^verbatim>\<open>contracts\<close>: id, project and job (where it is set), and the session of
  the preview rows.
\<close>

definition is_preview :: "string \<Rightarrow> bool" where
  "is_preview session_id \<longleftrightarrow> has_prefix session_id ''preview:''"

definition contracts_unique :: "contract_row list \<Rightarrow> bool" where
  "contracts_unique rs \<longleftrightarrow> distinct (map cr_id rs) \<and> distinct (map cr_project_id rs) \<and>
     distinct (List.map_filter cr_job_id rs) \<and> distinct (filter is_preview (map cr_session_id rs))"

text \<open>An upsert into \<^verbatim>\<open>contracts\<close>: refused when the row it leaves clashes with another one.\<close>

definition store_contract_rows ::
  "world \<Rightarrow> string \<Rightarrow> string \<Rightarrow> contract_row list \<Rightarrow> db \<Rightarrow> string result \<times> db" where
  "store_contract_rows W m row_id rows d =
     (if contracts_unique rows then db_write W m [] row_id (d\<lparr>t_contracts := rows\<rparr>) d
      else (Inl ''duplicate key value violates unique constraint'', d))"

text \<open>\<^verbatim>\<open>json.Marshal(c)\<close>: it fails on a time outside the years 0 to 9999.\<close>

definition marshal_contract :: "contract \<Rightarrow> json result" where
  "marshal_contract c =
     (if json_ok (enc_contract c) then Inr (enc_contract c)
      else Inl ''json: Time.MarshalJSON: year outside of range [0,9999]'')"

definition store_contract :: "world \<Rightarrow> contract \<Rightarrow> bool \<Rightarrow> string \<Rightarrow> db \<Rightarrow> string result \<times> db" where
  "store_contract W c finalized pathway d =
     (let pathway = (if pathway = '''' then ''FL'' else pathway);
          c = (if ct_job_id c = '''' then c\<lparr>ct_job_id := w_new_id W ''job'' (length (t_contracts d))\<rparr> else c);
          new = \<lparr>cr_id = w_new_id W ''con'' (length (t_contracts d)), cr_project_id = ct_project_id c,
                 cr_session_id = si_session_id (ct_session_info c),
                 cr_output_owner_id = up_id (user_party c), cr_finalized = finalized, cr_pathway = pathway,
                 cr_contract = enc_contract c, cr_job_id = Some (ct_job_id c),
                 cr_sign_requests_sent_at = None, cr_finalized_at = None, cr_tee_enabled_at = None,
                 cr_updated_at = w_now W\<rparr>;
          rows = upsert_row (\<lambda>r x. cr_project_id x = cr_project_id r)
            (\<lambda>r x. x\<lparr>cr_job_id := cr_job_id r, cr_output_owner_id := cr_output_owner_id r,
                     cr_finalized := cr_finalized x \<or> cr_finalized r, cr_pathway := cr_pathway r,
                     cr_contract := cr_contract r, cr_updated_at := cr_updated_at r\<rparr>) new (t_contracts d);
          id = (case List.find (\<lambda>x. cr_project_id x = cr_project_id new) rows of
                  None \<Rightarrow> '''' | Some x \<Rightarrow> cr_id x)
      in case marshal_contract c of
           Inl e \<Rightarrow> (Inl e, d)
         | Inr raw \<Rightarrow> store_contract_rows W ''StoreContract'' id rows d)"

definition preview_session :: "string \<Rightarrow> string \<Rightarrow> string \<Rightarrow> string" where
  "preview_session consumer_id dataset_id technique =
     ''preview:'' @ consumer_id @ '':'' @ dataset_id @ '':'' @ technique"

definition store_generated_contract ::
  "world \<Rightarrow> string \<Rightarrow> string \<Rightarrow> string \<Rightarrow> string \<Rightarrow> string \<Rightarrow> json \<Rightarrow> db \<Rightarrow> string result \<times> db" where
  "store_generated_contract W consumer_id dataset_id technique contract_id job_id raw d =
     (let key = preview_session consumer_id dataset_id technique;
          new = \<lparr>cr_id = w_new_id W ''con'' (length (t_contracts d)), cr_project_id = contract_id,
                 cr_session_id = key, cr_output_owner_id = consumer_id, cr_finalized = False,
                 cr_pathway = ''PREVIEW'', cr_contract = raw, cr_job_id = Some job_id,
                 cr_sign_requests_sent_at = None, cr_finalized_at = None, cr_tee_enabled_at = None,
                 cr_updated_at = w_now W\<rparr>;
          rows = upsert_row (\<lambda>r x. cr_session_id x = cr_session_id r)
            (\<lambda>r x. r\<lparr>cr_id := cr_id x\<rparr>) new (t_contracts d);
          id = (case List.find (\<lambda>x. cr_session_id x = key) rows of None \<Rightarrow> '''' | Some x \<Rightarrow> cr_id x)
      in store_contract_rows W ''StoreGeneratedContract'' id rows d)"

section \<open>Job life cycle\<close>

definition row_has_job :: "string \<Rightarrow> contract_row \<Rightarrow> bool" where
  "row_has_job job_id r \<longleftrightarrow> cr_job_id r = Some job_id"

definition stamp_once :: "time \<Rightarrow> time option \<Rightarrow> time option" where
  "stamp_once now t = (case t of None \<Rightarrow> Some now | Some t' \<Rightarrow> Some t')"

definition mark_sign_requests_sent :: "world \<Rightarrow> string \<Rightarrow> db \<Rightarrow> bool result \<times> db" where
  "mark_sign_requests_sent W job_id d =
     (let P = (\<lambda>r. row_has_job job_id r \<and> cr_sign_requests_sent_at r = None)
      in db_write W ''MarkSignRequestsSent'' [job_id] (list_ex P (t_contracts d))
        (d\<lparr>t_contracts := update_rows P (\<lambda>r. r\<lparr>cr_sign_requests_sent_at := Some (w_now W)\<rparr>)
            (t_contracts d)\<rparr>) d)"

definition mark_job_final :: "world \<Rightarrow> string \<Rightarrow> db \<Rightarrow> bool result \<times> db" where
  "mark_job_final W job_id d =
     (let P = (\<lambda>r. row_has_job job_id r \<and> cr_finalized_at r = None)
      in db_write W ''MarkJobFinal'' [job_id] (list_ex P (t_contracts d))
        (d\<lparr>t_contracts := update_rows P
            (\<lambda>r. r\<lparr>cr_finalized := True, cr_finalized_at := Some (w_now W)\<rparr>) (t_contracts d)\<rparr>) d)"

text \<open>\<^verbatim>\<open>JobLifecycle\<close>: when the job's contract became final and when its TEE run was enabled.\<close>

definition get_job_lifecycle :: "world \<Rightarrow> db \<Rightarrow> string \<Rightarrow> (time option \<times> time option) result" where
  "get_job_lifecycle W d job_id =
     db_read W ''GetJobLifecycle'' [job_id]
       (case List.find (row_has_job job_id) (t_contracts d) of
          None \<Rightarrow> (None, None) | Some r \<Rightarrow> (cr_finalized_at r, cr_tee_enabled_at r))"

definition enable_job_tee_row :: "world \<Rightarrow> string \<Rightarrow> db \<Rightarrow> time option result \<times> db" where
  "enable_job_tee_row W job_id d =
     (let P = (\<lambda>r. row_has_job job_id r \<and> cr_finalized_at r \<noteq> None)
      in db_write W ''EnableJobTEE'' [job_id]
        (case List.find P (t_contracts d) of
           None \<Rightarrow> None | Some r \<Rightarrow> stamp_once (w_now W) (cr_tee_enabled_at r))
        (d\<lparr>t_contracts := update_rows P
            (\<lambda>r. r\<lparr>cr_tee_enabled_at := stamp_once (w_now W) (cr_tee_enabled_at r)\<rparr>) (t_contracts d)\<rparr>) d)"

definition mark_contract_tee_enabled :: "world \<Rightarrow> string \<Rightarrow> db \<Rightarrow> unit result \<times> db" where
  "mark_contract_tee_enabled W cid d =
     db_write W ''MarkContractTEEEnabled'' [cid] ()
       (d\<lparr>t_contracts := update_rows (row_has_contract_id cid)
           (\<lambda>r. r\<lparr>cr_tee_enabled_at := stamp_once (w_now W) (cr_tee_enabled_at r)\<rparr>) (t_contracts d)\<rparr>) d"

definition create_final_contract ::
  "world \<Rightarrow> string \<Rightarrow> string \<Rightarrow> string \<Rightarrow> json \<Rightarrow> db \<Rightarrow> bool result \<times> db" where
  "create_final_contract W job_id contract_id hash raw d =
     (if list_ex (\<lambda>f. fc_job_id f = job_id) (t_final d)
      then db_write W ''CreateFinalContract'' [job_id] False d d
      else db_write W ''CreateFinalContract'' [job_id] True
        (d\<lparr>t_final := t_final d @ [\<lparr>fc_job_id = job_id, fc_contract_id = contract_id,
            fc_contract_hash = hash, fc_contract = raw, fc_created_at = w_now W\<rparr>]\<rparr>) d)"

definition get_final_contract :: "world \<Rightarrow> db \<Rightarrow> string \<Rightarrow> final_contract option result" where
  "get_final_contract W d job_id =
     db_read W ''GetFinalContract'' [job_id] (List.find (\<lambda>f. fc_job_id f = job_id) (t_final d))"

section \<open>Audit trail and events\<close>

definition insert_audit_entries :: "world \<Rightarrow> audit_entry list \<Rightarrow> db \<Rightarrow> unit result \<times> db" where
  "insert_audit_entries W es d =
     (if es = [] then (Inr (), d)
      else db_write W ''InsertAuditEntries'' [] () (d\<lparr>t_audit := t_audit d @ es\<rparr>) d)"

text \<open>\<^verbatim>\<open>ORDER BY checked_at, id\<close>: the table is in id order and the sort is stable.\<close>

definition list_audit_by_job :: "world \<Rightarrow> db \<Rightarrow> string \<Rightarrow> audit_entry list result" where
  "list_audit_by_job W d job_id =
     db_read W ''ListAuditByJob'' [job_id]
       (sort_key ae_checked_at (filter (\<lambda>e. ae_job_id e = job_id) (t_audit d)))"

definition add_contract_event ::
  "world \<Rightarrow> string \<Rightarrow> string \<Rightarrow> string \<Rightarrow> string \<Rightarrow> string \<Rightarrow> db \<Rightarrow> unit result \<times> db" where
  "add_contract_event W contract_id job_id event detail actor d =
     db_write W ''AddContractEvent'' [contract_id, event] ()
       (d\<lparr>t_events := t_events d @ [\<lparr>ev_contract_id = contract_id, ev_job_id = job_id,
           ev_event = event, ev_detail = detail, ev_actor = actor, ev_at = w_now W\<rparr>]\<rparr>) d"

definition outcome_mark :: "string \<Rightarrow> string" where
  "outcome_mark coord_job = ''(coordinator job '' @ coord_job @ '')''"

definition is_outcome_of :: "string \<Rightarrow> string \<Rightarrow> contract_event \<Rightarrow> bool" where
  "is_outcome_of contract_id coord_job e \<longleftrightarrow> ev_contract_id e = contract_id \<and>
     (ev_event e = ''run_succeeded'' \<or> ev_event e = ''run_execution_failed'') \<and>
     contains (ev_detail e) (outcome_mark coord_job)"

definition has_tee_run_outcome :: "world \<Rightarrow> db \<Rightarrow> string \<Rightarrow> string \<Rightarrow> bool result" where
  "has_tee_run_outcome W d contract_id coord_job =
     db_read W ''HasTEERunOutcome'' [contract_id, coord_job]
       (list_ex (is_outcome_of contract_id coord_job) (t_events d))"

definition contract_event_job_id :: "world \<Rightarrow> db \<Rightarrow> string \<Rightarrow> string result" where
  "contract_event_job_id W d contract_id =
     db_read W ''ContractEventJobID'' [contract_id]
       (case latest_by ev_at (rev (filter (\<lambda>e. ev_contract_id e = contract_id \<and> ev_job_id e \<noteq> '''')
           (t_events d))) of None \<Rightarrow> '''' | Some e \<Rightarrow> ev_job_id e)"

text \<open>\<^verbatim>\<open>recordContractEvent\<close> (\<^verbatim>\<open>httpapi/contract_events.go\<close>): best-effort.\<close>

definition record_contract_event ::
  "server \<Rightarrow> world \<Rightarrow> contract option \<Rightarrow> string \<Rightarrow> string \<Rightarrow> string \<Rightarrow> db \<Rightarrow> db" where
  "record_contract_event S W c event detail actor d =
     (case c of None \<Rightarrow> d
      | Some c \<Rightarrow>
          if \<not> srv_has_db S \<or> ct_contract_id c = '''' then d
          else snd (add_contract_event W (ct_contract_id c) (ct_job_id c) event detail actor d))"

section \<open>Participants\<close>

definition participant_key :: "job_participant \<Rightarrow> string \<times> string \<times> string \<times> string" where
  "participant_key p = (jp_job_id p, jp_role p, jp_participant_id p, jp_item_id p)"

definition replace_job_participants ::
  "world \<Rightarrow> string \<Rightarrow> job_participant list \<Rightarrow> db \<Rightarrow> unit result \<times> db" where
  "replace_job_participants W job_id rows d =
     (let kept = filter (\<lambda>p. jp_job_id p \<noteq> job_id \<and>
            list_ex (\<lambda>r. cr_job_id r = Some (jp_job_id p)) (t_contracts d)) (t_participants d);
          ins = (\<lambda>r rs. upsert_row (\<lambda>a b. participant_key b = participant_key a)
            (\<lambda>a b. b\<lparr>jp_contract_id := jp_contract_id a, jp_technique := jp_technique a,
                     jp_user_id := jp_user_id a, jp_username := jp_username a,
                     jp_item_name := jp_item_name a, jp_status := jp_status a,
                     jp_updated_at := w_now W\<rparr>)
            (r\<lparr>jp_job_id := job_id, jp_created_at := w_now W, jp_updated_at := w_now W\<rparr>) rs)
      in db_write W ''ReplaceJobParticipants'' [job_id] () (d\<lparr>t_participants := fold ins rows kept\<rparr>) d)"

definition set_job_participant_status ::
  "world \<Rightarrow> string \<Rightarrow> string \<Rightarrow> string \<Rightarrow> string \<Rightarrow> string \<Rightarrow> string \<Rightarrow> string \<Rightarrow> db \<Rightarrow> bool result \<times> db" where
  "set_job_participant_status W job_id role participant_id item_id status user_id username d =
     (let P = (\<lambda>p. participant_key p = (job_id, role, participant_id, item_id))
      in db_write W ''SetJobParticipantStatus'' [participant_id, item_id, status]
        (list_ex P (t_participants d))
        (d\<lparr>t_participants := update_rows P (\<lambda>p. p\<lparr>jp_status := status,
             jp_user_id := (if user_id = '''' then jp_user_id p else user_id),
             jp_username := (if username = '''' then jp_username p else username),
             jp_updated_at := w_now W\<rparr>) (t_participants d)\<rparr>) d)"

definition set_job_status :: "world \<Rightarrow> string \<Rightarrow> string \<Rightarrow> db \<Rightarrow> unit result \<times> db" where
  "set_job_status W job_id status d =
     db_write W ''SetJobStatus'' [job_id, status] ()
       (d\<lparr>t_participants := update_rows (\<lambda>p. jp_job_id p = job_id \<and> jp_status p \<noteq> status)
            (\<lambda>p. p\<lparr>jp_status := status, jp_updated_at := w_now W\<rparr>) (t_participants d)\<rparr>) d"

definition username_by_user_id :: "world \<Rightarrow> db \<Rightarrow> string \<Rightarrow> string result" where
  "username_by_user_id W d user_id =
     db_read W ''UsernameByUserID'' [user_id]
       (case latest_by kr_updated_at (filter (\<lambda>k. kr_user_id k = user_id) (t_keys d)) of
          None \<Rightarrow> '''' | Some k \<Rightarrow> kr_username k)"

section \<open>Public keys\<close>

definition key_of :: "key_row list \<Rightarrow> string \<Rightarrow> key_row option" where
  "key_of ks username = List.find (\<lambda>k. kr_username k = username) ks"

definition put_key :: "key_row \<Rightarrow> key_row list \<Rightarrow> key_row list" where
  "put_key k ks = upsert_row (\<lambda>a b. kr_username b = kr_username a) (\<lambda>a b. a) k ks"

definition upsert_provider_public_key ::
  "world \<Rightarrow> string \<Rightarrow> string \<Rightarrow> string \<Rightarrow> string \<Rightarrow> string \<Rightarrow> db \<Rightarrow> bool result \<times> db" where
  "upsert_provider_public_key W username user_id role pem fingerprint d =
     (let k = \<lparr>kr_username = to_lower username, kr_user_id = user_id, kr_role = role,
               kr_public_key_pem = pem, kr_fingerprint = fingerprint, kr_updated_at = w_now W\<rparr>
      in db_write W ''UpsertProviderPublicKey'' [username]
        (key_of (t_keys d) (kr_username k) \<noteq> None) (d\<lparr>t_keys := put_key k (t_keys d)\<rparr>) d)"

datatype key_error = NoPublicKey | KeyLookupFailed string

definition key_error_message :: "key_error \<Rightarrow> string" where
  "key_error_message e =
     (case e of NoPublicKey \<Rightarrow> ''user has no registered public key'' | KeyLookupFailed m \<Rightarrow> m)"

definition provider_public_key :: "world \<Rightarrow> db \<Rightarrow> string \<Rightarrow> key_error + string" where
  "provider_public_key W d username =
     (case w_fault W (Db ''ProviderPublicKey'' [to_lower username]) of
        Some e \<Rightarrow> Inl (KeyLookupFailed e)
      | None \<Rightarrow> (case key_of (t_keys d) (to_lower username) of
          None \<Rightarrow> Inl NoPublicKey | Some k \<Rightarrow> Inr (kr_public_key_pem k)))"

section \<open>Notifications\<close>

text \<open>The id is the primary key: an id drawn twice is refused.\<close>

definition create_notification ::
  "world \<Rightarrow> string \<Rightarrow> string \<Rightarrow> string \<Rightarrow> string \<Rightarrow> json \<Rightarrow> db \<Rightarrow> notification result \<times> db" where
  "create_notification W recipient_id recipient_username sender message payload d =
     (let n = \<lparr>nf_id = w_new_id W ''notif'' (length (t_notifications d)), nf_recipient_id = recipient_id,
               nf_recipient_username = recipient_username, nf_sender_username = sender,
               nf_message = message, nf_payload = (if payload = JNull then JObj [] else payload),
               nf_read = False, nf_read_at = None, nf_created_at = w_now W, nf_response = None,
               nf_response_message = None, nf_responded_at = None\<rparr>
      in if list_ex (\<lambda>m. nf_id m = nf_id n) (t_notifications d)
         then (Inl ''duplicate key value violates unique constraint notifications_pkey'', d)
         else db_write W ''CreateNotification'' [recipient_username] n
           (d\<lparr>t_notifications := t_notifications d @ [n]\<rparr>) d)"

definition answer_notification :: "string \<Rightarrow> string \<Rightarrow> time \<Rightarrow> notification \<Rightarrow> notification" where
  "answer_notification response message now n =
     n\<lparr>nf_response := Some response, nf_response_message := Some message, nf_responded_at := Some now,
       nf_read := True, nf_read_at := stamp_once now (nf_read_at n)\<rparr>"

definition respond_to_notification_row ::
  "world \<Rightarrow> string \<Rightarrow> string \<Rightarrow> string \<Rightarrow> string \<Rightarrow> db \<Rightarrow> notification option result \<times> db" where
  "respond_to_notification_row W nid username response message d =
     (let P = (\<lambda>n. nf_id n = nid \<and> nf_recipient_username n = username);
          f = answer_notification response message (w_now W)
      in db_write W ''RespondToNotification'' [nid]
        (map_option f (List.find P (t_notifications d)))
        (d\<lparr>t_notifications := update_rows P f (t_notifications d)\<rparr>) d)"

definition is_sign_request_for :: "string \<Rightarrow> notification \<Rightarrow> bool" where
  "is_sign_request_for contract_id n \<longleftrightarrow>
     jget ''type'' (nf_payload n) = JStr ''CONTRACT_SIGN'' \<and>
     jget ''contract_id'' (nf_payload n) = JStr contract_id"

definition supersede_contract_sign_requests :: "world \<Rightarrow> string \<Rightarrow> db \<Rightarrow> nat result \<times> db" where
  "supersede_contract_sign_requests W contract_id d =
     (let P = (\<lambda>n. is_sign_request_for contract_id n \<and> nf_response n \<noteq> Some ''superseded'')
      in db_write W ''SupersedeContractSignRequests'' [contract_id]
        (length (filter P (t_notifications d)))
        (d\<lparr>t_notifications := update_rows P
             (answer_notification ''superseded'' ''contract changed; a new sign request replaces this one'' (w_now W))
             (t_notifications d)\<rparr>) d)"

section \<open>The unique indexes\<close>

text \<open>A row of new keys put in the place of another one, or at the end.\<close>

definition new_keys :: "contract_row \<Rightarrow> contract_row list \<Rightarrow> bool" where
  "new_keys r rs \<longleftrightarrow> (\<forall>x \<in> set rs. cr_id x \<noteq> cr_id r \<and> cr_project_id x \<noteq> cr_project_id r \<and>
     (cr_job_id r = None \<or> cr_job_id x \<noteq> cr_job_id r) \<and>
     (is_preview (cr_session_id r) \<longrightarrow> cr_session_id x \<noteq> cr_session_id r))"

lemma contracts_unique_put:
  assumes "contracts_unique (as @ bs)" and "new_keys r (as @ bs)"
  shows "contracts_unique (as @ r # bs)"
  using assms unfolding contracts_unique_def new_keys_def
  by (auto simp: List.map_filter_def split: option.splits)

lemma contracts_unique_drop: "contracts_unique (as @ x # bs) \<Longrightarrow> contracts_unique (as @ bs)"
  unfolding contracts_unique_def by (auto simp: List.map_filter_def split: option.splits if_splits)

section \<open>What each write leaves alone\<close>

lemma update_contract_by_contract_id_frame [simp, frame_simps]:
  "t_final (snd (update_contract_by_contract_id W cid raw d)) = t_final d"
  "t_audit (snd (update_contract_by_contract_id W cid raw d)) = t_audit d"
  "t_events (snd (update_contract_by_contract_id W cid raw d)) = t_events d"
  "t_participants (snd (update_contract_by_contract_id W cid raw d)) = t_participants d"
  "t_notifications (snd (update_contract_by_contract_id W cid raw d)) = t_notifications d"
  "t_keys (snd (update_contract_by_contract_id W cid raw d)) = t_keys d"
  "t_removed (snd (update_contract_by_contract_id W cid raw d)) = t_removed d"
  by (simp_all add: update_contract_by_contract_id_def db_write_def Let_def split: option.split)

lemma mark_sign_requests_sent_frame [simp, frame_simps]:
  "t_final (snd (mark_sign_requests_sent W job_id d)) = t_final d"
  "t_audit (snd (mark_sign_requests_sent W job_id d)) = t_audit d"
  "t_events (snd (mark_sign_requests_sent W job_id d)) = t_events d"
  "t_participants (snd (mark_sign_requests_sent W job_id d)) = t_participants d"
  "t_notifications (snd (mark_sign_requests_sent W job_id d)) = t_notifications d"
  "t_keys (snd (mark_sign_requests_sent W job_id d)) = t_keys d"
  "t_removed (snd (mark_sign_requests_sent W job_id d)) = t_removed d"
  by (simp_all add: mark_sign_requests_sent_def db_write_def Let_def split: option.split)

lemma mark_job_final_frame [simp, frame_simps]:
  "t_final (snd (mark_job_final W job_id d)) = t_final d"
  "t_audit (snd (mark_job_final W job_id d)) = t_audit d"
  "t_events (snd (mark_job_final W job_id d)) = t_events d"
  "t_participants (snd (mark_job_final W job_id d)) = t_participants d"
  "t_notifications (snd (mark_job_final W job_id d)) = t_notifications d"
  "t_keys (snd (mark_job_final W job_id d)) = t_keys d"
  "t_removed (snd (mark_job_final W job_id d)) = t_removed d"
  by (simp_all add: mark_job_final_def db_write_def Let_def split: option.split)

lemma enable_job_tee_row_frame [simp, frame_simps]:
  "t_final (snd (enable_job_tee_row W job_id d)) = t_final d"
  "t_audit (snd (enable_job_tee_row W job_id d)) = t_audit d"
  "t_events (snd (enable_job_tee_row W job_id d)) = t_events d"
  "t_participants (snd (enable_job_tee_row W job_id d)) = t_participants d"
  "t_notifications (snd (enable_job_tee_row W job_id d)) = t_notifications d"
  "t_keys (snd (enable_job_tee_row W job_id d)) = t_keys d"
  "t_removed (snd (enable_job_tee_row W job_id d)) = t_removed d"
  by (simp_all add: enable_job_tee_row_def db_write_def Let_def split: option.split)

lemma mark_contract_tee_enabled_frame [simp, frame_simps]:
  "t_final (snd (mark_contract_tee_enabled W cid d)) = t_final d"
  "t_audit (snd (mark_contract_tee_enabled W cid d)) = t_audit d"
  "t_events (snd (mark_contract_tee_enabled W cid d)) = t_events d"
  "t_participants (snd (mark_contract_tee_enabled W cid d)) = t_participants d"
  "t_notifications (snd (mark_contract_tee_enabled W cid d)) = t_notifications d"
  "t_keys (snd (mark_contract_tee_enabled W cid d)) = t_keys d"
  "t_removed (snd (mark_contract_tee_enabled W cid d)) = t_removed d"
  by (simp_all add: mark_contract_tee_enabled_def db_write_def Let_def split: option.split)

lemma create_final_contract_frame [simp, frame_simps]:
  "t_contracts (snd (create_final_contract W job_id cid h raw d)) = t_contracts d"
  "t_audit (snd (create_final_contract W job_id cid h raw d)) = t_audit d"
  "t_events (snd (create_final_contract W job_id cid h raw d)) = t_events d"
  "t_participants (snd (create_final_contract W job_id cid h raw d)) = t_participants d"
  "t_notifications (snd (create_final_contract W job_id cid h raw d)) = t_notifications d"
  "t_keys (snd (create_final_contract W job_id cid h raw d)) = t_keys d"
  "t_removed (snd (create_final_contract W job_id cid h raw d)) = t_removed d"
  by (simp_all add: create_final_contract_def db_write_def Let_def split: option.split)

lemma insert_audit_entries_frame [simp, frame_simps]:
  "t_contracts (snd (insert_audit_entries W es d)) = t_contracts d"
  "t_final (snd (insert_audit_entries W es d)) = t_final d"
  "t_events (snd (insert_audit_entries W es d)) = t_events d"
  "t_participants (snd (insert_audit_entries W es d)) = t_participants d"
  "t_notifications (snd (insert_audit_entries W es d)) = t_notifications d"
  "t_keys (snd (insert_audit_entries W es d)) = t_keys d"
  "t_removed (snd (insert_audit_entries W es d)) = t_removed d"
  by (simp_all add: insert_audit_entries_def db_write_def Let_def split: option.split)

lemma add_contract_event_frame [simp, frame_simps]:
  "t_contracts (snd (add_contract_event W cid job_id ev detail actor d)) = t_contracts d"
  "t_final (snd (add_contract_event W cid job_id ev detail actor d)) = t_final d"
  "t_audit (snd (add_contract_event W cid job_id ev detail actor d)) = t_audit d"
  "t_participants (snd (add_contract_event W cid job_id ev detail actor d)) = t_participants d"
  "t_notifications (snd (add_contract_event W cid job_id ev detail actor d)) = t_notifications d"
  "t_keys (snd (add_contract_event W cid job_id ev detail actor d)) = t_keys d"
  "t_removed (snd (add_contract_event W cid job_id ev detail actor d)) = t_removed d"
  by (simp_all add: add_contract_event_def db_write_def Let_def split: option.split)

lemma replace_job_participants_frame [simp, frame_simps]:
  "t_contracts (snd (replace_job_participants W job_id rows d)) = t_contracts d"
  "t_final (snd (replace_job_participants W job_id rows d)) = t_final d"
  "t_audit (snd (replace_job_participants W job_id rows d)) = t_audit d"
  "t_events (snd (replace_job_participants W job_id rows d)) = t_events d"
  "t_notifications (snd (replace_job_participants W job_id rows d)) = t_notifications d"
  "t_keys (snd (replace_job_participants W job_id rows d)) = t_keys d"
  "t_removed (snd (replace_job_participants W job_id rows d)) = t_removed d"
  by (simp_all add: replace_job_participants_def db_write_def Let_def split: option.split)

lemma set_job_participant_status_frame [simp, frame_simps]:
  "t_contracts (snd (set_job_participant_status W job_id role pid item st uid un d)) = t_contracts d"
  "t_final (snd (set_job_participant_status W job_id role pid item st uid un d)) = t_final d"
  "t_audit (snd (set_job_participant_status W job_id role pid item st uid un d)) = t_audit d"
  "t_events (snd (set_job_participant_status W job_id role pid item st uid un d)) = t_events d"
  "t_notifications (snd (set_job_participant_status W job_id role pid item st uid un d)) = t_notifications d"
  "t_keys (snd (set_job_participant_status W job_id role pid item st uid un d)) = t_keys d"
  "t_removed (snd (set_job_participant_status W job_id role pid item st uid un d)) = t_removed d"
  by (simp_all add: set_job_participant_status_def db_write_def Let_def split: option.split)

lemma set_job_status_frame [simp, frame_simps]:
  "t_contracts (snd (set_job_status W job_id st d)) = t_contracts d"
  "t_final (snd (set_job_status W job_id st d)) = t_final d"
  "t_audit (snd (set_job_status W job_id st d)) = t_audit d"
  "t_events (snd (set_job_status W job_id st d)) = t_events d"
  "t_notifications (snd (set_job_status W job_id st d)) = t_notifications d"
  "t_keys (snd (set_job_status W job_id st d)) = t_keys d"
  "t_removed (snd (set_job_status W job_id st d)) = t_removed d"
  by (simp_all add: set_job_status_def db_write_def Let_def split: option.split)

lemma create_notification_frame [simp, frame_simps]:
  "t_contracts (snd (create_notification W rid run sender msg pl d)) = t_contracts d"
  "t_final (snd (create_notification W rid run sender msg pl d)) = t_final d"
  "t_audit (snd (create_notification W rid run sender msg pl d)) = t_audit d"
  "t_events (snd (create_notification W rid run sender msg pl d)) = t_events d"
  "t_participants (snd (create_notification W rid run sender msg pl d)) = t_participants d"
  "t_keys (snd (create_notification W rid run sender msg pl d)) = t_keys d"
  "t_removed (snd (create_notification W rid run sender msg pl d)) = t_removed d"
  by (simp_all add: create_notification_def db_write_def Let_def split: option.split)

lemma respond_to_notification_row_frame [simp, frame_simps]:
  "t_contracts (snd (respond_to_notification_row W nid un resp msg d)) = t_contracts d"
  "t_final (snd (respond_to_notification_row W nid un resp msg d)) = t_final d"
  "t_audit (snd (respond_to_notification_row W nid un resp msg d)) = t_audit d"
  "t_events (snd (respond_to_notification_row W nid un resp msg d)) = t_events d"
  "t_participants (snd (respond_to_notification_row W nid un resp msg d)) = t_participants d"
  "t_keys (snd (respond_to_notification_row W nid un resp msg d)) = t_keys d"
  "t_removed (snd (respond_to_notification_row W nid un resp msg d)) = t_removed d"
  by (simp_all add: respond_to_notification_row_def db_write_def Let_def split: option.split)

lemma supersede_contract_sign_requests_frame [simp, frame_simps]:
  "t_contracts (snd (supersede_contract_sign_requests W cid d)) = t_contracts d"
  "t_final (snd (supersede_contract_sign_requests W cid d)) = t_final d"
  "t_audit (snd (supersede_contract_sign_requests W cid d)) = t_audit d"
  "t_events (snd (supersede_contract_sign_requests W cid d)) = t_events d"
  "t_participants (snd (supersede_contract_sign_requests W cid d)) = t_participants d"
  "t_keys (snd (supersede_contract_sign_requests W cid d)) = t_keys d"
  "t_removed (snd (supersede_contract_sign_requests W cid d)) = t_removed d"
  by (simp_all add: supersede_contract_sign_requests_def db_write_def Let_def split: option.split)

lemma upsert_provider_public_key_frame [simp, frame_simps]:
  "t_contracts (snd (upsert_provider_public_key W un uid role pem fp d)) = t_contracts d"
  "t_final (snd (upsert_provider_public_key W un uid role pem fp d)) = t_final d"
  "t_audit (snd (upsert_provider_public_key W un uid role pem fp d)) = t_audit d"
  "t_events (snd (upsert_provider_public_key W un uid role pem fp d)) = t_events d"
  "t_participants (snd (upsert_provider_public_key W un uid role pem fp d)) = t_participants d"
  "t_notifications (snd (upsert_provider_public_key W un uid role pem fp d)) = t_notifications d"
  "t_removed (snd (upsert_provider_public_key W un uid role pem fp d)) = t_removed d"
  by (simp_all add: upsert_provider_public_key_def db_write_def Let_def split: option.split)

lemma record_contract_event_frame [simp, frame_simps]:
  "t_contracts (record_contract_event S W c ev detail actor d) = t_contracts d"
  "t_final (record_contract_event S W c ev detail actor d) = t_final d"
  "t_audit (record_contract_event S W c ev detail actor d) = t_audit d"
  "t_participants (record_contract_event S W c ev detail actor d) = t_participants d"
  "t_notifications (record_contract_event S W c ev detail actor d) = t_notifications d"
  "t_keys (record_contract_event S W c ev detail actor d) = t_keys d"
  "t_removed (record_contract_event S W c ev detail actor d) = t_removed d"
  by (simp_all add: record_contract_event_def split: option.split)

section \<open>The tables behind their interfaces\<close>

definition put_final :: "world \<Rightarrow> string \<times> string \<times> string \<times> json \<Rightarrow> db \<Rightarrow> db" where
  "put_final W x d = (case x of (job_id, cid, h, raw) \<Rightarrow> snd (create_final_contract W job_id cid h raw d))"

interpretation audit_log: append_log t_audit "\<lambda>es d. snd (insert_audit_entries W es d)"
    "\<lambda>es d. if w_fault W (Db ''InsertAuditEntries'' []) = None then es else []"
  by unfold_locales (auto simp: insert_audit_entries_def db_write_def split: option.splits)

interpretation event_log: append_log t_events
    "\<lambda>(S, c, ev, detail, actor) d. record_contract_event S W c ev detail actor d"
    "\<lambda>(S, c, ev, detail, actor) d. (case c of None \<Rightarrow> [] | Some c \<Rightarrow>
       if srv_has_db S \<and> ct_contract_id c \<noteq> '''' \<and> w_fault W (Db ''AddContractEvent'' [ct_contract_id c, ev]) = None
       then [\<lparr>ev_contract_id = ct_contract_id c, ev_job_id = ct_job_id c, ev_event = ev,
              ev_detail = detail, ev_actor = actor, ev_at = w_now W\<rparr>] else [])"
  by unfold_locales
    (auto simp: record_contract_event_def add_contract_event_def db_write_def split: option.splits)

interpretation final_log: append_log t_final "put_final W"
    "\<lambda>(job_id, cid, h, raw) d. if list_ex (\<lambda>f. fc_job_id f = job_id) (t_final d) \<or>
         w_fault W (Db ''CreateFinalContract'' [job_id]) \<noteq> None then []
       else [\<lparr>fc_job_id = job_id, fc_contract_id = cid, fc_contract_hash = h, fc_contract = raw,
              fc_created_at = w_now W\<rparr>]"
  by unfold_locales (auto simp: put_final_def create_final_contract_def db_write_def split: option.splits)

end
