(* ===== verification/Job_State.thy ===== *)
theory Job_State
  imports Database
begin

text \<open>
  A job's approval standing (\<^verbatim>\<open>httpapi/job_approval.go\<close>): which contracts go through approval,
  the current audit entry per provider and item, the overall status of each side, and whether
  providers may sign; and the status marks on the job's participants
  (\<^verbatim>\<open>httpapi/job_participants.go\<close>).
\<close>

section \<open>Which contracts need approval\<close>

definition needs_job_approval :: "contract \<Rightarrow> bool" where
  "needs_job_approval c \<longleftrightarrow>
     (if data_providers c = [] then False else list_ex (\<lambda>ip. ip_id ip \<noteq> '''') (infra_providers c))"

definition job_approval_required :: "contract \<Rightarrow> bool" where
  "job_approval_required c = needs_job_approval c"

lemma needs_job_approval_data_sigs [simp]:
  "needs_job_approval (with_data_providers (update_rows P (\<lambda>p. set_data_sig (f p) p)) c) = needs_job_approval c"
  by (simp add: needs_job_approval_def update_rows_def)

section \<open>The current entries\<close>

text \<open>
  The code keys entries by \<^verbatim>\<open>type NUL provider_id NUL item\<close>; a Postgres text holds no NUL, so
  the key is the triple.
\<close>

definition entry_key :: "audit_entry \<Rightarrow> string \<times> string \<times> string" where
  "entry_key e = (ae_type e, ae_provider_id e, ae_item e)"

definition same_entry :: "audit_entry \<Rightarrow> audit_entry \<Rightarrow> bool" where
  "same_entry e x \<longleftrightarrow> entry_key x = entry_key e"

text \<open>The latest entry of each key, in the order in which the keys first appeared.\<close>

definition current_entries :: "audit_entry list \<Rightarrow> audit_entry list" where
  "current_entries history = fold (upsert_row same_entry (\<lambda>e x. e)) history []"

definition overall_status :: "audit_entry list \<Rightarrow> string" where
  "overall_status es =
     (if es = [] then ''pending''
      else if list_all (\<lambda>e. ae_status e = ''accepted'') es then ''accepted'' else ''rejected'')"

record job_approval_state =
  as_approval :: string
  as_data_provider :: string
  as_infra_provider :: string
  as_current :: "audit_entry list"
  as_history :: "audit_entry list"
  as_infra_required :: bool

definition state_accepted :: "job_approval_state \<Rightarrow> bool" where
  "state_accepted st \<longleftrightarrow> as_data_provider st = ''accepted'' \<and>
     (\<not> as_infra_required st \<or> as_infra_provider st = ''accepted'')"

definition approval_state :: "server \<Rightarrow> audit_entry list \<Rightarrow> job_approval_state" where
  "approval_state S history =
     (let current = current_entries history;
          st = \<lparr>as_approval = '''',
                as_data_provider = overall_status (filter (\<lambda>e. ae_type e = ''data-provider'') current),
                as_infra_provider = overall_status (filter (\<lambda>e. ae_type e = ''infra-provider'') current),
                as_current = current, as_history = history,
                as_infra_required = cfg_require_infra_approval (srv_cfg S)\<rparr>
      in st\<lparr>as_approval :=
           (if state_accepted st then ''accepted''
            else if as_data_provider st = ''rejected'' \<or>
              (as_infra_required st \<and> as_infra_provider st = ''rejected'') then ''rejected''
            else ''pending'')\<rparr>)"

definition load_job_approval_state ::
  "server \<Rightarrow> world \<Rightarrow> db \<Rightarrow> string \<Rightarrow> job_approval_state result" where
  "load_job_approval_state S W d job_id =
     (case list_audit_by_job W d job_id of
        Inl e \<Rightarrow> Inl e | Inr history \<Rightarrow> Inr (approval_state S history))"

definition signing_allowed :: "server \<Rightarrow> world \<Rightarrow> db \<Rightarrow> contract \<Rightarrow> bool result" where
  "signing_allowed S W d c =
     (if \<not> job_approval_required c then Inr True
      else case (if ct_job_id c = '''' then get_job_id_by_contract_id W d (ct_contract_id c)
                 else Inr (ct_job_id c)) of
          Inl e \<Rightarrow> Inl e
        | Inr job_id \<Rightarrow>
            if job_id = '''' then Inr False
            else (case load_job_approval_state S W d job_id of
                Inl e \<Rightarrow> Inl e | Inr st \<Rightarrow> Inr (state_accepted st)))"

section \<open>The current entries are the latest per key\<close>

definition latest_entry :: "audit_entry list \<Rightarrow> string \<times> string \<times> string \<Rightarrow> audit_entry option" where
  "latest_entry history k = List.find (\<lambda>e. entry_key e = k) (rev history)"

lemma latest_entry_snoc [simp]:
  "latest_entry (h @ [e]) k = (if entry_key e = k then Some e else latest_entry h k)"
  by (simp add: latest_entry_def)

lemma latest_entry_Nil [simp]: "latest_entry [] k = None"
  by (simp add: latest_entry_def)

lemma latest_entry_key: "latest_entry h k = Some e \<Longrightarrow> entry_key e = k \<and> e \<in> set h"
  unfolding latest_entry_def using find_Some [of "\<lambda>e. entry_key e = k" "rev h" e] by simp

lemma current_entries_snoc:
  "current_entries (h @ [e]) = upsert_row same_entry (\<lambda>e x. e) e (current_entries h)"
  by (simp add: current_entries_def)

lemma keys_upsert_entry:
  "map entry_key (upsert_row same_entry (\<lambda>e x. e) e es) =
     map entry_key es @ (if entry_key e \<in> entry_key ` set es then [] else [entry_key e])"
proof (cases "entry_key e \<in> entry_key ` set es")
  case True
  then have "list_ex (same_entry e) es" by (auto simp: same_entry_def list_ex_iff)
  then show ?thesis using True by (simp add: upsert_row_def same_entry_def)
next
  case False
  then have "\<not> list_ex (same_entry e) es" by (auto simp: same_entry_def list_ex_iff image_iff)
  then show ?thesis using False by (simp add: upsert_row_def)
qed

lemma distinct_current_keys: "distinct (map entry_key (current_entries h))"
proof (induction h rule: rev_induct)
  case Nil
  then show ?case by (simp add: current_entries_def)
next
  case (snoc e h)
  then show ?case by (simp add: current_entries_snoc keys_upsert_entry)
qed

lemma current_entries_latest: "e \<in> set (current_entries h) \<longleftrightarrow> latest_entry h (entry_key e) = Some e"
proof (induction h arbitrary: e rule: rev_induct)
  case Nil
  then show ?case by (simp add: current_entries_def)
next
  case (snoc a h)
  have "x \<in> set (current_entries (h @ [a])) \<longleftrightarrow>
      x = a \<or> (x \<in> set (current_entries h) \<and> entry_key x \<noteq> entry_key a)" for x
    by (auto simp: current_entries_snoc upsert_row_def same_entry_def list_ex_iff)
  then show ?case by (auto simp: snoc.IH)
qed

lemma overall_accepted_iff:
  "overall_status es = ''accepted'' \<longleftrightarrow> es \<noteq> [] \<and> (\<forall>e \<in> set es. ae_status e = ''accepted'')"
  by (auto simp: overall_status_def list_all_iff)

text \<open>One side of a job: every item of that side ever checked was accepted at its last check.\<close>

definition side_accepted :: "string \<Rightarrow> audit_entry list \<Rightarrow> bool" where
  "side_accepted kind history \<longleftrightarrow> list_ex (\<lambda>e. ae_type e = kind) history \<and>
     list_all (\<lambda>e. ae_type e = kind \<longrightarrow>
       (case latest_entry history (entry_key e) of None \<Rightarrow> False | Some l \<Rightarrow> ae_status l = ''accepted''))
       history"

lemma latest_entry_exists: "e \<in> set h \<Longrightarrow> \<exists>l. latest_entry h (entry_key e) = Some l"
  unfolding latest_entry_def by (rule find_exists) simp_all

lemma overall_status_side:
  "overall_status (filter (\<lambda>e. ae_type e = kind) (current_entries h)) = ''accepted'' \<longleftrightarrow>
     side_accepted kind h"
proof -
  let ?cur = "filter (\<lambda>e. ae_type e = kind) (current_entries h)"
  have kind_of: "entry_key l = entry_key e \<Longrightarrow> ae_type l = ae_type e" for l e
    by (simp add: entry_key_def)
  have cur: "l \<in> set ?cur \<longleftrightarrow> ae_type l = kind \<and> latest_entry h (entry_key l) = Some l" for l
    by (auto simp: current_entries_latest)
  have latest_in_cur: "\<exists>l. latest_entry h (entry_key e) = Some l \<and> l \<in> set ?cur"
    if e: "e \<in> set h" "ae_type e = kind" for e
  proof -
    obtain l where l: "latest_entry h (entry_key e) = Some l" using latest_entry_exists e by blast
    then have key: "entry_key l = entry_key e" using latest_entry_key by blast
    have "ae_type l = kind" using kind_of [OF key] e(2) by simp
    moreover have "latest_entry h (entry_key l) = Some l" using key l by simp
    ultimately show ?thesis using cur [of l] l by blast
  qed
  have ne: "?cur \<noteq> [] \<longleftrightarrow> (\<exists>e \<in> set h. ae_type e = kind)"
  proof
    assume "?cur \<noteq> []"
    then have "hd ?cur \<in> set ?cur" by (rule hd_in_set)
    then obtain l where "l \<in> set ?cur" by blast
    then have "ae_type l = kind" "latest_entry h (entry_key l) = Some l" using cur [of l] by simp_all
    then show "\<exists>e \<in> set h. ae_type e = kind" using latest_entry_key [of h "entry_key l" l] by auto
  next
    assume "\<exists>e \<in> set h. ae_type e = kind"
    then obtain e where e: "e \<in> set h" "ae_type e = kind" by blast
    then obtain l where "l \<in> set ?cur" using latest_in_cur by blast
    then show "?cur \<noteq> []" by (cases ?cur) simp_all
  qed
  have all: "(\<forall>l \<in> set ?cur. ae_status l = ''accepted'') \<longleftrightarrow>
      (\<forall>e \<in> set h. ae_type e = kind \<longrightarrow>
        (\<exists>l. latest_entry h (entry_key e) = Some l \<and> ae_status l = ''accepted''))" (is "?L \<longleftrightarrow> ?R")
  proof
    assume L: ?L
    show ?R
    proof (intro ballI impI)
      fix e assume e: "e \<in> set h" "ae_type e = kind"
      then obtain l where "latest_entry h (entry_key e) = Some l" "l \<in> set ?cur"
        using latest_in_cur by blast
      then show "\<exists>l. latest_entry h (entry_key e) = Some l \<and> ae_status l = ''accepted''" using L by blast
    qed
  next
    assume R: ?R
    show ?L
    proof
      fix l assume "l \<in> set ?cur"
      then have l: "ae_type l = kind" "latest_entry h (entry_key l) = Some l" using cur by auto
      then have "l \<in> set h" using latest_entry_key by blast
      then show "ae_status l = ''accepted''" using R l by auto
    qed
  qed
  show ?thesis
    unfolding overall_accepted_iff ne all side_accepted_def list_ex_iff list_all_iff
    by (auto split: option.splits)
qed

lemma approval_state_simps [simp]:
  "as_current (approval_state S h) = current_entries h"
  "as_history (approval_state S h) = h"
  "as_infra_required (approval_state S h) = cfg_require_infra_approval (srv_cfg S)"
  "as_data_provider (approval_state S h) =
     overall_status (filter (\<lambda>e. ae_type e = ''data-provider'') (current_entries h))"
  "as_infra_provider (approval_state S h) =
     overall_status (filter (\<lambda>e. ae_type e = ''infra-provider'') (current_entries h))"
  by (simp_all add: approval_state_def Let_def)

lemma state_accepted_iff:
  "state_accepted (approval_state S h) \<longleftrightarrow> side_accepted ''data-provider'' h \<and>
     (cfg_require_infra_approval (srv_cfg S) \<longrightarrow> side_accepted ''infra-provider'' h)"
  by (auto simp: state_accepted_def overall_status_side)

section \<open>Marks on the participants\<close>

text \<open>Best-effort: a failed write leaves the row and the step goes on.\<close>

definition mark_participant_status ::
  "world \<Rightarrow> contract \<Rightarrow> string \<Rightarrow> string \<Rightarrow> string \<Rightarrow> string \<Rightarrow> db \<Rightarrow> db" where
  "mark_participant_status W c provider_id user_id username status d =
     (case (if ct_job_id c = '''' then get_job_id_by_contract_id W d (ct_contract_id c)
            else Inr (ct_job_id c)) of
        Inl e \<Rightarrow> d
      | Inr job_id \<Rightarrow>
          if job_id = '''' then d
          else fold (\<lambda>dp d. if party_provider_id dp \<noteq> provider_id then d
              else snd (set_job_participant_status W job_id ''data-provider'' provider_id
                (approval_item dp) status user_id username d)) (data_providers c) d)"

definition mark_signed_participant :: "world \<Rightarrow> contract \<Rightarrow> string \<Rightarrow> string \<Rightarrow> string \<Rightarrow> db \<Rightarrow> db" where
  "mark_signed_participant W c provider_id user_id username d =
     mark_participant_status W c provider_id user_id username ''signed'' d"

definition mark_job_participants :: "world \<Rightarrow> string \<Rightarrow> string \<Rightarrow> db \<Rightarrow> db" where
  "mark_job_participants W job_id status d = snd (set_job_status W job_id status d)"

definition mark_approval_participants ::
  "world \<Rightarrow> string \<Rightarrow> string \<Rightarrow> audit_entry list \<Rightarrow> provider_caller \<Rightarrow> db \<Rightarrow> db" where
  "mark_approval_participants W kind job_id own caller d =
     fold (\<lambda>e d. snd (set_job_participant_status W job_id kind (ae_provider_id e) (ae_item e)
         (if ae_status e = ''accepted'' then ''approved'' else ''rejected'')
         (pc_user_id caller) (pc_username caller) d)) own d"

text \<open>A fold of steps that leave a part of the state alone leaves it alone.\<close>

lemma fold_frame:
  assumes "\<And>x d. g (f x d) = g d"
  shows "g (fold f xs d) = g d"
  by (induction xs arbitrary: d) (simp_all add: assms)

lemma mark_participant_status_frame [simp, frame_simps]:
  "t_contracts (mark_participant_status W c p u n st d) = t_contracts d"
  "t_final (mark_participant_status W c p u n st d) = t_final d"
  "t_audit (mark_participant_status W c p u n st d) = t_audit d"
  "t_events (mark_participant_status W c p u n st d) = t_events d"
  "t_notifications (mark_participant_status W c p u n st d) = t_notifications d"
  "t_keys (mark_participant_status W c p u n st d) = t_keys d"
  by (simp_all add: mark_participant_status_def fold_frame split: sum.split)

lemma mark_signed_participant_frame [simp, frame_simps]:
  "t_contracts (mark_signed_participant W c p u n d) = t_contracts d"
  "t_final (mark_signed_participant W c p u n d) = t_final d"
  "t_audit (mark_signed_participant W c p u n d) = t_audit d"
  "t_events (mark_signed_participant W c p u n d) = t_events d"
  "t_notifications (mark_signed_participant W c p u n d) = t_notifications d"
  "t_keys (mark_signed_participant W c p u n d) = t_keys d"
  by (simp_all add: mark_signed_participant_def)

lemma mark_job_participants_frame [simp, frame_simps]:
  "t_contracts (mark_job_participants W j st d) = t_contracts d"
  "t_final (mark_job_participants W j st d) = t_final d"
  "t_audit (mark_job_participants W j st d) = t_audit d"
  "t_events (mark_job_participants W j st d) = t_events d"
  "t_notifications (mark_job_participants W j st d) = t_notifications d"
  "t_keys (mark_job_participants W j st d) = t_keys d"
  by (simp_all add: mark_job_participants_def)

lemma mark_approval_participants_frame [simp, frame_simps]:
  "t_contracts (mark_approval_participants W k j own caller d) = t_contracts d"
  "t_final (mark_approval_participants W k j own caller d) = t_final d"
  "t_audit (mark_approval_participants W k j own caller d) = t_audit d"
  "t_events (mark_approval_participants W k j own caller d) = t_events d"
  "t_notifications (mark_approval_participants W k j own caller d) = t_notifications d"
  "t_keys (mark_approval_participants W k j own caller d) = t_keys d"
  by (simp_all add: mark_approval_participants_def fold_frame)

end
