(* ===== verification/Signing.thy ===== *)
theory Signing
  imports Job_State
begin

text \<open>
  Contract signing (\<^verbatim>\<open>httpapi/contract_signing.go\<close>, \<^verbatim>\<open>services/contract_signature.go\<close>,
  \<^verbatim>\<open>services/governance_key.go\<close>): RSA signatures over the contract hash, gov_layer's own
  signature and its amendments, the verification of every party's signature, the gate every run
  passes, the sign requests and the handler that records a provider's signature.
\<close>

section \<open>Signatures over a hash\<close>

abbreviation contract_signature_algorithm :: string where
  "contract_signature_algorithm \<equiv> ''RSASSA-PKCS1-v1_5-SHA256''"

abbreviation governance_signer :: string where
  "governance_signer \<equiv> ''governance-layer''"

text \<open>\<^verbatim>\<open>VerifyContractHashSignature\<close>: \<open>None\<close> when the signature is good, else the error.\<close>

definition verify_contract_hash_signature ::
  "crypto \<Rightarrow> string \<Rightarrow> string \<Rightarrow> string \<Rightarrow> string option" where
  "verify_contract_hash_signature C public_key_pem contract_hash signature_b64 =
     (case pem_decode C public_key_pem of
        None \<Rightarrow> Some ''public key is not valid PEM''
      | Some (block_type, bytes) \<Rightarrow>
          (case parse_pkix C bytes of
             Inl e \<Rightarrow> Some (''parse public key: '' @ e)
           | Inr (OtherKey k) \<Rightarrow> Some ''public key is not an RSA key''
           | Inr (RsaKey pub bits) \<Rightarrow>
               (case base64_decode C signature_b64 of
                  Inl e \<Rightarrow> Some (''signature is not valid base64: '' @ e)
                | Inr sig \<Rightarrow>
                    if rsa_verify C pub (sha256_sum C contract_hash) sig then None
                    else Some ''signature does not match contract hash'')))"

definition sign_contract_hash :: "crypto \<Rightarrow> gov_key \<Rightarrow> string \<Rightarrow> string result" where
  "sign_contract_hash C k contract_hash =
     (case gk_rsa_sign k (sha256_sum C contract_hash) of
        Inl e \<Rightarrow> Inl e | Inr sig \<Rightarrow> Inr (base64_encode C sig))"

abbreviation verifies :: "server \<Rightarrow> string \<Rightarrow> string \<Rightarrow> string \<Rightarrow> bool" where
  "verifies S pem h v \<equiv> verify_contract_hash_signature (srv_crypto S) pem h v = None"

definition signature_over :: "time \<Rightarrow> string \<Rightarrow> string \<Rightarrow> string \<Rightarrow> signature" where
  "signature_over now signer hash v =
     \<lparr>sg_signed_at = Some now, sg_signer = signer, sg_algorithm = contract_signature_algorithm,
      sg_signed_hash = hash, sg_value = v, sg_withdrawn_at = None\<rparr>"

section \<open>gov_layer's signature\<close>

definition signable :: "contract \<Rightarrow> bool" where
  "signable c \<longleftrightarrow> ct_technique c \<noteq> ''FL'' \<or> ct_version c \<ge> 2"

definition governance_sign :: "server \<Rightarrow> world \<Rightarrow> contract \<Rightarrow> contract result" where
  "governance_sign S W c =
     and_then (some_or ''governance signing key not loaded'' (srv_gov_key S)) (\<lambda>k.
     require (ct_contract_hash c \<noteq> '''') ''contract has no hash to sign'' (
     and_then (sign_contract_hash (srv_crypto S) k (ct_contract_hash c)) (\<lambda>v.
     Inr (c\<lparr>ct_governance_signature :=
       Some (signature_over (w_now W) governance_signer (ct_contract_hash c) v)\<rparr>))))"

definition governance_signature_valid :: "server \<Rightarrow> contract \<Rightarrow> string \<Rightarrow> bool" where
  "governance_signature_valid S c hash =
     (case (srv_gov_key S, ct_governance_signature c) of
        (Some k, Some gs) \<Rightarrow>
          sg_signed_hash gs = hash \<and> verifies S (gk_public_key_pem k) hash (sg_value gs)
      | _ \<Rightarrow> False)"

definition governance_signature_ok :: "server \<Rightarrow> contract \<Rightarrow> string \<Rightarrow> bool" where
  "governance_signature_ok S c hash \<longleftrightarrow> job_approval_required c \<or> governance_signature_valid S c hash"

definition amendment_valid :: "server \<Rightarrow> contract \<Rightarrow> string \<Rightarrow> bool" where
  "amendment_valid S c hash =
     (case (srv_gov_key S, ct_amendment c) of
        (Some k, Some a) \<Rightarrow>
          sg_signed_hash a = hash \<and> hash \<noteq> '''' \<and> verifies S (gk_public_key_pem k) hash (sg_value a)
      | _ \<Rightarrow> False)"

definition amend_sign :: "server \<Rightarrow> world \<Rightarrow> contract \<Rightarrow> (string \<times> contract) result" where
  "amend_sign S W c =
     and_then (some_or ''governance signing key not loaded'' (srv_gov_key S)) (\<lambda>k.
     and_then (compute_hash (srv_crypto S) c) (\<lambda>hash.
     and_then (sign_contract_hash (srv_crypto S) k hash) (\<lambda>v.
     Inr (hash, c\<lparr>ct_amendment := Some (signature_over (w_now W) governance_signer hash v)\<rparr>))))"

definition content_matches_signed_hash :: "server \<Rightarrow> contract \<Rightarrow> bool" where
  "content_matches_signed_hash S c =
     (case compute_hash (srv_crypto S) c of
        Inl e \<Rightarrow> False
      | Inr hash \<Rightarrow> hash = ct_contract_hash c \<or> amendment_valid S c hash)"

section \<open>Loading and storing\<close>

definition decode_stored :: "json \<Rightarrow> contract result" where
  "decode_stored raw = (case dec_struct dec_contract raw of
     None \<Rightarrow> Inl ''json: cannot unmarshal the stored contract'' | Some c \<Rightarrow> Inr c)"

lemma decode_stored_enc [simp]: "decode_stored (enc_contract c) = Inr c"
  by (simp add: decode_stored_def)

definition load_contract :: "world \<Rightarrow> db \<Rightarrow> string \<Rightarrow> contract option result" where
  "load_contract W d cid =
     (case get_contract_by_contract_id W d cid of
        Inl e \<Rightarrow> Inl e
      | Inr None \<Rightarrow> Inr None
      | Inr (Some raw) \<Rightarrow> (case decode_stored raw of Inl e \<Rightarrow> Inl e | Inr c \<Rightarrow> Inr (Some c)))"



definition load_contract_by_job :: "world \<Rightarrow> db \<Rightarrow> string \<Rightarrow> contract response" where
  "load_contract_by_job W d job_id =
     (if job_id = '''' then Inl (HttpError 400 ''BAD_REQUEST'' ''job_id is required'')
      else case get_contract_by_job_id W d job_id of
          Inl e \<Rightarrow> Inl (HttpError 500 ''INTERNAL_ERROR'' e)
        | Inr None \<Rightarrow> Inl (HttpError 404 ''NOT_FOUND'' ''No contract for this job_id'')
        | Inr (Some raw) \<Rightarrow>
            (case decode_stored raw of
               Inl e \<Rightarrow> Inl (HttpError 500 ''INTERNAL_ERROR'' (''stored contract is not valid: '' @ e))
             | Inr c \<Rightarrow>
                 if \<not> job_approval_required c
                 then Inl (HttpError 400 ''NO_APPROVAL_NEEDED''
                   ''contract does not go through job approval (it needs a dataset and an infrastructure, or REQUIRE_INFRA_APPROVAL=false for TEE/SMPC)'')
                 else Inr c))"

section \<open>Each party's signature\<close>

record party_status =
  ps_role :: string
  ps_provider_id :: string
  ps_dataset_name :: string
  ps_infra_id :: string
  ps_signed :: bool
  ps_valid :: bool
  ps_signer :: string
  ps_signed_at :: "time option"
  ps_error :: string

text \<open>
  The switch of \<^verbatim>\<open>check\<close>. The code keeps the keys it looked up for the rest of the call; reading
  the same row again gives the same key.
\<close>

definition signature_error ::
  "server \<Rightarrow> world \<Rightarrow> db \<Rightarrow> string \<Rightarrow> bool \<Rightarrow> signature \<Rightarrow> string \<Rightarrow> string option" where
  "signature_error S W d hash hash_ok sig want_provider_id =
     (if sg_value sig = '''' \<and> sg_withdrawn_at sig \<noteq> None then Some ''consent withdrawn''
      else if sg_value sig = '''' then Some ''not signed yet''
      else if \<not> hash_ok then Some ''contract content no longer matches its hash''
      else if sg_signed_hash sig \<noteq> hash then Some ''signed a different contract hash''
      else if want_provider_id \<noteq> '''' \<and> provider_id_for_username (sg_signer sig) \<noteq> want_provider_id
        then Some ''signer does not match provider_id''
      else case provider_public_key W d (sg_signer sig) of
          Inl e \<Rightarrow> Some (''public key lookup failed: '' @ key_error_message e)
        | Inr pub \<Rightarrow>
            (case verify_contract_hash_signature (srv_crypto S) pub hash (sg_value sig) of
               Some e \<Rightarrow> Some (''signature does not verify with the signer's public key: '' @ e)
             | None \<Rightarrow> None))"

definition check_party ::
  "server \<Rightarrow> world \<Rightarrow> db \<Rightarrow> string \<Rightarrow> bool \<Rightarrow> party_status \<Rightarrow> signature \<Rightarrow> string \<Rightarrow> party_status" where
  "check_party S W d hash hash_ok st sig want =
     (let err = signature_error S W d hash hash_ok sig want;
          signed = sg_value sig \<noteq> ''''
      in st\<lparr>ps_signed := signed, ps_signer := sg_signer sig,
           ps_signed_at := (if signed then sg_signed_at sig else None),
           ps_valid := (err = None), ps_error := (case err of None \<Rightarrow> '''' | Some e \<Rightarrow> e)\<rparr>)"

definition new_party_status :: "string \<Rightarrow> string \<Rightarrow> string \<Rightarrow> string \<Rightarrow> party_status" where
  "new_party_status role provider_id dataset_name infra_id =
     \<lparr>ps_role = role, ps_provider_id = provider_id, ps_dataset_name = dataset_name,
      ps_infra_id = infra_id, ps_signed = False, ps_valid = False, ps_signer = '''',
      ps_signed_at = None, ps_error = ''''\<rparr>"

definition owner_of :: "(string \<times> string) list \<Rightarrow> string \<Rightarrow> string" where
  "owner_of owners infra_id = (case map_of owners infra_id of None \<Rightarrow> '''' | Some p \<Rightarrow> p)"

definition provider_signatures ::
  "server \<Rightarrow> world \<Rightarrow> db \<Rightarrow> contract \<Rightarrow> string \<Rightarrow> bool \<Rightarrow> (string \<times> string) list \<Rightarrow>
   party_status list \<times> bool" where
  "provider_signatures S W d c hash hash_ok owners =
     (let data = map (\<lambda>p. check_party S W d hash hash_ok
            (new_party_status ''data-provider'' (party_provider_id p) (dp_dataset_name p) '''')
            (dp_signature p) (party_provider_id p)) (data_providers c);
          infra = (if needs_job_approval c \<and> cfg_require_infra_approval (srv_cfg S)
            then map (\<lambda>ip. check_party S W d hash hash_ok
              (new_party_status ''infra-provider''
                (if sg_signer (ip_signature ip) \<noteq> '''' then provider_id_for_username (sg_signer (ip_signature ip))
                 else '''') '''' (ip_id ip))
              (ip_signature ip) (owner_of owners (ip_id ip)))
              (filter (\<lambda>ip. ip_id ip \<noteq> '''') (infra_providers c))
            else []);
          parties = data @ infra
      in (parties, list_all ps_valid parties))"

definition verify_contract_signatures ::
  "server \<Rightarrow> world \<Rightarrow> db \<Rightarrow> contract \<Rightarrow> party_status list \<times> bool \<times> bool" where
  "verify_contract_signatures S W d c =
     (let hash_ok = content_matches_signed_hash S c;
          (parties, all_valid) = provider_signatures S W d c (ct_contract_hash c) hash_ok []
      in (parties, hash_ok, all_valid \<and> hash_ok \<and> governance_signature_ok S c (ct_contract_hash c) \<and>
           data_providers c \<noteq> []))"

definition party_label :: "party_status \<Rightarrow> string" where
  "party_label p = (if ps_infra_id p \<noteq> '''' then ''infra '' @ ps_infra_id p else ps_provider_id p)"

section \<open>The run gate\<close>

text \<open>\<^verbatim>\<open>consentExpiryError\<close> (\<^verbatim>\<open>consent_expiry.go\<close>): the first provider whose consent has ended.\<close>

definition consent_expired :: "time \<Rightarrow> data_party \<Rightarrow> bool" where
  "consent_expired now p \<longleftrightarrow>
     (case cn_consent_valid_until (dp_constraints p) of None \<Rightarrow> False | Some u \<Rightarrow> now > u)"

definition consent_expiry_error :: "world \<Rightarrow> contract \<Rightarrow> time \<Rightarrow> http_error option" where
  "consent_expiry_error W c now =
     (case List.find (consent_expired now) (data_providers c) of
        None \<Rightarrow> None
      | Some p \<Rightarrow>
          let who = (if dp_name p = '''' then party_provider_id p else dp_name p);
              u = (case cn_consent_valid_until (dp_constraints p) of None \<Rightarrow> zero_time | Some u \<Rightarrow> u)
          in Some (HttpError 403 ''CONSENT_EXPIRED''
               (''consent from '' @ who @ '' for dataset '' @ go_quote (dp_dataset_name p) @ '' expired on '' @
                w_format_time W minute_layout u)))"

abbreviation signature_gate_error :: "string \<Rightarrow> http_error" where
  "signature_gate_error msg \<equiv> HttpError 403 ''CONTRACT_NOT_SIGNED'' msg"

definition require_all_providers_signed :: "server \<Rightarrow> world \<Rightarrow> db \<Rightarrow> string \<Rightarrow> contract response" where
  "require_all_providers_signed S W d cid =
     (if cid = '''' then Inl (signature_gate_error
        ''a contract id is required: runs only start for a contract signed by every data provider'')
      else if \<not> srv_has_db S then Inl (HttpError 500 ''INTERNAL_ERROR'' ''database not available'')
      else case load_contract W d cid of
          Inl e \<Rightarrow> Inl (HttpError 500 ''INTERNAL_ERROR'' e)
        | Inr None \<Rightarrow> Inl (HttpError 404 ''CONTRACT_NOT_FOUND'' (''no contract '' @ cid))
        | Inr (Some c) \<Rightarrow>
            if \<not> signable c then Inl (signature_gate_error
              (''contract '' @ cid @ '' is a draft; only the final roster contract is signed''))
            else (case verify_contract_signatures S W d c of (parties, hash_ok, all_valid) \<Rightarrow>
              if \<not> hash_ok then Inl (signature_gate_error ''stored contract no longer matches its hash'')
              else if \<not> governance_signature_ok S c (ct_contract_hash c)
                then Inl (signature_gate_error
                  (''contract has no valid governance signature '' @ em_dash @ '' regenerate it''))
              else if \<not> all_valid then Inl (signature_gate_error (''waiting on provider signatures: '' @
                join ''; '' (map (\<lambda>p. party_label p @ '' ('' @ ps_error p @ '')'')
                    (filter (\<lambda>p. \<not> ps_valid p) parties) @
                  (if parties = [] then [''contract has no data providers''] else []))))
              else (case consent_expiry_error W c (w_now W) of Some e \<Rightarrow> Inl e | None \<Rightarrow> Inr c)))"

definition require_tee_enabled :: "world \<Rightarrow> db \<Rightarrow> contract \<Rightarrow> http_error option" where
  "require_tee_enabled W d c =
     (if \<not> job_approval_required c then None
      else case (if ct_job_id c = '''' then get_job_id_by_contract_id W d (ct_contract_id c)
                 else Inr (ct_job_id c)) of
          Inl e \<Rightarrow> Some (HttpError 500 ''INTERNAL_ERROR'' e)
        | Inr job_id \<Rightarrow>
            (case get_job_lifecycle W d job_id of
               Inl e \<Rightarrow> Some (HttpError 500 ''INTERNAL_ERROR'' e)
             | Inr (finalized_at, tee_enabled_at) \<Rightarrow>
                 if tee_enabled_at = None then Some (HttpError 403 ''TEE_NOT_ENABLED''
                   (''job '' @ job_id @ '''s TEE run is not enabled: its consumer must call POST /job/'' @
                    job_id @ ''/tee first''))
                 else None))"

text \<open>
  \<^verbatim>\<open>requireSignedContract\<close>: \<open>contract_id\<close> and \<open>resource_url\<close> are the run request's
  \<^verbatim>\<open>governanceContractId\<close> and \<^verbatim>\<open>datasetDetails.resourceUrl\<close>.
\<close>

definition require_signed_contract ::
  "server \<Rightarrow> world \<Rightarrow> db \<Rightarrow> string \<Rightarrow> string \<Rightarrow> http_error option" where
  "require_signed_contract S W d contract_id resource_url =
     (case require_all_providers_signed S W d contract_id of
        Inl e \<Rightarrow> Some e
      | Inr c \<Rightarrow>
          (case require_tee_enabled W d c of
             Some e \<Rightarrow> Some e
           | None \<Rightarrow>
               if list_ex (\<lambda>p. dp_data_url p \<noteq> '''' \<and> dp_data_url p = resource_url) (data_providers c)
               then None
               else Some (signature_gate_error
                 ''datasetDetails.resourceUrl is not a dataset on the signed contract'')))"

section \<open>Sign requests\<close>

text \<open>The payload of a \<^verbatim>\<open>CONTRACT_SIGN\<close> notification.\<close>

definition sign_payload :: "contract \<Rightarrow> string \<Rightarrow> string \<Rightarrow> string \<Rightarrow> json" where
  "sign_payload c gov_value gov_pem provider_id = JObj
     [(''type'', JStr ''CONTRACT_SIGN''), (''technique'', JStr (ct_technique c)),
      (''contract_id'', JStr (ct_contract_id c)), (''contract_hash'', JStr (ct_contract_hash c)),
      (''hash_algorithm'', JStr ''SHA-256''), (''sign_algorithm'', JStr contract_signature_algorithm),
      (''governance_signature'', JStr gov_value), (''governance_public_key'', JStr gov_pem),
      (''provider_id'', JStr provider_id), (''contract'', enc_contract c)]"

definition sign_request_message :: "string \<Rightarrow> contract \<Rightarrow> data_party \<Rightarrow> string" where
  "sign_request_message sender c p =
     sender @ '' generated a '' @ ct_technique c @ '' contract using your dataset '' @
       go_quote (dp_dataset_name p) @ ''. Please review and sign its hash.''"

fun notify_signers ::
  "world \<Rightarrow> contract \<Rightarrow> string \<Rightarrow> string \<Rightarrow> string \<Rightarrow> string list \<Rightarrow> data_party list \<Rightarrow> nat \<times> db \<Rightarrow> nat \<times> db" where
  "notify_signers W c sender gov_value gov_pem seen [] acc = acc"
| "notify_signers W c sender gov_value gov_pem seen (p # ps) (sent, d) =
     (let provider_id = party_provider_id p in
      if dp_id p = '''' \<or> List.member seen provider_id
      then notify_signers W c sender gov_value gov_pem seen ps (sent, d)
      else let seen = provider_id # seen;
               payload = sign_payload c gov_value gov_pem provider_id;
               msg = sign_request_message sender c p
           in if \<not> json_ok payload then notify_signers W c sender gov_value gov_pem seen ps (sent, d)
              else (case create_notification W provider_id provider_id sender msg payload d of
                  (Inl e, d) \<Rightarrow> notify_signers W c sender gov_value gov_pem seen ps (sent, d)
                | (Inr n, d) \<Rightarrow> notify_signers W c sender gov_value gov_pem seen ps (sent + 1, d)))"

definition notify_contract_signers :: "server \<Rightarrow> world \<Rightarrow> contract \<Rightarrow> string \<Rightarrow> db \<Rightarrow> nat \<times> db" where
  "notify_contract_signers S W c sender d =
     (case (ct_governance_signature c, srv_gov_key S) of
        (Some gs, Some k) \<Rightarrow>
          notify_signers W c sender (sg_value gs) (gk_public_key_pem k) [] (data_providers c) (0, d)
      | _ \<Rightarrow> (0, d))"

definition send_sign_requests_once :: "server \<Rightarrow> world \<Rightarrow> contract \<Rightarrow> string \<Rightarrow> db \<Rightarrow> nat \<times> db" where
  "send_sign_requests_once S W c sender d =
     (if ct_job_id c \<noteq> ''''
      then (case mark_sign_requests_sent W (ct_job_id c) d of
          (Inl e, d) \<Rightarrow> (0, d)
        | (Inr False, d) \<Rightarrow> (0, d)
        | (Inr True, d) \<Rightarrow> notify_contract_signers S W c sender d)
      else notify_contract_signers S W c sender d)"

lemma notify_signers_frame:
  "t_contracts (snd (notify_signers W c sender v pem seen ps acc)) = t_contracts (snd acc) \<and>
   t_final (snd (notify_signers W c sender v pem seen ps acc)) = t_final (snd acc) \<and>
   t_audit (snd (notify_signers W c sender v pem seen ps acc)) = t_audit (snd acc) \<and>
   t_events (snd (notify_signers W c sender v pem seen ps acc)) = t_events (snd acc) \<and>
   t_participants (snd (notify_signers W c sender v pem seen ps acc)) = t_participants (snd acc) \<and>
   t_keys (snd (notify_signers W c sender v pem seen ps acc)) = t_keys (snd acc)"
proof (induction ps arbitrary: seen acc)
  case Nil
  then show ?case by simp
next
  case (Cons p ps)
  obtain sent d where acc: "acc = (sent, d)" by (cases acc)
  obtain r d' where r: "create_notification W (party_provider_id p) (party_provider_id p) sender
      (sign_request_message sender c p)
      (sign_payload c v pem (party_provider_id p)) d = (r, d')" by (metis surj_pair)
  have d': "t_contracts d' = t_contracts d \<and> t_final d' = t_final d \<and> t_audit d' = t_audit d \<and>
      t_events d' = t_events d \<and> t_participants d' = t_participants d \<and> t_keys d' = t_keys d"
    using create_notification_frame [of W] r by (metis snd_conv)
  show ?case
    unfolding acc by (cases r) (simp_all add: Let_def r d' Cons.IH)
qed

lemma notify_contract_signers_frame [simp, frame_simps]:
  "t_contracts (snd (notify_contract_signers S W c sender d)) = t_contracts d"
  "t_final (snd (notify_contract_signers S W c sender d)) = t_final d"
  "t_audit (snd (notify_contract_signers S W c sender d)) = t_audit d"
  "t_events (snd (notify_contract_signers S W c sender d)) = t_events d"
  "t_participants (snd (notify_contract_signers S W c sender d)) = t_participants d"
  "t_keys (snd (notify_contract_signers S W c sender d)) = t_keys d"
  by (simp_all add: notify_contract_signers_def notify_signers_frame split: option.split)

section \<open>Reading the signature status\<close>

text \<open>\<open>True\<close>: \<^verbatim>\<open>{"signatures": "matching", "tee": "can run"}\<close>.\<close>

definition signature_status :: "server \<Rightarrow> world \<Rightarrow> db \<Rightarrow> contract \<Rightarrow> bool" where
  "signature_status S W d c =
     (case verify_contract_signatures S W d c of (parties, hash_ok, all_valid) \<Rightarrow>
        all_valid \<and> signable c \<and> consent_expiry_error W c (w_now W) = None)"

definition get_contract_signatures :: "server \<Rightarrow> world \<Rightarrow> string \<Rightarrow> db \<Rightarrow> bool response" where
  "get_contract_signatures S W cid d =
     (case load_contract W d cid of
        Inl e \<Rightarrow> Inl (HttpError 500 ''INTERNAL_ERROR'' '''')
      | Inr None \<Rightarrow> Inl (HttpError 404 ''CONTRACT_NOT_FOUND'' '''')
      | Inr (Some c) \<Rightarrow> Inr (signature_status S W d c))"

definition get_session_contract_signatures :: "server \<Rightarrow> world \<Rightarrow> string \<Rightarrow> db \<Rightarrow> bool response" where
  "get_session_contract_signatures S W session_id d =
     (case get_contract_by_session W d session_id of
        Inl e \<Rightarrow> Inl (HttpError 500 ''INTERNAL_ERROR'' '''')
      | Inr None \<Rightarrow> Inl (HttpError 404 ''CONTRACT_NOT_FOUND'' '''')
      | Inr (Some raw) \<Rightarrow>
          (case decode_stored raw of
             Inl e \<Rightarrow> Inl (HttpError 500 ''INTERNAL_ERROR'' '''')
           | Inr c \<Rightarrow> Inr (signature_status S W d c)))"

section \<open>Signing a contract\<close>

record sign_body =
  sb_provider_username :: string
  sb_notification_id :: string
  sb_contract_hash :: string
  sb_signature :: string

text \<open>The checks of \<^verbatim>\<open>signContract\<close>, in order: the signer, the contract and the hash to sign.\<close>

definition key_lookup_failed :: "key_error \<Rightarrow> http_error" where
  "key_lookup_failed e =
     (case e of
        NoPublicKey \<Rightarrow> HttpError 400 ''NO_PUBLIC_KEY'' (key_error_message e)
      | KeyLookupFailed m \<Rightarrow> HttpError 502 ''PUBLIC_KEY_LOOKUP_FAILED'' m)"

abbreviation internal_error :: "string \<Rightarrow> http_error" where
  "internal_error m \<equiv> HttpError 500 ''INTERNAL_ERROR'' m"

abbreviation invalid_json :: http_error where
  "invalid_json \<equiv> HttpError 400 ''INVALID_JSON'' ''Invalid JSON in request body''"

definition job_not_approved :: http_error where
  "job_not_approved = HttpError 409 ''JOB_NOT_APPROVED''
     (''this contract's job is not approved yet '' @ em_dash @
      '' every data and infra provider must pass the role and catalogue checks before it can be signed'')"

definition hash_to_sign :: "server \<Rightarrow> contract \<Rightarrow> string \<Rightarrow> string" where
  "hash_to_sign S c h =
     (if h \<noteq> ct_contract_hash c \<and> amendment_valid S c h then ct_contract_hash c else h)"

definition sign_checks ::
  "server \<Rightarrow> world \<Rightarrow> string \<Rightarrow> string \<Rightarrow> sign_body option \<Rightarrow> db \<Rightarrow>
   (provider_identity \<times> sign_body \<times> contract \<times> string) response" where
  "sign_checks S W auth cid body d =
     and_then (provider_token_identity S W auth) (\<lambda>signer.
     and_then (some_or invalid_json body) (\<lambda>b.
     require (sb_provider_username b = '''' \<or> equal_fold (sb_provider_username b) (pi_username signer))
       (HttpError 403 ''SIGNER_MISMATCH'' ''provider_username does not match the token's user'') (
     require (sb_contract_hash b \<noteq> '''' \<and> sb_signature b \<noteq> '''')
       (HttpError 400 ''MISSING_FIELDS'' ''contract_hash and signature are required'') (
     and_then (or_fail (\<lambda>e. internal_error '''') (load_contract W d cid)) (\<lambda>loaded.
     and_then (some_or (HttpError 404 ''CONTRACT_NOT_FOUND''
         (''contract not found '' @ em_dash @ '' it may have been regenerated'')) loaded) (\<lambda>c.
     require (signable c)
       (HttpError 400 ''CONTRACT_NOT_SIGNABLE'' ''only the final roster contract is signed'') (
     and_then (or_fail (\<lambda>e. internal_error '''') (signing_allowed S W d c)) (\<lambda>allowed.
     require allowed job_not_approved (
     and_then (or_fail (\<lambda>e. internal_error '''') (compute_hash (srv_crypto S) c)) (\<lambda>h.
     let hash = hash_to_sign S c h in
     require (hash = ct_contract_hash c \<and> hash = sb_contract_hash b)
       (HttpError 409 ''HASH_MISMATCH''
         ''signed hash does not match the governance layer's copy of the contract'') (
     require (governance_signature_valid S c hash)
       (HttpError 409 ''NO_GOVERNANCE_SIGNATURE''
         (''contract has no valid governance signature '' @ em_dash @ '' ask for it to be regenerated'')) (
     require (list_ex (\<lambda>p. party_provider_id p = provider_id_for_username (pi_username signer)) (data_providers c))
       (HttpError 403 ''NOT_A_PARTY'' '''') (
     and_then (or_fail key_lookup_failed (provider_public_key W d (pi_username signer))) (\<lambda>pub.
     none_or (map_option (HttpError 400 ''INVALID_SIGNATURE'')
         (verify_contract_hash_signature (srv_crypto S) pub hash (sb_signature b))) (
     Inr (signer, b, c, hash))))))))))))))))"

definition put_provider_signature :: "string \<Rightarrow> signature \<Rightarrow> contract \<Rightarrow> contract" where
  "put_provider_signature provider_id sig c =
     with_data_providers (update_rows (\<lambda>p. party_provider_id p = provider_id) (\<lambda>p. set_data_sig sig p)) c"

definition sign_finish ::
  "server \<Rightarrow> world \<Rightarrow> string \<Rightarrow> provider_identity \<times> sign_body \<times> contract \<times> string \<Rightarrow> db \<Rightarrow>
   (bool \<times> contract) response \<times> db" where
  "sign_finish S W cid x d =
     (case x of (signer, b, c, hash) \<Rightarrow>
        let provider_id = provider_id_for_username (pi_username signer);
            c = put_provider_signature provider_id
              (signature_over (w_now W) (pi_username signer) hash (sb_signature b)) c
        in case marshal_contract c of
             Inl e \<Rightarrow> (Inl (HttpError 500 ''INTERNAL_ERROR'' ''''), d)
           | Inr raw \<Rightarrow>
               (case update_contract_by_contract_id W cid raw d of
                  (Inr True, d) \<Rightarrow>
                    let d = mark_signed_participant W c provider_id (pi_user_id signer) (pi_username signer) d;
                        d = record_contract_event S W (Some c) ''signed'' (''Signed by '' @ provider_id) provider_id d;
                        d = (if sb_notification_id b = '''' then d
                             else snd (respond_to_notification_row W (sb_notification_id b) provider_id
                               ''accepted'' ''signed'' d))
                    in (Inr (list_all (\<lambda>p. sg_value (dp_signature p) \<noteq> '''') (data_providers c), c), d)
                | (_, d) \<Rightarrow> (Inl (HttpError 500 ''INTERNAL_ERROR'' ''''), d)))"

definition sign_contract ::
  "server \<Rightarrow> world \<Rightarrow> string \<Rightarrow> string \<Rightarrow> sign_body option \<Rightarrow> db \<Rightarrow> (bool \<times> contract) response \<times> db" where
  "sign_contract S W auth cid body d =
     (case sign_checks S W auth cid body d of Inl e \<Rightarrow> (Inl e, d) | Inr x \<Rightarrow> sign_finish S W cid x d)"

text \<open>\<^verbatim>\<open>handleSignContract\<close>: the HTTP status, \<^verbatim>\<open>status\<close> and \<^verbatim>\<open>message\<close> of the reply.\<close>

definition handle_sign_contract ::
  "server \<Rightarrow> world \<Rightarrow> string \<Rightarrow> string \<Rightarrow> sign_body option \<Rightarrow> db \<Rightarrow> (nat \<times> string \<times> string) \<times> db" where
  "handle_sign_contract S W auth cid body d =
     (case sign_contract S W auth cid body d of
        (Inr ok, d) \<Rightarrow> ((200, ''signed'', ''sent to governance layer''), d)
      | (Inl e, d) \<Rightarrow> ((he_status e, ''not signed'',
          if he_message e \<noteq> '''' then he_message e else he_code e), d))"

end
