(* ===== verification/Sample.thy ===== *)
theory Sample
  imports Signing
begin

text \<open>
  A small concrete instance of everything the model takes as a parameter: toy cryptography, a
  server, a world without faults and a database with one TEE contract of two data providers. It
  shows that the hypotheses of the properties can hold, and is used for nothing else.
\<close>

section \<open>Parameters\<close>

definition sample_bytes :: "json \<Rightarrow> string" where
  "sample_bytes j =
     (case jget ''contract_id'' j of JStr s \<Rightarrow> s | _ \<Rightarrow> '''') @
     (case jget ''name'' (jget ''user'' (jget ''parties'' j)) of JStr s \<Rightarrow> s | _ \<Rightarrow> '''')"

definition sample_crypto :: crypto where
  "sample_crypto = \<lparr>json_bytes = sample_bytes, sha256_sum = (\<lambda>b. b), hex_encode = (\<lambda>b. b),
     pem_decode = (\<lambda>s. if s = '''' then None else Some (''PUBLIC KEY'', s)),
     pem_encode = (\<lambda>b. b), parse_pkix = (\<lambda>b. Inr (RsaKey b 2048)),
     base64_decode = (\<lambda>s. Inr s), base64_encode = (\<lambda>s. s),
     rsa_verify = (\<lambda>key digest sig. sig = key @ digest)\<rparr>"

definition sample_config :: config where
  "sample_config = \<lparr>cfg_data_provider_jwks_url = ''dev'', cfg_provider_key_jwks_url = ''ui'',
     cfg_data_provider_role = '''', cfg_require_infra_approval = False,
     cfg_flotilla_vm_client_id = '''', cfg_catalogue_base_url = ''cat'',
     cfg_iudx_apd_policy_url = '''', cfg_iudx_policy_callback_url = '''', cfg_require_signed_contract = True,
     cfg_coordinator_addr = ''coord'', cfg_grpcurl_bin = ''grpcurl'', cfg_kbs_url = ''kbs'',
     cfg_default_result_url = ''res'', cfg_result_read_url = ''read'', cfg_contract_callback_url = ''cb'',
     cfg_fl_contract_validity = 30 * 24 * hour, cfg_tee_azure_rg = ''rg'', cfg_tee_vm_name = ''vm'',
     cfg_tee_enclave_base_url = ''enclave'', cfg_tee_vm_ip = ''1'', cfg_tee_enclave_port = ''4000'',
     cfg_tee_maa_issuers = [''maa''], cfg_tee_expected_measurement = '''', cfg_tee_attestation_required = True,
     cfg_tee_attestation_ttl = hour, cfg_tee_start_timeout = 300 * second,
     cfg_tee_output_timeout = 60 * second, cfg_tee_clock_leeway = 60 * second,
     cfg_orchestrator_client_id = ''orch'', cfg_orchestrator_role = ''provider''\<rparr>"

definition sample_server :: server where
  "sample_server = \<lparr>srv_cfg = sample_config, srv_crypto = sample_crypto,
     srv_gov_key = Some \<lparr>gk_public_key_pem = ''G'', gk_rsa_sign = (\<lambda>digest. Inr (''G'' @ digest))\<rparr>,
     srv_has_db = True\<rparr>"

text \<open>A token is its user's name: the claims carry it, its subject and both provider roles.\<close>

definition sample_claims :: "string \<Rightarrow> json" where
  "sample_claims tok = JObj [(''preferred_username'', JStr tok), (''sub'', JStr tok),
     (''realm_access'', JObj [(''roles'', JArr [JStr ''provider'', JStr ''infra-provider''])])]"

definition sample_world :: "time \<Rightarrow> world" where
  "sample_world now = \<lparr>w_now = now, w_fault = (\<lambda>c. None), w_getenv = (\<lambda>k. ''''),
     w_jwt = (\<lambda>url tok. Inr (True, sample_claims tok)),
     w_access_token = (\<lambda>tok. Inr (True, sample_claims tok)),
     w_new_id = (\<lambda>p n. p @ decimal n),
     w_parse_time = (\<lambda>layout s. if s = ''d'' \<and> layout = date_layout then Some 500 else None),
     w_format_time = (\<lambda>layout t. ''T''), w_query_escape = (\<lambda>s. s),
     w_http_get = (\<lambda>url tok. NetFail ''down''), w_http_post = (\<lambda>url tok body. NetFail ''down''),
     w_exec = (\<lambda>args. Inr ('''', None))\<rparr>"

section \<open>A contract of two providers\<close>

definition sample_party :: "string \<Rightarrow> string \<Rightarrow> data_party" where
  "sample_party name dataset = \<lparr>dp_id = ''provider-'' @ name, dp_name = name, dp_dataset_id = dataset,
     dp_dataset_name = dataset, dp_dataset_version = ''1'', dp_data_url = ''u'' @ dataset,
     dp_constraints = \<lparr>cn_accessibility_level = '''', cn_restricted_to = None,
       cn_consent_valid_until = None\<rparr>,
     dp_trustee = None, dp_signature = zero_signature\<rparr>"

definition sample_draft :: contract where
  "sample_draft = \<lparr>ct_project_id = ''p'', ct_contract_id = ''c'', ct_job_id = ''j'', ct_version = 1,
     ct_lifecycle = \<lparr>lc_created_at = 1, lc_valid_from = 1, lc_valid_until = 100 * 24 * hour,
       lc_requested_valid_until = None\<rparr>,
     ct_technique = ''TEE'', ct_compute_choice = ''cpu'', ct_purpose = '''',
     ct_workload = Some \<lparr>wl_image = ''i'', wl_resources = \<lparr>wr_cpu = '''', wr_memory = ''''\<rparr>,
       wl_env = [(''DATASET_URL'', ''ux'')]\<rparr>,
     ct_trustee = Some \<lparr>jt_kbs_url = ''k'', jt_key_resource_path = ''r''\<rparr>, ct_callback_url = '''',
     ct_parties = \<lparr>pt_user = \<lparr>up_id = ''u'', up_name = ''u'', up_datablob_url = '''',
         up_signature = zero_signature\<rparr>,
       pt_data_providers = [sample_party ''a'' ''x'', sample_party ''b'' ''y''],
       pt_data_provider_count = 2, pt_application_providers = [], pt_infra_providers = [],
       pt_infra_provider_count = 0\<rparr>,
     ct_session_info = \<lparr>si_id = '''', si_session_id = ''s'', si_requested_by = ''u''\<rparr>,
     ct_contract_hash = ''sha256:cu'',
     ct_governance_signature = Some (signature_over 1 governance_signer ''sha256:cu'' ''Gsha256:cu''),
     ct_amendment = None\<rparr>"

text \<open>\<open>sample_signed names\<close>: the named providers have signed.\<close>

definition sample_signed :: "string list \<Rightarrow> contract" where
  "sample_signed names = fold (\<lambda>n. put_provider_signature (''provider-'' @ n)
     (signature_over 2 n ''sha256:cu'' (n @ ''sha256:cu''))) names sample_draft"

definition sample_row :: "contract \<Rightarrow> contract_row" where
  "sample_row c = \<lparr>cr_id = ''r'', cr_project_id = ct_project_id c, cr_session_id = ''s'',
     cr_output_owner_id = ''u'', cr_finalized = False, cr_pathway = ''PREVIEW'',
     cr_contract = enc_contract c, cr_job_id = Some (ct_job_id c), cr_sign_requests_sent_at = None,
     cr_finalized_at = None, cr_tee_enabled_at = None, cr_updated_at = 1\<rparr>"

definition sample_key :: "string \<Rightarrow> key_row" where
  "sample_key name = \<lparr>kr_username = name, kr_user_id = name, kr_role = ''data-provider'',
     kr_public_key_pem = name, kr_fingerprint = name, kr_updated_at = 1\<rparr>"

definition sample_db :: "contract \<Rightarrow> db" where
  "sample_db c = \<lparr>t_contracts = [sample_row c], t_final = [], t_audit = [], t_events = [],
     t_participants = [], t_notifications = [], t_keys = [sample_key ''a'', sample_key ''b''],
     t_removed = [], t_projects = [], t_gateway_certs = [], t_vms = []\<rparr>"

definition sample_sign_body :: "string \<Rightarrow> sign_body" where
  "sample_sign_body name = \<lparr>sb_provider_username = '''', sb_notification_id = '''',
     sb_contract_hash = ''sha256:cu'', sb_signature = name @ ''sha256:cu''\<rparr>"

lemmas sample_defs = sample_bytes_def sample_crypto_def sample_config_def sample_server_def
  sample_claims_def sample_world_def sample_party_def sample_draft_def sample_signed_def
  sample_row_def sample_key_def sample_db_def sample_sign_body_def

end
