(* ===== verification/Gate.thy ===== *)
theory Gate
  imports Sample
begin

text \<open>
  What signing and the run gate guarantee: the contract documents as a store with one document
  per contract id, the declarative condition under which a run is authorised and its equivalence
  with the gate, what the hash binds, and the effect of recording a provider's signature.
\<close>

section \<open>The contract documents\<close>

text \<open>
  The interface the handlers rely on: a stored contract is read back under its contract id and
  no other contract is touched.
\<close>

locale contract_store =
  fixes load :: "'db \<Rightarrow> string \<Rightarrow> contract option" and store :: "string \<Rightarrow> contract \<Rightarrow> 'db \<Rightarrow> 'db"
  assumes load_store: "load d cid \<noteq> None \<Longrightarrow> ct_contract_id c = cid \<Longrightarrow> load (store cid c d) cid = Some c"
    and load_store_other: "ct_contract_id c = cid \<Longrightarrow> cid' \<noteq> cid \<Longrightarrow> load (store cid c d) cid' = load d cid'"
    and load_id: "load d cid = Some c \<Longrightarrow> ct_contract_id c = cid"
begin

lemma load_store_modify:
  "load d cid = Some c \<Longrightarrow> ct_contract_id (f c) = ct_contract_id c \<Longrightarrow> load (store cid (f c) d) cid = Some (f c)"
  using load_id by (simp add: load_store)

lemma store_keeps_present:
  "load d cid \<noteq> None \<Longrightarrow> ct_contract_id c = cid \<Longrightarrow> load d x \<noteq> None \<Longrightarrow> load (store cid c d) x \<noteq> None"
  by (cases "x = cid") (simp_all add: load_store load_store_other)

end

definition stored_contract :: "db \<Rightarrow> string \<Rightarrow> contract option" where
  "stored_contract d cid =
     (case latest_by cr_updated_at (filter (row_has_contract_id cid) (t_contracts d)) of
        None \<Rightarrow> None
      | Some r \<Rightarrow> (case decode_stored (cr_contract r) of Inl e \<Rightarrow> None | Inr c \<Rightarrow> Some c))"

definition put_contract :: "time \<Rightarrow> string \<Rightarrow> contract \<Rightarrow> db \<Rightarrow> db" where
  "put_contract now cid c d =
     d\<lparr>t_contracts := update_rows (row_has_contract_id cid) (put_document (enc_contract c) now) (t_contracts d)\<rparr>"

lemma dec_contract_id: "dec_contract j = Some c \<Longrightarrow> jget ''contract_id'' j = JStr s \<Longrightarrow> ct_contract_id c = s"
  by (auto simp: dec_contract_def split: bind_splits)

lemma decode_stored_id:
  "decode_stored j = Inr c \<Longrightarrow> jget ''contract_id'' j = JStr s \<Longrightarrow> ct_contract_id c = s"
  by (cases j) (auto simp: decode_stored_def dec_struct_def jget_def split: option.splits
      dest: dec_contract_id [unfolded jget_def])

lemma jget_enc_contract_id [simp]: "jget ''contract_id'' (enc_contract c) = JStr (ct_contract_id c)"
  by (simp add: enc_contract_def)

lemma row_has_put_document:
  "row_has_contract_id cid (put_document (enc_contract c) now r) \<longleftrightarrow> ct_contract_id c = cid"
  by (simp add: row_has_contract_id_def put_document_def)

lemma filter_other_id:
  fixes c :: contract
  assumes "ct_contract_id c = cid" and "cid' \<noteq> cid"
  shows "filter (row_has_contract_id cid')
      (update_rows (row_has_contract_id cid) (put_document (enc_contract c) now) rs) =
    filter (row_has_contract_id cid') rs"
proof (induction rs)
  case Nil
  then show ?case by simp
next
  case (Cons r rs)
  have "row_has_contract_id cid r \<Longrightarrow> \<not> row_has_contract_id cid' r"
    using assms(2) by (simp add: row_has_contract_id_def)
  then show ?case using Cons assms by (auto simp: row_has_put_document)
qed

interpretation contracts: contract_store stored_contract "put_contract now"
proof
  fix d cid and c :: contract
  assume ex: "stored_contract d cid \<noteq> None" and cid: "ct_contract_id c = cid"
  let ?P = "row_has_contract_id cid" and ?f = "put_document (enc_contract c) now"
  have ne: "filter ?P (t_contracts d) \<noteq> []"
    using ex by (auto simp: stored_contract_def)
  have "filter ?P (update_rows ?P ?f (t_contracts d)) = map ?f (filter ?P (t_contracts d))"
    by (rule filter_update_rows) (simp add: row_has_put_document cid)
  moreover have "latest_by cr_updated_at (map ?f (filter ?P (t_contracts d))) = Some (?f (hd (filter ?P (t_contracts d))))"
    by (rule latest_by_update_all [OF ne]) (simp add: put_document_def)
  ultimately show "stored_contract (put_contract now cid c d) cid = Some c"
    by (simp add: stored_contract_def put_contract_def) (simp add: put_document_def)
next
  fix d cid cid' and c :: contract
  assume "ct_contract_id c = cid" "cid' \<noteq> cid"
  then show "stored_contract (put_contract now cid c d) cid' = stored_contract d cid'"
    by (simp add: stored_contract_def put_contract_def filter_other_id)
next
  fix d cid and c :: contract
  assume "stored_contract d cid = Some c"
  then obtain r where r: "latest_by cr_updated_at (filter (row_has_contract_id cid) (t_contracts d)) = Some r"
    and c: "decode_stored (cr_contract r) = Inr c"
    by (auto simp: stored_contract_def split: option.splits sum.splits)
  from latest_by_in [OF r] have "jget ''contract_id'' (cr_contract r) = JStr cid"
    by (simp add: row_has_contract_id_def)
  with c show "ct_contract_id c = cid" by (rule decode_stored_id)
qed

lemma stored_contract_all:
  assumes "r \<in> set (t_contracts d)" and "row_has_contract_id cid r"
    and "\<And>x. x \<in> set (t_contracts d) \<Longrightarrow> row_has_contract_id cid x \<Longrightarrow> cr_contract x = enc_contract c"
  shows "stored_contract d cid = Some c"
proof -
  have "filter (row_has_contract_id cid) (t_contracts d) \<noteq> []"
    using assms(1,2) by (auto simp: filter_empty_conv)
  then obtain x where x: "latest_by cr_updated_at (filter (row_has_contract_id cid) (t_contracts d)) = Some x"
    by (metis latest_by_None option.exhaust)
  from latest_by_in [OF x] have "cr_contract x = enc_contract c" by (auto intro: assms(3))
  then show ?thesis by (simp add: stored_contract_def x)
qed

lemma stored_contract_filter:
  "filter (row_has_contract_id cid) (t_contracts d) = filter (row_has_contract_id cid) (t_contracts d') \<Longrightarrow>
   stored_contract d cid = stored_contract d' cid"
  by (simp add: stored_contract_def)

lemma row_has_contract_id_enc [simp]:
  "cr_contract r = enc_contract c \<Longrightarrow> row_has_contract_id cid r \<longleftrightarrow> ct_contract_id c = cid"
  by (simp add: row_has_contract_id_def)

lemma load_contract_Some:
  "load_contract W d cid = Inr (Some c) \<longleftrightarrow>
     w_fault W (Db ''GetContractByContractID'' [cid]) = None \<and> stored_contract d cid = Some c"
  by (auto simp: load_contract_def get_contract_by_contract_id_def stored_contract_def db_read_def
      split: option.splits sum.splits)

lemma stored_contract_cong: "t_contracts d = t_contracts d' \<Longrightarrow> stored_contract d = stored_contract d'"
  by (simp add: stored_contract_def fun_eq_iff)

lemma t_contracts_put_contract_frame [simp, frame_simps]:
  "t_final (put_contract now cid c d) = t_final d"
  "t_audit (put_contract now cid c d) = t_audit d"
  "t_events (put_contract now cid c d) = t_events d"
  "t_keys (put_contract now cid c d) = t_keys d"
  by (simp_all add: put_contract_def)

text \<open>A write that reports a row was the store's write; one that does not changed nothing.\<close>

lemma update_contract_True:
  "update_contract_by_contract_id W cid (enc_contract c) d = (Inr True, d') \<Longrightarrow> d' = put_contract (w_now W) cid c d"
  by (simp add: update_contract_by_contract_id_def db_write_Inr put_contract_def)

lemma update_contract_not_True:
  "update_contract_by_contract_id W cid raw d = (r, d') \<Longrightarrow> r \<noteq> Inr True \<Longrightarrow> d' = d"
proof -
  assume u: "update_contract_by_contract_id W cid raw d = (r, d')" and r: "r \<noteq> Inr True"
  show "d' = d"
  proof (cases "w_fault W (Db ''UpdateContractByContractID'' [cid])")
    case (Some e)
    then show ?thesis using u by (simp add: update_contract_by_contract_id_def db_write_def)
  next
    case None
    then have "\<not> list_ex (row_has_contract_id cid) (t_contracts d)"
      using u r by (auto simp: update_contract_by_contract_id_def db_write_def)
    then have "update_rows (row_has_contract_id cid) (put_document raw (w_now W)) (t_contracts d) = t_contracts d"
      by (intro update_rows_id) (auto simp: list_ex_iff)
    then show ?thesis using u None by (simp add: update_contract_by_contract_id_def db_write_def)
  qed
qed

lemma update_contract_stored:
  "stored_contract d cid \<noteq> None \<Longrightarrow> w_fault W (Db ''UpdateContractByContractID'' [cid]) = None \<Longrightarrow>
   \<exists>d'. update_contract_by_contract_id W cid raw d = (Inr True, d')"
proof -
  assume s: "stored_contract d cid \<noteq> None" and f: "w_fault W (Db ''UpdateContractByContractID'' [cid]) = None"
  have "filter (row_has_contract_id cid) (t_contracts d) \<noteq> []" using s by (auto simp: stored_contract_def)
  then have "list_ex (row_has_contract_id cid) (t_contracts d)" by (simp add: filter_empty_conv list_ex_iff)
  then show ?thesis using f by (simp add: update_contract_by_contract_id_def db_write_def)
qed

section \<open>When a run is authorised\<close>

definition good_signature :: "server \<Rightarrow> world \<Rightarrow> db \<Rightarrow> string \<Rightarrow> signature \<Rightarrow> string \<Rightarrow> bool" where
  "good_signature S W d hash sig provider_id \<longleftrightarrow>
     sg_value sig \<noteq> '''' \<and> sg_signed_hash sig = hash \<and>
     (provider_id = '''' \<or> provider_id_for_username (sg_signer sig) = provider_id) \<and>
     (case provider_public_key W d (sg_signer sig) of
        Inl e \<Rightarrow> False | Inr pub \<Rightarrow> verifies S pub hash (sg_value sig))"

definition data_parties_consent :: "server \<Rightarrow> world \<Rightarrow> db \<Rightarrow> contract \<Rightarrow> bool" where
  "data_parties_consent S W d c \<longleftrightarrow> data_providers c \<noteq> [] \<and>
     list_all (\<lambda>p. good_signature S W d (ct_contract_hash c) (dp_signature p) (party_provider_id p))
       (data_providers c)"

definition infra_parties_consent :: "server \<Rightarrow> world \<Rightarrow> db \<Rightarrow> contract \<Rightarrow> bool" where
  "infra_parties_consent S W d c \<longleftrightarrow>
     list_all (\<lambda>ip. ip_id ip = '''' \<or> good_signature S W d (ct_contract_hash c) (ip_signature ip) '''')
       (infra_providers c)"

definition run_authorised :: "server \<Rightarrow> world \<Rightarrow> db \<Rightarrow> string \<Rightarrow> contract \<Rightarrow> bool" where
  "run_authorised S W d cid c \<longleftrightarrow>
     cid \<noteq> '''' \<and> srv_has_db S \<and> load_contract W d cid = Inr (Some c) \<and> signable c \<and>
     content_matches_signed_hash S c \<and> governance_signature_ok S c (ct_contract_hash c) \<and>
     data_parties_consent S W d c \<and>
     (\<not> (needs_job_approval c \<and> cfg_require_infra_approval (srv_cfg S)) \<or> infra_parties_consent S W d c) \<and>
     list_all (\<lambda>p. \<not> consent_expired (w_now W) p) (data_providers c)"

lemma signature_error_None:
  "signature_error S W d hash hash_ok sig want = None \<longleftrightarrow> hash_ok \<and> good_signature S W d hash sig want"
  by (auto simp: signature_error_def good_signature_def split: sum.splits option.splits)

lemma check_party_valid [simp]:
  "ps_valid (check_party S W d hash hash_ok st sig want) \<longleftrightarrow> hash_ok \<and> good_signature S W d hash sig want"
  by (simp add: check_party_def Let_def signature_error_None)

lemma owner_of_Nil [simp]: "owner_of [] i = ''''"
  by (simp add: owner_of_def)

lemma list_all_filter: "list_all P (filter Q xs) \<longleftrightarrow> list_all (\<lambda>x. \<not> Q x \<or> P x) xs"
  by (induction xs) auto

lemma verify_contract_signatures_all_valid:
  "snd (snd (verify_contract_signatures S W d c)) \<longleftrightarrow>
     content_matches_signed_hash S c \<and> governance_signature_ok S c (ct_contract_hash c) \<and>
     data_parties_consent S W d c \<and>
     (\<not> (needs_job_approval c \<and> cfg_require_infra_approval (srv_cfg S)) \<or> infra_parties_consent S W d c)"
proof (cases "content_matches_signed_hash S c")
  case True
  then show ?thesis
    by (auto simp: verify_contract_signatures_def provider_signatures_def Let_def list.pred_map o_def
        data_parties_consent_def infra_parties_consent_def list_all_filter)
next
  case False
  then show ?thesis by (simp add: verify_contract_signatures_def Let_def split: prod.split)
qed

lemma verify_contract_signatures_hash_ok [simp]:
  "fst (snd (verify_contract_signatures S W d c)) = content_matches_signed_hash S c"
  by (simp add: verify_contract_signatures_def Let_def split: prod.split)

lemma consent_expiry_error_None:
  "consent_expiry_error W c now = None \<longleftrightarrow> list_all (\<lambda>p. \<not> consent_expired now p) (data_providers c)"
proof (cases "List.find (consent_expired now) (data_providers c)")
  case None
  then have "\<forall>p \<in> set (data_providers c). \<not> consent_expired now p" by (auto simp: find_None_iff)
  then show ?thesis by (simp add: consent_expiry_error_def None list_all_iff)
next
  case (Some p)
  then show ?thesis using find_Some [OF Some] by (auto simp: consent_expiry_error_def Let_def list_all_iff)
qed

lemma gate_iff_authorised:
  "require_all_providers_signed S W d cid = Inr c \<longleftrightarrow> run_authorised S W d cid c"
proof (cases "cid \<noteq> '''' \<and> srv_has_db S \<and> load_contract W d cid = Inr (Some c) \<and> signable c")
  case True
  obtain parties hash_ok all_valid where v: "verify_contract_signatures S W d c = (parties, hash_ok, all_valid)"
    by (metis surj_pair)
  have hash_ok: "hash_ok = content_matches_signed_hash S c"
    using v verify_contract_signatures_hash_ok [of S W d c] by simp
  have all_valid: "all_valid \<longleftrightarrow> content_matches_signed_hash S c \<and> governance_signature_ok S c (ct_contract_hash c) \<and>
     data_parties_consent S W d c \<and>
     (\<not> (needs_job_approval c \<and> cfg_require_infra_approval (srv_cfg S)) \<or> infra_parties_consent S W d c)"
    using v verify_contract_signatures_all_valid [of S W d c] by simp
  show ?thesis
    using True consent_expiry_error_None [of W c "w_now W"]
    unfolding require_all_providers_signed_def run_authorised_def
    by (cases "consent_expiry_error W c (w_now W)") (auto simp: v hash_ok all_valid)
next
  case False
  then show ?thesis
    unfolding require_all_providers_signed_def run_authorised_def
    by (auto split: sum.splits option.splits prod.splits if_splits)
qed

section \<open>What a hash binds\<close>

text \<open>Two different documents with the same digest.\<close>

definition hash_collision :: "crypto \<Rightarrow> json \<Rightarrow> json \<Rightarrow> bool" where
  "hash_collision C a b \<longleftrightarrow> a \<noteq> b \<and>
     hex_encode C (sha256_sum C (json_bytes C a)) = hex_encode C (sha256_sum C (json_bytes C b))"

lemma compute_hash_binds:
  assumes "compute_hash C c = Inr h" and "compute_hash C c' = Inr h"
  shows "unsigned c = unsigned c' \<or> hash_collision C (enc_contract (unsigned c)) (enc_contract (unsigned c'))"
  using assms by (auto simp: compute_hash_def hash_collision_def Let_def split: if_splits)

section \<open>Recording a provider's signature\<close>

lemma put_provider_signature_simps [simp]:
  "ct_contract_id (put_provider_signature pid sig c) = ct_contract_id c"
  "ct_contract_hash (put_provider_signature pid sig c) = ct_contract_hash c"
  "ct_job_id (put_provider_signature pid sig c) = ct_job_id c"
  "ct_amendment (put_provider_signature pid sig c) = ct_amendment c"
  "ct_governance_signature (put_provider_signature pid sig c) = ct_governance_signature c"
  "unsigned (put_provider_signature pid sig c) = unsigned c"
  "compute_hash C (put_provider_signature pid sig c) = compute_hash C c"
  "needs_job_approval (put_provider_signature pid sig c) = needs_job_approval c"
  "signable (put_provider_signature pid sig c) = signable c"
  "data_providers (put_provider_signature pid sig c) =
     map (\<lambda>p. if party_provider_id p = pid then set_data_sig sig p else p) (data_providers c)"
  "infra_providers (put_provider_signature pid sig c) = infra_providers c"
  by (simp_all add: put_provider_signature_def signable_def) (simp add: update_rows_def)

lemma sign_checks_Inr:
  assumes "sign_checks S W auth cid body d = Inr (signer, b, c, hash)"
  shows "provider_token_identity S W auth = Inr signer" and "body = Some b"
    and "load_contract W d cid = Inr (Some c)" and "signable c" and "signing_allowed S W d c = Inr True"
    and "hash = ct_contract_hash c" and "sb_contract_hash b = hash" and "content_matches_signed_hash S c"
    and "governance_signature_valid S c hash" and "sb_signature b \<noteq> ''''"
    and "list_ex (\<lambda>p. party_provider_id p = provider_id_for_username (pi_username signer)) (data_providers c)"
    and "\<exists>pub. provider_public_key W d (pi_username signer) = Inr pub \<and> verifies S pub hash (sb_signature b)"
proof -
  have "\<exists>h pub. provider_token_identity S W auth = Inr signer \<and> body = Some b \<and>
      sb_signature b \<noteq> '''' \<and> load_contract W d cid = Inr (Some c) \<and> signable c \<and>
      signing_allowed S W d c = Inr True \<and> compute_hash (srv_crypto S) c = Inr h \<and>
      hash_to_sign S c h = hash \<and> hash = ct_contract_hash c \<and> hash = sb_contract_hash b \<and>
      governance_signature_valid S c hash \<and>
      list_ex (\<lambda>p. party_provider_id p = provider_id_for_username (pi_username signer)) (data_providers c) \<and>
      provider_public_key W d (pi_username signer) = Inr pub \<and> verifies S pub hash (sb_signature b)"
    using assms unfolding sign_checks_def Let_def
    by (simp only: early_return) (elim exE conjE, hypsubst, auto)
  then obtain h pub where h: "compute_hash (srv_crypto S) c = Inr h" "hash_to_sign S c h = hash"
    and rest: "provider_token_identity S W auth = Inr signer" "body = Some b"
      "sb_signature b \<noteq> ''''" "load_contract W d cid = Inr (Some c)" "signable c"
      "signing_allowed S W d c = Inr True" "hash = ct_contract_hash c" "hash = sb_contract_hash b"
      "governance_signature_valid S c hash"
      "list_ex (\<lambda>p. party_provider_id p = provider_id_for_username (pi_username signer)) (data_providers c)"
      "provider_public_key W d (pi_username signer) = Inr pub" "verifies S pub hash (sb_signature b)" by blast
  show "content_matches_signed_hash S c"
    using h rest(7) by (auto simp: content_matches_signed_hash_def hash_to_sign_def split: if_splits)
  show "provider_token_identity S W auth = Inr signer" "body = Some b" "load_contract W d cid = Inr (Some c)"
    "signable c" "signing_allowed S W d c = Inr True" "hash = ct_contract_hash c" "sb_contract_hash b = hash"
    "governance_signature_valid S c hash" "sb_signature b \<noteq> ''''"
    "list_ex (\<lambda>p. party_provider_id p = provider_id_for_username (pi_username signer)) (data_providers c)"
    "\<exists>pub. provider_public_key W d (pi_username signer) = Inr pub \<and> verifies S pub hash (sb_signature b)"
    using rest by simp_all
qed

lemma put_provider_signature_gov [simp]:
  "amendment_valid S (put_provider_signature pid sig c) h = amendment_valid S c h"
  "governance_signature_valid S (put_provider_signature pid sig c) h = governance_signature_valid S c h"
  by (simp_all add: amendment_valid_def governance_signature_valid_def)

lemma put_provider_signature_content [simp]:
  "content_matches_signed_hash S (put_provider_signature pid sig c) = content_matches_signed_hash S c"
  by (simp add: content_matches_signed_hash_def split: sum.split)

text \<open>The whole effect of a successful call, and none of a refused one.\<close>

lemma sign_finish_Inr:
  assumes "sign_finish S W cid (signer, b, c, hash) d = (Inr (all_signed, c'), d')"
  shows "c' = put_provider_signature (provider_id_for_username (pi_username signer))
      (signature_over (w_now W) (pi_username signer) hash (sb_signature b)) c"
    and "json_ok (enc_contract c')" and "w_fault W (Db ''UpdateContractByContractID'' [cid]) = None"
    and "t_contracts d' = t_contracts (put_contract (w_now W) cid c' d)"
    and "t_keys d' = t_keys d" and "t_final d' = t_final d" and "t_audit d' = t_audit d"
    and "all_signed = list_all (\<lambda>p. sg_value (dp_signature p) \<noteq> '''') (data_providers c')"
proof -
  let ?c = "put_provider_signature (provider_id_for_username (pi_username signer))
    (signature_over (w_now W) (pi_username signer) hash (sb_signature b)) c"
  obtain raw where raw: "marshal_contract ?c = Inr raw"
    using assms by (auto simp: sign_finish_def Let_def split: sum.splits)
  then have raw': "raw = enc_contract ?c" and ok: "json_ok (enc_contract ?c)"
    by (simp_all add: marshal_contract_def split: if_splits)
  obtain d1 where d1: "update_contract_by_contract_id W cid raw d = (Inr True, d1)"
    using assms raw
    by (cases "update_contract_by_contract_id W cid raw d")
      (auto simp: sign_finish_def Let_def split: sum.splits bool.splits)
  have put: "d1 = put_contract (w_now W) cid ?c d"
    using d1 unfolding raw' by (rule update_contract_True)
  have c': "c' = ?c" using assms raw d1 by (auto simp: sign_finish_def Let_def)
  show "c' = ?c" by (rule c')
  show "json_ok (enc_contract c')" using ok c' by simp
  show "w_fault W (Db ''UpdateContractByContractID'' [cid]) = None"
    using d1 by (simp add: update_contract_by_contract_id_def db_write_def split: option.splits)
  show "t_contracts d' = t_contracts (put_contract (w_now W) cid c' d)" "t_keys d' = t_keys d"
    "t_final d' = t_final d" "t_audit d' = t_audit d"
    "all_signed = list_all (\<lambda>p. sg_value (dp_signature p) \<noteq> '''') (data_providers c')"
    using assms raw d1 put c' by (auto simp: sign_finish_def Let_def)
qed

lemma sign_contract_Inr:
  assumes "sign_contract S W auth cid body d = (Inr (all_signed, c'), d')"
  obtains signer b c hash where
    "sign_checks S W auth cid body d = Inr (signer, b, c, hash)"
    and "c' = put_provider_signature (provider_id_for_username (pi_username signer))
           (signature_over (w_now W) (pi_username signer) hash (sb_signature b)) c"
    and "t_contracts d' = t_contracts (put_contract (w_now W) cid c' d)"
    and "t_keys d' = t_keys d" and "t_final d' = t_final d" and "t_audit d' = t_audit d"
    and "all_signed = list_all (\<lambda>p. sg_value (dp_signature p) \<noteq> '''') (data_providers c')"
proof -
  obtain signer b c hash where chk: "sign_checks S W auth cid body d = Inr (signer, b, c, hash)"
    and fin: "sign_finish S W cid (signer, b, c, hash) d = (Inr (all_signed, c'), d')"
    using assms by (auto simp: sign_contract_def split: sum.splits)
  from that [OF chk] sign_finish_Inr [OF fin] show thesis by blast
qed

text \<open>What a sign stores depends on the document it read, not on the one it overwrites.\<close>

lemma sign_finish_stores:
  assumes "json_ok (enc_contract (put_provider_signature (provider_id_for_username (pi_username signer))
      (signature_over (w_now W) (pi_username signer) hash (sb_signature b)) c))"
    and "w_fault W (Db ''UpdateContractByContractID'' [cid]) = None" and "stored_contract d cid \<noteq> None"
  shows "\<exists>all_signed c' d'. sign_finish S W cid (signer, b, c, hash) d = (Inr (all_signed, c'), d')"
proof -
  let ?c = "put_provider_signature (provider_id_for_username (pi_username signer))
    (signature_over (w_now W) (pi_username signer) hash (sb_signature b)) c"
  obtain d1 where "update_contract_by_contract_id W cid (enc_contract ?c) d = (Inr True, d1)"
    using update_contract_stored [OF assms(3,2)] by blast
  then show ?thesis using assms(1) by (simp add: sign_finish_def Let_def marshal_contract_def)
qed

lemma sign_contract_Inl: "sign_contract S W auth cid body d = (Inl e, d') \<Longrightarrow> d' = d"
  by (auto simp: sign_contract_def sign_finish_def Let_def split: sum.splits prod.splits bool.splits
      dest: update_contract_not_True)

text \<open>Every signature recorded on a contract is good; a party without one has a blank value.\<close>

definition recorded_good :: "server \<Rightarrow> world \<Rightarrow> db \<Rightarrow> contract \<Rightarrow> bool" where
  "recorded_good S W d c \<longleftrightarrow>
     list_all (\<lambda>p. sg_value (dp_signature p) = '''' \<or>
       good_signature S W d (ct_contract_hash c) (dp_signature p) (party_provider_id p)) (data_providers c)"

lemma provider_public_key_cong: "t_keys d = t_keys d' \<Longrightarrow> provider_public_key W d = provider_public_key W d'"
  by (rule ext) (simp add: provider_public_key_def split: option.split)

lemma good_signature_cong: "t_keys d = t_keys d' \<Longrightarrow> good_signature S W d = good_signature S W d'"
  by (intro ext) (simp add: good_signature_def provider_public_key_cong [of d d'])

lemma dp_signature_set_data_sig [simp]:
  "dp_signature (set_data_sig s p) = s" "dp_id (set_data_sig s p) = dp_id p"
  "dp_name (set_data_sig s p) = dp_name p" "dp_constraints (set_data_sig s p) = dp_constraints p"
  by (simp_all add: set_data_sig_def)

lemma consent_expired_set_data_sig [simp]: "consent_expired now (set_data_sig s p) = consent_expired now p"
  by (simp add: consent_expired_def)

lemma signature_over_simps [simp]:
  "sg_value (signature_over now signer hash v) = v"
  "sg_signed_hash (signature_over now signer hash v) = hash"
  "sg_signer (signature_over now signer hash v) = signer"
  "sg_withdrawn_at (signature_over now signer hash v) = None"
  by (simp_all add: signature_over_def)

lemma sign_checks_good:
  assumes "sign_checks S W auth cid body d = Inr (signer, b, c, hash)"
  shows "good_signature S W d hash (signature_over now (pi_username signer) hash (sb_signature b))
      (provider_id_for_username (pi_username signer))"
  using sign_checks_Inr [OF assms] by (auto simp: good_signature_def)

lemma sign_recorded_good:
  assumes sign: "sign_contract S W auth cid body d = (Inr (all_signed, c'), d')"
    and c: "stored_contract d cid = Some c" and good: "recorded_good S W d c"
  shows "recorded_good S W d' c'"
proof -
  obtain signer b c0 hash where chk: "sign_checks S W auth cid body d = Inr (signer, b, c0, hash)"
    and c': "c' = put_provider_signature (provider_id_for_username (pi_username signer))
           (signature_over (w_now W) (pi_username signer) hash (sb_signature b)) c0"
    and keys: "t_keys d' = t_keys d"
    using sign by (rule sign_contract_Inr) blast
  have c0: "c0 = c" using sign_checks_Inr(3) [OF chk] c by (simp add: load_contract_Some)
  have "hash = ct_contract_hash c" using sign_checks_Inr(6) [OF chk] c0 by simp
  then show ?thesis
    using good sign_checks_good [OF chk, of "w_now W"] good_signature_cong [OF keys]
    unfolding recorded_good_def c' c0 by (auto simp: list_all_iff)
qed

section \<open>Properties of signing and the gate\<close>

definition signed_by :: "string \<Rightarrow> signature \<Rightarrow> contract \<Rightarrow> contract \<Rightarrow> bool" where
  "signed_by provider_id sig c c' \<longleftrightarrow> unsigned c' = unsigned c \<and>
     ct_contract_hash c' = ct_contract_hash c \<and> infra_providers c' = infra_providers c \<and>
     map dp_signature (data_providers c') =
       map (\<lambda>p. if party_provider_id p = provider_id then sig else dp_signature p) (data_providers c)"

lemma sign_contract_signed_by:
  assumes "sign_contract S W auth cid body d = (Inr (all_signed, c'), d')" and "stored_contract d cid = Some c"
  shows "\<exists>signer sig. provider_token_identity S W auth = Inr signer \<and>
    signed_by (provider_id_for_username (pi_username signer)) sig c c'"
proof -
  obtain signer b c0 hash where chk: "sign_checks S W auth cid body d = Inr (signer, b, c0, hash)"
    and c': "c' = put_provider_signature (provider_id_for_username (pi_username signer))
           (signature_over (w_now W) (pi_username signer) hash (sb_signature b)) c0"
    using assms(1) by (rule sign_contract_Inr) blast
  have c0: "c0 = c" using sign_checks_Inr(3) [OF chk] assms(2) by (simp add: load_contract_Some)
  show ?thesis
    using sign_checks_Inr(1) [OF chk]
    by (intro exI [of _ signer] exI [of _ "signature_over (w_now W) (pi_username signer) hash (sb_signature b)"])
      (simp add: signed_by_def c' c0 o_def if_distrib cong: if_cong)
qed


lemma sample_stored [simp]: "ct_contract_id c = cid \<Longrightarrow> stored_contract (sample_db c) cid = Some c"
  by (simp add: stored_contract_def sample_db_def sample_row_def row_has_contract_id_def)

lemma sample_ids [simp]:
  "ct_contract_id sample_draft = ''c''" "ct_contract_id (sample_signed [''a'']) = ''c''"
  "ct_contract_id (sample_signed [''a'', ''b'']) = ''c''"
  by (simp_all add: sample_signed_def sample_draft_def)

lemma sample_sign:
  "\<exists>c d. sign_contract sample_server (sample_world 10) ''Bearer b'' ''c'' (Some (sample_sign_body ''b''))
     (sample_db (sample_signed [''a''])) = (Inr (True, c), d)"
proof -
  have "case sign_contract sample_server (sample_world 10) ''Bearer b'' ''c'' (Some (sample_sign_body ''b''))
     (sample_db (sample_signed [''a''])) of (Inr (all_signed, c), d) \<Rightarrow> all_signed | _ \<Rightarrow> False"
    by code_simp
  then show ?thesis by (auto split: prod.splits sum.splits)
qed


lemma all_signed_opens:
  assumes sign: "sign_contract S W auth cid body d = (Inr (True, c'), d')"
    and stored: "stored_contract d cid = Some c" and good: "recorded_good S W d c"
    and "srv_has_db S" and "cid \<noteq> ''''" and "\<not> job_approval_required c"
    and fresh: "list_all (\<lambda>p. \<not> consent_expired (w_now W) p) (data_providers c)"
  shows "require_all_providers_signed S W d' cid = Inr c'"
proof -
  obtain signer b c0 hash where chk: "sign_checks S W auth cid body d = Inr (signer, b, c0, hash)"
    and c': "c' = put_provider_signature (provider_id_for_username (pi_username signer))
           (signature_over (w_now W) (pi_username signer) hash (sb_signature b)) c0"
    and t: "t_contracts d' = t_contracts (put_contract (w_now W) cid c' d)"
    and all: "list_all (\<lambda>p. sg_value (dp_signature p) \<noteq> '''') (data_providers c')"
    using sign by (rule sign_contract_Inr) blast
  note facts = sign_checks_Inr [OF chk]
  have c0: "c0 = c" using facts(3) stored by (simp add: load_contract_Some)
  have id': "ct_contract_id c' = cid" using contracts.load_id [OF stored] by (simp add: c' c0)
  have "stored_contract d' cid = Some c'"
    unfolding stored_contract_cong [OF t] using stored id' by (intro contracts.load_store) simp_all
  then have load: "load_contract W d' cid = Inr (Some c')" using facts(3) by (simp add: load_contract_Some)
  have "data_providers c' \<noteq> []" using facts(11) by (auto simp: c')
  moreover have "recorded_good S W d' c'" using sign_recorded_good [OF sign stored good] .
  ultimately have "data_parties_consent S W d' c'"
    using all by (auto simp: data_parties_consent_def recorded_good_def list_all_iff)
  moreover have "content_matches_signed_hash S c'"
    using facts(8) by (simp add: c')
  moreover have "governance_signature_ok S c' (ct_contract_hash c')"
    using facts(6,9) by (simp add: governance_signature_ok_def c')
  moreover have "\<not> needs_job_approval c'" using assms(6) c0 by (simp add: c' job_approval_required_def)
  moreover have "signable c'" using facts(4) by (simp add: c')
  moreover have "list_all (\<lambda>p. \<not> consent_expired (w_now W) p) (data_providers c')"
    using fresh by (auto simp: c' c0 list_all_iff)
  ultimately show ?thesis
    unfolding gate_iff_authorised run_authorised_def using load assms(4,5) by simp
qed

text \<open>
  C9. Once the last provider has signed, the run gate opens on the contract just stored, provided
  that each signature recorded before still verifies with the key its signer has now (a provider who
  replaced their key has to sign again), that the contract needs no job approval and that no consent
  has expired; the contract's own end (\<^verbatim>\<open>lifecycle.valid_until\<close>) plays no part.
\<close>

theorem sign_all_opens_gate:
  assumes "sign_contract S W auth cid body d = (Inr (True, c'), d')"
    and "stored_contract d cid = Some c" and "recorded_good S W d c"
    and "srv_has_db S" and "cid \<noteq> ''''" and "\<not> job_approval_required c"
    and "list_all (\<lambda>p. \<not> consent_expired (w_now W) p) (data_providers c)"
  shows "require_all_providers_signed S W d' cid = Inr c'"
  using assms by (rule all_signed_opens)

theorem sign_all_opens_gate_witness:
  "\<exists>c d. require_all_providers_signed sample_server (sample_world 10) d ''c'' = Inr c \<and> data_providers c \<noteq> []"
proof -
  obtain c d where sign: "sign_contract sample_server (sample_world 10) ''Bearer b'' ''c'' (Some (sample_sign_body ''b''))
     (sample_db (sample_signed [''a''])) = (Inr (True, c), d)"
    using sample_sign by blast
  have "require_all_providers_signed sample_server (sample_world 10) d ''c'' = Inr c"
    by (rule sign_all_opens_gate [OF sign, where c = "sample_signed [''a'']"]) (simp, code_simp+)
  moreover from this have "data_providers c \<noteq> []"
    by (simp add: gate_iff_authorised run_authorised_def data_parties_consent_def)
  ultimately show ?thesis by blast
qed

text \<open>
  C4. A contract whose content changed after it was signed does not pass the gate, unless
  gov_layer amended it.
\<close>

theorem gate_refuses_tampered:
  assumes "stored_contract d cid = Some c" and "compute_hash (srv_crypto S) c = Inr h"
    and "h \<noteq> ct_contract_hash c" and "ct_amendment c = None"
  shows "require_all_providers_signed S W d cid \<noteq> Inr c'"
proof
  assume "require_all_providers_signed S W d cid = Inr c'"
  then have "run_authorised S W d cid c'" by (simp add: gate_iff_authorised)
  then have "load_contract W d cid = Inr (Some c')" "content_matches_signed_hash S c'"
    by (simp_all add: run_authorised_def)
  then show False
    using assms by (auto simp: load_contract_Some content_matches_signed_hash_def amendment_valid_def
        split: option.splits)
qed

lemma sample_gate:
  "require_all_providers_signed sample_server (sample_world 10) (sample_db (sample_signed [''a'', ''b''])) ''c'' =
     Inr (sample_signed [''a'', ''b''])"
  unfolding gate_iff_authorised by code_simp

definition sample_tampered :: contract where
  "sample_tampered = (let c = sample_signed [''a'', ''b''] in
     c\<lparr>ct_parties := (ct_parties c)\<lparr>pt_user := (user_party c)\<lparr>up_name := ''v''\<rparr>\<rparr>\<rparr>)"

lemma sample_tampered_id [simp]: "ct_contract_id sample_tampered = ''c''"
  by (simp add: sample_tampered_def Let_def)

theorem gate_refuses_tampered_witness:
  "require_all_providers_signed sample_server (sample_world 10) (sample_db sample_tampered) ''c'' \<noteq>
     Inr sample_tampered"
  by (rule gate_refuses_tampered [where c = sample_tampered and h = "''sha256:cv''"]) (simp, code_simp+)

text \<open>
  C12. What passes the gate unamended is what was hashed when the providers signed: any contract with
  the signed hash has the same content, or the two documents collide under SHA-256.
\<close>

theorem gate_binds_content:
  assumes "require_all_providers_signed S W d cid = Inr c" and "ct_amendment c = None"
    and "compute_hash (srv_crypto S) signed = Inr (ct_contract_hash c)"
  shows "unsigned c = unsigned signed \<or>
    hash_collision (srv_crypto S) (enc_contract (unsigned c)) (enc_contract (unsigned signed))"
proof -
  have "content_matches_signed_hash S c"
    using assms(1) by (simp add: gate_iff_authorised run_authorised_def)
  then have "compute_hash (srv_crypto S) c = Inr (ct_contract_hash c)"
    using assms(2) by (auto simp: content_matches_signed_hash_def amendment_valid_def split: sum.splits option.splits)
  then show ?thesis using assms(3) by (rule compute_hash_binds)
qed

theorem gate_binds_content_witness:
  "unsigned (sample_signed [''a'', ''b'']) = unsigned sample_draft \<or>
    hash_collision sample_crypto (enc_contract (unsigned (sample_signed [''a'', ''b''])))
      (enc_contract (unsigned sample_draft))"
proof -
  have "srv_crypto sample_server = sample_crypto" by (simp add: sample_server_def)
  moreover have "ct_amendment (sample_signed [''a'', ''b'']) = None" by code_simp
  moreover have "compute_hash (srv_crypto sample_server) sample_draft =
      Inr (ct_contract_hash (sample_signed [''a'', ''b'']))" by code_simp
  ultimately show ?thesis using gate_binds_content [OF sample_gate, of sample_draft] by simp
qed

text \<open>
  C1. The run gate passes exactly the authorised contracts: stored, signable, unchanged since they
  were signed (or amended by gov_layer), carrying gov_layer's good signature where one is due, with
  a good signature of every data provider made as that provider's id and, where infra approval is
  required, of every selected infra, and no consent expired.
\<close>

theorem gate_passes_exactly_authorised:
  "require_all_providers_signed S W d cid = Inr c \<longleftrightarrow> run_authorised S W d cid c"
  by (rule gate_iff_authorised)

end
