(* ===== verification/Consent.thy ===== *)
theory Consent
  imports Gate
begin

text \<open>
  How long a data provider's consent lasts: setting its expiry before signing
  (\<^verbatim>\<open>httpapi/consent_expiry.go\<close>), which re-hashes and re-signs the contract and asks everybody
  again, and withdrawing it (\<^verbatim>\<open>httpapi/consent_withdrawal.go\<close>).
\<close>

section \<open>Consent expiry\<close>

definition parse_consent_expiry :: "world \<Rightarrow> string \<Rightarrow> time result" where
  "parse_consent_expiry W v =
     (let v = trim_space v in
      case w_parse_time W rfc3339 v of
        Some t \<Rightarrow> Inr t
      | None \<Rightarrow>
          (case w_parse_time W date_layout v of
             None \<Rightarrow> Inl ''valid_until must be a date (YYYY-MM-DD) or an RFC 3339 time''
           | Some t \<Rightarrow> Inr (t + (24 * hour - second))))"

definition earliest_step :: "data_party \<Rightarrow> time \<Rightarrow> time" where
  "earliest_step p out =
     (case cn_consent_valid_until (dp_constraints p) of
        None \<Rightarrow> out
      | Some u \<Rightarrow> if out = zero_time \<or> u < out then u else out)"

definition earliest_consent_expiry :: "contract \<Rightarrow> time \<Rightarrow> time" where
  "earliest_consent_expiry c fallback = fold earliest_step (data_providers c) fallback"

definition clear_signature :: "signature \<Rightarrow> signature" where
  "clear_signature s = s\<lparr>sg_signed_at := None, sg_algorithm := '''', sg_signed_hash := '''', sg_value := ''''\<rparr>"

definition requested_end :: "contract \<Rightarrow> time" where
  "requested_end c =
     (case lc_requested_valid_until (ct_lifecycle c) of
        Some t \<Rightarrow> t | None \<Rightarrow> lc_valid_until (ct_lifecycle c))"

definition set_party_expiry :: "string \<Rightarrow> time \<Rightarrow> data_party \<Rightarrow> data_party" where
  "set_party_expiry provider_id until p =
     (let p = (if party_provider_id p = provider_id
               then p\<lparr>dp_constraints := (dp_constraints p)\<lparr>cn_consent_valid_until := Some until\<rparr>\<rparr> else p)
      in if sg_value (dp_signature p) \<noteq> '''' then set_data_sig (clear_signature (dp_signature p)) p else p)"

definition put_consent_expiry :: "string \<Rightarrow> time \<Rightarrow> contract \<Rightarrow> contract" where
  "put_consent_expiry provider_id until c =
     (let re = requested_end c;
          c = with_data_providers (map (set_party_expiry provider_id until)) c;
          l = ct_lifecycle c;
          l = (if lc_requested_valid_until l = None \<and> re \<noteq> zero_time
               then l\<lparr>lc_requested_valid_until := Some re\<rparr> else l)
      in c\<lparr>ct_lifecycle := l\<lparr>lc_valid_until := earliest_consent_expiry c re\<rparr>\<rparr>)"

definition not_the_party :: http_error where
  "not_the_party = HttpError 403 ''NOT_A_PARTY'' ''you are not a data provider on this consent request''"

definition owns_party :: "string \<Rightarrow> contract \<Rightarrow> bool" where
  "owns_party provider_id c = list_ex (\<lambda>p. party_provider_id p = provider_id) (data_providers c)"

definition has_signed :: "string \<Rightarrow> contract \<Rightarrow> bool" where
  "has_signed provider_id c =
     list_ex (\<lambda>p. party_provider_id p = provider_id \<and> sg_value (dp_signature p) \<noteq> '''') (data_providers c)"

text \<open>The checks of \<^verbatim>\<open>handleSetConsentExpiry\<close> up to the changed contract, hashed and signed again.\<close>

definition expiry_checks ::
  "server \<Rightarrow> world \<Rightarrow> string \<Rightarrow> string \<Rightarrow> string option \<Rightarrow> db \<Rightarrow>
   (provider_identity \<times> time \<times> contract) response" where
  "expiry_checks S W auth cid valid_until d =
     and_then (provider_token_identity S W auth) (\<lambda>signer.
     and_then (some_or invalid_json valid_until) (\<lambda>v.
     and_then (or_fail (HttpError 400 ''BAD_REQUEST'') (parse_consent_expiry W v)) (\<lambda>until.
     let provider_id = provider_id_for_username (pi_username signer) in
     and_then (or_fail (\<lambda>e. internal_error ''could not load contract'') (load_contract W d cid)) (\<lambda>loaded.
     and_then (some_or (HttpError 404 ''CONTRACT_NOT_FOUND''
         (''contract not found '' @ em_dash @ '' it may have been regenerated'')) loaded) (\<lambda>c.
     require (ct_technique c = ''TEE'' \<or> ct_technique c = ''SMPC'')
       (HttpError 400 ''NOT_SUPPORTED''
         ''consent expiry can be set on TEE and SMPC consent requests only'') (
     require (\<not> (job_approval_required c \<or> ct_governance_signature c = None \<or> srv_gov_key S = None))
       (HttpError 409 ''NOT_SUPPORTED''
         ''this consent request goes through job approval; its consent expiry can't be set here'') (
     require (owns_party provider_id c) not_the_party (
     require (\<not> has_signed provider_id c)
       (HttpError 409 ''ALREADY_SIGNED''
         (''you have already signed this consent request '' @ em_dash @
          '' withdraw consent first to change its expiry'')) (
     require (until > w_now W) (HttpError 400 ''BAD_REQUEST'' ''consent expiry must be in the future'') (
     require (requested_end c = zero_time \<or> until \<le> requested_end c)
       (HttpError 400 ''BAD_REQUEST''
         (''consent expiry can't be after the contract's own end ('' @
          w_format_time W minute_layout (requested_end c) @ '')'')) (
     Inr (signer, until, c))))))))))))"

definition hash_and_govern :: "server \<Rightarrow> world \<Rightarrow> contract \<Rightarrow> contract response" where
  "hash_and_govern S W c =
     and_then (or_fail (\<lambda>e. internal_error (''could not hash contract: '' @ e))
       (compute_hash (srv_crypto S) c)) (\<lambda>hash.
     or_fail (\<lambda>e. internal_error (''could not governance-sign contract: '' @ e))
       (governance_sign S W (c\<lparr>ct_contract_hash := hash\<rparr>)))"

definition expiry_detail :: "world \<Rightarrow> string \<Rightarrow> time \<Rightarrow> string" where
  "expiry_detail W username until =
     username @ '' set consent to expire on '' @ w_format_time W minute_layout until @
       ''; the consent request was updated and re-sent for signature''"

definition expiry_payload :: "contract \<Rightarrow> string \<Rightarrow> string \<Rightarrow> time \<Rightarrow> json" where
  "expiry_payload c provider_id username until = JObj
     [(''type'', JStr ''CONSENT_EXPIRY_SET''), (''contract_id'', JStr (ct_contract_id c)),
      (''job_id'', JStr (ct_job_id c)), (''provider_id'', JStr provider_id),
      (''provider_username'', JStr username), (''consent_valid_until'', JTime until),
      (''contract_hash'', JStr (ct_contract_hash c))]"

definition resigners :: "contract \<Rightarrow> string list" where
  "resigners c = map party_provider_id (filter (\<lambda>p. sg_value (dp_signature p) \<noteq> '''') (data_providers c))"

text \<open>What follows the stored contract: best-effort marks, fresh sign requests, event, notification.\<close>

definition announce_expiry ::
  "server \<Rightarrow> world \<Rightarrow> string \<Rightarrow> provider_identity \<Rightarrow> time \<Rightarrow> string list \<Rightarrow> contract \<Rightarrow> db \<Rightarrow> nat \<times> db" where
  "announce_expiry S W cid signer until again c d =
     (let d = fold (\<lambda>pid. mark_participant_status W c pid '''' '''' ''requested'') again d;
          d = snd (supersede_contract_sign_requests W cid d);
          (sent, d) = notify_contract_signers S W c (pi_username signer) d;
          detail = expiry_detail W (pi_username signer) until;
          d = record_contract_event S W (Some c) ''consent_expiry_set'' detail (pi_username signer) d;
          payload = expiry_payload c (provider_id_for_username (pi_username signer)) (pi_username signer) until;
          d = (if up_name (user_party c) = '''' then d
               else snd (create_notification W (up_id (user_party c)) (up_name (user_party c))
                 (pi_username signer) detail (if json_ok payload then payload else JNull) d))
      in (sent, d))"

definition expiry_finish ::
  "server \<Rightarrow> world \<Rightarrow> string \<Rightarrow> provider_identity \<times> time \<times> contract \<Rightarrow> db \<Rightarrow>
   (nat \<times> contract) response \<times> db" where
  "expiry_finish S W cid x d =
     (case x of (signer, until, c0) \<Rightarrow>
        (case hash_and_govern S W (put_consent_expiry (provider_id_for_username (pi_username signer)) until c0) of
           Inl e \<Rightarrow> (Inl e, d)
         | Inr c \<Rightarrow>
             (case marshal_contract c of
                Inl e \<Rightarrow> (Inl (internal_error e), d)
              | Inr raw \<Rightarrow>
                  (case update_contract_by_contract_id W cid raw d of
                     (Inr True, d) \<Rightarrow>
                       (case announce_expiry S W cid signer until (resigners c0) c d of
                          (sent, d) \<Rightarrow> (Inr (sent, c), d))
                   | (_, d) \<Rightarrow> (Inl (internal_error ''could not store contract''), d)))))"

definition set_consent_expiry ::
  "server \<Rightarrow> world \<Rightarrow> string \<Rightarrow> string \<Rightarrow> string option \<Rightarrow> db \<Rightarrow> (nat \<times> contract) response \<times> db" where
  "set_consent_expiry S W auth cid valid_until d =
     (case expiry_checks S W auth cid valid_until d of Inl e \<Rightarrow> (Inl e, d) | Inr x \<Rightarrow> expiry_finish S W cid x d)"

text \<open>\<^verbatim>\<open>getConsumerContract\<close>.\<close>

definition get_consumer_contract :: "world \<Rightarrow> string \<Rightarrow> string \<Rightarrow> db \<Rightarrow> contract response" where
  "get_consumer_contract W auth cid d =
     and_then (access_token_claims W auth) (\<lambda>claims.
     and_then (or_fail (\<lambda>e. internal_error '''') (load_contract W d cid)) (\<lambda>loaded.
     and_then (some_or (HttpError 404 ''CONTRACT_NOT_FOUND'' '''') loaded) (\<lambda>c.
     require (is_contract_user claims c)
       (HttpError 403 ''NOT_CONTRACT_OWNER'' ''only the consumer who generated this contract can read it'')
       (Inr c))))"

section \<open>Withdrawal\<close>

definition withdraw_checks ::
  "server \<Rightarrow> world \<Rightarrow> string \<Rightarrow> string \<Rightarrow> string option \<Rightarrow> db \<Rightarrow>
   (provider_identity \<times> string \<times> contract) response" where
  "withdraw_checks S W auth cid notification_id d =
     and_then (provider_token_identity S W auth) (\<lambda>signer.
     and_then (some_or invalid_json notification_id) (\<lambda>nid.
     let provider_id = provider_id_for_username (pi_username signer) in
     and_then (or_fail (\<lambda>e. internal_error '''') (load_contract W d cid)) (\<lambda>loaded.
     and_then (some_or (HttpError 404 ''CONTRACT_NOT_FOUND'' '''') loaded) (\<lambda>c.
     require (ct_technique c = ''TEE'')
       (HttpError 400 ''WITHDRAWAL_NOT_SUPPORTED'' ''consent withdrawal is available for TEE contracts only'') (
     require (owns_party provider_id c) (HttpError 403 ''NOT_A_PARTY'' '''') (
     require (has_signed provider_id c)
       (HttpError 409 ''NOT_SIGNED''
         ''you have not given consent on this contract, so there is nothing to withdraw'') (
     Inr (signer, nid, c))))))))"

definition withdrawn_signature :: "time \<Rightarrow> string \<Rightarrow> signature \<Rightarrow> signature" where
  "withdrawn_signature now signer s = (clear_signature s)\<lparr>sg_signer := signer, sg_withdrawn_at := Some now\<rparr>"

definition withdraw_party :: "time \<Rightarrow> string \<Rightarrow> string \<Rightarrow> contract \<Rightarrow> contract" where
  "withdraw_party now signer provider_id c =
     with_data_providers (update_rows (\<lambda>p. party_provider_id p = provider_id)
       (\<lambda>p. set_data_sig (withdrawn_signature now signer (dp_signature p)) p)) c"

definition withdraw_finish ::
  "world \<Rightarrow> string \<Rightarrow> provider_identity \<times> string \<times> contract \<Rightarrow> db \<Rightarrow> time response \<times> db" where
  "withdraw_finish W cid x d =
     (case x of (signer, nid, c) \<Rightarrow>
        let provider_id = provider_id_for_username (pi_username signer);
            c = withdraw_party (w_now W) (pi_username signer) provider_id c
        in case marshal_contract c of
             Inl e \<Rightarrow> (Inl (internal_error ''''), d)
           | Inr raw \<Rightarrow>
               (case update_contract_by_contract_id W cid raw d of
                  (Inr True, d) \<Rightarrow>
                    let d = mark_participant_status W c provider_id (pi_user_id signer) (pi_username signer)
                          ''withdrawn'' d;
                        d = (if nid = '''' then d
                             else snd (respond_to_notification_row W nid provider_id ''withdrawn'' ''consent withdrawn'' d))
                    in (Inr (w_now W), d)
                | (_, d) \<Rightarrow> (Inl (internal_error ''''), d)))"

definition withdraw_consent ::
  "server \<Rightarrow> world \<Rightarrow> string \<Rightarrow> string \<Rightarrow> string option \<Rightarrow> db \<Rightarrow> time response \<times> db" where
  "withdraw_consent S W auth cid notification_id d =
     (case withdraw_checks S W auth cid notification_id d of Inl e \<Rightarrow> (Inl e, d) | Inr x \<Rightarrow> withdraw_finish W cid x d)"

section \<open>The end of a contract is bounded by every consent\<close>

text \<open>Every recorded consent, and the contract's own end when it has one, lies after Go's zero time.\<close>

definition consent_times_set :: "contract \<Rightarrow> bool" where
  "consent_times_set c \<longleftrightarrow> requested_end c \<ge> zero_time \<and>
     list_all (\<lambda>p. case cn_consent_valid_until (dp_constraints p) of None \<Rightarrow> True | Some u \<Rightarrow> u > zero_time)
       (data_providers c)"

definition consent_covers :: "time \<Rightarrow> data_party \<Rightarrow> bool" where
  "consent_covers t p \<longleftrightarrow> (case cn_consent_valid_until (dp_constraints p) of None \<Rightarrow> True | Some u \<Rightarrow> t \<le> u)"

lemma fold_earliest:
  assumes "list_all (\<lambda>p. case cn_consent_valid_until (dp_constraints p) of None \<Rightarrow> True | Some u \<Rightarrow> u > 0) ps"
    and "out \<ge> 0"
  shows "(0 < out \<longrightarrow> 0 < fold earliest_step ps out \<and> fold earliest_step ps out \<le> out) \<and>
    0 \<le> fold earliest_step ps out \<and> list_all (consent_covers (fold earliest_step ps out)) ps"
  using assms
proof (induction ps arbitrary: out)
  case Nil
  then show ?case by simp
next
  case (Cons p ps)
  have step: "0 \<le> earliest_step p out" "0 < out \<longrightarrow> 0 < earliest_step p out \<and> earliest_step p out \<le> out"
    "case cn_consent_valid_until (dp_constraints p) of None \<Rightarrow> True
     | Some u \<Rightarrow> 0 < earliest_step p out \<and> earliest_step p out \<le> u"
    using Cons.prems by (auto simp: earliest_step_def split: option.splits)
  then show ?case
    using Cons.IH [of "earliest_step p out"] Cons.prems
    by (auto simp: consent_covers_def split: option.splits)
qed

lemma party_provider_id_set_expiry [simp]:
  "party_provider_id (set_party_expiry pid until p) = party_provider_id p"
  "dp_name (set_party_expiry pid until p) = dp_name p"
  by (simp_all add: set_party_expiry_def Let_def party_provider_id_def set_data_sig_def)

lemma consent_set_expiry [simp]:
  "cn_consent_valid_until (dp_constraints (set_party_expiry pid until p)) =
     (if party_provider_id p = pid then Some until else cn_consent_valid_until (dp_constraints p))"
  by (simp add: set_party_expiry_def Let_def set_data_sig_def)

lemma value_set_expiry [simp]: "sg_value (dp_signature (set_party_expiry pid until p)) = ''''"
  by (simp add: set_party_expiry_def Let_def set_data_sig_def clear_signature_def)

lemma put_consent_expiry_simps [simp]:
  "data_providers (put_consent_expiry pid until c) = map (set_party_expiry pid until) (data_providers c)"
  "ct_contract_id (put_consent_expiry pid until c) = ct_contract_id c"
  by (simp_all add: put_consent_expiry_def Let_def)

lemma valid_until_put_expiry:
  "lc_valid_until (ct_lifecycle (put_consent_expiry pid until c)) =
     fold earliest_step (map (set_party_expiry pid until) (data_providers c)) (requested_end c)"
  by (simp add: put_consent_expiry_def Let_def earliest_consent_expiry_def)

lemma put_consent_expiry_bounded:
  assumes "consent_times_set c" and "until > 0"
  shows "list_all (consent_covers (lc_valid_until (ct_lifecycle (put_consent_expiry pid until c))))
      (data_providers (put_consent_expiry pid until c)) \<and>
    (requested_end c = 0 \<or> lc_valid_until (ct_lifecycle (put_consent_expiry pid until c)) \<le> requested_end c)"
proof -
  have "list_all (\<lambda>p. case cn_consent_valid_until (dp_constraints p) of None \<Rightarrow> True | Some u \<Rightarrow> u > 0)
      (map (set_party_expiry pid until) (data_providers c))"
    using assms by (auto simp: consent_times_set_def list_all_iff split: option.splits)
  from fold_earliest [OF this, of "requested_end c"] show ?thesis
    using assms(1) by (auto simp: valid_until_put_expiry consent_times_set_def)
qed

section \<open>The effect of the two handlers\<close>

lemma expiry_checks_Inr:
  assumes "expiry_checks S W auth cid v d = Inr (signer, until, c)"
  shows "provider_token_identity S W auth = Inr signer \<and> load_contract W d cid = Inr (Some c) \<and>
    owns_party (provider_id_for_username (pi_username signer)) c \<and>
    \<not> has_signed (provider_id_for_username (pi_username signer)) c \<and> until > w_now W \<and>
    (requested_end c = zero_time \<or> until \<le> requested_end c) \<and> \<not> job_approval_required c"
  using assms unfolding expiry_checks_def Let_def
  by (simp only: early_return) (elim exE conjE, hypsubst, auto)

lemma hash_and_govern_Inr:
  assumes "hash_and_govern S W c = Inr c'"
  shows "\<exists>h k v. compute_hash (srv_crypto S) c = Inr h \<and> srv_gov_key S = Some k \<and> h \<noteq> '''' \<and>
    c' = c\<lparr>ct_contract_hash := h,
           ct_governance_signature := Some (signature_over (w_now W) governance_signer h v)\<rparr>"
  using assms by (auto simp: hash_and_govern_def governance_sign_def)

lemma announce_expiry_frame:
  assumes "announce_expiry S W cid signer until again c d = (sent, d')"
  shows "t_contracts d' = t_contracts d \<and> t_final d' = t_final d \<and> t_audit d' = t_audit d \<and> t_keys d' = t_keys d"
proof -
  have "t_contracts (snd (announce_expiry S W cid signer until again c d)) = t_contracts d \<and>
      t_final (snd (announce_expiry S W cid signer until again c d)) = t_final d \<and>
      t_audit (snd (announce_expiry S W cid signer until again c d)) = t_audit d \<and>
      t_keys (snd (announce_expiry S W cid signer until again c d)) = t_keys d"
    by (simp add: announce_expiry_def Let_def split_beta fold_frame)
  then show ?thesis by (simp add: assms)
qed

lemma set_consent_expiry_Inr:
  assumes "set_consent_expiry S W auth cid v d = (Inr (sent, c'), d')"
  obtains signer until c where
    "expiry_checks S W auth cid v d = Inr (signer, until, c)"
    and "hash_and_govern S W (put_consent_expiry (provider_id_for_username (pi_username signer)) until c) = Inr c'"
    and "t_contracts d' = t_contracts (put_contract (w_now W) cid c' d)" and "t_keys d' = t_keys d"
proof -
  obtain signer until c where chk: "expiry_checks S W auth cid v d = Inr (signer, until, c)"
    using assms by (auto simp: set_consent_expiry_def expiry_finish_def split: sum.splits)
  obtain c1 where hg: "hash_and_govern S W (put_consent_expiry (provider_id_for_username (pi_username signer)) until c) = Inr c1"
    using assms chk by (auto simp: set_consent_expiry_def expiry_finish_def split: sum.splits)
  obtain raw where raw: "marshal_contract c1 = Inr raw"
    using assms chk hg by (auto simp: set_consent_expiry_def expiry_finish_def split: sum.splits)
  then have raw': "raw = enc_contract c1" by (simp add: marshal_contract_def split: if_splits)
  obtain d1 where d1: "update_contract_by_contract_id W cid raw d = (Inr True, d1)"
    using assms chk hg raw
    by (cases "update_contract_by_contract_id W cid raw d")
      (auto simp: set_consent_expiry_def expiry_finish_def split: sum.splits bool.splits)
  obtain s e where an: "announce_expiry S W cid signer until (resigners c) c1 d1 = (s, e)" by (metis surj_pair)
  have res: "c' = c1" "d' = e" using assms chk hg raw d1 an by (simp_all add: set_consent_expiry_def expiry_finish_def)
  have "d1 = put_contract (w_now W) cid c1 d" using d1 unfolding raw' by (rule update_contract_True)
  then show thesis using that [OF chk] hg announce_expiry_frame [OF an] unfolding res by simp
qed

lemma set_consent_expiry_succeeds:
  assumes "expiry_checks S W auth cid v d = Inr (signer, until, c0)"
    and "hash_and_govern S W (put_consent_expiry (provider_id_for_username (pi_username signer)) until c0) = Inr c"
    and "json_ok (enc_contract c)"
    and "update_contract_by_contract_id W cid (enc_contract c) d = (Inr True, d1)"
  shows "\<exists>sent d'. set_consent_expiry S W auth cid v d = (Inr (sent, c), d')"
proof -
  obtain s e where "announce_expiry S W cid signer until (resigners c0) c d1 = (s, e)" by (metis surj_pair)
  then show ?thesis using assms by (simp add: set_consent_expiry_def expiry_finish_def marshal_contract_def)
qed

lemma withdraw_checks_Inr:
  assumes "withdraw_checks S W auth cid nid d = Inr (signer, n, c)"
  shows "provider_token_identity S W auth = Inr signer \<and> load_contract W d cid = Inr (Some c) \<and>
    owns_party (provider_id_for_username (pi_username signer)) c \<and>
    has_signed (provider_id_for_username (pi_username signer)) c \<and> ct_technique c = ''TEE''"
  using assms unfolding withdraw_checks_def Let_def
  by (simp only: early_return) (elim exE conjE, hypsubst, auto)

lemma withdraw_consent_Inr:
  assumes "withdraw_consent S W auth cid nid d = (Inr t, d')"
  obtains signer n c where
    "withdraw_checks S W auth cid nid d = Inr (signer, n, c)"
    and "t_contracts d' = t_contracts (put_contract (w_now W) cid
           (withdraw_party (w_now W) (pi_username signer) (provider_id_for_username (pi_username signer)) c) d)"
    and "t_keys d' = t_keys d"
proof -
  obtain signer n c where chk: "withdraw_checks S W auth cid nid d = Inr (signer, n, c)"
    using assms by (auto simp: withdraw_consent_def withdraw_finish_def split: sum.splits)
  let ?c = "withdraw_party (w_now W) (pi_username signer) (provider_id_for_username (pi_username signer)) c"
  obtain raw where raw: "marshal_contract ?c = Inr raw"
    using assms chk by (auto simp: withdraw_consent_def withdraw_finish_def Let_def split: sum.splits)
  then have raw': "raw = enc_contract ?c" by (simp add: marshal_contract_def split: if_splits)
  obtain d1 where d1: "update_contract_by_contract_id W cid raw d = (Inr True, d1)"
    using assms chk raw
    by (cases "update_contract_by_contract_id W cid raw d")
      (auto simp: withdraw_consent_def withdraw_finish_def Let_def split: sum.splits bool.splits)
  have "d1 = put_contract (w_now W) cid ?c d" using d1 unfolding raw' by (rule update_contract_True)
  then show thesis
    using assms chk raw d1 by (intro that [OF chk]) (auto simp: withdraw_consent_def withdraw_finish_def Let_def)
qed

lemma withdraw_party_simps [simp]:
  "ct_contract_id (withdraw_party now u pid c) = ct_contract_id c"
  "ct_contract_hash (withdraw_party now u pid c) = ct_contract_hash c"
  "unsigned (withdraw_party now u pid c) = unsigned c"
  "data_providers (withdraw_party now u pid c) = map (\<lambda>p. if party_provider_id p = pid
     then set_data_sig (withdrawn_signature now u (dp_signature p)) p else p) (data_providers c)"
  "infra_providers (withdraw_party now u pid c) = infra_providers c"
  by (simp_all add: withdraw_party_def) (simp add: update_rows_def)

section \<open>Properties of consent\<close>

lemma blank_refused:
  assumes "stored_contract d cid = Some c" and "p \<in> set (data_providers c)" and "sg_value (dp_signature p) = ''''"
  shows "require_all_providers_signed S W d cid \<noteq> Inr x"
proof
  assume "require_all_providers_signed S W d cid = Inr x"
  then have "run_authorised S W d cid x" by (simp add: gate_iff_authorised)
  then have "load_contract W d cid = Inr (Some x)" "data_parties_consent S W d x"
    by (simp_all add: run_authorised_def)
  then show False
    using assms by (auto simp: load_contract_Some data_parties_consent_def good_signature_def list_all_iff)
qed


lemma withdraw_effect:
  assumes "withdraw_consent S W auth cid nid d = (Inr t, d')"
  shows "\<exists>signer c c'. provider_token_identity S W auth = Inr signer \<and>
      stored_contract d cid = Some c \<and> stored_contract d' cid = Some c' \<and>
      unsigned c' = unsigned c \<and> ct_contract_hash c' = ct_contract_hash c \<and>
      filter (\<lambda>p. party_provider_id p \<noteq> provider_id_for_username (pi_username signer)) (data_providers c') =
      filter (\<lambda>p. party_provider_id p \<noteq> provider_id_for_username (pi_username signer)) (data_providers c) \<and>
      list_all (\<lambda>p. party_provider_id p \<noteq> provider_id_for_username (pi_username signer) \<or>
        signature_error S W' d' h ok (dp_signature p) w = Some ''consent withdrawn'') (data_providers c') \<and>
      require_all_providers_signed S W' d' cid \<noteq> Inr c''"
proof -
  obtain signer n c where chk: "withdraw_checks S W auth cid nid d = Inr (signer, n, c)"
    and t: "t_contracts d' = t_contracts (put_contract (w_now W) cid
           (withdraw_party (w_now W) (pi_username signer) (provider_id_for_username (pi_username signer)) c) d)"
    using assms by (rule withdraw_consent_Inr) blast
  let ?pid = "provider_id_for_username (pi_username signer)"
  let ?c = "withdraw_party (w_now W) (pi_username signer) ?pid c"
  note f = withdraw_checks_Inr [OF chk]
  have c: "stored_contract d cid = Some c" using f by (simp add: load_contract_Some)
  have "ct_contract_id ?c = cid" using contracts.load_id [OF c] by simp
  then have stored: "stored_contract d' cid = Some ?c"
    unfolding stored_contract_cong [OF t] using c by (intro contracts.load_store) simp_all
  obtain p where p: "p \<in> set (data_providers c)" "party_provider_id p = ?pid"
    using f by (auto simp: owns_party_def list_ex_iff)
  then have "set_data_sig (withdrawn_signature (w_now W) (pi_username signer) (dp_signature p)) p \<in>
      set (data_providers ?c)" by auto
  then have refused: "require_all_providers_signed S W' d' cid \<noteq> Inr c''"
    by (rule blank_refused [OF stored]) (simp add: withdrawn_signature_def clear_signature_def)
  have others: "filter (\<lambda>p. party_provider_id p \<noteq> ?pid) (data_providers ?c) =
      filter (\<lambda>p. party_provider_id p \<noteq> ?pid) (data_providers c)"
    by (simp add: filter_map o_def) (rule map_idI, simp)
  have "list_all (\<lambda>p. party_provider_id p \<noteq> ?pid \<or>
        signature_error S W' d' h ok (dp_signature p) w = Some ''consent withdrawn'') (data_providers ?c)"
    by (auto simp: list_all_iff signature_error_def withdrawn_signature_def clear_signature_def)
  then show ?thesis using f c stored refused others by (intro exI [of _ signer] exI [of _ c] exI [of _ ?c]) simp
qed

text \<open>
  C5. Withdrawing consent clears the provider's signatures on the stored contract and nothing the
  hash covers or another party signed; from then on the gate refuses every run on that contract,
  naming the withdrawal for that provider.
\<close>

theorem withdraw_closes_gate:
  assumes "withdraw_consent S W auth cid nid d = (Inr t, d')"
  shows "\<exists>signer c c'. provider_token_identity S W auth = Inr signer \<and>
      stored_contract d cid = Some c \<and> stored_contract d' cid = Some c' \<and>
      unsigned c' = unsigned c \<and> ct_contract_hash c' = ct_contract_hash c \<and>
      filter (\<lambda>p. party_provider_id p \<noteq> provider_id_for_username (pi_username signer)) (data_providers c') =
      filter (\<lambda>p. party_provider_id p \<noteq> provider_id_for_username (pi_username signer)) (data_providers c) \<and>
      list_all (\<lambda>p. party_provider_id p \<noteq> provider_id_for_username (pi_username signer) \<or>
        signature_error S W' d' h ok (dp_signature p) w = Some ''consent withdrawn'') (data_providers c') \<and>
      require_all_providers_signed S W' d' cid \<noteq> Inr c''"
  using assms by (rule withdraw_effect)

text \<open>
  A provider who withdrew can sign the same hash again: the result is the contract as if the
  consent had never been withdrawn.
\<close>

theorem resign_after_withdrawal:
  "put_provider_signature pid sig (withdraw_party now u pid c) = put_provider_signature pid sig c"
  by (simp add: put_provider_signature_def withdraw_party_def with_data_providers_def update_rows_def
      data_sig.set_sig_set_sig o_def if_distrib cong: if_cong)

text \<open>
  No run starts once one provider's consent has ended, even with every signature in order.
\<close>

theorem gate_refuses_expired_consent:
  assumes "stored_contract d cid = Some c"
    and "list_ex (\<lambda>p. cn_consent_valid_until (dp_constraints p) = Some u \<and> u < w_now W) (data_providers c)"
  shows "require_all_providers_signed S W d cid \<noteq> Inr c'"
proof
  assume "require_all_providers_signed S W d cid = Inr c'"
  then have "run_authorised S W d cid c'" by (simp add: gate_iff_authorised)
  then have "load_contract W d cid = Inr (Some c')"
    and "list_all (\<lambda>p. \<not> consent_expired (w_now W) p) (data_providers c')"
    by (simp_all add: run_authorised_def)
  then show False using assms by (auto simp: load_contract_Some consent_expired_def list_all_iff list_ex_iff)
qed

section \<open>Witnesses\<close>


theorem withdraw_closes_gate_witness:
  "\<exists>d. stored_contract d ''c'' \<noteq> None \<and>
     require_all_providers_signed sample_server (sample_world 10) d ''c'' \<noteq> Inr (sample_signed [''a'', ''b''])"
proof -
  have "case withdraw_consent sample_server (sample_world 10) ''Bearer b'' ''c'' (Some '''')
     (sample_db (sample_signed [''a'', ''b''])) of (Inr r, d) \<Rightarrow> True | _ \<Rightarrow> False" by code_simp
  then obtain t d' where "withdraw_consent sample_server (sample_world 10) ''Bearer b'' ''c'' (Some '''')
     (sample_db (sample_signed [''a'', ''b''])) = (Inr t, d')" by (auto split: prod.splits sum.splits)
  from withdraw_closes_gate [OF this] show ?thesis by blast
qed

definition sample_expired :: contract where
  "sample_expired = with_data_providers (map (\<lambda>p. p\<lparr>dp_constraints :=
     (dp_constraints p)\<lparr>cn_consent_valid_until := Some 5\<rparr>\<rparr>)) (sample_signed [''a'', ''b''])"

theorem gate_refuses_expired_consent_witness:
  "require_all_providers_signed sample_server (sample_world 10) (sample_db sample_expired) ''c'' \<noteq> Inr sample_expired"
proof -
  have "stored_contract (sample_db sample_expired) ''c'' = Some sample_expired"
    by (rule sample_stored) code_simp
  then show ?thesis by (rule gate_refuses_expired_consent [where u = 5]) code_simp
qed

end
