(* ===== verification/Workloads.thy ===== *)
theory Workloads
  imports Identity
begin

text \<open>
  The workload catalogue (\<^verbatim>\<open>services/workloads.go\<close>, \<^verbatim>\<open>httpapi/workloads_catalog.go\<close>): the
  workloads whose image and resources the server fixes, and whether a dataset's policy allows
  one. The gate on workloads (\<^verbatim>\<open>httpapi/workload_policy.go\<close>) is switched off in the code.
\<close>

record known_workload =
  kw_name :: string
  kw_image :: string
  kw_resources :: workload_resources
  kw_purposes :: "string list"

definition known_workloads :: "(string \<times> known_workload) list" where
  "known_workloads =
     [(''credits-evaluation'', \<lparr>kw_name = ''Credits Evaluation'',
        kw_image = ''docker.io/rohithvaidya/mnist-vault-workload@sha256:e155df758090022a9ca9d1ff6574bf7e5c3d1975c7e14f5d62f4a11054bbddd8'',
        kw_resources = \<lparr>wr_cpu = ''250m'', wr_memory = ''512Mi''\<rparr>,
        kw_purposes = [''research'', ''benchmarking'', ''internal'']\<rparr>),
      (''market-offer-generation'', \<lparr>kw_name = ''Market Offer Generation'',
        kw_image = ''docker.io/rohithvaidya/logreg-workload@sha256:5ad1cbf6079130b3f1ae527246ebf629ca435b919ed1ca9e39c9b7e780df5525'',
        kw_resources = \<lparr>wr_cpu = ''250m'', wr_memory = ''512Mi''\<rparr>,
        kw_purposes = [''research'', ''clinical'', ''benchmarking'']\<rparr>)]"

definition known_workload_of :: "string \<Rightarrow> known_workload option" where
  "known_workload_of wid = map_of known_workloads wid"

definition workload_name :: "string \<Rightarrow> string" where
  "workload_name wid =
     (case known_workload_of wid of
        Some w \<Rightarrow> if kw_name w \<noteq> '''' then kw_name w else wid | None \<Rightarrow> wid)"

text \<open>
  \<^verbatim>\<open>ListKnownWorkloads\<close>: id, name, image, cpu, memory and purposes of each entry, sorted by id
  (the list above is in that order).
\<close>

record workload_info =
  wi_id :: string
  wi_name :: string
  wi_image :: string
  wi_cpu :: string
  wi_memory :: string
  wi_purposes :: "string list"

definition list_known_workloads :: "workload_info list" where
  "list_known_workloads =
     map (\<lambda>(i, w). \<lparr>wi_id = i, wi_name = kw_name w, wi_image = kw_image w,
        wi_cpu = wr_cpu (kw_resources w), wi_memory = wr_memory (kw_resources w),
        wi_purposes = kw_purposes w\<rparr>) known_workloads"

text \<open>An entry of \<^verbatim>\<open>rules.allowed_workloads\<close>: a bare id or an object with one; blank when neither.\<close>

definition allowed_workload_id :: "json \<Rightarrow> string" where
  "allowed_workload_id a = (case a of JStr s \<Rightarrow> s | JObj kvs \<Rightarrow> claim_str ''id'' (JObj kvs) | _ \<Rightarrow> '''')"

definition allowed_workloads :: "json \<Rightarrow> json list" where
  "allowed_workloads policy =
     (case jget ''rules'' policy of
        JObj kvs \<Rightarrow> (case jget ''allowed_workloads'' (JObj kvs) of JArr as \<Rightarrow> as | _ \<Rightarrow> [])
      | _ \<Rightarrow> [])"

definition policy_allows_workload :: "json \<Rightarrow> string \<Rightarrow> bool" where
  "policy_allows_workload policy workload_id =
     (let allowed = allowed_workloads policy in
      if allowed = [] then True
      else list_ex (\<lambda>a. allowed_workload_id a \<noteq> '''' \<and> allowed_workload_id a = workload_id) allowed)"

definition workload_mismatch_message :: "json \<Rightarrow> string \<Rightarrow> string \<Rightarrow> string" where
  "workload_mismatch_message policy dataset_id workload_id =
     (let names = map workload_name
            (filter (\<lambda>i. i \<noteq> '''') (map allowed_workload_id (allowed_workloads policy)));
          allows = (if names = [] then ''no workload'' else join '', '' names);
          selected = (if workload_id = '''' then ''no workload'' else workload_name workload_id)
      in ''Workload not matching: dataset '' @ dataset_id @ '' allows '' @ allows @
         '', but you selected '' @ selected @ ''. The TEE cannot run with this workload.'')"

definition contract_workload_id :: "contract \<Rightarrow> string" where
  "contract_workload_id c =
     (case application_providers c of [] \<Rightarrow> '''' | ap # aps \<Rightarrow> ap_id ap)"

definition workload_not_allowed :: "string \<Rightarrow> http_error" where
  "workload_not_allowed msg = HttpError 403 ''WORKLOAD_NOT_ALLOWED'' msg"

definition require_workload_allowed :: "contract \<Rightarrow> http_error option" where
  "require_workload_allowed c = None"

text \<open>The outcome of a policy lookup (\<^verbatim>\<open>services.FetchPolicyForDataset\<close>).\<close>

datatype policy_lookup = PolicyFound json | PolicyNotFound string | PolicyFailed string

definition dataset_workload_error :: "(string \<Rightarrow> policy_lookup) \<Rightarrow> contract \<Rightarrow> data_party \<Rightarrow> http_error option" where
  "dataset_workload_error lookup c dp =
     (if dp_dataset_id dp = '''' then
        Some (workload_not_allowed (''dataset '' @ go_quote (dp_dataset_name dp) @ '' on contract '' @
          ct_contract_id c @ '' has no dataset id to check its policy''))
      else case lookup (dp_dataset_id dp) of
          PolicyNotFound e \<Rightarrow> None
        | PolicyFailed e \<Rightarrow> Some (workload_not_allowed
            (''no data-provider policy for dataset '' @ dp_dataset_id dp @ '': '' @ e))
        | PolicyFound policy \<Rightarrow>
            if policy_allows_workload policy (contract_workload_id c) then None
            else Some (workload_not_allowed
              (workload_mismatch_message policy (dp_dataset_id dp) (contract_workload_id c))))"

fun first_error :: "('a \<Rightarrow> 'e option) \<Rightarrow> 'a list \<Rightarrow> 'e option" where
  "first_error f [] = None"
| "first_error f (x # xs) = (case f x of Some e \<Rightarrow> Some e | None \<Rightarrow> first_error f xs)"

definition require_dataset_workloads :: "(string \<Rightarrow> policy_lookup) \<Rightarrow> contract \<Rightarrow> http_error option" where
  "require_dataset_workloads lookup c = first_error (dataset_workload_error lookup c) (data_providers c)"

lemma first_error_None: "first_error f xs = None \<longleftrightarrow> list_all (\<lambda>x. f x = None) xs"
  by (induction xs) (auto split: option.splits)

end
