(* ===== verification/Contract_Edit.thy ===== *)
theory Contract_Edit
  imports Consent Workloads
begin

text \<open>
  The consumer's edit of a TEE contract in place (\<^verbatim>\<open>httpapi/contract_edit.go\<close>): the fields that
  can be edited, the list of changes, gov_layer's amendment over the edited content, and what an
  edit leaves alone.
\<close>

section \<open>The request\<close>

record edit_lifecycle =
  el_valid_from :: "string option"
  el_valid_until :: "string option"

record edit_data =
  ed_dataset_name :: "string option"
  ed_dataset_version :: "string option"
  ed_data_url :: "string option"
  ed_key_resource_path :: "string option"

record edit_workload =
  ew_id :: "string option"
  ew_image :: "string option"
  ew_cpu :: "string option"
  ew_memory :: "string option"

record edit_body =
  eb_lifecycle :: "edit_lifecycle option"
  eb_user :: "string option option"  \<comment> \<open>the user object, and the name in it\<close>
  eb_data_providers :: "edit_data list"
  eb_workload :: "edit_workload option"

abbreviation bad_request :: "string \<Rightarrow> http_error" where
  "bad_request m \<equiv> HttpError 400 ''BAD_REQUEST'' m"

section \<open>Setting a field\<close>

text \<open>A field's new value and the changes recorded so far.\<close>

definition set_str :: "string \<Rightarrow> string option \<Rightarrow> string \<Rightarrow> string list \<Rightarrow> string \<times> string list" where
  "set_str label v dst changes =
     (case v of
        None \<Rightarrow> (dst, changes)
      | Some x \<Rightarrow>
          let nv = trim_space x in
          if nv \<noteq> dst then (nv, changes @ [label @ '' '' @ go_quote dst @ '' -> '' @ go_quote nv])
          else (dst, changes))"

definition set_time ::
  "world \<Rightarrow> string \<Rightarrow> string option \<Rightarrow> time \<Rightarrow> string list \<Rightarrow> (time \<times> string list) response" where
  "set_time W label v dst changes =
     (case v of
        None \<Rightarrow> Inr (dst, changes)
      | Some x \<Rightarrow>
          if trim_space x = '''' then Inr (dst, changes)
          else and_then (some_or (bad_request (label @ '' must be an RFC 3339 time''))
              (w_parse_time W rfc3339 (trim_space x))) (\<lambda>t.
            Inr (if t \<noteq> dst then (t, changes @
                [label @ '' '' @ w_format_time W rfc3339 dst @ '' -> '' @ w_format_time W rfc3339 t])
              else (dst, changes))))"

definition apply_lifecycle ::
  "world \<Rightarrow> edit_lifecycle option \<Rightarrow> contract \<Rightarrow> string list \<Rightarrow> (contract \<times> string list) response" where
  "apply_lifecycle W el c changes =
     (case el of
        None \<Rightarrow> Inr (c, changes)
      | Some l \<Rightarrow>
          and_then (set_time W ''lifecycle.valid_from'' (el_valid_from l)
            (lc_valid_from (ct_lifecycle c)) changes) (\<lambda>(from, changes).
          and_then (set_time W ''lifecycle.valid_until'' (el_valid_until l)
            (lc_valid_until (ct_lifecycle c)) changes) (\<lambda>(until, changes).
          require (\<not> until < from) (bad_request ''valid_until must not be before valid_from'')
            (Inr (c\<lparr>ct_lifecycle := (ct_lifecycle c)\<lparr>lc_valid_from := from, lc_valid_until := until\<rparr>\<rparr>, changes)))))"

definition apply_user :: "string option option \<Rightarrow> contract \<Rightarrow> string list \<Rightarrow> contract \<times> string list" where
  "apply_user u c changes =
     (case u of
        None \<Rightarrow> (c, changes)
      | Some name \<Rightarrow>
          (case set_str ''user.name'' name (up_name (user_party c)) changes of (n, changes) \<Rightarrow>
             (c\<lparr>ct_parties := (ct_parties c)\<lparr>pt_user := (user_party c)\<lparr>up_name := n\<rparr>\<rparr>\<rparr>, changes)))"

definition edit_party :: "nat \<Rightarrow> edit_data \<Rightarrow> data_party \<Rightarrow> string list \<Rightarrow> data_party \<times> string list" where
  "edit_party i e dp changes =
     (let p = ''data_providers['' @ decimal i @ ''].'';
          (name, changes) = set_str (p @ ''dataset_name'') (ed_dataset_name e) (dp_dataset_name dp) changes;
          (version, changes) = set_str (p @ ''dataset_version'') (ed_dataset_version e) (dp_dataset_version dp) changes;
          (url, changes) = set_str (p @ ''data_url'') (ed_data_url e) (dp_data_url dp) changes;
          dp = dp\<lparr>dp_dataset_name := name, dp_dataset_version := version, dp_data_url := url\<rparr>
      in case ed_key_resource_path e of
           None \<Rightarrow> (dp, changes)
         | Some path \<Rightarrow>
             let tr = (case dp_trustee dp of None \<Rightarrow> zero_trustee | Some tr \<Rightarrow> tr);
                 (key, changes) = set_str (p @ ''key_resource_path'') (Some path) (tr_key_resource_path tr) changes
             in (dp\<lparr>dp_trustee := Some (tr\<lparr>tr_key_resource_path := key\<rparr>)\<rparr>, changes))"

fun edit_parties ::
  "nat \<Rightarrow> edit_data list \<Rightarrow> data_party list \<Rightarrow> string list \<Rightarrow> data_party list \<times> string list" where
  "edit_parties i (e # es) (dp # dps) changes =
     (case edit_party i e dp changes of (dp, changes) \<Rightarrow>
        (case edit_parties (i + 1) es dps changes of (dps, changes) \<Rightarrow> (dp # dps, changes)))"
| "edit_parties i es dps changes = (dps, changes)"

text \<open>The workload: another catalogue entry first, then single fields.\<close>

definition set_app_image :: "contract \<Rightarrow> contract" where
  "set_app_image c =
     (case (ct_workload c, application_providers c) of
        (Some w, ap # aps) \<Rightarrow> c\<lparr>ct_parties := (ct_parties c)
          \<lparr>pt_application_providers := ap\<lparr>ap_container_image := wl_image w\<rparr> # aps\<rparr>\<rparr>
      | _ \<Rightarrow> c)"

definition switch_workload ::
  "string \<Rightarrow> workload \<Rightarrow> contract \<Rightarrow> string list \<Rightarrow> contract \<times> string list" where
  "switch_workload wid w c changes =
     (let prev = contract_workload_id c in
      if wid \<noteq> prev then
        let w = (case known_workload_of wid of
              None \<Rightarrow> w | Some k \<Rightarrow> w\<lparr>wl_image := kw_image k, wl_resources := kw_resources k\<rparr>);
            c = c\<lparr>ct_workload := Some w\<rparr>;
            c = (case application_providers c of
                [] \<Rightarrow> c
              | ap # aps \<Rightarrow> c\<lparr>ct_parties := (ct_parties c)\<lparr>pt_application_providers :=
                  ap\<lparr>ap_id := wid, ap_app_name := wid, ap_container_image := wl_image w\<rparr> # aps\<rparr>\<rparr>)
        in (c, changes @ [''workload '' @ go_quote prev @ '' -> '' @ go_quote wid])
      else (c, changes))"

definition blank_opt :: "string option \<Rightarrow> bool" where
  "blank_opt v \<longleftrightarrow> (case v of None \<Rightarrow> True | Some s \<Rightarrow> trim_space s = '''')"

definition choose_workload ::
  "edit_workload \<Rightarrow> workload \<Rightarrow> contract \<Rightarrow> string list \<Rightarrow> (contract \<times> string list) response" where
  "choose_workload ew w c changes =
     (case ew_id ew of
        None \<Rightarrow> Inr (c, changes)
      | Some i \<Rightarrow>
          let wid = trim_space i in
          if wid = '''' then Inr (c, changes)
          else require (\<not> (known_workload_of wid = None \<and> blank_opt (ew_image ew)))
            (HttpError 400 ''UNKNOWN_WORKLOAD''
              (''no workload '' @ wid @ '' in the catalogue '' @ em_dash @ '' send workload.image with it''))
            (Inr (switch_workload wid w c changes)))"

definition set_workload_fields :: "edit_workload \<Rightarrow> contract \<Rightarrow> string list \<Rightarrow> contract \<times> string list" where
  "set_workload_fields ew c changes =
     (case ct_workload c of
        None \<Rightarrow> (c, changes)
      | Some w \<Rightarrow>
          let (image, changes) = set_str ''workload.image'' (ew_image ew) (wl_image w) changes;
              (cpu, changes) = set_str ''workload.cpu'' (ew_cpu ew) (wr_cpu (wl_resources w)) changes;
              (memory, changes) = set_str ''workload.memory'' (ew_memory ew) (wr_memory (wl_resources w)) changes;
              c = c\<lparr>ct_workload := Some (w\<lparr>wl_image := image,
                    wl_resources := (wl_resources w)\<lparr>wr_cpu := cpu, wr_memory := memory\<rparr>\<rparr>)\<rparr>
          in (set_app_image c, changes))"

definition apply_workload ::
  "edit_workload option \<Rightarrow> contract \<Rightarrow> string list \<Rightarrow> (contract \<times> string list) response" where
  "apply_workload ewo c changes =
     (case ewo of
        None \<Rightarrow> Inr (c, changes)
      | Some ew \<Rightarrow>
          and_then (some_or (bad_request ''contract has no workload'') (ct_workload c)) (\<lambda>w.
          and_then (choose_workload ew w c changes) (\<lambda>(c, changes).
          Inr (set_workload_fields ew c changes))))"

definition set_env :: "string \<Rightarrow> string \<Rightarrow> (string \<times> string) list \<Rightarrow> (string \<times> string) list" where
  "set_env k v env = map (\<lambda>(k', v'). if k' = k then (k', v) else (k', v')) env"

text \<open>What the run uses is kept in step with the first dataset.\<close>

definition sync_first_dataset :: "contract \<Rightarrow> contract" where
  "sync_first_dataset c =
     (case data_providers c of
        [] \<Rightarrow> c
      | first # rest \<Rightarrow>
          let wl = map_option (\<lambda>w. w\<lparr>wl_env := set_env ''DATASET_URL'' (dp_data_url first) (wl_env w)\<rparr>) (ct_workload c);
              tr = (case (ct_trustee c, dp_trustee first) of
                  (Some t, Some ft) \<Rightarrow> Some (t\<lparr>jt_key_resource_path := tr_key_resource_path ft\<rparr>)
                | (t, _) \<Rightarrow> t)
          in c\<lparr>ct_workload := wl, ct_trustee := tr\<rparr>)"

definition apply_edit :: "world \<Rightarrow> edit_body \<Rightarrow> contract \<Rightarrow> (contract \<times> string list) response" where
  "apply_edit W b c =
     and_then (apply_lifecycle W (eb_lifecycle b) c []) (\<lambda>(c, changes).
     case apply_user (eb_user b) c changes of (c, changes) \<Rightarrow>
     (case edit_parties 0 (eb_data_providers b) (data_providers c) changes of (dps, changes) \<Rightarrow>
     and_then (apply_workload (eb_workload b) (with_data_providers (\<lambda>x. dps) c) changes) (\<lambda>(c, changes).
     require (changes \<noteq> []) (HttpError 400 ''NO_CHANGES'' ''nothing was changed'')
       (Inr (sync_first_dataset c, changes)))))"

section \<open>The handler\<close>

definition too_many_parties :: "contract \<Rightarrow> edit_body \<Rightarrow> http_error" where
  "too_many_parties c b = bad_request
     (''contract has '' @ decimal (length (data_providers c)) @ '' data provider(s), got '' @
      decimal (length (eb_data_providers b)))"

definition edit_checks ::
  "server \<Rightarrow> world \<Rightarrow> string \<Rightarrow> string \<Rightarrow> edit_body option \<Rightarrow> db \<Rightarrow> (json \<times> edit_body \<times> contract) response" where
  "edit_checks S W auth cid body d =
     and_then (access_token_claims W auth) (\<lambda>claims.
     and_then (some_or invalid_json body) (\<lambda>b.
     require (srv_has_db S) (internal_error ''database not available'') (
     and_then (or_fail (\<lambda>e. internal_error e) (load_contract W d cid)) (\<lambda>loaded.
     and_then (some_or (HttpError 404 ''CONTRACT_NOT_FOUND'' (''no contract '' @ cid)) loaded) (\<lambda>c.
     require (is_contract_user claims c)
       (HttpError 403 ''NOT_CONTRACT_OWNER'' ''only the consumer who generated this contract can edit it'') (
     require (ct_technique c = ''TEE'')
       (HttpError 400 ''EDIT_NOT_SUPPORTED'' ''only TEE contracts can be edited'') (
     require (\<not> length (eb_data_providers b) > length (data_providers c)) (too_many_parties c b) (
     Inr (claims, b, c)))))))))"

definition edit_detail :: "string list \<Rightarrow> string" where
  "edit_detail changes = ''Changed after signing: '' @ join '', '' changes @ '' '' @ em_dash @
     '' accepted by the governance layer, no re-signing needed''"

text \<open>From the checks to the document to store.\<close>

definition edit_steps ::
  "server \<Rightarrow> world \<Rightarrow> string \<Rightarrow> string \<Rightarrow> edit_body option \<Rightarrow> db \<Rightarrow>
   (json \<times> contract \<times> string list \<times> string \<times> json) response" where
  "edit_steps S W auth cid body d =
     and_then (edit_checks S W auth cid body d) (\<lambda>(claims, b, c).
     and_then (apply_edit W b c) (\<lambda>(c, changes).
     and_then (or_fail (\<lambda>e. internal_error (''edit could not be signed: '' @ e)) (amend_sign S W c)) (\<lambda>(hash, c).
     and_then (or_fail (\<lambda>e. internal_error e) (marshal_contract c)) (\<lambda>raw.
     Inr (claims, c, changes, hash, raw)))))"

definition edit_finish ::
  "server \<Rightarrow> world \<Rightarrow> string \<Rightarrow> json \<times> contract \<times> string list \<times> string \<times> json \<Rightarrow> db \<Rightarrow>
   (contract \<times> string list \<times> string) response \<times> db" where
  "edit_finish S W cid x d =
     (case x of (claims, c, changes, hash, raw) \<Rightarrow>
        (case update_contract_by_contract_id W cid raw d of
           (Inr True, d) \<Rightarrow>
             let editor = (if claim_str ''preferred_username'' claims = '''' then claim_str ''sub'' claims
                   else claim_str ''preferred_username'' claims);
                 d = record_contract_event S W (Some c) ''edited'' (edit_detail changes) editor d
             in (Inr (c, changes, hash), d)
         | (Inl e, d) \<Rightarrow> (Inl (internal_error e), d)
         | (Inr False, d) \<Rightarrow> (Inl (internal_error ''contract row not updated''), d)))"

definition edit_contract ::
  "server \<Rightarrow> world \<Rightarrow> string \<Rightarrow> string \<Rightarrow> edit_body option \<Rightarrow> db \<Rightarrow>
   (contract \<times> string list \<times> string) response \<times> db" where
  "edit_contract S W auth cid body d =
     (case edit_steps S W auth cid body d of Inl e \<Rightarrow> (Inl e, d) | Inr x \<Rightarrow> edit_finish S W cid x d)"

section \<open>What an edit leaves alone\<close>

definition same_party :: "data_party \<Rightarrow> data_party \<Rightarrow> bool" where
  "same_party p q \<longleftrightarrow> dp_id q = dp_id p \<and> dp_name q = dp_name p \<and> dp_dataset_id q = dp_dataset_id p \<and>
     dp_constraints q = dp_constraints p \<and> dp_signature q = dp_signature p"

definition same_signers :: "contract \<Rightarrow> contract \<Rightarrow> bool" where
  "same_signers c c' \<longleftrightarrow> ct_contract_id c' = ct_contract_id c \<and> ct_job_id c' = ct_job_id c \<and>
     ct_version c' = ct_version c \<and> ct_technique c' = ct_technique c \<and>
     ct_contract_hash c' = ct_contract_hash c \<and> ct_governance_signature c' = ct_governance_signature c \<and>
     up_id (user_party c') = up_id (user_party c) \<and> infra_providers c' = infra_providers c \<and>
     list_all2 same_party (data_providers c) (data_providers c')"

lemma same_party_refl [simp]: "same_party p p"
  by (simp add: same_party_def)

lemma same_signers_refl [simp]: "same_signers c c"
  by (simp add: same_signers_def list.rel_refl)

lemma same_signers_trans [trans]: "same_signers a b \<Longrightarrow> same_signers b c \<Longrightarrow> same_signers a c"
  unfolding same_signers_def
  by (auto intro: list_all2_trans [of same_party same_party same_party, rotated] simp: same_party_def)

lemma same_signersI:
  "\<lbrakk>ct_contract_id c' = ct_contract_id c; ct_job_id c' = ct_job_id c; ct_version c' = ct_version c;
    ct_technique c' = ct_technique c; ct_contract_hash c' = ct_contract_hash c;
    ct_governance_signature c' = ct_governance_signature c; up_id (user_party c') = up_id (user_party c);
    infra_providers c' = infra_providers c; data_providers c' = data_providers c\<rbrakk> \<Longrightarrow> same_signers c c'"
  by (simp add: same_signers_def list.rel_refl)

lemma apply_lifecycle_same: "apply_lifecycle W el c ch = Inr (c', ch') \<Longrightarrow> same_signers c c'"
  by (auto simp: apply_lifecycle_def split: option.splits intro: same_signersI)

lemma apply_user_same: "apply_user u c ch = (c', ch') \<Longrightarrow> same_signers c c'"
  by (auto simp: apply_user_def split: option.splits prod.splits intro: same_signersI)

lemma edit_party_same: "edit_party i e dp ch = (dp', ch') \<Longrightarrow> same_party dp dp'"
  by (auto simp: edit_party_def Let_def same_party_def split: option.splits prod.splits)

lemma edit_parties_same: "edit_parties i es dps ch = (dps', ch') \<Longrightarrow> list_all2 same_party dps dps'"
proof (induction i es dps ch arbitrary: dps' ch' rule: edit_parties.induct)
  case (1 i e es dp dps ch)
  then show ?case by (auto split: prod.splits dest: edit_party_same)
qed (simp_all add: list.rel_refl)

lemma set_app_image_same [simp]:
  "data_providers (set_app_image c) = data_providers c" "infra_providers (set_app_image c) = infra_providers c"
  "user_party (set_app_image c) = user_party c" "ct_contract_id (set_app_image c) = ct_contract_id c"
  "ct_job_id (set_app_image c) = ct_job_id c" "ct_version (set_app_image c) = ct_version c"
  "ct_technique (set_app_image c) = ct_technique c" "ct_contract_hash (set_app_image c) = ct_contract_hash c"
  "ct_governance_signature (set_app_image c) = ct_governance_signature c"
  by (simp_all add: set_app_image_def split: option.split list.split)

lemma set_workload_fields_same: "set_workload_fields ew c ch = (c', ch') \<Longrightarrow> same_signers c c'"
  by (auto simp: set_workload_fields_def Let_def split: option.splits prod.splits intro: same_signersI)

lemma switch_workload_same: "switch_workload wid w c ch = (c', ch') \<Longrightarrow> same_signers c c'"
  by (auto simp: switch_workload_def Let_def split: option.splits list.splits if_splits intro: same_signersI)

lemma choose_workload_same: "choose_workload ew w c ch = Inr (c', ch') \<Longrightarrow> same_signers c c'"
  by (auto simp: choose_workload_def Let_def split: option.splits if_splits dest: switch_workload_same)

lemma apply_workload_same: "apply_workload ewo c ch = Inr (c', ch') \<Longrightarrow> same_signers c c'"
  by (auto simp: apply_workload_def split: option.splits
      dest: choose_workload_same set_workload_fields_same intro: same_signers_trans)

lemma sync_first_dataset_simps [simp]:
  "data_providers (sync_first_dataset c) = data_providers c"
  by (simp add: sync_first_dataset_def Let_def split: list.split)

lemma sync_first_dataset_same: "same_signers c (sync_first_dataset c)"
  by (auto simp: sync_first_dataset_def Let_def split: list.split intro: same_signersI)

lemma apply_edit_same: "apply_edit W b c = Inr (c', ch) \<Longrightarrow> same_signers c c'"
proof -
  assume e: "apply_edit W b c = Inr (c', ch)"
  obtain c1 ch1 where 1: "apply_lifecycle W (eb_lifecycle b) c [] = Inr (c1, ch1)"
    using e by (auto simp: apply_edit_def)
  obtain c2 ch2 where 2: "apply_user (eb_user b) c1 ch1 = (c2, ch2)" by (metis surj_pair)
  obtain dps ch3 where 3: "edit_parties 0 (eb_data_providers b) (data_providers c2) ch2 = (dps, ch3)"
    by (metis surj_pair)
  obtain c4 where 4: "apply_workload (eb_workload b) (with_data_providers (\<lambda>x. dps) c2) ch3 = Inr (c4, ch)"
    and c': "c' = sync_first_dataset c4"
    using e by (auto simp: apply_edit_def 1 2 3)
  have "same_signers c c2" using apply_lifecycle_same [OF 1] apply_user_same [OF 2] by (rule same_signers_trans)
  also have "same_signers c2 (with_data_providers (\<lambda>x. dps) c2)"
    using edit_parties_same [OF 3] by (simp add: same_signers_def)
  also have "same_signers (with_data_providers (\<lambda>x. dps) c2) c4" using 4 by (rule apply_workload_same)
  also have "same_signers c4 c'" by (simp add: c' sync_first_dataset_same)
  finally show ?thesis .
qed

lemma amend_sign_Inr:
  "amend_sign S W c = Inr (hash, c') \<Longrightarrow> \<exists>k v. srv_gov_key S = Some k \<and>
     compute_hash (srv_crypto S) c = Inr hash \<and> sign_contract_hash (srv_crypto S) k hash = Inr v \<and>
     c' = c\<lparr>ct_amendment := Some (signature_over (w_now W) governance_signer hash v)\<rparr>"
  by (auto simp: amend_sign_def)

lemma edit_checks_Inr:
  assumes "edit_checks S W auth cid body d = Inr (claims, b, c)"
  shows "access_token_claims W auth = Inr claims \<and> body = Some b \<and> srv_has_db S \<and>
    load_contract W d cid = Inr (Some c) \<and> is_contract_user claims c \<and> ct_technique c = ''TEE''"
  using assms unfolding edit_checks_def by (simp only: early_return) (elim exE conjE, hypsubst, auto)

lemma edit_contract_Inr:
  assumes "edit_contract S W auth cid body d = (Inr (c', changes, hash), d')"
  obtains claims b c c1 where
    "edit_checks S W auth cid body d = Inr (claims, b, c)" and "apply_edit W b c = Inr (c1, changes)"
    and "amend_sign S W c1 = Inr (hash, c')"
    and "t_contracts d' = t_contracts (put_contract (w_now W) cid c' d)" and "t_keys d' = t_keys d"
    and "t_final d' = t_final d" and "t_audit d' = t_audit d"
proof -
  obtain claims c2 ch2 h2 raw where steps: "edit_steps S W auth cid body d = Inr (claims, c2, ch2, h2, raw)"
    using assms by (cases "edit_steps S W auth cid body d") (auto simp: edit_contract_def edit_finish_def)
  then obtain b c c1 where chk: "edit_checks S W auth cid body d = Inr (claims, b, c)"
    and app: "apply_edit W b c = Inr (c1, ch2)" and am: "amend_sign S W c1 = Inr (h2, c2)"
    and raw: "marshal_contract c2 = Inr raw" by (auto simp: edit_steps_def)
  have raw': "raw = enc_contract c2" using raw by (simp add: marshal_contract_def split: if_splits)
  obtain d1 where d1: "update_contract_by_contract_id W cid raw d = (Inr True, d1)"
    using assms steps by (cases "update_contract_by_contract_id W cid raw d")
      (auto simp: edit_contract_def edit_finish_def split: sum.splits bool.splits)
  have res: "c' = c2" "changes = ch2" "hash = h2"
    using assms steps d1 by (simp_all add: edit_contract_def edit_finish_def Let_def)
  have d1': "d1 = put_contract (w_now W) cid c2 d" using d1 unfolding raw' by (rule update_contract_True)
  have "t_contracts d' = t_contracts d1 \<and> t_keys d' = t_keys d1 \<and> t_final d' = t_final d1 \<and> t_audit d' = t_audit d1"
    using assms steps d1 by (auto simp: edit_contract_def edit_finish_def Let_def)
  then show thesis using that [OF chk] app am unfolding res d1' by simp
qed

section \<open>Properties of an edit\<close>

text \<open>RSA signing and verification with gov_layer's own key pair agree.\<close>

definition gov_key_sound :: "server \<Rightarrow> bool" where
  "gov_key_sound S \<longleftrightarrow> (\<forall>k h v. srv_gov_key S = Some k \<longrightarrow>
     sign_contract_hash (srv_crypto S) k h = Inr v \<longrightarrow> verifies S (gk_public_key_pem k) h v)"

lemma edit_contract_facts:
  assumes "edit_contract S W auth cid body d = (Inr (c', changes, hash), d')"
  shows "\<exists>claims c. access_token_claims W auth = Inr claims \<and> stored_contract d cid = Some c \<and>
    is_contract_user claims c \<and> ct_technique c = ''TEE'' \<and> changes \<noteq> [] \<and>
    same_signers c c' \<and> compute_hash (srv_crypto S) c' = Inr hash \<and>
    map_option sg_signed_hash (ct_amendment c') = Some hash \<and> stored_contract d' cid = Some c'"
proof -
  obtain claims b c c1 where chk: "edit_checks S W auth cid body d = Inr (claims, b, c)"
    and app: "apply_edit W b c = Inr (c1, changes)" and am: "amend_sign S W c1 = Inr (hash, c')"
    and t: "t_contracts d' = t_contracts (put_contract (w_now W) cid c' d)"
    using assms by (rule edit_contract_Inr) blast
  note f = edit_checks_Inr [OF chk]
  obtain v where h: "compute_hash (srv_crypto S) c1 = Inr hash"
    and c': "c' = c1\<lparr>ct_amendment := Some (signature_over (w_now W) governance_signer hash v)\<rparr>"
    using amend_sign_Inr [OF am] by blast
  have same: "same_signers c c'" using apply_edit_same [OF app] by (simp add: c' same_signers_def)
  have stored: "stored_contract d cid = Some c" using f by (simp add: load_contract_Some)
  have "ct_contract_id c' = cid" using contracts.load_id [OF stored] same by (simp add: same_signers_def)
  then have "stored_contract d' cid = Some c'"
    unfolding stored_contract_cong [OF t] using stored by (intro contracts.load_store) simp_all
  moreover have "changes \<noteq> []" using app by (auto simp: apply_edit_def split_beta)
  ultimately show ?thesis using f same stored h c' by auto
qed

lemma same_signers_consent:
  assumes "same_signers c c'"
  shows "data_parties_consent S W d c' = data_parties_consent S W d c"
    and "infra_parties_consent S W d c' = infra_parties_consent S W d c"
    and "needs_job_approval c' = needs_job_approval c" and "signable c' = signable c"
    and "list_all (\<lambda>p. \<not> consent_expired now p) (data_providers c') =
         list_all (\<lambda>p. \<not> consent_expired now p) (data_providers c)"
    and "governance_signature_ok S c' h = governance_signature_ok S c h"
proof -
  have ps: "list_all2 same_party (data_providers c) (data_providers c')"
    and hash: "ct_contract_hash c' = ct_contract_hash c" and infra: "infra_providers c' = infra_providers c"
    using assms by (simp_all add: same_signers_def)
  have transfer: "list_all P (data_providers c') = list_all P (data_providers c)"
    if "\<And>p q. same_party p q \<Longrightarrow> P q = P p" for P
    using ps that by (induction rule: list_all2_induct) auto
  have nil: "data_providers c' = [] \<longleftrightarrow> data_providers c = []" using ps by (auto simp: list_all2_conv_all_nth)
  have pid: "party_provider_id q = party_provider_id p" if "same_party p q" for p q
    using that by (simp add: same_party_def party_provider_id_def)
  show "data_parties_consent S W d c' = data_parties_consent S W d c"
    unfolding data_parties_consent_def hash nil
    by (rule conj_cong [OF refl]) (rule transfer, simp add: pid, simp add: same_party_def)
  show "infra_parties_consent S W d c' = infra_parties_consent S W d c"
    by (simp add: infra_parties_consent_def hash infra)
  show n: "needs_job_approval c' = needs_job_approval c"
    by (simp add: needs_job_approval_def nil infra)
  show "signable c' = signable c" using assms by (simp add: signable_def same_signers_def)
  show "list_all (\<lambda>p. \<not> consent_expired now p) (data_providers c') =
      list_all (\<lambda>p. \<not> consent_expired now p) (data_providers c)"
    by (rule transfer) (simp add: consent_expired_def same_party_def)
  show "governance_signature_ok S c' h = governance_signature_ok S c h"
    using assms by (simp add: governance_signature_ok_def job_approval_required_def n
        governance_signature_valid_def same_signers_def)
qed

lemma edit_passes_gate:
  assumes edit: "edit_contract S W auth cid body d = (Inr (c', changes, hash), d')"
    and gate: "require_all_providers_signed S W d cid = Inr c" and key: "gov_key_sound S"
  shows "require_all_providers_signed S W d' cid = Inr c'"
proof -
  obtain claims b c0 c1 where chk: "edit_checks S W auth cid body d = Inr (claims, b, c0)"
    and app: "apply_edit W b c0 = Inr (c1, changes)" and am: "amend_sign S W c1 = Inr (hash, c')"
    and keys: "t_keys d' = t_keys d"
    using edit by (rule edit_contract_Inr) blast
  have auth: "run_authorised S W d cid c" using gate by (simp add: gate_iff_authorised)
  have c0: "c0 = c" using edit_checks_Inr [OF chk] auth by (simp add: run_authorised_def)
  obtain k v where k: "srv_gov_key S = Some k" "sign_contract_hash (srv_crypto S) k hash = Inr v"
    and h: "compute_hash (srv_crypto S) c1 = Inr hash"
    and c': "c' = c1\<lparr>ct_amendment := Some (signature_over (w_now W) governance_signer hash v)\<rparr>"
    using amend_sign_Inr [OF am] by blast
  have same: "same_signers c c'" using apply_edit_same [OF app] c0 by (simp add: c' same_signers_def)
  have "hash \<noteq> ''''" using h by (auto simp: compute_hash_def Let_def split: if_splits)
  then have "content_matches_signed_hash S c'"
    using h k key by (simp add: c' content_matches_signed_hash_def amendment_valid_def gov_key_sound_def)
  moreover have "load_contract W d' cid = Inr (Some c')"
    using edit_contract_facts [OF edit] auth by (auto simp: load_contract_Some run_authorised_def)
  moreover have "ct_contract_hash c' = ct_contract_hash c" using same by (simp add: same_signers_def)
  moreover have "data_parties_consent S W d' c' = data_parties_consent S W d c'"
    "infra_parties_consent S W d' c' = infra_parties_consent S W d c'"
    by (simp_all add: data_parties_consent_def infra_parties_consent_def good_signature_cong [OF keys])
  ultimately show ?thesis
    using auth unfolding gate_iff_authorised run_authorised_def
    by (simp add: same_signers_consent [OF same])
qed

text \<open>
  C11. An accepted edit is of the token user's own contract, a TEE contract, and changes something;
  the stored result keeps the contract hash, every provider's identity, consent end and signature
  and gov_layer's signature, and carries an amendment over the hash of its new content.
\<close>

theorem edit_contract_effect:
  assumes "edit_contract S W auth cid body d = (Inr (c', changes, hash), d')"
  shows "\<exists>claims c. access_token_claims W auth = Inr claims \<and> stored_contract d cid = Some c \<and>
    is_contract_user claims c \<and> ct_technique c = ''TEE'' \<and> changes \<noteq> [] \<and>
    same_signers c c' \<and> compute_hash (srv_crypto S) c' = Inr hash \<and>
    map_option sg_signed_hash (ct_amendment c') = Some hash \<and> stored_contract d' cid = Some c'"
  using assms by (rule edit_contract_facts)

text \<open>
  C10. A consumer's edit of a contract that passes the run gate leaves the gate open, without any
  provider signing again; in particular the data URL the edit sent for a dataset (for a contract
  outside job approval) is then accepted by the gate on enclave runs as a dataset of the signed
  contract, whatever it names.
\<close>

theorem edited_contract_still_runs:
  assumes "edit_contract S W auth cid body d = (Inr (c', changes, hash), d')"
    and "require_all_providers_signed S W d cid = Inr c" and "gov_key_sound S"
    and "\<not> job_approval_required c" and "p \<in> set (data_providers c')" and "dp_data_url p \<noteq> ''''"
  shows "require_all_providers_signed S W d' cid = Inr c' \<and>
    require_signed_contract S W d' cid (dp_data_url p) = None"
proof -
  have gate: "require_all_providers_signed S W d' cid = Inr c'" using assms(1-3) by (rule edit_passes_gate)
  have "stored_contract d cid = Some c"
    using assms(2) by (simp add: gate_iff_authorised run_authorised_def load_contract_Some)
  with edit_contract_facts [OF assms(1)] have "same_signers c c'" by auto
  then have "\<not> job_approval_required c'"
    using assms(4) by (simp add: job_approval_required_def same_signers_consent)
  then show ?thesis
    using gate assms(5,6) by (auto simp: require_signed_contract_def require_tee_enabled_def list_ex_iff)
qed

section \<open>Witnesses\<close>

definition sample_edit :: edit_body where
  "sample_edit = \<lparr>eb_lifecycle = None, eb_user = None,
     eb_data_providers = [\<lparr>ed_dataset_name = None, ed_dataset_version = None, ed_data_url = Some ''evil'',
       ed_key_resource_path = None\<rparr>], eb_workload = None\<rparr>"

lemma sample_gov_key_sound: "gov_key_sound sample_server"
  by (auto simp: gov_key_sound_def sample_server_def sample_crypto_def sign_contract_hash_def
      verify_contract_hash_signature_def)

lemma edit_contract_succeeds:
  assumes "edit_steps S W auth cid body d = Inr (claims, c, changes, hash, raw)"
    and "update_contract_by_contract_id W cid raw d = (Inr True, d1)"
  shows "\<exists>d'. edit_contract S W auth cid body d = (Inr (c, changes, hash), d')"
  using assms by (simp add: edit_contract_def edit_finish_def Let_def)

lemma sample_edited:
  "\<exists>c ch h d. edit_contract sample_server (sample_world 10) ''Bearer u'' ''c'' (Some sample_edit)
      (sample_db (sample_signed [''a'', ''b''])) = (Inr (c, ch, h), d) \<and>
    dp_data_url (hd (data_providers c)) = ''evil'' \<and> data_providers c \<noteq> []"
proof -
  have "case edit_steps sample_server (sample_world 10) ''Bearer u'' ''c'' (Some sample_edit)
      (sample_db (sample_signed [''a'', ''b''])) of Inl e \<Rightarrow> False
    | Inr r \<Rightarrow> (case r of (claims, c, changes, hash, raw) \<Rightarrow>
        dp_data_url (hd (data_providers c)) = ''evil'' \<and> data_providers c \<noteq> [])" by code_simp
  from case_Inr_obtain [OF this] obtain claims c ch h raw where
    steps: "edit_steps sample_server (sample_world 10) ''Bearer u'' ''c'' (Some sample_edit)
      (sample_db (sample_signed [''a'', ''b''])) = Inr (claims, c, ch, h, raw)"
    and c: "dp_data_url (hd (data_providers c)) = ''evil''" "data_providers c \<noteq> []" by auto
  obtain d1 where upd: "update_contract_by_contract_id (sample_world 10) ''c'' raw
      (sample_db (sample_signed [''a'', ''b''])) = (Inr True, d1)"
    using update_contract_stored [of "sample_db (sample_signed [''a'', ''b''])" "''c''" "sample_world 10"]
    by (auto simp: sample_world_def)
  show ?thesis using edit_contract_succeeds [OF steps upd] c by blast
qed

theorem edit_contract_effect_witness:
  "\<exists>c c'. ct_contract_hash c' = ct_contract_hash c \<and> c' \<noteq> c \<and> stored_contract (sample_db c) ''c'' = Some c"
proof -
  obtain c ch h d where e: "edit_contract sample_server (sample_world 10) ''Bearer u'' ''c'' (Some sample_edit)
      (sample_db (sample_signed [''a'', ''b''])) = (Inr (c, ch, h), d)"
    and url: "dp_data_url (hd (data_providers c)) = ''evil''" using sample_edited by blast
  have "same_signers (sample_signed [''a'', ''b'']) c" using edit_contract_effect [OF e] by auto
  moreover have "dp_data_url (hd (data_providers (sample_signed [''a'', ''b'']))) \<noteq> ''evil''" by code_simp
  ultimately show ?thesis using url
    by (intro exI [of _ "sample_signed [''a'', ''b'']"] exI [of _ c]) (auto simp: same_signers_def)
qed

theorem edited_contract_still_runs_witness:
  "\<exists>d. require_signed_contract sample_server (sample_world 10) d ''c'' ''evil'' = None"
proof -
  obtain c ch h d where e: "edit_contract sample_server (sample_world 10) ''Bearer u'' ''c'' (Some sample_edit)
      (sample_db (sample_signed [''a'', ''b''])) = (Inr (c, ch, h), d)"
    and url: "dp_data_url (hd (data_providers c)) = ''evil''" "data_providers c \<noteq> []"
    using sample_edited by blast
  have "\<not> job_approval_required (sample_signed [''a'', ''b''])" by code_simp
  moreover have "hd (data_providers c) \<in> set (data_providers c)" using url by simp
  ultimately show ?thesis
    using edited_contract_still_runs [OF e sample_gate sample_gov_key_sound, of "hd (data_providers c)"] url by auto
qed

end
