(* ===== verification/Apd.thy ===== *)
theory Apd
  imports Signing Workloads
begin

text \<open>
  The access policy domain and the catalogues the program asks (\<^verbatim>\<open>services/apd.go\<close>,
  \<^verbatim>\<open>services/catalogue.go\<close>, \<^verbatim>\<open>services/dx_catalogue.go\<close>, \<^verbatim>\<open>services/iudx_apd.go\<close>): where a
  policy is looked up, how it authorises a caller, a provider's own catalogue, the DX catalogue,
  and the consumer grants and policies posted on approval. The other side of each HTTP call is
  \<open>w_http_get\<close> and \<open>w_http_post\<close>; the texts of \<^verbatim>\<open>encoding/json\<close>'s errors are abbreviated.
\<close>

section \<open>Text\<close>

text \<open>\<^verbatim>\<open>strings.ReplaceAll\<close> with a pattern that is not blank.\<close>

function replace_all :: "string \<Rightarrow> string \<Rightarrow> string \<Rightarrow> string" where
  "replace_all pat rep s =
     (if s = '''' \<or> pat = '''' then s
      else if has_prefix s pat then rep @ replace_all pat rep (drop (length pat) s)
      else hd s # replace_all pat rep (tl s))"
  by pat_completeness auto
termination by (relation "measure (\<lambda>(pat, rep, s). length s)") auto

declare replace_all.simps [simp del]

text \<open>\<^verbatim>\<open>strings.Fields\<close>.\<close>

fun fields_from :: "string \<Rightarrow> string \<Rightarrow> string list" where
  "fields_from cur [] = (if cur = '''' then [] else [rev cur])"
| "fields_from cur (c # cs) =
     (if is_space c then (if cur = '''' then fields_from '''' cs else rev cur # fields_from '''' cs)
      else fields_from (c # cur) cs)"

definition string_fields :: "string \<Rightarrow> string list" where
  "string_fields s = fields_from '''' s"

section \<open>Policies\<close>

definition apd_base_url :: "world \<Rightarrow> string result" where
  "apd_base_url W =
     (let base = trim_right_slash (w_getenv W ''APD_BASE_URL'')
      in if base = '''' then Inl ''APD_BASE_URL not set'' else Inr base)"

definition build_policy_paths :: "world \<Rightarrow> string \<Rightarrow> string \<Rightarrow> string list" where
  "build_policy_paths W item_id policy_id =
     (let template = trim_space (w_getenv W ''APD_POLICY_PATH_TEMPLATE'') in
      if template \<noteq> '''' then
        let path = replace_all ''{policy_id}'' policy_id (replace_all ''{item_id}'' item_id template)
        in [if has_prefix path ''/'' then path else ''/'' @ path]
      else (if policy_id \<noteq> '''' then [''/api/v1/policy/'' @ policy_id] else []) @
           (if item_id \<noteq> '''' then [''/api/v1/policy/by-item/'' @ item_id] else []))"

fun try_policy_paths :: "world \<Rightarrow> string \<Rightarrow> string \<Rightarrow> string list \<Rightarrow> policy_lookup" where
  "try_policy_paths W base item_id [] =
     PolicyNotFound (''no policy found in APD for item '' @ go_quote item_id)"
| "try_policy_paths W base item_id (p # ps) =
     (case w_http_get W (base @ p) '''' of
        NetFail e \<Rightarrow> PolicyFailed (''fetch APD policy: '' @ e)
      | HttpReply status body \<Rightarrow>
          if status = 404 then try_policy_paths W base item_id ps
          else if status \<noteq> 200 then PolicyFailed (''APD policy endpoint returned status '' @ decimal status)
          else (case body of
              Some (JObj kvs) \<Rightarrow>
                if is_obj (jget ''data'' (JObj kvs)) then PolicyFound (jget ''data'' (JObj kvs))
                else PolicyFailed ''APD policy response missing data field''
            | Some JNull \<Rightarrow> PolicyFailed ''APD policy response missing data field''
            | _ \<Rightarrow> PolicyFailed ''decode APD policy: invalid JSON''))"

definition fetch_provider_policy :: "world \<Rightarrow> string \<Rightarrow> string \<Rightarrow> policy_lookup" where
  "fetch_provider_policy W item_id policy_id =
     (case apd_base_url W of
        Inl e \<Rightarrow> PolicyFailed e
      | Inr base \<Rightarrow>
          let paths = build_policy_paths W item_id policy_id in
          if paths = [] then PolicyFailed ''no APD policy path candidates''
          else try_policy_paths W base item_id paths)"

definition fetch_infra_policy :: "world \<Rightarrow> string \<Rightarrow> policy_lookup" where
  "fetch_infra_policy W infra_id = fetch_provider_policy W infra_id ''''"

definition is_private_dataset :: "json \<Rightarrow> bool" where
  "is_private_dataset policy =
     (case jget ''is_private'' policy of
        JBool b \<Rightarrow> b
      | _ \<Rightarrow> (case jget ''private'' policy of
          JBool b \<Rightarrow> b
        | _ \<Rightarrow> (case jget ''visibility'' policy of JStr s \<Rightarrow> s = ''private'' | _ \<Rightarrow> False)))"

definition first_string :: "string list \<Rightarrow> json \<Rightarrow> string" where
  "first_string keys m =
     (case List.find (\<lambda>k. claim_str k m \<noteq> '''') keys of None \<Rightarrow> '''' | Some k \<Rightarrow> claim_str k m)"

definition consumer_display_name :: "json \<Rightarrow> string" where
  "consumer_display_name claims = first_string [''preferred_username'', ''name'', ''email'', ''sub''] claims"

section \<open>Which provider and policy a contract names for a dataset\<close>

definition json_array :: "json \<Rightarrow> json list" where
  "json_array j = (case j of JArr js \<Rightarrow> js | _ \<Rightarrow> [])"

definition find_by_id :: "string \<Rightarrow> json list \<Rightarrow> json option" where
  "find_by_id dataset_id ds = List.find (\<lambda>d. is_obj d \<and> jget ''id'' d = JStr dataset_id) ds"

definition fill :: "string \<Rightarrow> string \<Rightarrow> string" where
  "fill cur v = (if cur = '''' then v else cur)"

fun fill_nested :: "json \<Rightarrow> string list \<Rightarrow> string \<times> string \<times> string \<Rightarrow> string \<times> string \<times> string" where
  "fill_nested contract [] acc = acc"
| "fill_nested contract (k # ks) (provider_id, policy_id, action) =
     (let obj = jget k contract in
      if \<not> is_obj obj then fill_nested contract ks (provider_id, policy_id, action)
      else fill_nested contract ks
        (fill provider_id (first_string [''id'', ''provider_id'', ''data_provider_id''] obj),
         fill policy_id (first_string [''policy_id'', ''id_policy''] obj),
         fill action (first_string [''action'', ''operation'', ''purpose''] obj)))"

definition extract_provider_context :: "json \<Rightarrow> string \<Rightarrow> string \<times> string \<times> string" where
  "extract_provider_context contract dataset_id =
     (let provider_id = (case find_by_id dataset_id
            (json_array (jget ''data_providers'' (jget ''parties'' contract))) of
              None \<Rightarrow> '''' | Some d \<Rightarrow> dataset_id);
          (provider_id, policy_id) = (if provider_id \<noteq> '''' then (provider_id, '''')
            else case find_by_id dataset_id (json_array (jget ''datasets'' contract)) of
                None \<Rightarrow> ('''', '''')
              | Some d \<Rightarrow> (claim_str ''provider_id'' d, claim_str ''policy_id'' d));
          provider_id = fill provider_id (first_string [''data_provider_id'', ''provider_id''] contract);
          policy_id = fill policy_id (first_string [''policy_id'', ''data_provider_policy_id''] contract);
          action = first_string [''action'', ''operation'', ''purpose''] contract
      in fill_nested contract [''data_provider'', ''dataProvider'', ''provider''] (provider_id, policy_id, action))"

section \<open>Evaluating a policy\<close>

fun raw_to_strings :: "json \<Rightarrow> string list" where
  "raw_to_strings (JStr s) = (if s = '''' then [] else [s])"
| "raw_to_strings (JArr js) =
     concat (map (\<lambda>j. case j of JStr s \<Rightarrow> if s = '''' then [] else [s] | _ \<Rightarrow> []) js)"
| "raw_to_strings _ = []"

text \<open>\<^verbatim>\<open>valuesByPath\<close>, on a path already split at its dots.\<close>

fun values_by_path :: "json \<Rightarrow> string list \<Rightarrow> string list" where
  "values_by_path cur [] = raw_to_strings cur"
| "values_by_path cur (p # ps) = (if is_obj cur then values_by_path (jget p cur) ps else [])"

definition user_ids_from_claims :: "json \<Rightarrow> string list" where
  "user_ids_from_claims claims =
     raw_to_strings (jget ''sub'' claims) @ raw_to_strings (jget ''preferred_username'' claims) @
     raw_to_strings (jget ''email'' claims) @ raw_to_strings (jget ''username'' claims)"

definition object_values :: "json \<Rightarrow> json list" where
  "object_values j = (case j of JObj kvs \<Rightarrow> map snd kvs | _ \<Rightarrow> [])"

definition roles_from_claims :: "json \<Rightarrow> string list" where
  "roles_from_claims claims =
     raw_to_strings (jget ''roles'' claims) @
     raw_to_strings (jget ''roles'' (jget ''realm_access'' claims)) @
     concat (map (\<lambda>app. raw_to_strings (jget ''roles'' app)) (object_values (jget ''resource_access'' claims)))"

definition scopes_from_claims :: "json \<Rightarrow> string list" where
  "scopes_from_claims claims =
     raw_to_strings (jget ''scp'' claims) @
     concat (map string_fields (raw_to_strings (jget ''scope'' claims)))"

definition intersects :: "string list \<Rightarrow> string list \<Rightarrow> bool" where
  "intersects a b = list_ex (\<lambda>k. List.member b k) a"

definition contains_all :: "string list \<Rightarrow> string list \<Rightarrow> bool" where
  "contains_all xs need = list_all (\<lambda>k. List.member xs k) need"

record policy_rules =
  pl_users :: "string list"
  pl_roles :: "string list"
  pl_required_roles :: "string list"
  pl_scopes :: "string list"
  pl_required_scopes :: "string list"
  pl_actions :: "string list"

definition rules_of :: "json \<Rightarrow> policy_rules" where
  "rules_of policy =
     (let rules = (if is_obj (jget ''rules'' policy) then jget ''rules'' policy else policy);
          values = (\<lambda>paths. concat (map (values_by_path rules) paths))
      in \<lparr>pl_users = values [[''allowed_users''], [''users''], [''access'', ''allowed_users''], [''subjects'']],
          pl_roles = values [[''allowed_roles''], [''roles''], [''access'', ''allowed_roles'']],
          pl_required_roles = values [[''required_roles''], [''access'', ''required_roles'']],
          pl_scopes = values [[''allowed_scopes''], [''scopes''], [''access'', ''allowed_scopes'']],
          pl_required_scopes = values [[''required_scopes''], [''access'', ''required_scopes'']],
          pl_actions = values [[''allowed_actions''], [''actions''], [''access'', ''allowed_actions'']]\<rparr>)"

definition evaluate_policy :: "json \<Rightarrow> json \<Rightarrow> string \<Rightarrow> bool" where
  "evaluate_policy policy claims action =
     (let ids = user_ids_from_claims claims; roles = roles_from_claims claims;
          scopes = scopes_from_claims claims; r = rules_of policy
      in if pl_actions r \<noteq> [] \<and> action \<noteq> '''' \<and> \<not> List.member (pl_actions r) action then False
         else if pl_users r \<noteq> [] \<and> \<not> intersects ids (pl_users r) then False
         else if pl_roles r \<noteq> [] \<and> \<not> intersects roles (pl_roles r) then False
         else if pl_required_roles r \<noteq> [] \<and> \<not> contains_all roles (pl_required_roles r) then False
         else if pl_scopes r \<noteq> [] \<and> \<not> intersects scopes (pl_scopes r) then False
         else if pl_required_scopes r \<noteq> [] \<and> \<not> contains_all scopes (pl_required_scopes r) then False
         else length (pl_users r) + length (pl_roles r) + length (pl_required_roles r) +
           length (pl_scopes r) + length (pl_required_scopes r) + length (pl_actions r) > 0)"

text \<open>
  The notice mailed to the provider of a private dataset: recipient, subject and text. The provider
  directory (\<^verbatim>\<open>ProviderLookup\<close>) is a function from a provider id to an e-mail address and a name.
\<close>

record private_notice =
  pn_to :: string
  pn_subject :: string
  pn_greeting :: string
  pn_text :: string

definition or_default :: "string \<Rightarrow> string \<Rightarrow> string" where
  "or_default s dflt = (if s = '''' then dflt else s)"

definition private_dataset_notice ::
  "world \<Rightarrow> string \<Rightarrow> string \<Rightarrow> string \<Rightarrow> string \<Rightarrow> string \<Rightarrow> private_notice option" where
  "private_dataset_notice W recipient provider_name consumer_name dataset_name technique =
     (if w_getenv W ''SMTP_HOST'' = '''' \<or> w_getenv W ''SMTP_PORT'' = '''' \<or> w_getenv W ''SENDER_EMAIL'' = ''''
      then None
      else let consumer = or_default consumer_name ''A user'';
               dataset = or_default dataset_name ''(unnamed dataset)''
           in Some \<lparr>pn_to = recipient, pn_subject = consumer @ '' is using your dataset '' @ dataset,
             pn_greeting = ''Hello '' @ or_default provider_name ''there'' @ '','',
             pn_text = consumer @ '' is using your dataset '' @ dataset @
               '' via the governance layer (technique: '' @ technique @ '').''\<rparr>)"

definition fetch_policy_for_dataset ::
  "world \<Rightarrow> (string \<Rightarrow> string \<times> string) \<Rightarrow> json \<Rightarrow> string \<Rightarrow> string \<Rightarrow> string \<Rightarrow> string \<Rightarrow> string \<Rightarrow>
   policy_lookup \<times> private_notice option" where
  "fetch_policy_for_dataset W directory claims dataset_id policy_id provider_id dataset_name technique =
     (case fetch_provider_policy W dataset_id policy_id of
        PolicyFound policy \<Rightarrow>
          (PolicyFound policy,
           if is_private_dataset policy \<and> provider_id \<noteq> '''' then
             (case directory provider_id of (email, name) \<Rightarrow>
                if email = '''' then None
                else private_dataset_notice W email name (consumer_display_name claims) dataset_name technique)
           else None)
      | failed \<Rightarrow> (failed, None))"

definition fetch_policy_for_contract_dataset ::
  "world \<Rightarrow> (string \<Rightarrow> string \<times> string) \<Rightarrow> json \<Rightarrow> json \<Rightarrow> string \<Rightarrow> string \<Rightarrow>
   policy_lookup \<times> private_notice option" where
  "fetch_policy_for_contract_dataset W directory contract claims dataset_id dataset_name =
     (case extract_provider_context contract dataset_id of (provider_id, policy_id, action) \<Rightarrow>
        fetch_policy_for_dataset W directory claims dataset_id policy_id provider_id dataset_name
          (first_string [''technique''] contract))"

definition authorize_contract ::
  "world \<Rightarrow> (string \<Rightarrow> string \<times> string) \<Rightarrow> json \<Rightarrow> json \<Rightarrow> string \<Rightarrow> string \<Rightarrow>
   bool result \<times> private_notice option" where
  "authorize_contract W directory contract claims dataset_id dataset_name =
     (case extract_provider_context contract dataset_id of (provider_id, policy_id, action) \<Rightarrow>
        (case fetch_policy_for_dataset W directory claims dataset_id policy_id provider_id dataset_name
            (first_string [''technique''] contract) of
           (PolicyFound policy, n) \<Rightarrow> (Inr (evaluate_policy policy claims action), n)
         | (PolicyNotFound e, n) \<Rightarrow> (Inl e, n)
         | (PolicyFailed e, n) \<Rightarrow> (Inl e, n)))"

section \<open>A dataset's form\<close>

text \<open>\<^verbatim>\<open>FetchDatasetForm\<close>: the credential sent is the forms token.\<close>

definition fetch_dataset_form :: "world \<Rightarrow> string \<Rightarrow> json result" where
  "fetch_dataset_form W dataset_name =
     and_then (apd_base_url W) (\<lambda>base.
     require (dataset_name \<noteq> '''') ''dataset name required to fetch APD provider forms'' (
     case w_http_get W (base @ ''/api/v1/forms/provider-forms?dataset_name='' @ w_query_escape W dataset_name)
         (trim_space (w_getenv W ''APD_FORMS_TOKEN'')) of
       NetFail e \<Rightarrow> Inl (''fetch APD provider forms: '' @ e)
     | HttpReply status body \<Rightarrow>
         if status \<noteq> 200 then Inl (''APD provider-forms endpoint returned status '' @ decimal status)
         else (case body of
             Some (JObj kvs) \<Rightarrow>
               (case json_array (jget ''data'' (JObj kvs)) of
                  [] \<Rightarrow> Inl (''no provider forms found in APD for dataset '' @ go_quote dataset_name)
                | f # fs \<Rightarrow> if is_obj f then Inr f
                    else Inl (''unexpected provider form shape for dataset '' @ go_quote dataset_name))
           | Some JNull \<Rightarrow> Inl (''no provider forms found in APD for dataset '' @ go_quote dataset_name)
           | _ \<Rightarrow> Inl ''decode APD provider forms: invalid JSON'')))"

section \<open>A provider's own catalogue\<close>

record catalogue_item =
  ci_item_id :: string
  ci_name :: string

definition dec_catalogue_item :: "json \<Rightarrow> catalogue_item option" where
  "dec_catalogue_item j = do {
     item_id \<leftarrow> dec_str (jget ''item_id'' j);
     name \<leftarrow> dec_str (jget ''name'' j);
     Some \<lparr>ci_item_id = item_id, ci_name = name\<rparr> }"

definition fetch_provider_catalogue :: "world \<Rightarrow> string \<Rightarrow> string \<Rightarrow> catalogue_item list result" where
  "fetch_provider_catalogue W path provider_id =
     and_then (apd_base_url W) (\<lambda>base.
     case w_http_get W (base @ path @ ''?provider_id='' @ w_query_escape W provider_id) '''' of
       NetFail e \<Rightarrow> Inl (''fetch APD catalogue: '' @ e)
     | HttpReply status body \<Rightarrow>
         if status \<noteq> 200 then Inl (''APD catalogue endpoint returned status '' @ decimal status)
         else some_or ''decode APD catalogue: invalid JSON''
           (Option.bind body (dec_struct (\<lambda>j. dec_list (dec_struct dec_catalogue_item) (jget ''data'' j)))))"

definition list_provider_datasets :: "world \<Rightarrow> string \<Rightarrow> catalogue_item list result" where
  "list_provider_datasets W provider_id = fetch_provider_catalogue W ''/api/v1/policy/mine-datasets'' provider_id"

definition list_provider_infra :: "world \<Rightarrow> string \<Rightarrow> catalogue_item list result" where
  "list_provider_infra W provider_id = fetch_provider_catalogue W ''/api/v1/policy/mine'' provider_id"

definition catalogue_has :: "catalogue_item list \<Rightarrow> string \<Rightarrow> bool" where
  "catalogue_has items item = list_ex (\<lambda>it. ci_item_id it = item \<or> equal_fold (ci_name it) item) items"

section \<open>The DX catalogue\<close>

record dx_item =
  dx_id :: string
  dx_name :: string
  dx_type :: "string list"
  dx_uploaded_by :: string

definition dec_dx_item :: "json \<Rightarrow> dx_item option" where
  "dec_dx_item j = do {
     item_id \<leftarrow> dec_str (jget ''id'' j);
     name \<leftarrow> dec_str (jget ''name'' j);
     ty \<leftarrow> dec_list dec_str (jget ''type'' j);
     uploaded_by \<leftarrow> dec_str (jget ''uploadedBy'' j);
     Some \<lparr>dx_id = item_id, dx_name = name, dx_type = ty, dx_uploaded_by = uploaded_by\<rparr> }"

abbreviation data_bank_type :: string where "data_bank_type \<equiv> ''adex:DataBank''"

definition is_data_bank :: "dx_item \<Rightarrow> bool" where
  "is_data_bank it = List.member (dx_type it) data_bank_type"

datatype dx_error = DxNotFound | DxTokenRefused | DxFailed string

definition dx_error_message :: "dx_error \<Rightarrow> string" where
  "dx_error_message e =
     (case e of DxNotFound \<Rightarrow> ''item not found in DX catalogue''
      | DxTokenRefused \<Rightarrow> ''DX catalogue refused the provider's token'' | DxFailed m \<Rightarrow> m)"

text \<open>\<^verbatim>\<open>result\<close>: an array of items, or a single item; absent, it is no JSON at all.\<close>

definition dx_items :: "json \<Rightarrow> dx_item list option" where
  "dx_items body =
     (case body of
        JObj kvs \<Rightarrow>
          (case map_of kvs ''result'' of
             None \<Rightarrow> None
           | Some r \<Rightarrow> (case dec_list (dec_struct dec_dx_item) r of
               Some items \<Rightarrow> Some items
             | None \<Rightarrow> map_option (\<lambda>i. [i]) (dec_struct dec_dx_item r)))
      | _ \<Rightarrow> None)"

definition fetch_dx_catalogue_item ::
  "world \<Rightarrow> string \<Rightarrow> string \<Rightarrow> string \<Rightarrow> dx_error + dx_item" where
  "fetch_dx_catalogue_item W base_url item_id token =
     (if base_url = '''' then Inl (DxFailed ''CATALOGUE_BASE_URL not set'')
      else case w_http_get W (base_url @ ''/item?id='' @ w_query_escape W item_id) token of
          NetFail e \<Rightarrow> Inl (DxFailed (''DX catalogue request failed: '' @ e))
        | HttpReply status body \<Rightarrow>
            if status = 404 then Inl DxNotFound
            else if status = 401 \<or> status = 403 then Inl DxTokenRefused
            else if status \<noteq> 200 then Inl (DxFailed (''DX catalogue returned status '' @ decimal status))
            else (case Option.bind body dx_items of
                None \<Rightarrow> Inl (DxFailed ''decode DX catalogue response: invalid JSON'')
              | Some [] \<Rightarrow> Inl DxNotFound
              | Some (it # its) \<Rightarrow> if dx_id it = '''' then Inl DxNotFound else Inr it))"

section \<open>Consumer grants\<close>

record consumer_grant =
  cg_job_id :: string
  cg_contract_id :: string
  cg_consumer :: string
  cg_consumer_name :: string
  cg_item_type :: string
  cg_item_id :: string
  cg_item_name :: string
  cg_provider :: string
  cg_expires_at :: time

definition grant_policy_id :: "consumer_grant \<Rightarrow> string" where
  "grant_policy_id g = ''grant-'' @ cg_job_id g @ ''-'' @ cg_item_id g"

definition grant_body :: "consumer_grant \<Rightarrow> json" where
  "grant_body g =
     (let infra = (cg_item_type g = ''infra'');
          rules = [(''policy_type'', JStr ''consumer-grant''), (''item_type'', JStr (cg_item_type g)),
              (''job_id'', JStr (cg_job_id g)), (''contract_id'', JStr (cg_contract_id g)),
              (''consumer'', JStr (cg_consumer g)), (''consumer_name'', JStr (cg_consumer_name g))] @
            (if infra then [(''infra_provider'', JStr (cg_provider g)), (''infra_id'', JStr (cg_item_id g)),
                (''infra_name'', JStr (cg_item_name g))]
             else [(''data_provider'', JStr (cg_provider g)), (''dataset_id'', JStr (cg_item_id g)),
                (''dataset_name'', JStr (cg_item_name g))])
      in JObj ([(''policyId'', JStr (grant_policy_id g)), (''itemId'', JStr (cg_item_id g)),
          (''issuedBy'', JStr (cg_provider g)), (''provider_id'', JStr (cg_provider g)), (''rules'', JObj rules)] @
        (if infra then [] else [(''dataset_id'', JStr (cg_item_id g))]) @
        (if cg_expires_at g = zero_time then [] else [(''expiresAt'', JTime (cg_expires_at g))])))"

definition body_str :: "string \<Rightarrow> json option \<Rightarrow> string" where
  "body_str k body = (case body of None \<Rightarrow> '''' | Some j \<Rightarrow> claim_str k j)"

definition post_consumer_grant :: "world \<Rightarrow> consumer_grant \<Rightarrow> string result" where
  "post_consumer_grant W g =
     and_then (apd_base_url W) (\<lambda>base.
     require (json_ok (grant_body g)) ''json: Time.MarshalJSON: year outside of range [0,9999]'' (
     case w_http_post W (base @ ''/api/v1/policy'') '''' (grant_body g) of
       NetFail e \<Rightarrow> Inl (''APD grant request failed: '' @ e)
     | HttpReply status body \<Rightarrow>
         if status \<noteq> 201 \<and> status \<noteq> 200 then
           Inl (''APD refused the grant ('' @ decimal status @ ''): '' @
             trim_space (body_str ''message'' body @ '' '' @ body_str ''error'' body))
         else Inr (grant_policy_id g)))"

section \<open>IUDX policies\<close>

abbreviation iudx_time_layout :: string where "iudx_time_layout \<equiv> ''2006-01-02T15:04:05''"

text \<open>An \<^verbatim>\<open>int\<close> of 64 bits, and \<^verbatim>\<open>strconv.Itoa\<close> on it.\<close>

definition int64 :: "int \<Rightarrow> int" where
  "int64 n = (n + 2 ^ 63) mod 2 ^ 64 - 2 ^ 63"

definition itoa :: "int \<Rightarrow> string" where
  "itoa n = (if n < 0 then CHR ''-'' # decimal (nat (- n)) else decimal (nat n))"

record iudx_policy_input =
  iu_contract :: contract
  iu_job_id :: string
  iu_dataset :: data_party
  iu_item_id :: string
  iu_callback_url :: string
  iu_provider_comment :: string
  iu_feedback_to_consumer :: string

definition obj_if :: "string \<Rightarrow> (string \<times> json) list \<Rightarrow> (string \<times> json) list" where
  "obj_if k kvs = (if kvs = [] then [] else [(k, JObj kvs)])"

definition str_if :: "string \<Rightarrow> string \<Rightarrow> (string \<times> json) list" where
  "str_if k v = (if v = '''' then [] else [(k, JStr v)])"

definition iudx_image :: "contract \<Rightarrow> string" where
  "iudx_image c =
     (let app = (case application_providers c of [] \<Rightarrow> '''' | a # as \<Rightarrow> ap_container_image a)
      in case ct_workload c of
           None \<Rightarrow> app | Some w \<Rightarrow> (if wl_image w \<noteq> '''' then wl_image w else app))"

definition allocates :: "infra_party \<Rightarrow> bool" where
  "allocates ip \<longleftrightarrow> ra_cpu_cores (ip_resource_allocation ip) > 0 \<or> ra_ram_mb (ip_resource_allocation ip) > 0"

definition iudx_resources :: "contract \<Rightarrow> (string \<times> json) list" where
  "iudx_resources c =
     (let own = (case ct_workload c of None \<Rightarrow> []
          | Some w \<Rightarrow> str_if ''cpu'' (wr_cpu (wl_resources w)) @ str_if ''memory'' (wr_memory (wl_resources w)))
      in if own \<noteq> [] then own
         else case List.find allocates (infra_providers c) of
             None \<Rightarrow> []
           | Some ip \<Rightarrow> (let ra = ip_resource_allocation ip in
               (if ra_cpu_cores ra > 0
                then [(''cpu'', JStr (itoa (int64 (ra_cpu_cores ra * 1000)) @ ''m''))] else []) @
               (if ra_ram_mb ra > 0 then [(''memory'', JStr (itoa (ra_ram_mb ra) @ ''Mi''))] else [])))"

definition iudx_workload :: "contract \<Rightarrow> data_party \<Rightarrow> (string \<times> json) list" where
  "iudx_workload c dp =
     str_if ''image'' (iudx_image c) @ obj_if ''resources'' (iudx_resources c) @
     obj_if ''env'' (str_if ''DATASET_URL'' (dp_data_url dp) @
       str_if ''RESULT_URL'' (up_datablob_url (user_party c)))"

definition iudx_constraints :: "iudx_policy_input \<Rightarrow> string \<Rightarrow> (string \<times> json) list" where
  "iudx_constraints i expiry =
     [(''subjects'', JObj [(''allowedUserIds'', JArr [JStr (up_id (user_party (iu_contract i)))]),
        (''allowedRoles'', JArr [JStr ''consumer''])]),
      (''access'', JArr (map (\<lambda>t. JObj [(''accessType'', JStr t), (''expiry'', JStr expiry)])
        [''api'', ''file'', ''sub'']))] @
     obj_if ''workload'' (iudx_workload (iu_contract i) (iu_dataset i)) @
     (case dp_trustee (iu_dataset i) of None \<Rightarrow> []
      | Some t \<Rightarrow> [(''trustee'', JObj [(''kbsUrl'', JStr (tr_kbs_url t)),
          (''keyResourcePath'', JStr (tr_key_resource_path t))])]) @
     str_if ''callbackUrl'' (if iu_callback_url i = '''' then ''''
       else trim_right_slash (iu_callback_url i) @ ''/'' @ iu_job_id i)"

definition iudx_hash :: "crypto \<Rightarrow> contract \<Rightarrow> string" where
  "iudx_hash C c =
     (if ct_contract_hash c \<noteq> '''' then ct_contract_hash c
      else case compute_hash C c of Inl e \<Rightarrow> '''' | Inr h \<Rightarrow> h)"

definition build_iudx_policy :: "server \<Rightarrow> world \<Rightarrow> iudx_policy_input \<Rightarrow> json" where
  "build_iudx_policy S W i =
     (let c = iu_contract i; expiry = w_format_time W iudx_time_layout (lc_valid_until (ct_lifecycle c))
      in JObj [(''request'', JObj
        ([(''policyType'', JStr ''GROUP''), (''itemId'', JStr (iu_item_id i)), (''itemType'', JStr ''DATABANK''),
          (''expiryTime'', JStr expiry), (''constraints'', JObj (iudx_constraints i expiry)),
          (''additionalInfo'', JObj [(''name'', JStr (dp_dataset_name (iu_dataset i))),
            (''jobId'', JStr (iu_job_id i)), (''contractId'', JStr (ct_contract_id c)),
            (''contractHash'', JStr (iudx_hash (srv_crypto S) c))])] @
         str_if ''providerComment'' (iu_provider_comment i) @
         str_if ''feedbackToConsumer'' (iu_feedback_to_consumer i)))])"

text \<open>The refusal's message without the raw body; the policy id of the reply, blank when it has none.\<close>

definition iudx_policy_id :: "json option \<Rightarrow> string" where
  "iudx_policy_id body =
     (case body of None \<Rightarrow> ''''
      | Some j \<Rightarrow>
          if claim_str ''id'' j \<noteq> '''' then claim_str ''id'' j
          else case json_array (jget ''results'' j) of
              [] \<Rightarrow> ''''
            | r # rs \<Rightarrow> (if claim_str ''id'' r \<noteq> '''' then claim_str ''id'' r else claim_str ''policyId'' r))"

definition post_iudx_policy :: "world \<Rightarrow> string \<Rightarrow> string \<Rightarrow> json \<Rightarrow> string result" where
  "post_iudx_policy W policy_url token body =
     (case w_http_post W policy_url token body of
        NetFail e \<Rightarrow> Inl (''IUDX policy request failed: '' @ e)
      | HttpReply status reply \<Rightarrow>
          if status < 200 \<or> status > 299 then
            Inl (''IUDX APD refused the policy ('' @ decimal status @ ''): '' @
              trim_space (body_str ''title'' reply @ '' '' @ body_str ''detail'' reply))
          else Inr (iudx_policy_id reply))"

section \<open>When a policy authorises\<close>

text \<open>A policy authorises only when it states a rule, and then every rule it states holds.\<close>

lemma intersects_iff: "intersects a b \<longleftrightarrow> set a \<inter> set b \<noteq> {}"
  by (auto simp: intersects_def list_ex_iff)

lemma contains_all_iff: "contains_all xs need \<longleftrightarrow> set need \<subseteq> set xs"
  by (auto simp: contains_all_def list_all_iff)

lemma contains_all_Nil [simp]: "contains_all xs []"
  by (simp add: contains_all_def)

lemma all_rules_hold:
  "(if a \<and> x \<and> \<not> ma then False else if u \<and> \<not> iu then False else if r \<and> \<not> ir then False
    else if q \<and> \<not> cq then False else if s \<and> \<not> is then False else if p \<and> \<not> cp then False
    else u \<or> r \<or> q \<or> s \<or> p \<or> a) \<longleftrightarrow>
   (u \<or> r \<or> q \<or> s \<or> p \<or> a) \<and> (\<not> a \<or> \<not> x \<or> ma) \<and> (\<not> u \<or> iu) \<and> (\<not> r \<or> ir) \<and> (\<not> q \<or> cq) \<and>
   (\<not> s \<or> is) \<and> (\<not> p \<or> cp)"
  by (cases a; cases u; cases r; cases q; cases s; cases p; simp)

lemma sum_pos: "length a + length b + length c + length d + length e + length f > 0 \<longleftrightarrow>
    a \<noteq> [] \<or> b \<noteq> [] \<or> c \<noteq> [] \<or> d \<noteq> [] \<or> e \<noteq> [] \<or> f \<noteq> []"
  by auto

lemma evaluate_policy_atoms:
  "evaluate_policy policy claims action \<longleftrightarrow>
     (let r = rules_of policy in
      (pl_users r \<noteq> [] \<or> pl_roles r \<noteq> [] \<or> pl_required_roles r \<noteq> [] \<or> pl_scopes r \<noteq> [] \<or>
       pl_required_scopes r \<noteq> [] \<or> pl_actions r \<noteq> []) \<and>
      (pl_actions r = [] \<or> action = '''' \<or> List.member (pl_actions r) action) \<and>
      (pl_users r = [] \<or> intersects (user_ids_from_claims claims) (pl_users r)) \<and>
      (pl_roles r = [] \<or> intersects (roles_from_claims claims) (pl_roles r)) \<and>
      (pl_required_roles r = [] \<or> contains_all (roles_from_claims claims) (pl_required_roles r)) \<and>
      (pl_scopes r = [] \<or> intersects (scopes_from_claims claims) (pl_scopes r)) \<and>
      (pl_required_scopes r = [] \<or> contains_all (scopes_from_claims claims) (pl_required_scopes r)))"
  unfolding evaluate_policy_def Let_def sum_pos all_rules_hold not_not ..

lemma nil_or_subset: "(ys = [] \<or> set ys \<subseteq> X) = (set ys \<subseteq> X)"
  by auto

lemma member_in_set: "List.member xs x \<longleftrightarrow> x \<in> set xs"
  by simp

lemma evaluate_policy_iff:
  "evaluate_policy policy claims action \<longleftrightarrow>
     (let r = rules_of policy in
      (pl_users r \<noteq> [] \<or> pl_roles r \<noteq> [] \<or> pl_required_roles r \<noteq> [] \<or> pl_scopes r \<noteq> [] \<or>
       pl_required_scopes r \<noteq> [] \<or> pl_actions r \<noteq> []) \<and>
      (pl_actions r = [] \<or> action = '''' \<or> action \<in> set (pl_actions r)) \<and>
      (pl_users r = [] \<or> set (user_ids_from_claims claims) \<inter> set (pl_users r) \<noteq> {}) \<and>
      (pl_roles r = [] \<or> set (roles_from_claims claims) \<inter> set (pl_roles r) \<noteq> {}) \<and>
      set (pl_required_roles r) \<subseteq> set (roles_from_claims claims) \<and>
      (pl_scopes r = [] \<or> set (scopes_from_claims claims) \<inter> set (pl_scopes r) \<noteq> {}) \<and>
      set (pl_required_scopes r) \<subseteq> set (scopes_from_claims claims))"
  unfolding evaluate_policy_atoms Let_def intersects_iff contains_all_iff nil_or_subset member_in_set ..

end
