(* ===== verification/Approval.thy ===== *)
theory Approval
  imports Gate Apd
begin

text \<open>
  Job approval (\<^verbatim>\<open>httpapi/job_approval.go\<close>): the checks of a data or infra provider's call, the
  signature submitted with it, what is recorded, and the job status that makes an approved
  contract final. Also the job requests sent when the contract is generated
  (\<^verbatim>\<open>httpapi/job_request.go\<close>) and the participants stored then (\<^verbatim>\<open>httpapi/job_participants.go\<close>).
\<close>

section \<open>The owners of the infras\<close>

record infra_owner =
  io_infra_id :: string
  io_provider_id :: string
  io_reason :: string

definition infra_owner_of :: "world \<Rightarrow> infra_party \<Rightarrow> infra_owner" where
  "infra_owner_of W ip =
     (case fetch_infra_policy W (ip_id ip) of
        PolicyFound policy \<Rightarrow>
          \<lparr>io_infra_id = ip_id ip, io_provider_id = claim_str ''provider_id'' policy,
           io_reason = (if claim_str ''provider_id'' policy = '''' then ''infra policy has no provider_id'' else '''')\<rparr>
      | PolicyNotFound e \<Rightarrow> \<lparr>io_infra_id = ip_id ip, io_provider_id = '''',
           io_reason = ''infra has no known provider: '' @ e\<rparr>
      | PolicyFailed e \<Rightarrow> \<lparr>io_infra_id = ip_id ip, io_provider_id = '''',
           io_reason = ''infra has no known provider: '' @ e\<rparr>)"

definition infra_owners :: "world \<Rightarrow> contract \<Rightarrow> infra_owner list" where
  "infra_owners W c = map (infra_owner_of W) (filter (\<lambda>ip. ip_id ip \<noteq> '''') (infra_providers c))"

section \<open>The checks\<close>

text \<open>The current entries of one side, as \<^verbatim>\<open>auditKey\<close> pairs of provider id and item.\<close>

definition checked_items :: "server \<Rightarrow> world \<Rightarrow> db \<Rightarrow> string \<Rightarrow> string \<Rightarrow> (string \<times> string) list result" where
  "checked_items S W d job_id kind =
     and_then (load_job_approval_state S W d job_id) (\<lambda>st.
     Inr (map (\<lambda>e. (ae_provider_id e, ae_item e)) (filter (\<lambda>e. ae_type e = kind) (as_current st))))"

definition new_entry :: "string \<Rightarrow> string \<Rightarrow> string \<Rightarrow> string \<Rightarrow> time \<Rightarrow> audit_entry" where
  "new_entry job_id kind provider_id item now =
     \<lparr>ae_job_id = job_id, ae_type = kind, ae_provider_id = provider_id, ae_item = item,
      ae_status = ''rejected'', ae_has_role = False, ae_in_catalogue = False, ae_reason = '''',
      ae_checked_at = now\<rparr>"

definition decide_entry :: "bool \<Rightarrow> bool \<Rightarrow> string list \<Rightarrow> audit_entry \<Rightarrow> audit_entry" where
  "decide_entry has_role in_catalogue reasons e =
     e\<lparr>ae_has_role := has_role, ae_in_catalogue := in_catalogue,
       ae_status := (if has_role \<and> in_catalogue then ''accepted'' else ae_status e),
       ae_reason := join ''; '' reasons\<rparr>"

definition lookup_catalogue_item :: "server \<Rightarrow> world \<Rightarrow> string \<Rightarrow> string \<Rightarrow> dx_error + dx_item" where
  "lookup_catalogue_item S W item_id token =
     fetch_dx_catalogue_item W (cfg_catalogue_base_url (srv_cfg S)) item_id token"

text \<open>A dataset in the DX catalogue: \<open>None\<close> when it is one, else the reason.\<close>

definition dataset_reason :: "server \<Rightarrow> world \<Rightarrow> string \<Rightarrow> data_party \<Rightarrow> string option" where
  "dataset_reason S W token dp =
     (let item_id = catalogue_item_id dp in
      if item_id = '''' then
        Some (''contract has no DX catalogue item id for dataset '' @ go_quote (dp_dataset_name dp))
      else case lookup_catalogue_item S W item_id token of
          Inl DxNotFound \<Rightarrow> Some (item_id @ '' not found in the DX catalogue'')
        | Inl DxTokenRefused \<Rightarrow> Some (dx_error_message DxTokenRefused)
        | Inl (DxFailed m) \<Rightarrow> Some (''DX catalogue lookup failed: '' @ m)
        | Inr item \<Rightarrow>
            if \<not> is_data_bank item then Some (item_id @ '' is not a dataset in the DX catalogue (type ['' @
              join '' '' (dx_type item) @ ''], want '' @ data_bank_type @ '')'')
            else None)"

definition reasons_of :: "bool \<Rightarrow> string \<Rightarrow> string option \<Rightarrow> string list" where
  "reasons_of has_role role r =
     (if has_role then [] else [''provider's token does not carry the '' @ role @ '' role'']) @
     (case r of None \<Rightarrow> [] | Some x \<Rightarrow> [x])"

definition data_entry ::
  "server \<Rightarrow> world \<Rightarrow> string \<Rightarrow> provider_caller \<Rightarrow> (string \<times> string) list \<Rightarrow> data_party \<Rightarrow> audit_entry list" where
  "data_entry S W job_id caller checked dp =
     (let has_role = has_provider_key_role (pc_roles caller) ''data-provider'' (data_provider_role S);
          pid = (if dp_id dp \<noteq> '''' then party_provider_id dp else '''');
          e = new_entry job_id ''data-provider'' pid (approval_item dp) (w_now W)
      in if \<not> caller_is caller dp then
           (if List.member checked (pid, approval_item dp) then []
            else [e\<lparr>ae_reason := (if dp_id dp = ''''
                 then ''dataset has no known provider (no APD policy found)''
                 else ''awaiting this data provider's approval call with their own dev token'')\<rparr>])
         else let r = dataset_reason S W (pc_token caller) dp
              in [decide_entry has_role (r = None) (reasons_of has_role (data_provider_role S) r) e])"

definition data_provider_approvals ::
  "server \<Rightarrow> world \<Rightarrow> string \<Rightarrow> contract \<Rightarrow> provider_caller \<Rightarrow> (string \<times> string) list \<Rightarrow> audit_entry list" where
  "data_provider_approvals S W job_id c caller checked =
     concat (map (data_entry S W job_id caller checked) (data_providers c))"

abbreviation infra_provider_role :: string where "infra_provider_role \<equiv> ''infra-provider''"

definition infra_reason :: "world \<Rightarrow> infra_owner \<Rightarrow> string option" where
  "infra_reason W o1 =
     (case list_provider_infra W (io_provider_id o1) of
        Inl e \<Rightarrow> Some (''catalogue lookup failed: '' @ e)
      | Inr items \<Rightarrow> if catalogue_has items (io_infra_id o1) then None
          else Some (io_infra_id o1 @ '' is not in the provider's catalogue''))"

definition infra_entry ::
  "world \<Rightarrow> string \<Rightarrow> provider_caller \<Rightarrow> (string \<times> string) list \<Rightarrow> infra_owner \<Rightarrow> audit_entry list" where
  "infra_entry W job_id caller checked o1 =
     (let has_role = List.member (pc_roles caller) infra_provider_role;
          e = new_entry job_id ''infra-provider'' (io_provider_id o1) (io_infra_id o1) (w_now W)
      in if \<not> caller_owns caller (io_provider_id o1) then
           (if List.member checked (io_provider_id o1, io_infra_id o1) then []
            else [e\<lparr>ae_reason := (if io_reason o1 \<noteq> '''' then io_reason o1
                 else ''awaiting this infra provider's approval call with their own dev token'')\<rparr>])
         else let r = infra_reason W o1
              in [decide_entry has_role (r = None) (reasons_of has_role infra_provider_role r) e])"

definition infra_provider_approvals ::
  "world \<Rightarrow> string \<Rightarrow> infra_owner list \<Rightarrow> provider_caller \<Rightarrow> (string \<times> string) list \<Rightarrow> audit_entry list" where
  "infra_provider_approvals W job_id owners caller checked =
     concat (map (infra_entry W job_id caller checked) owners)"

section \<open>The submitted signature\<close>

record approval_body =
  ab_job_id :: string
  ab_contract_hash :: string
  ab_signature :: string
  ab_provider_comment :: string
  ab_feedback_to_consumer :: string

definition job_contract_hash :: "server \<Rightarrow> contract \<Rightarrow> string result" where
  "job_contract_hash S c =
     and_then (or_fail (\<lambda>e. ''contract could not be hashed: '' @ e) (compute_hash (srv_crypto S) c)) (\<lambda>hash.
     require (\<not> (ct_contract_hash c \<noteq> '''' \<and> ct_contract_hash c \<noteq> hash))
       (''stored contract no longer matches its stored contract_hash '' @ ct_contract_hash c @
        '' (now '' @ hash @ '')'')
       (Inr hash))"

definition amended_since :: "server \<Rightarrow> contract \<Rightarrow> bool" where
  "amended_since S c \<longleftrightarrow> ct_contract_hash c \<noteq> '''' \<and>
     (case compute_hash (srv_crypto S) c of
        Inl e \<Rightarrow> False
      | Inr hash \<Rightarrow> hash \<noteq> ct_contract_hash c \<and> amendment_valid S c hash)"

definition signed_job_contract_hash :: "server \<Rightarrow> contract \<Rightarrow> string result" where
  "signed_job_contract_hash S c =
     (if amended_since S c then Inr (ct_contract_hash c) else job_contract_hash S c)"

definition verify_submitted_signature ::
  "server \<Rightarrow> world \<Rightarrow> db \<Rightarrow> contract \<Rightarrow> provider_caller \<Rightarrow> approval_body \<Rightarrow> unit result" where
  "verify_submitted_signature S W d c caller body =
     and_then (signed_job_contract_hash S c) (\<lambda>hash.
     require (ab_contract_hash body = hash)
       (''contract_hash '' @ ab_contract_hash body @ '' is not this job's contract hash ('' @ hash @
        ''): sign the contract_hash from your JOB_REQUEST'') (
     and_then (or_fail (\<lambda>e. ''no registered public key for '' @ pc_username caller @
         '' (PUT /provider-keys/{role} first): '' @ key_error_message e)
       (provider_public_key W d (pc_username caller))) (\<lambda>pub.
     none_or (map_option (\<lambda>e. ''signature does not verify with '' @ pc_username caller @
         '''s registered public key: '' @ e)
       (verify_contract_hash_signature (srv_crypto S) pub hash (ab_signature body)))
     (Inr ()))))"

definition accepted_keys :: "audit_entry list \<Rightarrow> (string \<times> string) list" where
  "accepted_keys own =
     map (\<lambda>e. (ae_provider_id e, ae_item e)) (filter (\<lambda>e. ae_status e = ''accepted'') own)"

definition data_party_accepted :: "audit_entry list \<Rightarrow> data_party \<Rightarrow> bool" where
  "data_party_accepted own dp \<longleftrightarrow> dp_id dp \<noteq> '''' \<and>
     List.member (accepted_keys own) (party_provider_id dp, approval_item dp)"

definition infra_party_accepted :: "audit_entry list \<Rightarrow> infra_party \<Rightarrow> bool" where
  "infra_party_accepted own ip \<longleftrightarrow> ip_id ip \<noteq> '''' \<and>
     list_ex (\<lambda>e. ip_id ip = ae_item e \<and> List.member (accepted_keys own) (ae_provider_id e, ae_item e)) own"

text \<open>The contract with the signature on the accepted parties, and how many they are.\<close>

definition sign_parties :: "string \<Rightarrow> audit_entry list \<Rightarrow> signature \<Rightarrow> contract \<Rightarrow> contract \<times> nat" where
  "sign_parties kind own sig c =
     (if kind = ''data-provider'' then
        (with_data_providers (update_rows (data_party_accepted own) (set_data_sig sig)) c,
         length (filter (data_party_accepted own) (data_providers c)))
      else if kind = ''infra-provider'' then
        (with_infra_providers (update_rows (infra_party_accepted own) (set_infra_sig sig)) c,
         length (filter (infra_party_accepted own) (infra_providers c)))
      else (c, 0))"

definition store_job_contract :: "world \<Rightarrow> contract \<Rightarrow> db \<Rightarrow> unit result \<times> db" where
  "store_job_contract W c d =
     (case marshal_contract c of
        Inl e \<Rightarrow> (Inl e, d)
      | Inr raw \<Rightarrow>
          (case update_contract_by_contract_id W (ct_contract_id c) raw d of
             (Inl e, d) \<Rightarrow> (Inl e, d)
           | (Inr False, d) \<Rightarrow> (Inl (''contract '' @ ct_contract_id c @ '' not found''), d)
           | (Inr True, d) \<Rightarrow> (Inr (), d)))"

definition sign_approved_items ::
  "world \<Rightarrow> string \<Rightarrow> contract \<Rightarrow> audit_entry list \<Rightarrow> string \<Rightarrow> string \<Rightarrow> string \<Rightarrow> db \<Rightarrow>
   (contract \<times> nat) result \<times> db" where
  "sign_approved_items W kind c own signer hash sig_value d =
     (case sign_parties kind own (signature_over (w_now W) signer hash sig_value) c of (c, n) \<Rightarrow>
        if n = 0 then (Inr (c, 0), d)
        else (case store_job_contract W c d of
            (Inl e, d) \<Rightarrow> (Inl e, d) | (Inr u, d) \<Rightarrow> (Inr (c, n), d)))"

section \<open>Recording an approval\<close>

record approval_result =
  ar_approval :: string
  ar_state :: job_approval_state
  ar_entries :: "audit_entry list"
  ar_items_signed :: nat

definition save_job_approval ::
  "server \<Rightarrow> world \<Rightarrow> string \<Rightarrow> audit_entry list \<Rightarrow> db \<Rightarrow> job_approval_state result \<times> db" where
  "save_job_approval S W job_id entries d =
     (case insert_audit_entries W entries d of
        (Inl e, d) \<Rightarrow> (Inl (''failed to write audit: '' @ e), d)
      | (Inr u, d) \<Rightarrow> (load_job_approval_state S W d job_id, d))"

definition record_job_approval ::
  "server \<Rightarrow> world \<Rightarrow> string \<Rightarrow> string \<Rightarrow> contract \<Rightarrow> audit_entry list \<Rightarrow> audit_entry list \<Rightarrow>
   provider_caller \<Rightarrow> approval_body \<Rightarrow> db \<Rightarrow> (contract \<times> approval_result) response \<times> db" where
  "record_job_approval S W kind job_id c entries own caller body d =
     (case sign_approved_items W kind c own (pc_username caller) (ab_contract_hash body) (ab_signature body) d of
        (Inl e, d) \<Rightarrow> (Inl (internal_error (''failed to store the signature: '' @ e)), d)
      | (Inr (c, n), d) \<Rightarrow>
          (case save_job_approval S W job_id entries d of
             (Inl e, d) \<Rightarrow> (Inl (internal_error e), d)
           | (Inr st, d) \<Rightarrow> (Inr (c, \<lparr>ar_approval = overall_status own, ar_state = st,
               ar_entries = entries, ar_items_signed = n\<rparr>), d)))"

section \<open>Grants and policies on approval\<close>

record grant_result =
  gr_item_type :: string
  gr_item_id :: string
  gr_policy_id :: string
  gr_status :: string
  gr_error :: string

definition grant_result_of :: "string \<Rightarrow> string \<Rightarrow> string result \<Rightarrow> grant_result" where
  "grant_result_of item_type item_id r =
     (case r of
        Inl e \<Rightarrow> \<lparr>gr_item_type = item_type, gr_item_id = item_id, gr_policy_id = '''',
          gr_status = ''failed'', gr_error = e\<rparr>
      | Inr policy_id \<Rightarrow> \<lparr>gr_item_type = item_type, gr_item_id = item_id, gr_policy_id = policy_id,
          gr_status = ''posted'', gr_error = ''''\<rparr>)"

definition names_party :: "audit_entry \<Rightarrow> data_party \<Rightarrow> bool" where
  "names_party e dp \<longleftrightarrow> party_provider_id dp = ae_provider_id e \<and> approval_item dp = ae_item e"

text \<open>The grant ends when the provider's consent does.\<close>

definition grant_for_dataset :: "audit_entry \<Rightarrow> data_party \<Rightarrow> consumer_grant \<Rightarrow> consumer_grant" where
  "grant_for_dataset e dp g =
     (if \<not> names_party e dp then g
      else let g = g\<lparr>cg_item_name := dp_dataset_name dp\<rparr>
           in case cn_consent_valid_until (dp_constraints dp) of
                None \<Rightarrow> g
              | Some u \<Rightarrow> if cg_expires_at g = zero_time \<or> u < cg_expires_at g
                  then g\<lparr>cg_expires_at := u\<rparr> else g)"

definition grant_for_infra :: "audit_entry \<Rightarrow> infra_party \<Rightarrow> consumer_grant \<Rightarrow> consumer_grant" where
  "grant_for_infra e ip g = (if ip_id ip = ae_item e then g\<lparr>cg_item_name := ip_name ip\<rparr> else g)"

definition grants_of_entry :: "string \<Rightarrow> string \<Rightarrow> contract \<Rightarrow> audit_entry \<Rightarrow> consumer_grant list" where
  "grants_of_entry kind job_id c e =
     (if ae_status e \<noteq> ''accepted'' \<or> ae_provider_id e = '''' then []
      else let g = \<lparr>cg_job_id = job_id, cg_contract_id = ct_contract_id c, cg_consumer = up_id (user_party c),
               cg_consumer_name = up_name (user_party c), cg_item_type = '''', cg_item_id = ae_item e,
               cg_item_name = '''', cg_provider = ae_provider_id e,
               cg_expires_at = lc_valid_until (ct_lifecycle c)\<rparr>
           in if kind = ''data-provider'' then
                [fold (grant_for_dataset e) (data_providers c) (g\<lparr>cg_item_type := ''dataset''\<rparr>)]
              else if kind = ''infra-provider'' then
                [fold (grant_for_infra e) (infra_providers c) (g\<lparr>cg_item_type := ''infra''\<rparr>)]
              else [])"

definition consumer_grants :: "string \<Rightarrow> string \<Rightarrow> contract \<Rightarrow> audit_entry list \<Rightarrow> consumer_grant list" where
  "consumer_grants kind job_id c own = concat (map (grants_of_entry kind job_id c) own)"

definition post_consumer_grants ::
  "world \<Rightarrow> string \<Rightarrow> string \<Rightarrow> contract \<Rightarrow> audit_entry list \<Rightarrow> grant_result list" where
  "post_consumer_grants W kind job_id c own =
     map (\<lambda>g. grant_result_of (cg_item_type g) (cg_item_id g) (post_consumer_grant W g))
       (consumer_grants kind job_id c own)"

definition post_iudx_policies ::
  "server \<Rightarrow> world \<Rightarrow> string \<Rightarrow> contract \<Rightarrow> audit_entry list \<Rightarrow> provider_caller \<Rightarrow> approval_body \<Rightarrow>
   grant_result list" where
  "post_iudx_policies S W job_id c own caller body =
     (let url = cfg_iudx_apd_policy_url (srv_cfg S) in
      if url = '''' then []
      else concat (map (\<lambda>e. case List.find (names_party e) (data_providers c) of
          None \<Rightarrow> []
        | Some dp \<Rightarrow> [grant_result_of '''' (ae_item e) (post_iudx_policy W url (pc_token caller)
            (build_iudx_policy S W \<lparr>iu_contract = c, iu_job_id = job_id, iu_dataset = dp,
              iu_item_id = ae_item e, iu_callback_url = cfg_iudx_policy_callback_url (srv_cfg S),
              iu_provider_comment = ab_provider_comment body,
              iu_feedback_to_consumer = ab_feedback_to_consumer body\<rparr>))])
        (filter (\<lambda>e. ae_status e = ''accepted'') own)))"

section \<open>The approval calls\<close>

definition load_approval_job ::
  "world \<Rightarrow> db \<Rightarrow> approval_body option \<Rightarrow> (approval_body \<times> contract) response" where
  "load_approval_job W d body =
     and_then (some_or (HttpError 400 ''BAD_REQUEST'' ''Invalid request body'') body) (\<lambda>b.
     and_then (load_contract_by_job W d (ab_job_id b)) (\<lambda>c. Inr (b, c)))"

definition missing_signature :: http_error where
  "missing_signature = HttpError 400 ''MISSING_FIELDS''
     ''contract_hash and signature are required: sign the contract_hash from your job request with your private key''"

definition signature_submitted :: "approval_body \<Rightarrow> bool" where
  "signature_submitted b \<longleftrightarrow> ab_contract_hash b \<noteq> '''' \<and> ab_signature b \<noteq> ''''"

definition check_caller_datasets ::
  "server \<Rightarrow> world \<Rightarrow> db \<Rightarrow> string \<Rightarrow> contract \<Rightarrow> provider_caller \<Rightarrow> audit_entry list response" where
  "check_caller_datasets S W d job_id c caller =
     require (list_ex (caller_is caller) (data_providers c))
       (HttpError 403 ''NOT_A_DATA_PROVIDER_ON_CONTRACT'' ''the token's user provides none of this job's datasets'') (
     and_then (or_fail internal_error (checked_items S W d job_id ''data-provider'')) (\<lambda>checked.
     Inr (data_provider_approvals S W job_id c caller checked)))"

definition own_data_entries :: "contract \<Rightarrow> provider_caller \<Rightarrow> audit_entry list \<Rightarrow> audit_entry list" where
  "own_data_entries c caller entries =
     filter (\<lambda>e. list_ex (\<lambda>dp. caller_is caller dp \<and> names_party e dp) (data_providers c)) entries"

definition data_approval_checks ::
  "server \<Rightarrow> world \<Rightarrow> string \<Rightarrow> approval_body option \<Rightarrow> db \<Rightarrow>
   (provider_caller \<times> approval_body \<times> contract \<times> audit_entry list \<times> audit_entry list) response" where
  "data_approval_checks S W auth body d =
     and_then (approver_from_token S W ''data provider'' auth) (\<lambda>caller.
     and_then (load_approval_job W d body) (\<lambda>(b, c).
     and_then (check_caller_datasets S W d (ab_job_id b) c caller) (\<lambda>entries.
     require (signature_submitted b) missing_signature (
     let own = own_data_entries c caller entries in
     and_then (if overall_status own = ''accepted''
         then or_fail (HttpError 400 ''INVALID_SIGNATURE'') (verify_submitted_signature S W d c caller b)
         else Inr ()) (\<lambda>u.
     Inr (caller, b, c, entries, own))))))"

text \<open>The response: the recorded result, the consumer grants and the IUDX policies posted.\<close>

type_synonym approval_read =
  "provider_caller \<times> approval_body \<times> contract \<times> audit_entry list \<times> audit_entry list"

definition data_approval_finish :: "server \<Rightarrow> world \<Rightarrow> approval_read \<Rightarrow> db \<Rightarrow>
   (approval_result \<times> grant_result list \<times> grant_result list) response \<times> db" where
  "data_approval_finish S W x d =
     (case x of (caller, b, c, entries, own) \<Rightarrow>
        (case record_job_approval S W ''data-provider'' (ab_job_id b) c entries own caller b d of
           (Inl e, d) \<Rightarrow> (Inl e, d)
         | (Inr (c, res), d) \<Rightarrow>
             (Inr (res, post_consumer_grants W ''data-provider'' (ab_job_id b) c own,
                post_iudx_policies S W (ab_job_id b) c own caller b),
              mark_approval_participants W ''data-provider'' (ab_job_id b) own caller d)))"

definition handle_data_provider_approval ::
  "server \<Rightarrow> world \<Rightarrow> string \<Rightarrow> approval_body option \<Rightarrow> db \<Rightarrow>
   (approval_result \<times> grant_result list \<times> grant_result list) response \<times> db" where
  "handle_data_provider_approval S W auth body d =
     (case data_approval_checks S W auth body d of Inl e \<Rightarrow> (Inl e, d) | Inr x \<Rightarrow> data_approval_finish S W x d)"

definition infra_approval_checks ::
  "server \<Rightarrow> world \<Rightarrow> string \<Rightarrow> approval_body option \<Rightarrow> db \<Rightarrow>
   (provider_caller \<times> approval_body \<times> contract \<times> audit_entry list \<times> audit_entry list) response" where
  "infra_approval_checks S W auth body d =
     and_then (approver_from_token S W ''infra provider'' auth) (\<lambda>caller.
     and_then (load_approval_job W d body) (\<lambda>(b, c).
     let owners = infra_owners W c in
     require (list_ex (\<lambda>o1. caller_owns caller (io_provider_id o1)) owners)
       (HttpError 403 ''NOT_AN_INFRA_PROVIDER_ON_CONTRACT'' ''the token's user owns none of this job's infras'') (
     and_then (or_fail internal_error (checked_items S W d (ab_job_id b) ''infra-provider'')) (\<lambda>checked.
     require (signature_submitted b) missing_signature (
     let entries = infra_provider_approvals W (ab_job_id b) owners caller checked in
     Inr (caller, b, c, entries, filter (\<lambda>e. caller_owns caller (ae_provider_id e)) entries))))))"

definition infra_approval_finish ::
  "server \<Rightarrow> world \<Rightarrow> approval_read \<Rightarrow> db \<Rightarrow> approval_result response \<times> db" where
  "infra_approval_finish S W x d =
     (case x of (caller, b, c, entries, own) \<Rightarrow>
        (case record_job_approval S W ''infra-provider'' (ab_job_id b) c entries own caller b d of
           (Inl e, d) \<Rightarrow> (Inl e, d)
         | (Inr (c, res), d) \<Rightarrow>
             (Inr res, mark_approval_participants W ''infra-provider'' (ab_job_id b) own caller d)))"

definition handle_infra_provider_approval ::
  "server \<Rightarrow> world \<Rightarrow> string \<Rightarrow> approval_body option \<Rightarrow> db \<Rightarrow> approval_result response \<times> db" where
  "handle_infra_provider_approval S W auth body d =
     (case infra_approval_checks S W auth body d of Inl e \<Rightarrow> (Inl e, d) | Inr x \<Rightarrow> infra_approval_finish S W x d)"

section \<open>The job's status\<close>

definition seal_contract :: "server \<Rightarrow> world \<Rightarrow> contract \<Rightarrow> db \<Rightarrow> contract result \<times> db" where
  "seal_contract S W c d =
     (if ct_contract_hash c \<noteq> '''' then (Inr c, d)
      else case compute_hash (srv_crypto S) c of
          Inl e \<Rightarrow> (Inl e, d)
        | Inr hash \<Rightarrow>
            let c = c\<lparr>ct_contract_hash := hash\<rparr>
            in (case store_job_contract W c d of (Inl e, d) \<Rightarrow> (Inl e, d) | (Inr u, d) \<Rightarrow> (Inr c, d)))"

definition finalize_pending :: "server \<Rightarrow> contract \<Rightarrow> party_status list \<Rightarrow> bool \<Rightarrow> string list" where
  "finalize_pending S c parties hash_ok =
     (if hash_ok then [] else [''contract no longer matches its hash'']) @
     (if governance_signature_ok S c (ct_contract_hash c) then []
      else [''governance signature missing or invalid'']) @
     map (\<lambda>p. party_label p @ '': '' @ ps_error p) (filter (\<lambda>p. \<not> ps_valid p) parties)"

text \<open>\<open>Inr (final, pending)\<close>.\<close>

definition finalize_job ::
  "server \<Rightarrow> world \<Rightarrow> string \<Rightarrow> contract \<Rightarrow> db \<Rightarrow> (bool \<times> string list) result \<times> db" where
  "finalize_job S W job_id c d =
     (case verify_contract_signatures S W d c of (parties, hash_ok, all_valid) \<Rightarrow>
        if \<not> all_valid then (Inr (False, finalize_pending S c parties hash_ok), d)
        else case marshal_contract c of
            Inl e \<Rightarrow> (Inl e, d)
          | Inr raw \<Rightarrow>
              (case create_final_contract W job_id (ct_contract_id c) (ct_contract_hash c) raw d of
                 (Inl e, d) \<Rightarrow> (Inl (''final contract could not be stored: '' @ e), d)
               | (Inr created, d) \<Rightarrow>
                   (case mark_job_final W job_id d of
                      (Inl e, d) \<Rightarrow> (Inl e, d)
                    | (Inr marked, d) \<Rightarrow> (Inr (True, []), d))))"

definition approval_reasons :: "job_approval_state \<Rightarrow> string list" where
  "approval_reasons st =
     map (\<lambda>e. ae_type e @ '' '' @ ae_provider_id e @ '' / '' @ ae_item e @ '': '' @ ae_reason e)
       (filter (\<lambda>e. ae_status e \<noteq> ''accepted'') (as_current st)) @
     (if as_data_provider st = ''pending'' then [''no data provider has approved yet''] else []) @
     (if as_infra_required st \<and> as_infra_provider st = ''pending''
      then [''no infra provider has approved yet''] else [])"

definition verify_job_signatures ::
  "server \<Rightarrow> world \<Rightarrow> db \<Rightarrow> contract \<Rightarrow> party_status list \<times> string list" where
  "verify_job_signatures S W d c =
     (case signed_job_contract_hash S c of
        Inl e \<Rightarrow> ([], [e])
      | Inr hash \<Rightarrow>
          (case provider_signatures S W d c hash True
              (rev (map (\<lambda>o1. (io_infra_id o1, io_provider_id o1)) (infra_owners W c))) of
             (parties, all_valid) \<Rightarrow>
               (parties, map (\<lambda>p. party_label p @ '': '' @ ps_error p) (filter (\<lambda>p. \<not> ps_valid p) parties))))"

record job_approved =
  ja_contract_hash :: string
  ja_signatures :: "party_status list"
  ja_grants :: "grant_result list"
  ja_final :: bool
  ja_final_record :: "final_contract option"
  ja_pending :: "string list"

datatype job_status = JobNotApproved "string list" "party_status list" | JobApproved job_approved

definition all_grants :: "world \<Rightarrow> string \<Rightarrow> contract \<Rightarrow> job_approval_state \<Rightarrow> grant_result list" where
  "all_grants W job_id c st =
     concat (map (\<lambda>kind. post_consumer_grants W kind job_id c (filter (\<lambda>e. ae_type e = kind) (as_current st)))
       [''data-provider'', ''infra-provider''])"

text \<open>The part of \<^verbatim>\<open>getJobStatus\<close> after the checks: seal, finalise, mark, grant.\<close>

definition approve_job ::
  "server \<Rightarrow> world \<Rightarrow> string \<Rightarrow> contract \<Rightarrow> job_approval_state \<Rightarrow> party_status list \<Rightarrow> db \<Rightarrow>
   job_status response \<times> db" where
  "approve_job S W job_id c st parties d =
     (case seal_contract S W (c\<lparr>ct_job_id := job_id\<rparr>) d of
        (Inl e, d) \<Rightarrow> (Inl (internal_error (''contract hash could not be stored: '' @ e)), d)
      | (Inr c, d) \<Rightarrow>
          (case finalize_job S W job_id c d of
             (Inl e, d) \<Rightarrow> (Inl (internal_error e), d)
           | (Inr (final, pending), d) \<Rightarrow>
               (let d = (if final then mark_job_participants W job_id ''final'' d else d)
                in case (if final then get_final_contract W d job_id else Inr None) of
                     Inl e \<Rightarrow> (Inl (internal_error e), d)
                   | Inr rec \<Rightarrow> (Inr (JobApproved
                       \<lparr>ja_contract_hash = ct_contract_hash c, ja_signatures = parties,
                        ja_grants = all_grants W job_id c st, ja_final = final,
                        ja_final_record = rec, ja_pending = pending\<rparr>), d))))"

text \<open>
  What \<^verbatim>\<open>getJobStatus\<close> has read when it turns to sealing the contract; \<open>Inl\<close> is its answer before.
\<close>

definition status_reads ::
  "server \<Rightarrow> world \<Rightarrow> string \<Rightarrow> string \<Rightarrow> db \<Rightarrow>
   job_status response + contract \<times> job_approval_state \<times> party_status list" where
  "status_reads S W auth job_id d =
     (case and_then (dev_token_claims S W ''consumer'' auth) (\<lambda>(tok, claims).
           and_then (load_contract_by_job W d job_id) (\<lambda>c.
           require (is_contract_user claims c) (HttpError 403 ''NOT_JOB_CONSUMER''
             ''only the user who generated this job's contract can check its status'') (
           and_then (or_fail internal_error (load_job_approval_state S W d job_id)) (\<lambda>st. Inr (c, st))))) of
        Inl e \<Rightarrow> Inl (Inl e)
      | Inr (c, st) \<Rightarrow>
          if \<not> state_accepted st then Inl (Inr (JobNotApproved (approval_reasons st) []))
          else (case verify_job_signatures S W d c of (parties, reasons) \<Rightarrow>
            if reasons \<noteq> [] then Inl (Inr (JobNotApproved reasons parties)) else Inr (c, st, parties)))"

definition get_job_status ::
  "server \<Rightarrow> world \<Rightarrow> string \<Rightarrow> string \<Rightarrow> db \<Rightarrow> job_status response \<times> db" where
  "get_job_status S W auth job_id d =
     (case status_reads S W auth job_id d of
        Inl r \<Rightarrow> (r, d) | Inr (c, st, parties) \<Rightarrow> approve_job S W job_id c st parties d)"

end
