(* ===== verification/Job_Requests.thy ===== *)
theory Job_Requests
  imports Approval "HOL-Library.Char_ord" "HOL-Library.List_Lexorder" "HOL-Library.Product_Lexorder"
begin

text \<open>
  The job requests sent to each provider when a contract that needs approval is generated
  (\<^verbatim>\<open>httpapi/job_request.go\<close>), the participants stored then, the lists of a user's jobs and the
  read of a job's contract (\<^verbatim>\<open>httpapi/job_participants.go\<close>).
\<close>

section \<open>Job requests\<close>

record job_request =
  jr_role :: string
  jr_provider_id :: string
  jr_items :: "(string \<times> string) list"  \<comment> \<open>id and name\<close>

definition same_request :: "job_request \<Rightarrow> job_request \<Rightarrow> bool" where
  "same_request r x \<longleftrightarrow> jr_role x = jr_role r \<and> jr_provider_id x = jr_provider_id r"

definition add_request :: "job_request \<Rightarrow> job_request list \<Rightarrow> job_request list" where
  "add_request r reqs = upsert_row same_request (\<lambda>r x. x\<lparr>jr_items := jr_items x @ jr_items r\<rparr>) r reqs"

definition infra_name :: "contract \<Rightarrow> string \<Rightarrow> string" where
  "infra_name c i = owner_of (rev (map (\<lambda>ip. (ip_id ip, ip_name ip)) (infra_providers c))) i"

definition data_requests :: "contract \<Rightarrow> job_request list" where
  "data_requests c = map (\<lambda>dp. \<lparr>jr_role = ''data-provider'', jr_provider_id = party_provider_id dp,
      jr_items = [(approval_item dp, dp_dataset_name dp)]\<rparr>)
    (filter (\<lambda>dp. dp_id dp \<noteq> '''') (data_providers c))"

definition infra_requests :: "contract \<Rightarrow> infra_owner list \<Rightarrow> job_request list" where
  "infra_requests c owners = map (\<lambda>o1. \<lparr>jr_role = ''infra-provider'', jr_provider_id = io_provider_id o1,
      jr_items = [(io_infra_id o1, infra_name c (io_infra_id o1))]\<rparr>)
    (filter (\<lambda>o1. io_provider_id o1 \<noteq> '''') owners)"

definition job_requests :: "contract \<Rightarrow> infra_owner list \<Rightarrow> job_request list" where
  "job_requests c owners = fold add_request (data_requests c @ infra_requests c owners) []"

definition job_request_message :: "contract \<Rightarrow> string \<Rightarrow> job_request \<Rightarrow> string" where
  "job_request_message c sender r =
     (let noun = (if jr_role r = ''infra-provider'' then ''infrastructure'' else ''dataset'') @
            (if length (jr_items r) > 1 then ''s'' else '''');
          what = map (\<lambda>(i, name). go_quote (if name = '''' then i else name)) (jr_items r)
      in sender @ '' requests to use your '' @ noun @ '' '' @ join '', '' what @ '' for the '' @ ct_technique c @
         '' job '' @ ct_job_id c @ ''. Please approve or reject it.'')"

definition job_request_payload :: "contract \<Rightarrow> string \<Rightarrow> job_request \<Rightarrow> json" where
  "job_request_payload c hash r = JObj
     [(''type'', JStr ''JOB_REQUEST''), (''role'', JStr (jr_role r)), (''job_id'', JStr (ct_job_id c)),
      (''contract_id'', JStr (ct_contract_id c)), (''technique'', JStr (ct_technique c)),
      (''consumer'', JObj [(''id'', JStr (up_id (user_party c))), (''name'', JStr (up_name (user_party c)))]),
      (''items'', JArr (map (\<lambda>(i, name). JObj [(''id'', JStr i), (''name'', JStr name)]) (jr_items r))),
      (''approve_with'', JStr (''POST /job/approval/'' @ jr_role r)), (''contract_hash'', JStr hash),
      (''hash_algorithm'', JStr ''SHA-256''), (''contract'', enc_contract c)]"

definition stored_contract_hash :: "crypto \<Rightarrow> contract \<Rightarrow> (contract \<times> string) result" where
  "stored_contract_hash C c =
     and_then (marshal_contract c) (\<lambda>raw.
     and_then (decode_stored raw) (\<lambda>stored.
     and_then (compute_hash C stored) (\<lambda>hash. Inr (stored, hash))))"

fun send_job_requests ::
  "world \<Rightarrow> contract \<Rightarrow> string \<Rightarrow> string \<Rightarrow> job_request list \<Rightarrow> nat \<times> db \<Rightarrow> nat \<times> db" where
  "send_job_requests W c hash sender [] acc = acc"
| "send_job_requests W c hash sender (r # rs) (sent, d) =
     (let payload = job_request_payload c hash r in
      if \<not> json_ok payload then send_job_requests W c hash sender rs (sent, d)
      else (case create_notification W (jr_provider_id r) (jr_provider_id r) sender
               (job_request_message c sender r) payload d of
          (Inl e, d) \<Rightarrow> send_job_requests W c hash sender rs (sent, d)
        | (Inr n, d) \<Rightarrow> send_job_requests W c hash sender rs (sent + 1, d)))"

definition notify_job_request :: "server \<Rightarrow> world \<Rightarrow> contract \<Rightarrow> string \<Rightarrow> db \<Rightarrow> nat \<times> db" where
  "notify_job_request S W c sender d =
     (case stored_contract_hash (srv_crypto S) c of
        Inl e \<Rightarrow> (0, d)
      | Inr (c, hash) \<Rightarrow> send_job_requests W c hash sender (job_requests c (infra_owners W c)) (0, d))"

section \<open>Participants\<close>

definition participant_row :: "contract \<Rightarrow> string \<Rightarrow> string \<Rightarrow> string \<Rightarrow> string \<Rightarrow> string \<Rightarrow> job_participant" where
  "participant_row c role pid item item_name status =
     \<lparr>jp_job_id = ct_job_id c, jp_contract_id = ct_contract_id c, jp_technique = ct_technique c,
      jp_role = role, jp_participant_id = pid, jp_user_id = '''', jp_username = '''', jp_item_id = item,
      jp_item_name = item_name, jp_status = status, jp_created_at = zero_time, jp_updated_at = zero_time\<rparr>"

definition job_participant_rows :: "contract \<Rightarrow> string \<Rightarrow> infra_owner list \<Rightarrow> job_participant list" where
  "job_participant_rows c consumer_username owners =
     [(participant_row c ''consumer'' (up_id (user_party c)) '''' '''' ''created'')
        \<lparr>jp_user_id := up_id (user_party c), jp_username := consumer_username\<rparr>] @
     map (\<lambda>dp. participant_row c ''data-provider'' (if dp_id dp \<noteq> '''' then party_provider_id dp else '''')
       (approval_item dp) (dp_dataset_name dp) ''requested'') (data_providers c) @
     map (\<lambda>o1. participant_row c ''infra-provider'' (io_provider_id o1) (io_infra_id o1)
       (infra_name c (io_infra_id o1)) ''requested'') owners"

definition record_job_participants :: "world \<Rightarrow> contract \<Rightarrow> string \<Rightarrow> db \<Rightarrow> db" where
  "record_job_participants W c consumer_username d =
     (if ct_job_id c = '''' \<or> ct_technique c = ''FL'' then d
      else let owners = (if needs_job_approval c then infra_owners W c else [])
           in snd (replace_job_participants W (ct_job_id c) (job_participant_rows c consumer_username owners) d))"

section \<open>A user's jobs\<close>

text \<open>A row with its job's life cycle stamps.\<close>

record listed_participant =
  lp_row :: job_participant
  lp_finalized_at :: "time option"
  lp_tee_enabled_at :: "time option"

definition participant_named :: "string list \<Rightarrow> job_participant \<Rightarrow> bool" where
  "participant_named lower p \<longleftrightarrow> List.member lower (to_lower (jp_participant_id p)) \<or>
     List.member lower (to_lower (jp_user_id p)) \<or> List.member lower (to_lower (jp_username p))"

definition with_lifecycle :: "db \<Rightarrow> job_participant \<Rightarrow> listed_participant" where
  "with_lifecycle d p =
     (case List.find (row_has_job (jp_job_id p)) (t_contracts d) of
        None \<Rightarrow> \<lparr>lp_row = p, lp_finalized_at = None, lp_tee_enabled_at = None\<rparr>
      | Some r \<Rightarrow> \<lparr>lp_row = p, lp_finalized_at = cr_finalized_at r, lp_tee_enabled_at = cr_tee_enabled_at r\<rparr>)"

text \<open>\<^verbatim>\<open>ORDER BY created_at DESC, job_id, role, item_id\<close>, texts compared by bytes.\<close>

definition list_job_participants_for_user ::
  "world \<Rightarrow> db \<Rightarrow> string list \<Rightarrow> listed_participant list result" where
  "list_job_participants_for_user W d names =
     (let lower = map to_lower (filter (\<lambda>n. n \<noteq> '''') names)
      in db_read W ''ListJobParticipantsForUser'' names
        (map (with_lifecycle d)
          (sort_key (\<lambda>p. (- jp_created_at p, jp_job_id p, jp_role p, jp_item_id p))
            (filter (participant_named lower) (t_participants d)))))"

record user_job =
  uj_job_id :: string
  uj_contract_id :: string
  uj_technique :: string
  uj_job_state :: string
  uj_created_at :: time
  uj_finalized_at :: "time option"
  uj_tee_enabled_at :: "time option"
  uj_participation :: "job_participant list"

definition job_state_of :: "listed_participant \<Rightarrow> string" where
  "job_state_of p =
     (if lp_tee_enabled_at p \<noteq> None then ''tee_enabled''
      else if lp_finalized_at p \<noteq> None then ''final'' else ''in_progress'')"

definition new_user_job :: "listed_participant \<Rightarrow> user_job" where
  "new_user_job p =
     (let r = lp_row p in
      \<lparr>uj_job_id = jp_job_id r, uj_contract_id = jp_contract_id r, uj_technique = jp_technique r,
       uj_job_state = job_state_of p, uj_created_at = jp_created_at r,
       uj_finalized_at = lp_finalized_at p, uj_tee_enabled_at = lp_tee_enabled_at p,
       uj_participation = [r]\<rparr>)"

definition group_user_jobs :: "listed_participant list \<Rightarrow> user_job list" where
  "group_user_jobs rows =
     fold (\<lambda>p js. upsert_row (\<lambda>a b. uj_job_id b = uj_job_id a)
         (\<lambda>a b. b\<lparr>uj_participation := uj_participation b @ uj_participation a\<rparr>) (new_user_job p) js) rows []"

definition user_job_names :: "world \<Rightarrow> db \<Rightarrow> string \<Rightarrow> string list result" where
  "user_job_names W d user_id =
     and_then (username_by_user_id W d user_id) (\<lambda>username.
     Inr ([user_id] @
       (if has_prefix (to_lower user_id) ''provider-'' then [] else [provider_id_for_username user_id]) @
       (if username \<noteq> '''' then [username, provider_id_for_username username] else [])))"

definition own_token_names :: "string \<Rightarrow> provider_caller \<Rightarrow> string list" where
  "own_token_names user_id caller =
     (let i = to_lower user_id in
      if i = '''' \<or> (i \<noteq> to_lower (pc_user_id caller) \<and> \<not> List.member (pc_names caller) i) then []
      else pc_names caller)"

definition is_consumer_part :: "job_participant \<Rightarrow> bool" where
  "is_consumer_part p \<longleftrightarrow> jp_role p = ''consumer''"

definition is_requested_data_provider_part :: "job_participant \<Rightarrow> bool" where
  "is_requested_data_provider_part p \<longleftrightarrow> jp_role p = ''data-provider'' \<and> jp_status p = ''requested''"

text \<open>Each job with its events, who generated it and the datasets on its contract.\<close>

record listed_job =
  lj_job :: user_job
  lj_events :: "contract_event list"
  lj_last_event :: "contract_event option"
  lj_consumer :: string
  lj_datasets :: "(string \<times> string \<times> string) list"  \<comment> \<open>catalogue id, name, provider id\<close>

text \<open>The newest 50 events of a job, oldest first.\<close>

definition job_events :: "db \<Rightarrow> string \<Rightarrow> contract_event list" where
  "job_events d job_id =
     (let evs = sort_key ev_at (filter (\<lambda>e. ev_job_id e = job_id) (t_events d))
      in drop (length evs - 50) evs)"

definition list_contract_events_for_jobs ::
  "world \<Rightarrow> db \<Rightarrow> string list \<Rightarrow> (string \<Rightarrow> contract_event list) result" where
  "list_contract_events_for_jobs W d job_ids =
     (if job_ids = [] then Inr (\<lambda>j. [])
      else db_read W ''ListContractEventsForJobs'' job_ids
        (\<lambda>j. if List.member job_ids j then job_events d j else []))"

definition with_events :: "contract_event list \<Rightarrow> user_job \<Rightarrow> listed_job" where
  "with_events evs uj =
     \<lparr>lj_job = uj, lj_events = evs, lj_last_event = (if evs = [] then None else Some (last evs)),
      lj_consumer = (case List.find (\<lambda>e. ev_event e = ''generated'') evs of
        None \<Rightarrow> '''' | Some e \<Rightarrow> ev_actor e),
      lj_datasets = []\<rparr>"

definition attach_contract_events :: "world \<Rightarrow> db \<Rightarrow> user_job list \<Rightarrow> listed_job list" where
  "attach_contract_events W d ujs =
     (let by_job = (case list_contract_events_for_jobs W d (map uj_job_id ujs) of
            Inl e \<Rightarrow> (\<lambda>j. []) | Inr f \<Rightarrow> f)
      in map (\<lambda>uj. with_events (by_job (uj_job_id uj)) uj) ujs)"

definition contract_datasets :: "contract \<Rightarrow> (string \<times> string \<times> string) list" where
  "contract_datasets c =
     map (\<lambda>dp. (catalogue_item_id dp, dp_dataset_name dp, party_provider_id dp)) (data_providers c)"

definition attach_job_datasets :: "world \<Rightarrow> db \<Rightarrow> listed_job list \<Rightarrow> listed_job list" where
  "attach_job_datasets W d js =
     map (\<lambda>lj. case get_contract_by_job_id W d (uj_job_id (lj_job lj)) of
         Inr (Some raw) \<Rightarrow> (case decode_stored raw of
             Inl e \<Rightarrow> lj | Inr c \<Rightarrow> lj\<lparr>lj_datasets := contract_datasets c\<rparr>)
       | _ \<Rightarrow> lj) js"

definition list_user_jobs ::
  "server \<Rightarrow> world \<Rightarrow> string \<Rightarrow> string \<Rightarrow> (job_participant \<Rightarrow> bool) \<Rightarrow> bool \<Rightarrow> db \<Rightarrow>
   listed_job list response" where
  "list_user_jobs S W auth user_id_param keep datasets d =
     and_then (dev_token_claims S W ''user'' auth) (\<lambda>(tok, claims).
     let user_id = trim_space user_id_param in
     require (user_id \<noteq> '''') (HttpError 400 ''BAD_REQUEST'' ''userId is required'') (
     and_then (or_fail internal_error (user_job_names W d user_id)) (\<lambda>names.
     and_then (or_fail internal_error (list_job_participants_for_user W d
         (names @ own_token_names user_id (caller_from_claims tok claims)))) (\<lambda>rows.
     let js = attach_contract_events W d (group_user_jobs (filter (\<lambda>p. keep (lp_row p)) rows)) in
     Inr (if datasets then attach_job_datasets W d js else js)))))"

definition get_user_jobs :: "server \<Rightarrow> world \<Rightarrow> string \<Rightarrow> string \<Rightarrow> db \<Rightarrow> listed_job list response" where
  "get_user_jobs S W auth user_id d = list_user_jobs S W auth user_id (\<lambda>p. True) False d"

definition get_consumer_jobs :: "server \<Rightarrow> world \<Rightarrow> string \<Rightarrow> string \<Rightarrow> db \<Rightarrow> listed_job list response" where
  "get_consumer_jobs S W auth user_id d = list_user_jobs S W auth user_id is_consumer_part True d"

definition get_provider_jobs :: "server \<Rightarrow> world \<Rightarrow> string \<Rightarrow> string \<Rightarrow> db \<Rightarrow> listed_job list response" where
  "get_provider_jobs S W auth user_id d =
     list_user_jobs S W auth user_id is_requested_data_provider_part True d"

section \<open>Reading a job's contract\<close>

definition is_job_participant :: "world \<Rightarrow> db \<Rightarrow> contract \<Rightarrow> provider_caller \<Rightarrow> bool result" where
  "is_job_participant W d c caller =
     (if pc_user_id caller \<noteq> '''' \<and> equal_fold (pc_user_id caller) (up_id (user_party c)) then Inr True
      else if list_ex (caller_is caller) (data_providers c) then Inr True
      else if pc_user_id caller = '''' then Inr False
      else and_then (user_job_names W d (pc_user_id caller)) (\<lambda>names.
        and_then (list_job_participants_for_user W d names) (\<lambda>rows.
        Inr (list_ex (\<lambda>p. jp_job_id (lp_row p) = ct_job_id c) rows))))"

definition get_job_contract ::
  "server \<Rightarrow> world \<Rightarrow> string \<Rightarrow> string \<Rightarrow> string \<Rightarrow> db \<Rightarrow> (string \<times> contract) response" where
  "get_job_contract S W auth job_id_param contract_id_param d =
     and_then (dev_token_claims S W ''user'' auth) (\<lambda>(tok, claims).
     let job_id = trim_space job_id_param; contract_id = trim_space contract_id_param in
     and_then (load_contract_by_job W d job_id) (\<lambda>c.
     require (\<not> (contract_id = '''' \<or> ct_contract_id c \<noteq> contract_id))
       (HttpError 404 ''NOT_FOUND'' (''contract_id '' @ contract_id @ '' is not this job's contract'')) (
     and_then (or_fail internal_error (is_job_participant W d c (caller_from_claims tok claims))) (\<lambda>allowed.
     require allowed (HttpError 403 ''NOT_JOB_PARTICIPANT''
       ''only this job's consumer or its data / infra providers can read its contract'') (
     and_then (or_fail (HttpError 409 ''CONTRACT_HASH_MISMATCH'') (signed_job_contract_hash S c)) (\<lambda>hash.
     Inr (hash, c)))))))"

end
