(* ===== verification/TEE_Job.thy ===== *)
theory TEE_Job
  imports Approval
begin

text \<open>
  Running an approved or fully signed contract (\<^verbatim>\<open>httpapi/job_tee.go\<close>): enabling a job's TEE run,
  starting the run with the coordinator, its status, and how a started run is recorded to have
  ended (\<^verbatim>\<open>httpapi/tee_outcome.go\<close>). The \<^verbatim>\<open>grpcurl\<close> processes are calls of \<open>w_exec\<close>; the goroutine
  that watches a run is a sequence of polls, each with the world it sees.
\<close>

section \<open>Enabling the run\<close>

definition not_final :: "string \<Rightarrow> http_error" where
  "not_final job_id = HttpError 409 ''CONTRACT_NOT_FINAL''
     (''the job's contract is not final yet: every data and infra provider must approve it, then GET /job/'' @
      job_id @ ''/status must return approved'')"

definition enable_checks :: "server \<Rightarrow> world \<Rightarrow> string \<Rightarrow> string \<Rightarrow> db \<Rightarrow> contract response" where
  "enable_checks S W auth job_id d =
     and_then (dev_token_claims S W ''consumer'' auth) (\<lambda>(tok, claims).
     and_then (load_contract_by_job W d job_id) (\<lambda>c.
     require (is_contract_user claims c) (HttpError 403 ''NOT_JOB_CONSUMER''
       ''only the user who generated this job's contract can enable its TEE run'') (
     and_then (or_fail (\<lambda>e. HttpError 409 ''CONTRACT_NOT_SIGNED'' (he_message e))
       (require_all_providers_signed S W d (ct_contract_id c))) (\<lambda>signed. Inr c))))"

definition enable_job_tee ::
  "server \<Rightarrow> world \<Rightarrow> string \<Rightarrow> string \<Rightarrow> db \<Rightarrow> (contract \<times> time) response \<times> db" where
  "enable_job_tee S W auth job_id d =
     (case enable_checks S W auth job_id d of
        Inl e \<Rightarrow> (Inl e, d)
      | Inr c \<Rightarrow>
          (case enable_job_tee_row W job_id d of
             (Inl e, d) \<Rightarrow> (Inl (internal_error e), d)
           | (Inr None, d) \<Rightarrow> (Inl (not_final job_id), d)
           | (Inr (Some at), d) \<Rightarrow> (Inr (c, at), mark_job_participants W job_id ''tee_enabled'' d)))"

section \<open>Starting the run\<close>

definition enc_sub_contract :: "sub_contract \<Rightarrow> json" where
  "enc_sub_contract s = JObj [(''contract'', json_fields
     [(''contractId'', Some (JStr (sc_contract_id s))),
      (''workload'', Some (enc_opt enc_workload (sc_workload s))),
      (''trustee'', Some (enc_opt enc_job_trustee (sc_trustee s))),
      (''callbackUrl'', omit_str (sc_callback_url s))])]"

definition coordinator_call :: "server \<Rightarrow> world \<Rightarrow> string \<Rightarrow> json \<Rightarrow> (string \<times> json option) result" where
  "coordinator_call S W m payload =
     w_exec W [cfg_grpcurl_bin (srv_cfg S), ''-plaintext'', ''-d'', json_bytes (srv_crypto S) payload,
       cfg_coordinator_addr (srv_cfg S), ''kata.coordinator.v1.CoordinatorService/'' @ m]"

abbreviation gov_actor :: string where "gov_actor \<equiv> ''governance-layer''"

text \<open>\<open>loadContract\<close> with its error dropped.\<close>

definition stored_or_none :: "world \<Rightarrow> db \<Rightarrow> string \<Rightarrow> contract option" where
  "stored_or_none W d cid = (case load_contract W d cid of Inl e \<Rightarrow> None | Inr c \<Rightarrow> c)"

definition refuse_run :: "server \<Rightarrow> world \<Rightarrow> contract option \<Rightarrow> http_error \<Rightarrow> db \<Rightarrow> db" where
  "refuse_run S W c e d =
     record_contract_event S W c ''run_refused'' (''Run refused: '' @ he_message e) gov_actor d"

definition incomplete_contract :: "string list \<Rightarrow> http_error" where
  "incomplete_contract missing =
     HttpError 422 ''CONTRACT_INCOMPLETE'' (''contract is missing '' @ join '', '' missing)"

definition no_coordinator :: http_error where
  "no_coordinator = HttpError 503 ''NOT_CONFIGURED'' ''COORDINATOR_ADDR is not set''"

definition created_job :: "json option \<Rightarrow> string" where
  "created_job out = body_str ''jobId'' out"

definition started_detail :: "string \<Rightarrow> string" where
  "started_detail coord_job =
     (if coord_job = '''' then ''TEE run started'' else ''TEE run started '' @ outcome_mark coord_job)"

text \<open>After the coordinator accepted the job: the run is live and recorded.\<close>

definition record_started :: "server \<Rightarrow> world \<Rightarrow> string \<Rightarrow> contract \<Rightarrow> string \<Rightarrow> db \<Rightarrow> db" where
  "record_started S W cid c coord_job d =
     (let d = snd (mark_contract_tee_enabled W cid d);
          d = (if ct_job_id c \<noteq> '''' then mark_job_participants W (ct_job_id c) ''tee_enabled'' d else d)
      in record_contract_event S W (Some c) ''run_started'' (started_detail coord_job) gov_actor d)"

text \<open>
  The response: the sub-contract sent, the coordinator's output, and the coordinator job to
  watch (blank: none).
\<close>

definition start_run ::
  "server \<Rightarrow> world \<Rightarrow> string \<Rightarrow> contract \<Rightarrow> db \<Rightarrow>
   (sub_contract \<times> (string \<times> json option) \<times> string) response \<times> db" where
  "start_run S W cid c d =
     (if cfg_coordinator_addr (srv_cfg S) = '''' then (Inl no_coordinator, d)
      else case new_sub_contract c of (sub, missing) \<Rightarrow>
        if missing \<noteq> [] then (Inl (incomplete_contract missing), d)
        else case coordinator_call S W ''CreateJob'' (enc_sub_contract sub) of
            Inl e \<Rightarrow> (Inl (HttpError 502 ''GRPCURL_FAILED'' e),
              record_contract_event S W (Some c) ''run_failed'' (''Run could not start: '' @ e) gov_actor d)
          | Inr (text, out) \<Rightarrow>
              (Inr (sub, (text, out), created_job out), record_started S W cid c (created_job out) d))"

definition run_tee_job ::
  "server \<Rightarrow> world \<Rightarrow> string option \<Rightarrow> db \<Rightarrow>
   (sub_contract \<times> (string \<times> json option) \<times> string) response \<times> db" where
  "run_tee_job S W body d =
     (case body of
        None \<Rightarrow> (Inl invalid_json, d)
      | Some b \<Rightarrow>
          let cid = trim_space b in
          if cid = '''' then (Inl (HttpError 400 ''BAD_REQUEST'' ''contract_id is required''), d)
          else if \<not> srv_has_db S then (Inl (internal_error ''database not available''), d)
          else case require_all_providers_signed S W d cid of
              Inl e \<Rightarrow> (Inl e, refuse_run S W (stored_or_none W d cid) e d)
            | Inr c \<Rightarrow>
                (case require_workload_allowed c of
                   Some e \<Rightarrow> (Inl e, refuse_run S W (Some c) e d)
                 | None \<Rightarrow> start_run S W cid c d))"

section \<open>How a run ends\<close>

record coordinator_job =
  cj_job_id :: string
  cj_contract_id :: string
  cj_state :: string
  cj_reason :: string

definition dec_coordinator_job :: "json \<Rightarrow> coordinator_job option" where
  "dec_coordinator_job j = do {
     job_id \<leftarrow> dec_str (jget ''jobId'' j);
     contract_id \<leftarrow> dec_str (jget ''contractId'' j);
     state \<leftarrow> dec_str (jget ''state'' j);
     reason \<leftarrow> dec_str (jget ''reason'' j);
     Some \<lparr>cj_job_id = job_id, cj_contract_id = contract_id, cj_state = state, cj_reason = reason\<rparr> }"

definition terminal_state :: "string \<Rightarrow> bool" where
  "terminal_state s \<longleftrightarrow>
     List.member [''JOB_STATE_SUCCEEDED'', ''JOB_STATE_FAILED'', ''JOB_STATE_CANCELLED''] s"

definition outcome_event :: "coordinator_job \<Rightarrow> string" where
  "outcome_event cj =
     (if cj_state cj = ''JOB_STATE_FAILED'' \<or> cj_state cj = ''JOB_STATE_CANCELLED''
      then ''run_execution_failed'' else ''run_succeeded'')"

definition outcome_reason :: "coordinator_job \<Rightarrow> string" where
  "outcome_reason cj =
     (let r = trim_space (cj_reason cj)
      in if r = '''' then ''no reason given by the coordinator'' else r)"

definition outcome_detail :: "coordinator_job \<Rightarrow> string" where
  "outcome_detail cj =
     (if cj_state cj = ''JOB_STATE_FAILED'' then ''TEE run failed: '' @ outcome_reason cj
      else if cj_state cj = ''JOB_STATE_CANCELLED'' then ''TEE run cancelled: '' @ outcome_reason cj
      else ''TEE run succeeded'') @ '' '' @ outcome_mark (cj_job_id cj)"

text \<open>The job the outcome belongs to: the stored contract's, else the one its events name.\<close>

definition outcome_job :: "world \<Rightarrow> db \<Rightarrow> string \<Rightarrow> string result" where
  "outcome_job W d cid =
     (let job_id = (case stored_or_none W d cid of None \<Rightarrow> '''' | Some c \<Rightarrow> ct_job_id c)
      in if job_id \<noteq> '''' then Inr job_id else contract_event_job_id W d cid)"

text \<open>Whether the job is final, and the database with its outcome recorded once.\<close>

definition settle_tee_run :: "server \<Rightarrow> world \<Rightarrow> json option \<Rightarrow> db \<Rightarrow> bool \<times> db" where
  "settle_tee_run S W raw d =
     (case Option.bind raw (dec_struct dec_coordinator_job) of
        None \<Rightarrow> (False, d)
      | Some cj \<Rightarrow>
          if \<not> terminal_state (cj_state cj) then (False, d)
          else if \<not> srv_has_db S \<or> cj_contract_id cj = '''' \<or> cj_job_id cj = '''' then (True, d)
          else case has_tee_run_outcome W d (cj_contract_id cj) (cj_job_id cj) of
              Inl e \<Rightarrow> (True, d)
            | Inr True \<Rightarrow> (True, d)
            | Inr False \<Rightarrow>
                (case outcome_job W d (cj_contract_id cj) of
                   Inl e \<Rightarrow> (True, d)
                 | Inr job_id \<Rightarrow>
                     if job_id = '''' then (True, d)
                     else (True, snd (add_contract_event W (cj_contract_id cj) job_id (outcome_event cj)
                       (outcome_detail cj) gov_actor d))))"

text \<open>\<open>teeJobIDPattern\<close>: one to 128 letters, digits, dots, underscores and dashes.\<close>

definition is_coord_char :: "char \<Rightarrow> bool" where
  "is_coord_char c \<longleftrightarrow> (let n = of_char c :: nat in (48 \<le> n \<and> n \<le> 57) \<or> (65 \<le> n \<and> n \<le> 90) \<or>
     (97 \<le> n \<and> n \<le> 122) \<or> List.member [45, 46, 95] n)"

definition is_coord_job :: "string \<Rightarrow> bool" where
  "is_coord_job s \<longleftrightarrow> 1 \<le> length s \<and> length s \<le> 128 \<and> list_all is_coord_char s"

definition fetch_coordinator_job :: "server \<Rightarrow> world \<Rightarrow> string \<Rightarrow> (string \<times> json option) result" where
  "fetch_coordinator_job S W coord_job =
     coordinator_call S W ''GetJob'' (JObj [(''jobId'', JStr coord_job)])"

definition get_tee_job :: "server \<Rightarrow> world \<Rightarrow> string \<Rightarrow> db \<Rightarrow> json response \<times> db" where
  "get_tee_job S W coord_job d =
     (if \<not> is_coord_job coord_job then (Inl (HttpError 400 ''BAD_REQUEST'' ''invalid jobId''), d)
      else if cfg_coordinator_addr (srv_cfg S) = '''' then (Inl no_coordinator, d)
      else case fetch_coordinator_job S W coord_job of
          Inl e \<Rightarrow> (Inl (HttpError 502 ''GRPCURL_FAILED'' e), d)
        | Inr (text, None) \<Rightarrow> (Inl (HttpError 502 ''BAD_COORDINATOR_RESPONSE'' (trim_space text)), d)
        | Inr (text, Some j) \<Rightarrow> (Inr j, snd (settle_tee_run S W (Some j) d)))"

text \<open>
  The result blob of a run: a JSON document, or \<open>None\<close> for text, which is passed through. The read
  URL carries its own credential.
\<close>

definition get_tee_job_result :: "server \<Rightarrow> world \<Rightarrow> string \<Rightarrow> json option response" where
  "get_tee_job_result S W coord_job =
     (if \<not> is_coord_job coord_job then Inl (HttpError 400 ''BAD_REQUEST'' ''invalid jobId'')
      else if cfg_result_read_url (srv_cfg S) = '''' then Inl (HttpError 503 ''NOT_CONFIGURED''
        ''RESULT_READ_URL is not set (needs a read SAS for the result blob)'')
      else case w_http_get W (cfg_result_read_url (srv_cfg S)) '''' of
          NetFail e \<Rightarrow> Inl (HttpError 502 ''RESULT_FETCH_FAILED'' e)
        | HttpReply status body \<Rightarrow>
            if status \<noteq> 200 then Inl (HttpError 502 ''RESULT_FETCH_FAILED''
              (''result storage returned status '' @ decimal status))
            else Inr body)"

text \<open>
  The runs still to be watched after a restart: started in the last 24 hours, no outcome recorded.
  A started run's coordinator job is the text after its mark, as \<^verbatim>\<open>substring(detail from ..)\<close> reads it.
\<close>

abbreviation coord_mark :: string where "coord_mark \<equiv> ''coordinator job ''"

fun coord_job_in :: "string \<Rightarrow> string option" where
  "coord_job_in [] = None"
| "coord_job_in (c # s) =
     (let rest = takeWhile is_coord_char (drop (length coord_mark) (c # s)) in
      if has_prefix (c # s) coord_mark \<and> rest \<noteq> '''' then Some rest else coord_job_in s)"

definition list_unsettled_tee_runs :: "world \<Rightarrow> db \<Rightarrow> time \<Rightarrow> (string \<times> string) list result" where
  "list_unsettled_tee_runs W d since =
     db_read W ''ListUnsettledTEERuns'' []
       (concat (map (\<lambda>e. case coord_job_in (ev_detail e) of
            None \<Rightarrow> []
          | Some k \<Rightarrow> if list_ex (is_outcome_of (ev_contract_id e) k) (t_events d) then []
              else [(ev_contract_id e, k)])
         (filter (\<lambda>e. ev_event e = ''run_started'' \<and> ev_at e \<ge> since) (t_events d))))"

definition resume_tee_run_watchers :: "server \<Rightarrow> world \<Rightarrow> db \<Rightarrow> string list" where
  "resume_tee_run_watchers S W d =
     (if \<not> srv_has_db S \<or> cfg_coordinator_addr (srv_cfg S) = '''' then []
      else case list_unsettled_tee_runs W d (w_now W - 24 * hour) of
          Inl e \<Rightarrow> [] | Inr runs \<Rightarrow> map snd runs)"

text \<open>The watcher: polls until the job is final or six hours have passed; each poll has its world.\<close>

abbreviation tee_watch_max_age :: time where "tee_watch_max_age \<equiv> 6 * hour"

fun watch_polls :: "server \<Rightarrow> string \<Rightarrow> time \<Rightarrow> world list \<Rightarrow> db \<Rightarrow> db" where
  "watch_polls S coord_job deadline [] d = d"
| "watch_polls S coord_job deadline (W # Ws) d =
     (if \<not> w_now W < deadline then d
      else case fetch_coordinator_job S W coord_job of
          Inl e \<Rightarrow> watch_polls S coord_job deadline Ws d
        | Inr (text, out) \<Rightarrow>
            (case settle_tee_run S W out d of
               (True, d) \<Rightarrow> d
             | (False, d) \<Rightarrow> watch_polls S coord_job deadline Ws d))"

definition watch_tee_run :: "server \<Rightarrow> string \<Rightarrow> time \<Rightarrow> world list \<Rightarrow> db \<Rightarrow> db" where
  "watch_tee_run S coord_job start Ws d =
     (if cfg_coordinator_addr (srv_cfg S) = '''' \<or> \<not> is_coord_job coord_job then d
      else watch_polls S coord_job (start + tee_watch_max_age) Ws d)"

end
