(* ===== verification/Approval_Facts.thy ===== *)
theory Approval_Facts
  imports Approval
begin

text \<open>
  What job approval guarantees: what a recorded approval adds, that the audit covers every dataset
  of the contract after one approval, what an approved status has verified, when the contract
  becomes final, and what a call that is not approved leaves alone.
\<close>

section \<open>Reading the audit trail\<close>

definition job_history :: "db \<Rightarrow> string \<Rightarrow> audit_entry list" where
  "job_history d job_id = sort_key ae_checked_at (filter (\<lambda>e. ae_job_id e = job_id) (t_audit d))"

lemma load_job_approval_state_Inr:
  "load_job_approval_state S W d job_id = Inr st \<longleftrightarrow>
     w_fault W (Db ''ListAuditByJob'' [job_id]) = None \<and> st = approval_state S (job_history d job_id)"
  by (auto simp: load_job_approval_state_def list_audit_by_job_def job_history_def db_read_def
      split: option.splits)

lemma current_in_history: "e \<in> set (current_entries h) \<Longrightarrow> e \<in> set h"
  using current_entries_latest latest_entry_key by blast

lemma in_job_history [simp]: "e \<in> set (job_history d job_id) \<longleftrightarrow> e \<in> set (t_audit d) \<and> ae_job_id e = job_id"
  by (auto simp: job_history_def)

lemma checked_items_audited:
  assumes "checked_items S W d job_id kind = Inr checked" and "(pid, item) \<in> set checked"
  shows "\<exists>e \<in> set (t_audit d). ae_job_id e = job_id \<and> ae_type e = kind \<and> ae_provider_id e = pid \<and> ae_item e = item"
proof -
  have "checked = map (\<lambda>e. (ae_provider_id e, ae_item e))
      (filter (\<lambda>e. ae_type e = kind) (current_entries (job_history d job_id)))"
    using assms(1) by (auto simp: checked_items_def load_job_approval_state_Inr)
  then obtain e where "e \<in> set (current_entries (job_history d job_id))" "ae_type e = kind"
      "ae_provider_id e = pid" "ae_item e = item"
    using assms(2) by auto
  then show ?thesis using current_in_history by fastforce
qed

section \<open>Recording\<close>

lemma store_job_contract_cases:
  "snd (store_job_contract W c d) =
     (if json_ok (enc_contract c) then snd (update_contract_by_contract_id W (ct_contract_id c) (enc_contract c) d)
      else d)"
proof -
  obtain r d' where "update_contract_by_contract_id W (ct_contract_id c) (enc_contract c) d = (r, d')"
    by (metis surj_pair)
  then show ?thesis by (cases r) (auto simp: store_job_contract_def marshal_contract_def split: bool.split)
qed

lemma store_job_contract_frame [simp, frame_simps]:
  "t_final (snd (store_job_contract W c d)) = t_final d"
  "t_audit (snd (store_job_contract W c d)) = t_audit d"
  "t_events (snd (store_job_contract W c d)) = t_events d"
  "t_participants (snd (store_job_contract W c d)) = t_participants d"
  "t_notifications (snd (store_job_contract W c d)) = t_notifications d"
  "t_keys (snd (store_job_contract W c d)) = t_keys d"
  by (simp_all add: store_job_contract_cases)

lemma store_job_contract_Inr:
  assumes "store_job_contract W c d = (Inr u, d')"
  shows "d' = put_contract (w_now W) (ct_contract_id c) c d"
  using assms update_contract_True
  by (auto simp: store_job_contract_def marshal_contract_def split: prod.splits sum.splits bool.splits if_splits)

lemma store_job_contract_Inl: "store_job_contract W c d = (Inl e, d') \<Longrightarrow> d' = d"
  using update_contract_not_True
  by (auto simp: store_job_contract_def split: prod.splits sum.splits bool.splits)

lemma sign_approved_items_frame [simp, frame_simps]:
  "t_final (snd (sign_approved_items W k c own u h v d)) = t_final d"
  "t_audit (snd (sign_approved_items W k c own u h v d)) = t_audit d"
  "t_events (snd (sign_approved_items W k c own u h v d)) = t_events d"
  "t_participants (snd (sign_approved_items W k c own u h v d)) = t_participants d"
  "t_notifications (snd (sign_approved_items W k c own u h v d)) = t_notifications d"
  "t_keys (snd (sign_approved_items W k c own u h v d)) = t_keys d"
proof -
  obtain c' n where p: "sign_parties k own (signature_over (w_now W) u h v) c = (c', n)" by (metis surj_pair)
  obtain r d1 where s: "store_job_contract W c' d = (r, d1)" by (metis surj_pair)
  note f = store_job_contract_frame [of W c' d, unfolded s snd_conv]
  show "t_final (snd (sign_approved_items W k c own u h v d)) = t_final d"
    "t_audit (snd (sign_approved_items W k c own u h v d)) = t_audit d"
    "t_events (snd (sign_approved_items W k c own u h v d)) = t_events d"
    "t_participants (snd (sign_approved_items W k c own u h v d)) = t_participants d"
    "t_notifications (snd (sign_approved_items W k c own u h v d)) = t_notifications d"
    "t_keys (snd (sign_approved_items W k c own u h v d)) = t_keys d"
    using f by (cases r; simp add: sign_approved_items_def p s)+
qed

lemma save_job_approval_Inr:
  assumes "save_job_approval S W job_id entries d = (Inr st, d')"
  shows "d' = d\<lparr>t_audit := t_audit d @ entries\<rparr>" and "st = approval_state S (job_history d' job_id)"
proof -
  obtain r d1 where i: "insert_audit_entries W entries d = (r, d1)" by (metis surj_pair)
  then have r: "r = Inr ()" and d': "d' = d1" and st: "load_job_approval_state S W d1 job_id = Inr st"
    using assms by (auto simp: save_job_approval_def split: sum.splits)
  then show "d' = d\<lparr>t_audit := t_audit d @ entries\<rparr>"
    using i by (auto simp: insert_audit_entries_def db_write_def split: if_splits option.splits)
  show "st = approval_state S (job_history d' job_id)" using st d' by (simp add: load_job_approval_state_Inr)
qed

lemma record_job_approval_Inr:
  assumes rec: "record_job_approval S W kind job_id c entries own caller body d = (Inr (c', res), d')"
  shows "t_audit d' = t_audit d @ entries" and "t_final d' = t_final d" and "t_keys d' = t_keys d"
    and "ar_approval res = overall_status own"
    and "ar_state res = approval_state S (job_history d' job_id)"
    and "c' = fst (sign_parties kind own
      (signature_over (w_now W) (pc_username caller) (ab_contract_hash body) (ab_signature body)) c)"
proof -
  let ?p = "sign_parties kind own
      (signature_over (w_now W) (pc_username caller) (ab_contract_hash body) (ab_signature body)) c"
  obtain c1 n1 where p: "?p = (c1, n1)" by (metis surj_pair)
  obtain r d1 where s: "sign_approved_items W kind c own (pc_username caller) (ab_contract_hash body)
      (ab_signature body) d = (r, d1)" by (metis surj_pair)
  then obtain cn where r: "r = Inr cn" using rec by (cases r) (auto simp: record_job_approval_def)
  have cn: "fst cn = c1"
    using s unfolding r sign_approved_items_def p by (auto split: if_splits prod.splits sum.splits)
  obtain q d2 where v: "save_job_approval S W job_id entries d1 = (q, d2)" by (metis surj_pair)
  then obtain st where q: "q = Inr st" using rec s r by (cases q; cases cn) (auto simp: record_job_approval_def)
  have out: "c' = fst cn" "d' = d2" "ar_approval res = overall_status own" "ar_state res = st"
    using rec s r v q by (cases cn; auto simp: record_job_approval_def)+
  note sv = save_job_approval_Inr [OF v [unfolded q]]
  note f = sign_approved_items_frame [of W kind c own "pc_username caller" "ab_contract_hash body"
      "ab_signature body" d, unfolded s snd_conv]
  show "t_audit d' = t_audit d @ entries" "t_final d' = t_final d" "t_keys d' = t_keys d"
    unfolding out(2) sv(1) by (simp_all add: f)
  show "ar_approval res = overall_status own" by (rule out(3))
  show "ar_state res = approval_state S (job_history d' job_id)" using out(2,4) sv(2) by simp
  show "c' = fst ?p" using out(1) cn p by simp
qed

section \<open>One approval covers the whole contract\<close>

definition entry_party_id :: "data_party \<Rightarrow> string" where
  "entry_party_id dp = (if dp_id dp \<noteq> '''' then party_provider_id dp else '''')"

definition dataset_audited :: "db \<Rightarrow> string \<Rightarrow> data_party \<Rightarrow> bool" where
  "dataset_audited d job_id dp \<longleftrightarrow> list_ex (\<lambda>e. ae_job_id e = job_id \<and> ae_type e = ''data-provider'' \<and>
     ae_provider_id e = entry_party_id dp \<and> ae_item e = approval_item dp) (t_audit d)"

lemma new_entry_simps [simp]:
  "ae_job_id (new_entry j k p i now) = j" "ae_type (new_entry j k p i now) = k"
  "ae_provider_id (new_entry j k p i now) = p" "ae_item (new_entry j k p i now) = i"
  by (simp_all add: new_entry_def)

lemma decide_entry_simps [simp]:
  "ae_job_id (decide_entry a b rs e) = ae_job_id e" "ae_type (decide_entry a b rs e) = ae_type e"
  "ae_provider_id (decide_entry a b rs e) = ae_provider_id e" "ae_item (decide_entry a b rs e) = ae_item e"
  by (simp_all add: decide_entry_def)

lemma data_entry_covers:
  "(entry_party_id dp, approval_item dp) \<in> set checked \<or>
   (\<exists>e \<in> set (data_entry S W job_id caller checked dp). ae_job_id e = job_id \<and> ae_type e = ''data-provider'' \<and>
      ae_provider_id e = entry_party_id dp \<and> ae_item e = approval_item dp)"
  by (simp add: data_entry_def entry_party_id_def Let_def)

lemma data_approval_checks_Inr:
  assumes "data_approval_checks S W auth body d = Inr (caller, b, c, entries, own)"
  shows "approver_from_token S W ''data provider'' auth = Inr caller" and "body = Some b"
    and "load_contract_by_job W d (ab_job_id b) = Inr c"
    and "check_caller_datasets S W d (ab_job_id b) c caller = Inr entries"
    and "signature_submitted b" and "own = own_data_entries c caller entries"
    and "overall_status own = ''accepted'' \<Longrightarrow> verify_submitted_signature S W d c caller b = Inr ()"
  using assms unfolding data_approval_checks_def load_approval_job_def Let_def
  by (auto split: if_splits prod.splits)

lemma handle_data_Inr:
  assumes "handle_data_provider_approval S W auth body d = (Inr (res, gs, ps), d')"
  obtains caller b c entries own c' d1 where
    "data_approval_checks S W auth body d = Inr (caller, b, c, entries, own)"
    and "record_job_approval S W ''data-provider'' (ab_job_id b) c entries own caller b d = (Inr (c', res), d1)"
    and "d' = mark_approval_participants W ''data-provider'' (ab_job_id b) own caller d1"
    and "gs = post_consumer_grants W ''data-provider'' (ab_job_id b) c' own"
  using assms unfolding handle_data_provider_approval_def data_approval_finish_def
  by (auto split: sum.splits prod.splits)

lemma data_approval_covers:
  assumes h: "handle_data_provider_approval S W auth (Some b) d = (Inr r, d')"
    and c: "load_contract_by_job W d (ab_job_id b) = Inr c" and dp: "dp \<in> set (data_providers c)"
  shows "dataset_audited d' (ab_job_id b) dp"
proof -
  obtain res gs ps where r: "r = (res, gs, ps)" by (metis surj_pair)
  obtain caller b' c0 entries own c' d1 where
      chk: "data_approval_checks S W auth (Some b) d = Inr (caller, b', c0, entries, own)"
      and rec: "record_job_approval S W ''data-provider'' (ab_job_id b') c0 entries own caller b' d = (Inr (c', res), d1)"
      and d': "d' = mark_approval_participants W ''data-provider'' (ab_job_id b') own caller d1"
    using h unfolding r by (rule handle_data_Inr)
  note k = data_approval_checks_Inr [OF chk]
  have b': "b' = b" using k(2) by simp
  have c0: "c0 = c" using k(3) c b' by simp
  obtain checked where ch: "checked_items S W d (ab_job_id b) ''data-provider'' = Inr checked"
      and en: "entries = data_provider_approvals S W (ab_job_id b) c caller checked"
    using k(4) by (auto simp: check_caller_datasets_def b' c0)
  have audit: "t_audit d' = t_audit d @ entries"
    using record_job_approval_Inr(1) [OF rec] d' by simp
  consider (old) "(entry_party_id dp, approval_item dp) \<in> set checked"
    | (new) "\<exists>e \<in> set (data_entry S W (ab_job_id b) caller checked dp). ae_job_id e = ab_job_id b \<and>
        ae_type e = ''data-provider'' \<and> ae_provider_id e = entry_party_id dp \<and> ae_item e = approval_item dp"
    using data_entry_covers by blast
  then show ?thesis
  proof cases
    case old
    then show ?thesis
      using checked_items_audited [OF ch old] by (auto simp: dataset_audited_def audit list_ex_iff)
  next
    case new
    then show ?thesis
      using dp by (fastforce simp: dataset_audited_def audit list_ex_iff en data_provider_approvals_def)
  qed
qed

section \<open>What an approved status has verified\<close>

lemma load_contract_by_job_Inr:
  assumes "load_contract_by_job W d job_id = Inr c"
  shows "job_approval_required c" and "data_providers c \<noteq> []"
proof -
  show "job_approval_required c"
    using assms by (auto simp: load_contract_by_job_def split: if_splits sum.splits option.splits)
  then show "data_providers c \<noteq> []"
    by (auto simp: job_approval_required_def needs_job_approval_def)
qed

definition owners_map :: "world \<Rightarrow> contract \<Rightarrow> (string \<times> string) list" where
  "owners_map W c = rev (map (\<lambda>o1. (io_infra_id o1, io_provider_id o1)) (infra_owners W c))"

text \<open>Every party's signature over the hash is good; an infra's was made by its APD owner, if it has one.\<close>

definition job_signatures_good :: "server \<Rightarrow> world \<Rightarrow> db \<Rightarrow> contract \<Rightarrow> string \<Rightarrow> bool" where
  "job_signatures_good S W d c hash \<longleftrightarrow>
     list_all (\<lambda>p. good_signature S W d hash (dp_signature p) (party_provider_id p)) (data_providers c) \<and>
     (\<not> cfg_require_infra_approval (srv_cfg S) \<or> list_all (\<lambda>ip. ip_id ip = '''' \<or>
        good_signature S W d hash (ip_signature ip) (owner_of (owners_map W c) (ip_id ip))) (infra_providers c))"

lemma provider_signatures_valid:
  assumes "needs_job_approval c"
  shows "list_all ps_valid (fst (provider_signatures S W d c hash True (owners_map W c))) \<longleftrightarrow>
     job_signatures_good S W d c hash"
  using assms
  by (auto simp: provider_signatures_def Let_def job_signatures_good_def list.pred_map o_def list_all_filter)

lemma filter_not_Nil: "filter (\<lambda>p. \<not> P p) xs = [] \<longleftrightarrow> list_all P xs"
  by (induction xs) auto

lemma verify_job_signatures_ok:
  assumes "needs_job_approval c"
  shows "snd (verify_job_signatures S W d c) = [] \<longleftrightarrow>
     (\<exists>hash. signed_job_contract_hash S c = Inr hash \<and> job_signatures_good S W d c hash)"
proof (cases "signed_job_contract_hash S c")
  case (Inl e)
  then show ?thesis by (simp add: verify_job_signatures_def)
next
  case (Inr hash)
  obtain parties ok where p: "provider_signatures S W d c hash True (owners_map W c) = (parties, ok)"
    by (metis surj_pair)
  have "snd (verify_job_signatures S W d c) =
      map (\<lambda>p. party_label p @ '': '' @ ps_error p) (filter (\<lambda>p. \<not> ps_valid p) parties)"
    unfolding verify_job_signatures_def Inr sum.case owners_map_def [symmetric] p prod.case snd_conv ..
  moreover have "list_all ps_valid parties \<longleftrightarrow> job_signatures_good S W d c hash"
    using provider_signatures_valid [OF assms, of S W d hash] p by simp
  ultimately show ?thesis using Inr by (simp add: filter_not_Nil)
qed

text \<open>The conditions \<^verbatim>\<open>getJobStatus\<close> checks, declaratively.\<close>

definition job_verified :: "server \<Rightarrow> world \<Rightarrow> db \<Rightarrow> string \<Rightarrow> contract \<Rightarrow> bool" where
  "job_verified S W d job_id c \<longleftrightarrow>
     side_accepted ''data-provider'' (job_history d job_id) \<and>
     (cfg_require_infra_approval (srv_cfg S) \<longrightarrow> side_accepted ''infra-provider'' (job_history d job_id)) \<and>
     (\<exists>hash. signed_job_contract_hash S c = Inr hash \<and> job_signatures_good S W d c hash)"

definition status_checks :: "server \<Rightarrow> world \<Rightarrow> string \<Rightarrow> string \<Rightarrow> db \<Rightarrow> json \<Rightarrow> contract \<Rightarrow> bool" where
  "status_checks S W auth job_id d claims c \<longleftrightarrow>
     (\<exists>tok. dev_token_claims S W ''consumer'' auth = Inr (tok, claims)) \<and>
     load_contract_by_job W d job_id = Inr c \<and> is_contract_user claims c"

lemma get_job_status_cases:
  assumes "get_job_status S W auth job_id d = (Inr s, d')"
  obtains (not_approved) rs ps where "s = JobNotApproved rs ps" "d' = d"
  | (approved) claims c parties where "status_checks S W auth job_id d claims c" "job_verified S W d job_id c"
      "approve_job S W job_id c (approval_state S (job_history d job_id)) parties d = (Inr s, d')"
proof -
  obtain claims c tok st where
      k: "dev_token_claims S W ''consumer'' auth = Inr (tok, claims)" "load_contract_by_job W d job_id = Inr c"
        "is_contract_user claims c" "load_job_approval_state S W d job_id = Inr st"
      and rest: "(case (if \<not> state_accepted st then Inl (Inr (JobNotApproved (approval_reasons st) []))
          else (case verify_job_signatures S W d c of (parties, reasons) \<Rightarrow>
            if reasons \<noteq> [] then Inl (Inr (JobNotApproved reasons parties)) else Inr (c, st, parties))) of
        Inl r \<Rightarrow> (r, d) | Inr (c, st, parties) \<Rightarrow> approve_job S W job_id c st parties d) = (Inr s, d')"
  proof -
    let ?m = "and_then (dev_token_claims S W ''consumer'' auth) (\<lambda>(tok, claims).
           and_then (load_contract_by_job W d job_id) (\<lambda>c.
           require (is_contract_user claims c) (HttpError 403 ''NOT_JOB_CONSUMER''
             ''only the user who generated this job's contract can check its status'') (
           and_then (or_fail internal_error (load_job_approval_state S W d job_id)) (\<lambda>st. Inr (c, st)))))"
    obtain x where m: "?m = Inr x" using assms unfolding get_job_status_def status_reads_def by (cases ?m) simp_all
    obtain c st where x: "x = (c, st)" by (metis surj_pair)
    obtain tok claims where "dev_token_claims S W ''consumer'' auth = Inr (tok, claims)"
        "load_contract_by_job W d job_id = Inr c" "is_contract_user claims c"
        "load_job_approval_state S W d job_id = Inr st"
      using m unfolding x by (auto simp only: early_return split_paired_Ex prod.case)
    moreover have "(case (if \<not> state_accepted st then Inl (Inr (JobNotApproved (approval_reasons st) []))
          else (case verify_job_signatures S W d c of (parties, reasons) \<Rightarrow>
            if reasons \<noteq> [] then Inl (Inr (JobNotApproved reasons parties)) else Inr (c, st, parties))) of
        Inl r \<Rightarrow> (r, d) | Inr (c, st, parties) \<Rightarrow> approve_job S W job_id c st parties d) = (Inr s, d')"
      using assms unfolding get_job_status_def status_reads_def m x by (simp only: sum.case prod.case)
    ultimately show thesis by (rule that)
  qed
  have st: "st = approval_state S (job_history d job_id)" using k(4) by (simp add: load_job_approval_state_Inr)
  obtain parties reasons where v: "verify_job_signatures S W d c = (parties, reasons)" by (metis surj_pair)
  show ?thesis
  proof (cases "state_accepted st \<and> reasons = []")
    case True
    have "needs_job_approval c"
      using load_contract_by_job_Inr(1) [OF k(2)] by (simp add: job_approval_required_def)
    then have "job_verified S W d job_id c"
      using True v verify_job_signatures_ok [of c S W d] st by (auto simp: job_verified_def state_accepted_iff)
    moreover have "approve_job S W job_id c st parties d = (Inr s, d')" using True rest v by simp
    ultimately show ?thesis using approved k st by (auto simp: status_checks_def)
  next
    case False
    then show ?thesis using not_approved rest v by (auto split: if_splits)
  qed
qed

section \<open>Making the contract final\<close>

lemma seal_contract_Inr:
  assumes "seal_contract S W c d = (Inr c', d')"
  shows "unsigned c' = unsigned c" and "ct_contract_hash c \<noteq> '''' \<Longrightarrow> c' = c \<and> d' = d"
    and "t_final d' = t_final d" and "t_audit d' = t_audit d" and "t_keys d' = t_keys d"
    and "ct_parties c' = ct_parties c" and "ct_contract_id c' = ct_contract_id c"
proof -
  have "(c' = c \<and> d' = d) \<or> (ct_contract_hash c = '''' \<and> (\<exists>h. c' = c\<lparr>ct_contract_hash := h\<rparr> \<and>
      d' = snd (store_job_contract W c' d)))"
    using assms unfolding seal_contract_def Let_def
    by (auto split: if_splits sum.splits prod.splits)
  then show "unsigned c' = unsigned c" "ct_contract_hash c \<noteq> '''' \<Longrightarrow> c' = c \<and> d' = d"
    "t_final d' = t_final d" "t_audit d' = t_audit d" "t_keys d' = t_keys d"
    "ct_parties c' = ct_parties c" "ct_contract_id c' = ct_contract_id c" by auto
qed

lemma create_final_contract_Inr:
  assumes "create_final_contract W job_id cid h raw d = (Inr created, d')"
  shows "\<exists>f. List.find (\<lambda>f. fc_job_id f = job_id) (t_final d') = Some f \<and>
    (case List.find (\<lambda>f. fc_job_id f = job_id) (t_final d) of Some g \<Rightarrow> f = g \<and> t_final d' = t_final d
     | None \<Rightarrow> fc_contract_id f = cid \<and> fc_contract_hash f = h \<and> fc_contract f = raw \<and>
         t_final d' = t_final d @ [f])"
proof (cases "list_ex (\<lambda>f. fc_job_id f = job_id) (t_final d)")
  case True
  then obtain g where "List.find (\<lambda>f. fc_job_id f = job_id) (t_final d) = Some g"
    using find_exists [of _ "t_final d" "\<lambda>f. fc_job_id f = job_id"] by (auto simp: list_ex_iff)
  then show ?thesis using assms True by (simp add: create_final_contract_def db_write_Inr)
next
  case False
  then have none: "List.find (\<lambda>f. fc_job_id f = job_id) (t_final d) = None"
    by (auto simp: find_None_iff list_ex_iff)
  have find_app: "List.find P (xs @ [x]) = (case List.find P xs of None \<Rightarrow> if P x then Some x else None | Some y \<Rightarrow> Some y)"
    for P and x :: final_contract and xs by (induction xs) simp_all
  show ?thesis using assms False none by (auto simp: create_final_contract_def db_write_Inr find_app)
qed

lemma mark_job_final_rows:
  assumes "mark_job_final W job_id d = (Inr b, d')" and "r \<in> set (t_contracts d')" and "row_has_job job_id r"
  shows "cr_finalized_at r \<noteq> None"
  using assms unfolding mark_job_final_def Let_def
  by (auto simp: db_write_Inr set_update_rows row_has_job_def split: if_splits)

lemma finalize_job_final:
  assumes "finalize_job S W job_id c d = (Inr (True, pending), d')"
  obtains d1 b created where "snd (snd (verify_contract_signatures S W d c))"
    and "create_final_contract W job_id (ct_contract_id c) (ct_contract_hash c) (enc_contract c) d = (Inr created, d1)"
    and "mark_job_final W job_id d1 = (Inr b, d')" and "json_ok (enc_contract c)" and "pending = []"
proof -
  obtain parties hash_ok all_valid where v: "verify_contract_signatures S W d c = (parties, hash_ok, all_valid)"
    by (metis surj_pair)
  have all: all_valid using assms v by (auto simp: finalize_job_def split: if_splits)
  obtain raw where raw: "marshal_contract c = Inr raw"
    using assms v all by (cases "marshal_contract c") (auto simp: finalize_job_def)
  then have enc: "raw = enc_contract c" "json_ok (enc_contract c)"
    by (auto simp: marshal_contract_def split: if_splits)
  obtain r1 d1 where c1: "create_final_contract W job_id (ct_contract_id c) (ct_contract_hash c) (enc_contract c) d
      = (r1, d1)" by (metis surj_pair)
  obtain r2 d2 where c2: "mark_job_final W job_id d1 = (r2, d2)" by (metis surj_pair)
  have r: "r1 \<in> range Inr" "r2 \<in> range Inr" "d2 = d'" "pending = []"
    using assms v all raw enc(1) c1 c2 by (cases r1; cases r2; simp add: finalize_job_def)+
  then obtain created b where "r1 = Inr created" "r2 = Inr b" by blast
  then show ?thesis using v all c1 c2 enc(2) r(3,4) by (intro that) simp_all
qed

lemma finalize_job_pending:
  assumes "finalize_job S W job_id c d = (Inr (False, pending), d')"
  shows "\<not> snd (snd (verify_contract_signatures S W d c))" and "d' = d"
  using assms by (auto simp: finalize_job_def split: prod.splits if_splits sum.splits)

lemma approve_job_Inr:
  assumes "approve_job S W job_id c st parties d = (Inr s, d')"
  obtains ja c' d1 d2 final pending where "s = JobApproved ja" and "ja_final ja = final"
    and "seal_contract S W (c\<lparr>ct_job_id := job_id\<rparr>) d = (Inr c', d1)"
    and "finalize_job S W job_id c' d1 = (Inr (final, pending), d2)"
    and "d' = (if final then mark_job_participants W job_id ''final'' d2 else d2)"
    and "final \<longrightarrow> get_final_contract W d' job_id = Inr (ja_final_record ja)"
    and "ja_contract_hash ja = ct_contract_hash c'"
proof -
  obtain r1 d1 where s1: "seal_contract S W (c\<lparr>ct_job_id := job_id\<rparr>) d = (r1, d1)" by (metis surj_pair)
  obtain c' where r1: "r1 = Inr c'" using assms s1 by (cases r1) (auto simp: approve_job_def)
  obtain r2 d2 where s2: "finalize_job S W job_id c' d1 = (r2, d2)" by (metis surj_pair)
  obtain final pending where r2: "r2 = Inr (final, pending)"
    using assms s1 r1 s2 by (cases r2) (auto simp: approve_job_def)
  let ?d = "if final then mark_job_participants W job_id ''final'' d2 else d2"
  obtain rec where g: "(if final then get_final_contract W ?d job_id else Inr None) = Inr rec"
    using assms s1 r1 s2 r2
    by (cases "if final then get_final_contract W ?d job_id else Inr None") (auto simp: approve_job_def Let_def)
  let ?ja = "\<lparr>ja_contract_hash = ct_contract_hash c', ja_signatures = parties,
      ja_grants = all_grants W job_id c' st, ja_final = final, ja_final_record = rec, ja_pending = pending\<rparr>"
  have out: "s = JobApproved ?ja" "d' = ?d"
    using assms g unfolding approve_job_def s1 r1 s2 r2 Let_def sum.case prod.case by simp_all
  show ?thesis
    by (rule that [OF out(1) _ s1 [unfolded r1] s2 [unfolded r2] out(2)]) (use g out(2) in \<open>auto split: if_splits\<close>)
qed

section \<open>A job that needs approval\<close>

definition sample_infra :: infra_party where
  "sample_infra = \<lparr>ip_id = ''i'', ip_name = ''n'', ip_region = '''',
     ip_attestation = \<lparr>at_required = False, at_service = '''', at_policy_id = ''''\<rparr>,
     ip_resource_allocation = \<lparr>ra_cpu_cores = 0, ra_ram_mb = 0, ra_gpu = '''', ra_sgx_enabled = False,
       ra_tdx_enabled = False, ra_sev_snp_enabled = False, ra_sev_enabled = False,
       ra_nitro_enclave_enabled = False\<rparr>,
     ip_constraints = \<lparr>cn_accessibility_level = '''', cn_restricted_to = None, cn_consent_valid_until = None\<rparr>,
     ip_signature = zero_signature\<rparr>"

text \<open>Provider \<open>a\<close> brings the named datasets; the contract carries no governance signature.\<close>

definition sample_job :: "string list \<Rightarrow> contract" where
  "sample_job datasets = with_infra_providers (\<lambda>ips. [sample_infra])
     (with_data_providers (\<lambda>ps. map (sample_party ''a'') datasets) sample_draft)
       \<lparr>ct_governance_signature := None\<rparr>"

text \<open>Only dataset \<open>x\<close> is in the catalogue; the coordinator creates job \<open>k\<close>.\<close>

definition sample_catalogue :: "string \<Rightarrow> string \<Rightarrow> http_outcome" where
  "sample_catalogue url tok =
     (if url = ''cat/item?id=x'' then HttpReply 200 (Some (JObj [(''result'', JArr [JObj
         [(''id'', JStr ''x''), (''type'', JArr [JStr ''adex:DataBank''])]])]))
      else HttpReply 404 None)"

definition job_world :: "time \<Rightarrow> world" where
  "job_world now = (sample_world now)\<lparr>w_http_get := sample_catalogue,
     w_exec := (\<lambda>args. Inr ('''', Some (JObj [(''jobId'', JStr ''k'')])))\<rparr>"

definition sample_approval :: "string \<Rightarrow> approval_body" where
  "sample_approval sig = \<lparr>ab_job_id = ''j'', ab_contract_hash = ''sha256:cu'', ab_signature = sig,
     ab_provider_comment = '''', ab_feedback_to_consumer = ''''\<rparr>"

lemmas job_sample_defs = sample_infra_def sample_job_def sample_catalogue_def job_world_def sample_approval_def

section \<open>Properties\<close>

text \<open>
  C14. A job is approved by the latest checks alone: the state loaded for a job counts as accepted
  exactly when some dataset was checked and the last check of every dataset ever checked accepted
  it, and likewise for the infras where their approval is required.
\<close>

theorem job_accepted_by_latest:
  "state_accepted (approval_state S h) =
     (if cfg_require_infra_approval (srv_cfg S)
      then side_accepted ''data-provider'' h \<and> side_accepted ''infra-provider'' h
      else side_accepted ''data-provider'' h)"
  by (simp add: state_accepted_iff)

text \<open>
  One successful approval call by any data provider leaves no dataset of the contract out of
  the job's audit trail: each has an entry, so an unapproved dataset keeps the job from counting as
  accepted.
\<close>

theorem approval_covers_datasets:
  assumes "handle_data_provider_approval S W auth (Some b) d = (Inr r, d')"
    and "load_contract_by_job W d (ab_job_id b) = Inr c" and "dp \<in> set (data_providers c)"
  shows "dataset_audited d' (ab_job_id b) dp"
  using assms by (rule data_approval_covers)

definition sample_approval_call :: "string list \<Rightarrow> string \<Rightarrow>
    (approval_result \<times> grant_result list \<times> grant_result list) response \<times> db" where
  "sample_approval_call datasets sig =
     handle_data_provider_approval sample_server (job_world 10) ''Bearer a'' (Some (sample_approval sig))
       (sample_db (sample_job datasets))"

lemma sample_approval_ok: "\<exists>r d'. sample_approval_call [''x'', ''y''] ''bogus'' = (Inr r, d') \<and>
    ar_items_signed (fst r) = 1 \<and> ar_approval (fst r) = ''rejected''"
  by (rule reply_obtain) code_simp

theorem approval_covers_datasets_witness:
  "\<exists>d'. dataset_audited d' ''j'' (sample_party ''a'' ''y'')"
proof -
  obtain r d' where "sample_approval_call [''x'', ''y''] ''bogus'' = (Inr r, d')"
    using sample_approval_ok by blast
  moreover have "load_contract_by_job (job_world 10) (sample_db (sample_job [''x'', ''y'']))
      (ab_job_id (sample_approval ''bogus'')) = Inr (sample_job [''x'', ''y''])" by code_simp
  moreover have "sample_party ''a'' ''y'' \<in> set (data_providers (sample_job [''x'', ''y'']))"
    by (simp add: sample_job_def)
  ultimately have "dataset_audited d' (ab_job_id (sample_approval ''bogus'')) (sample_party ''a'' ''y'')"
    unfolding sample_approval_call_def by (rule approval_covers_datasets)
  then show ?thesis by (auto simp: sample_approval_def)
qed

text \<open>
  C15. What a data provider's approval call records: exactly the checked entries are appended to the
  audit trail, no final contract and no key changes, and when all the caller's own checks were
  accepted the submitted signature verified against the caller's registered key over the contract's
  hash.
\<close>

theorem data_approval_effect:
  assumes "handle_data_provider_approval S W auth (Some b) d = (Inr (res, gs, ps), d')"
  shows "\<exists>caller c entries. approver_from_token S W ''data provider'' auth = Inr caller \<and>
    load_contract_by_job W d (ab_job_id b) = Inr c \<and>
    check_caller_datasets S W d (ab_job_id b) c caller = Inr entries \<and>
    t_audit d' = t_audit d @ entries \<and> t_final d' = t_final d \<and> t_keys d' = t_keys d \<and>
    ar_approval res = overall_status (own_data_entries c caller entries) \<and>
    (ar_approval res = ''accepted'' \<longrightarrow> verify_submitted_signature S W d c caller b = Inr ())"
proof -
  obtain caller b' c entries own c' d1 where
      chk: "data_approval_checks S W auth (Some b) d = Inr (caller, b', c, entries, own)"
      and rec: "record_job_approval S W ''data-provider'' (ab_job_id b') c entries own caller b' d = (Inr (c', res), d1)"
      and d': "d' = mark_approval_participants W ''data-provider'' (ab_job_id b') own caller d1"
    using assms by (rule handle_data_Inr)
  note k = data_approval_checks_Inr [OF chk]
  have b': "b' = b" using k(2) by simp
  show ?thesis
    using k record_job_approval_Inr [OF rec] d' unfolding b'
    by (intro exI [of _ caller] exI [of _ c] exI [of _ entries]) simp
qed

lemma sample_accepted_ok: "\<exists>r d'. sample_approval_call [''x''] ''asha256:cu'' = (Inr r, d') \<and>
    ar_items_signed (fst r) = 1 \<and> ar_approval (fst r) = ''accepted''"
  by (rule reply_obtain) code_simp

theorem data_approval_effect_witness:
  "\<exists>c caller. verify_submitted_signature sample_server (job_world 10) (sample_db (sample_job [''x''])) c caller
     (sample_approval ''asha256:cu'') = Inr ()"
proof -
  obtain res gs ps d' where "sample_approval_call [''x''] ''asha256:cu'' = (Inr (res, gs, ps), d')"
      and "ar_approval res = ''accepted''"
    using sample_accepted_ok by auto
  then show ?thesis unfolding sample_approval_call_def by (blast dest: data_approval_effect)
qed

text \<open>
  The signature is not looked at when one of the caller's own checks failed: such a call passes
  with any other signature in the same place, although the accepted datasets are signed with it and
  their consumer grants are posted.
\<close>

theorem partial_approval_ignores_signature:
  assumes "data_approval_checks S W auth (Some b) d = Inr (caller, b', c, entries, own)"
    and "overall_status own \<noteq> ''accepted''" and "v \<noteq> ''''"
  shows "data_approval_checks S W auth (Some (b\<lparr>ab_signature := v\<rparr>)) d =
    Inr (caller, b\<lparr>ab_signature := v\<rparr>, c, entries, own)"
proof -
  note k = data_approval_checks_Inr [OF assms(1)]
  have b': "b' = b" using k(2) by simp
  have sub: "signature_submitted (b\<lparr>ab_signature := v\<rparr>)"
    using k(5) assms(3) unfolding b' by (simp add: signature_submitted_def)
  have own: "overall_status (own_data_entries c caller entries) \<noteq> ''accepted''" using k(6) assms(2) by simp
  show ?thesis
    using k(1,3,4,6) own sub unfolding b'
    by (simp add: data_approval_checks_def load_approval_job_def Let_def)
qed

lemma sample_partial_checks: "\<exists>caller b' c entries own.
   data_approval_checks sample_server (job_world 10) ''Bearer a'' (Some (sample_approval ''asha256:cu''))
     (sample_db (sample_job [''x'', ''y''])) = Inr (caller, b', c, entries, own) \<and> overall_status own = ''rejected''"
proof -
  have "case data_approval_checks sample_server (job_world 10) ''Bearer a'' (Some (sample_approval ''asha256:cu''))
     (sample_db (sample_job [''x'', ''y''])) of Inl e \<Rightarrow> False
     | Inr (caller, b', c, entries, own) \<Rightarrow> overall_status own = ''rejected''" by code_simp
  then show ?thesis by (auto dest: case_Inr_obtain)
qed

theorem partial_approval_ignores_signature_witness:
  "\<not> isl (data_approval_checks sample_server (job_world 10) ''Bearer a''
     (Some ((sample_approval ''asha256:cu'')\<lparr>ab_signature := ''bogus''\<rparr>)) (sample_db (sample_job [''x'', ''y''])))"
proof -
  obtain caller b' c entries own where k: "data_approval_checks sample_server (job_world 10) ''Bearer a''
      (Some (sample_approval ''asha256:cu'')) (sample_db (sample_job [''x'', ''y''])) =
      Inr (caller, b', c, entries, own)" and r: "overall_status own = ''rejected''"
    using sample_partial_checks by blast
  show ?thesis by (subst partial_approval_ignores_signature [OF k]) (simp_all add: r)
qed

lemma approved_job_verified:
  assumes "get_job_status S W auth job_id d = (Inr (JobApproved ja), d')"
  shows "\<exists>claims c. status_checks S W auth job_id d claims c \<and> job_verified S W d job_id c"
  using assms by (cases rule: get_job_status_cases) auto

text \<open>
  C16. A job's status is approved only when the caller is the consumer who generated the contract,
  the latest check of every dataset on the job's audit accepted it, and every data provider's
  recorded signature over the hash of gov_layer's own copy of the contract verifies with a key
  registered under that provider's id. Where infra approval is required, and only there, the same
  goes for the infras: their latest checks accepted them and each selected infra's signature verifies
  with its signer's key, the signer being the infra's owner when APD names one in that call; where it
  names none, whoever has a registered key will do.
\<close>

theorem approved_status_sound:
  assumes "get_job_status S W auth job_id d = (Inr (JobApproved ja), d')"
  shows "\<exists>claims c hash. status_checks S W auth job_id d claims c \<and>
    side_accepted ''data-provider'' (job_history d job_id) \<and> signed_job_contract_hash S c = Inr hash \<and>
    (\<forall>p \<in> set (data_providers c). good_signature S W d hash (dp_signature p) (party_provider_id p)) \<and>
    (cfg_require_infra_approval (srv_cfg S) \<longrightarrow>
      side_accepted ''infra-provider'' (job_history d job_id) \<and>
      (\<forall>ip \<in> set (infra_providers c). ip_id ip \<noteq> '''' \<longrightarrow>
        good_signature S W d hash (ip_signature ip) (owner_of (owners_map W c) (ip_id ip))))"
  using approved_job_verified [OF assms]
  by (fastforce simp: job_verified_def job_signatures_good_def list_all_iff)

text \<open>
  The owner is asked of APD at each call and an infra it does not answer for has none: then the
  signature of anyone with a registered key counts as the infra's.
\<close>

lemma unanswered_infra_unowned:
  assumes "\<forall>policy. fetch_infra_policy W infra_id \<noteq> PolicyFound policy"
  shows "owner_of (owners_map W c) infra_id = ''''"
proof (cases "map_of (owners_map W c) infra_id")
  case (Some p)
  then have "(infra_id, p) \<in> set (owners_map W c)" by (rule map_of_SomeD)
  then show ?thesis using assms Some
    by (auto simp: owners_map_def infra_owners_def infra_owner_of_def owner_of_def split: policy_lookup.splits)
qed (simp add: owner_of_def)

theorem unowned_infra_any_signer:
  assumes "\<forall>policy. fetch_infra_policy W (ip_id ip) \<noteq> PolicyFound policy"
    and "provider_public_key W d u = Inr pub" and "verifies S pub hash v" and "v \<noteq> ''''"
  shows "good_signature S W d hash (signature_over now u hash v) (owner_of (owners_map W c) (ip_id ip))"
  using assms by (simp add: good_signature_def unanswered_infra_unowned signature_over_def)

definition sample_approved_db :: db where
  "sample_approved_db = (sample_db (with_data_providers
       (map (set_data_sig (signature_over 2 ''a'' ''sha256:cu'' ''asha256:cu''))) (sample_job [''x''])))
     \<lparr>t_audit := [decide_entry True True [] (new_entry ''j'' ''data-provider'' ''provider-a'' ''x'' 5)]\<rparr>"

definition sample_status :: "job_status response \<times> db" where
  "sample_status = get_job_status sample_server (job_world 11) ''Bearer u'' ''j'' sample_approved_db"

definition is_final_approval :: "job_status \<Rightarrow> bool" where
  "is_final_approval s = (case s of JobNotApproved rs ps \<Rightarrow> False | JobApproved ja \<Rightarrow> ja_final ja)"

lemma sample_status_ok: "\<exists>ja d'. sample_status = (Inr (JobApproved ja), d') \<and> ja_final ja"
proof -
  have "\<exists>s d'. sample_status = (Inr s, d') \<and> is_final_approval s"
    by (rule reply_obtain) code_simp
  then obtain s d' where "sample_status = (Inr s, d')" "is_final_approval s" by blast
  then show ?thesis by (cases s) (auto simp: is_final_approval_def)
qed

theorem approved_status_sound_witness:
  "\<exists>c hash. load_contract_by_job (job_world 11) sample_approved_db ''j'' = Inr c \<and>
     (\<forall>p \<in> set (data_providers c).
        good_signature sample_server (job_world 11) sample_approved_db hash (dp_signature p) (party_provider_id p))"
proof -
  obtain ja d' where s: "get_job_status sample_server (job_world 11) ''Bearer u'' ''j'' sample_approved_db =
      (Inr (JobApproved ja), d')"
    using sample_status_ok unfolding sample_status_def by blast
  show ?thesis using approved_status_sound [OF s] unfolding status_checks_def by blast
qed

theorem unowned_infra_any_signer_witness:
  "good_signature sample_server (sample_world 10) (sample_db sample_draft) ''sha256:cu''
     (signature_over 5 ''b'' ''sha256:cu'' ''bsha256:cu'')
     (owner_of (owners_map (sample_world 10) sample_draft) (ip_id sample_infra))"
proof (rule unowned_infra_any_signer)
  show "provider_public_key (sample_world 10) (sample_db sample_draft) ''b'' = Inr ''b''"
    "verifies sample_server ''b'' ''sha256:cu'' ''bsha256:cu''" by code_simp+
  have "case fetch_infra_policy (sample_world 10) (ip_id sample_infra) of PolicyFound p \<Rightarrow> False | _ \<Rightarrow> True"
    by code_simp
  then show "\<forall>policy. fetch_infra_policy (sample_world 10) (ip_id sample_infra) \<noteq> PolicyFound policy" by auto
qed simp

text \<open>
  A job that is not approved creates nothing: its status leaves the whole database as it was.
\<close>

theorem not_approved_creates_nothing:
  assumes "get_job_status S W auth job_id d = (Inr (JobNotApproved rs ps), d')"
  shows "d' = d"
  using assms by (cases rule: get_job_status_cases) (auto elim: approve_job_Inr)

lemma sample_unapproved_ok: "\<exists>rs ps d'. get_job_status sample_server (job_world 11) ''Bearer u'' ''j''
    (sample_db (sample_job [''x''])) = (Inr (JobNotApproved rs ps), d')"
proof -
  have "\<exists>s d'. get_job_status sample_server (job_world 11) ''Bearer u'' ''j'' (sample_db (sample_job [''x''])) =
      (Inr s, d') \<and> (case s of JobNotApproved rs ps \<Rightarrow> True | JobApproved ja \<Rightarrow> False)"
    by (rule reply_obtain) code_simp
  then obtain s d' where "get_job_status sample_server (job_world 11) ''Bearer u'' ''j''
      (sample_db (sample_job [''x''])) = (Inr s, d')"
      "case s of JobNotApproved rs ps \<Rightarrow> True | JobApproved ja \<Rightarrow> False" by blast
  then show ?thesis by (cases s) auto
qed

theorem not_approved_creates_nothing_witness:
  "\<exists>s. get_job_status sample_server (job_world 11) ''Bearer u'' ''j'' (sample_db (sample_job [''x''])) =
     (s, sample_db (sample_job [''x'']))"
  using sample_unapproved_ok by (blast dest: not_approved_creates_nothing)

text \<open>
  C17. When a status call makes a job final its final contract is on record and every row of the
  job is stamped; the record is the one reported. A record made earlier is the one kept, a new one
  holds the sealed contract with its hash, and no other record is touched.
\<close>

theorem final_contract_recorded:
  assumes "get_job_status S W auth job_id d = (Inr (JobApproved ja), d')" and "ja_final ja"
  shows "\<exists>f c c'. List.find (\<lambda>f. fc_job_id f = job_id) (t_final d') = Some f \<and> ja_final_record ja = Some f \<and>
    (\<forall>r \<in> set (t_contracts d'). row_has_job job_id r \<longrightarrow> cr_finalized_at r \<noteq> None) \<and>
    load_contract_by_job W d job_id = Inr c \<and> unsigned c' = unsigned (c\<lparr>ct_job_id := job_id\<rparr>) \<and>
    ct_parties c' = ct_parties c \<and>
    (case List.find (\<lambda>f. fc_job_id f = job_id) (t_final d) of
       Some g \<Rightarrow> f = g \<and> t_final d' = t_final d
     | None \<Rightarrow> fc_contract f = enc_contract c' \<and> fc_contract_hash f = ct_contract_hash c' \<and>
         t_final d' = t_final d @ [f])"
proof -
  obtain claims c parties where chk: "status_checks S W auth job_id d claims c"
      and app: "approve_job S W job_id c (approval_state S (job_history d job_id)) parties d = (Inr (JobApproved ja), d')"
    using assms(1) by (cases rule: get_job_status_cases) auto
  obtain ja' c' d1 d2 final pending where ja: "JobApproved ja = JobApproved ja'" "ja_final ja' = final"
      and seal: "seal_contract S W (c\<lparr>ct_job_id := job_id\<rparr>) d = (Inr c', d1)"
      and fin: "finalize_job S W job_id c' d1 = (Inr (final, pending), d2)"
      and d': "d' = (if final then mark_job_participants W job_id ''final'' d2 else d2)"
      and rec: "final \<longrightarrow> get_final_contract W d' job_id = Inr (ja_final_record ja')"
      and "ja_contract_hash ja' = ct_contract_hash c'"
    using app by (rule approve_job_Inr) (rule that)
  have final: "final" using assms(2) ja by simp
  obtain d3 b created where
      create: "create_final_contract W job_id (ct_contract_id c') (ct_contract_hash c') (enc_contract c') d1 = (Inr created, d3)"
      and mark: "mark_job_final W job_id d3 = (Inr b, d2)"
    using fin final by (auto elim: finalize_job_final)
  note sl = seal_contract_Inr [OF seal]
  have t: "t_final d' = t_final d3" "t_contracts d' = t_contracts d2"
    using d' final mark_job_final_frame(1) [of W job_id d3] mark by simp_all
  have "ja_final_record ja = List.find (\<lambda>f. fc_job_id f = job_id) (t_final d')"
    using rec final ja(1) by (auto simp: get_final_contract_def)
  moreover have "\<forall>r \<in> set (t_contracts d'). row_has_job job_id r \<longrightarrow> cr_finalized_at r \<noteq> None"
    using mark_job_final_rows [OF mark] t(2) by auto
  ultimately show ?thesis
    using create_final_contract_Inr [OF create] t(1) sl(1,3,6) chk
    by (auto simp: status_checks_def split: option.splits intro!: exI [of _ c] exI [of _ c'])
qed

theorem final_contract_recorded_witness:
  "\<exists>f d'. snd sample_status = d' \<and> List.find (\<lambda>f. fc_job_id f = ''j'') (t_final d') = Some f"
proof -
  obtain ja d' where s: "sample_status = (Inr (JobApproved ja), d')" and f: "ja_final ja"
    using sample_status_ok by blast
  obtain rec where "List.find (\<lambda>f. fc_job_id f = ''j'') (t_final d') = Some rec"
    using final_contract_recorded [OF s [unfolded sample_status_def] f] by (elim exE conjE)
  moreover have "snd sample_status = d'" by (simp only: s snd_conv)
  ultimately show ?thesis by blast
qed

lemma signed_hash_stored:
  assumes "signed_job_contract_hash S c = Inr hash" and "ct_contract_hash c \<noteq> ''''"
  shows "hash = ct_contract_hash c" and "content_matches_signed_hash S c"
  using assms
  by (auto simp: signed_job_contract_hash_def amended_since_def job_contract_hash_def
      content_matches_signed_hash_def split: if_splits sum.splits)

lemma good_signature_any: "good_signature S W d h sig p \<Longrightarrow> good_signature S W d h sig ''''"
  by (auto simp: good_signature_def)

lemma verified_job_all_valid:
  assumes "job_verified S W d job_id c" and "load_contract_by_job W d job_id = Inr c"
    and "ct_contract_hash c \<noteq> ''''"
  shows "snd (snd (verify_contract_signatures S W d c))"
proof -
  obtain hash where hash: "signed_job_contract_hash S c = Inr hash" "job_signatures_good S W d c hash"
    using assms(1) by (auto simp: job_verified_def)
  note h = signed_hash_stored [OF hash(1) assms(3)]
  note l = load_contract_by_job_Inr [OF assms(2)]
  have "data_parties_consent S W d c"
    using hash(2) h(1) l(2) by (simp add: job_signatures_good_def data_parties_consent_def)
  moreover have "\<not> cfg_require_infra_approval (srv_cfg S) \<or> infra_parties_consent S W d c"
    using hash(2) h(1) good_signature_any
    by (fastforce simp: job_signatures_good_def infra_parties_consent_def list_all_iff)
  ultimately show ?thesis
    using h(2) l(1) by (auto simp: verify_contract_signatures_all_valid governance_signature_ok_def)
qed

text \<open>
  An approved job becomes final at once: when the stored contract carries its job id and its
  hash, an approved status is always a final one.
\<close>

theorem approved_is_final:
  assumes "get_job_status S W auth job_id d = (Inr (JobApproved ja), d')"
    and "load_contract_by_job W d job_id = Inr c" and "ct_job_id c = job_id" and "ct_contract_hash c \<noteq> ''''"
  shows "ja_final ja"
proof -
  obtain claims c0 parties where chk: "status_checks S W auth job_id d claims c0" "job_verified S W d job_id c0"
      and app: "approve_job S W job_id c0 (approval_state S (job_history d job_id)) parties d = (Inr (JobApproved ja), d')"
    using assms(1) by (cases rule: get_job_status_cases) auto
  have c0: "c0 = c" using chk(1) assms(2) by (simp add: status_checks_def)
  have same: "c\<lparr>ct_job_id := job_id\<rparr> = c" using assms(3) by simp
  obtain ja' c' d1 d2 final pending where ja: "JobApproved ja = JobApproved ja'" "ja_final ja' = final"
      and seal: "seal_contract S W (c0\<lparr>ct_job_id := job_id\<rparr>) d = (Inr c', d1)"
      and fin: "finalize_job S W job_id c' d1 = (Inr (final, pending), d2)"
      and "d' = (if final then mark_job_participants W job_id ''final'' d2 else d2)"
      and "final \<longrightarrow> get_final_contract W d' job_id = Inr (ja_final_record ja')"
      and "ja_contract_hash ja' = ct_contract_hash c'"
    using app by (rule approve_job_Inr) (rule that)
  have "c' = c" "d1 = d" using seal_contract_Inr(2) [OF seal] assms(4) c0 same by auto
  then have "final"
    using finalize_job_pending(1) [of S W job_id c d pending d2] fin
      verified_job_all_valid [OF chk(2) [unfolded c0] assms(2,4)] by (cases final) auto
  then show ?thesis using ja by simp
qed

theorem approved_is_final_witness:
  "\<exists>ja d'. sample_status = (Inr (JobApproved ja), d') \<and> ja_final ja"
proof -
  obtain ja d' where s: "sample_status = (Inr (JobApproved ja), d')" using sample_status_ok by blast
  let ?c = "with_data_providers (map (set_data_sig (signature_over 2 ''a'' ''sha256:cu'' ''asha256:cu'')))
      (sample_job [''x''])"
  have "load_contract_by_job (job_world 11) sample_approved_db ''j'' = Inr ?c" by code_simp
  moreover have "ct_job_id ?c = ''j''" "ct_contract_hash ?c \<noteq> ''''"
    by (simp_all add: sample_job_def sample_draft_def with_data_providers_def with_infra_providers_def)
  ultimately have "ja_final ja" by (rule approved_is_final [OF s [unfolded sample_status_def]])
  then show ?thesis using s by blast
qed

lemma mark_job_participants_all:
  assumes "w_fault W (Db ''SetJobStatus'' [job_id, st]) = None"
    and "p \<in> set (t_participants (mark_job_participants W job_id st d))" and "jp_job_id p = job_id"
  shows "jp_status p = st"
proof -
  have "t_participants (mark_job_participants W job_id st d) =
      update_rows (\<lambda>q. jp_job_id q = job_id \<and> jp_status q \<noteq> st)
        (\<lambda>q. q\<lparr>jp_status := st, jp_updated_at := w_now W\<rparr>) (t_participants d)"
    by (simp add: mark_job_participants_def set_job_status_def db_write_def assms(1))
  then show ?thesis
    using update_rows_settles [of p "\<lambda>q. jp_job_id q = job_id" jp_status st _ "t_participants d"] assms(2,3)
    by simp
qed

text \<open>
  A final status call marks every participant of the job as final, whatever they were before:
  also those already marked as TEE enabled, and a provider who withdrew.
\<close>

theorem status_marks_all_final:
  assumes "get_job_status S W auth job_id d = (Inr (JobApproved ja), d')" and "ja_final ja"
    and "w_fault W (Db ''SetJobStatus'' [job_id, ''final'']) = None"
    and "p \<in> set (t_participants d')" and "jp_job_id p = job_id"
  shows "jp_status p = ''final''"
proof -
  obtain claims c parties where
      app: "approve_job S W job_id c (approval_state S (job_history d job_id)) parties d = (Inr (JobApproved ja), d')"
    using assms(1) by (cases rule: get_job_status_cases) auto
  obtain ja' c' d1 d2 final pending where ja: "JobApproved ja = JobApproved ja'" "ja_final ja' = final"
      and "seal_contract S W (c\<lparr>ct_job_id := job_id\<rparr>) d = (Inr c', d1)"
      and "finalize_job S W job_id c' d1 = (Inr (final, pending), d2)"
      and d': "d' = (if final then mark_job_participants W job_id ''final'' d2 else d2)"
      and "final \<longrightarrow> get_final_contract W d' job_id = Inr (ja_final_record ja')"
      and "ja_contract_hash ja' = ct_contract_hash c'"
    using app by (rule approve_job_Inr) (rule that)
  have "d' = mark_job_participants W job_id ''final'' d2" using d' assms(2) ja by simp
  then show ?thesis using mark_job_participants_all [OF assms(3), of p d2] assms(4,5) by simp
qed

definition sample_participant :: "string \<Rightarrow> job_participant" where
  "sample_participant status = \<lparr>jp_job_id = ''j'', jp_contract_id = ''c'', jp_technique = ''TEE'',
     jp_role = ''data-provider'', jp_participant_id = ''provider-a'', jp_user_id = '''', jp_username = '''',
     jp_item_id = ''x'', jp_item_name = ''x'', jp_status = status, jp_created_at = 1, jp_updated_at = 1\<rparr>"

definition sample_enabled_status :: "job_status response \<times> db" where
  "sample_enabled_status = get_job_status sample_server (job_world 11) ''Bearer u'' ''j''
     (sample_approved_db\<lparr>t_participants := [sample_participant ''tee_enabled'']\<rparr>)"

theorem status_marks_all_final_witness:
  "\<exists>p \<in> set (t_participants (snd sample_enabled_status)). jp_job_id p = ''j'' \<and> jp_status p = ''final''"
proof -
  have "\<exists>s d'. sample_enabled_status = (Inr s, d') \<and> is_final_approval s" by (rule reply_obtain) code_simp
  then obtain s d' where s: "sample_enabled_status = (Inr s, d')" "is_final_approval s" by blast
  then obtain ja where ja: "s = JobApproved ja" "ja_final ja" by (cases s) (auto simp: is_final_approval_def)
  have "map jp_job_id (t_participants (snd sample_enabled_status)) = [''j'']" by code_simp
  then have "map jp_job_id (t_participants d') = [''j'']" by (simp only: s snd_conv)
  then obtain p where p: "p \<in> set (t_participants d')" "jp_job_id p = ''j''"
    by (cases "t_participants d'") auto
  have "jp_status p = ''final''"
    by (rule status_marks_all_final [OF s(1) [unfolded sample_enabled_status_def ja(1)] ja(2) _ p])
      (simp add: job_world_def sample_world_def)
  moreover have "snd sample_enabled_status = d'" by (simp only: s(1) snd_conv)
  ultimately show ?thesis using p by blast
qed

end
