(* ===== verification/TEE_Job_Facts.thy ===== *)
theory TEE_Job_Facts
  imports TEE_Job Approval_Facts
begin

text \<open>
  What enabling and running a contract guarantees: a run is enabled and started only for an
  authorised contract, a run that does not start changes nothing but the event log, and the
  outcome of a started run is recorded once.
\<close>

section \<open>Enabling\<close>

lemma enable_checks_Inr:
  assumes "enable_checks S W auth job_id d = Inr c"
  shows "\<exists>claims. status_checks S W auth job_id d claims c" and "\<exists>g. run_authorised S W d (ct_contract_id c) g"
  using assms unfolding enable_checks_def
  by (auto simp: status_checks_def simp flip: gate_iff_authorised)

lemma enable_job_tee_row_Inr:
  assumes "enable_job_tee_row W job_id d = (Inr (Some at), d')"
  shows "\<exists>r \<in> set (t_contracts d). row_has_job job_id r \<and> cr_finalized_at r \<noteq> None \<and>
      at = (case cr_tee_enabled_at r of None \<Rightarrow> w_now W | Some t \<Rightarrow> t)"
    and "\<forall>r \<in> set (t_contracts d'). row_has_job job_id r \<and> cr_finalized_at r \<noteq> None \<longrightarrow> cr_tee_enabled_at r \<noteq> None"
proof -
  let ?P = "\<lambda>r. row_has_job job_id r \<and> cr_finalized_at r \<noteq> None"
  have v: "(case List.find ?P (t_contracts d) of None \<Rightarrow> None | Some r \<Rightarrow> stamp_once (w_now W) (cr_tee_enabled_at r)) = Some at"
    and d': "t_contracts d' = update_rows ?P
        (\<lambda>r. r\<lparr>cr_tee_enabled_at := stamp_once (w_now W) (cr_tee_enabled_at r)\<rparr>) (t_contracts d)"
    using assms unfolding enable_job_tee_row_def Let_def by (auto simp: db_write_Inr)
  obtain r where r: "List.find ?P (t_contracts d) = Some r" "stamp_once (w_now W) (cr_tee_enabled_at r) = Some at"
    using v by (cases "List.find ?P (t_contracts d)") auto
  show "\<exists>r \<in> set (t_contracts d). row_has_job job_id r \<and> cr_finalized_at r \<noteq> None \<and>
      at = (case cr_tee_enabled_at r of None \<Rightarrow> w_now W | Some t \<Rightarrow> t)"
    using find_Some [OF r(1)] r(2) by (auto simp: stamp_once_def split: option.splits)
  have "stamp_once now t \<noteq> None" for now t by (simp add: stamp_once_def split: option.split)
  then show "\<forall>r \<in> set (t_contracts d'). row_has_job job_id r \<and> cr_finalized_at r \<noteq> None \<longrightarrow> cr_tee_enabled_at r \<noteq> None"
    unfolding d' by (auto simp: set_update_rows row_has_job_def)
qed

lemma enable_job_tee_Inr:
  assumes "enable_job_tee S W auth job_id d = (Inr (c, at), d')"
  obtains d1 where "enable_checks S W auth job_id d = Inr c"
    and "enable_job_tee_row W job_id d = (Inr (Some at), d1)"
    and "d' = mark_job_participants W job_id ''tee_enabled'' d1"
  using assms by (auto simp: enable_job_tee_def split: sum.splits prod.splits option.splits)

section \<open>Running\<close>

lemma refuse_run_cases:
  "refuse_run S W c e d = d \<or> (\<exists>ev. refuse_run S W c e d = d\<lparr>t_events := t_events d @ [ev]\<rparr> \<and> ev_event ev = ''run_refused'')"
  by (auto simp: refuse_run_def record_contract_event_def add_contract_event_def db_write_def split: option.splits)

lemma record_started_simps:
  "t_final (record_started S W cid c k d) = t_final d" "t_audit (record_started S W cid c k d) = t_audit d"
  "t_keys (record_started S W cid c k d) = t_keys d"
  by (simp_all add: record_started_def Let_def)

lemma record_started_documents:
  "map cr_contract (t_contracts (record_started S W cid c k d)) = map cr_contract (t_contracts d)"
  by (simp add: record_started_def Let_def mark_contract_tee_enabled_def db_write_def map_update_rows split: option.split)

lemma start_run_Inr:
  assumes "start_run S W cid c d = (Inr (sub, out, k), d')"
  shows "new_sub_contract c = (sub, [])" and "coordinator_call S W ''CreateJob'' (enc_sub_contract sub) = Inr out"
    and "k = created_job (snd out)" and "d' = record_started S W cid c k d"
  using assms by (auto simp: start_run_def split: if_splits prod.splits sum.splits)

lemma start_run_Inl:
  assumes "start_run S W cid c d = (Inl e, d')"
  shows "d' = d \<or> (\<exists>ev. d' = d\<lparr>t_events := t_events d @ [ev]\<rparr> \<and> ev_event ev = ''run_failed'')"
  using assms
  by (auto simp: start_run_def record_contract_event_def add_contract_event_def db_write_def
      split: if_splits prod.splits sum.splits option.splits)

lemma run_tee_job_Inr:
  assumes "run_tee_job S W (Some b) d = (Inr r, d')"
  obtains c where "run_authorised S W d (trim_space b) c" and "start_run S W (trim_space b) c d = (Inr r, d')"
  using assms unfolding run_tee_job_def Let_def
  by (auto split: if_splits sum.splits option.splits simp flip: gate_iff_authorised)

lemma run_tee_job_Inl:
  assumes "run_tee_job S W body d = (Inl e, d')"
  shows "d' = d \<or> (\<exists>ev. d' = d\<lparr>t_events := t_events d @ [ev]\<rparr> \<and> ev_event ev \<in> {''run_refused'', ''run_failed''})"
proof (cases body)
  case None
  then show ?thesis using assms by (simp add: run_tee_job_def)
next
  case (Some b)
  let ?cid = "trim_space b"
  show ?thesis
  proof (cases "?cid = '''' \<or> \<not> srv_has_db S")
    case True
    then show ?thesis using assms by (auto simp: run_tee_job_def Some Let_def split: if_splits)
  next
    case False
    show ?thesis
    proof (cases "require_all_providers_signed S W d ?cid")
      case (Inl e')
      then have "d' = refuse_run S W (stored_or_none W d ?cid) e' d"
        using assms False by (auto simp: run_tee_job_def Some Let_def)
      then show ?thesis using refuse_run_cases [of S W "stored_or_none W d ?cid" e' d] by auto
    next
      case (Inr c)
      then have "start_run S W ?cid c d = (Inl e, d')"
        using assms False by (simp add: run_tee_job_def Some Let_def require_workload_allowed_def)
      then show ?thesis using start_run_Inl by blast
    qed
  qed
qed

section \<open>Settling\<close>

definition run_of :: "json option \<Rightarrow> (string \<times> string) option" where
  "run_of raw = map_option (\<lambda>cj. (cj_contract_id cj, cj_job_id cj)) (Option.bind raw (dec_struct dec_coordinator_job))"

lemma outcome_detail_marks: "contains (outcome_detail cj) (outcome_mark (cj_job_id cj))"
  unfolding outcome_detail_def by (intro contains_append_left contains_refl)

lemma outcome_event_kinds: "outcome_event cj = ''run_succeeded'' \<or> outcome_event cj = ''run_execution_failed''"
  by (simp add: outcome_event_def)

lemma settle_cases:
  assumes "settle_tee_run S W raw d = (b, d')"
  shows "d' = d \<or> (\<exists>cid k ev. b \<and> run_of raw = Some (cid, k) \<and> list_all (\<lambda>e. \<not> is_outcome_of cid k e) (t_events d) \<and>
     is_outcome_of cid k ev \<and> d' = d\<lparr>t_events := t_events d @ [ev]\<rparr>)"
proof (cases "Option.bind raw (dec_struct dec_coordinator_job)")
  case None
  then show ?thesis using assms by (simp add: settle_tee_run_def)
next
  case (Some cj)
  let ?c = "cj_contract_id cj" and ?k = "cj_job_id cj"
  show ?thesis
  proof (cases "terminal_state (cj_state cj) \<and> srv_has_db S \<and> ?c \<noteq> '''' \<and> ?k \<noteq> '''' \<and>
      has_tee_run_outcome W d ?c ?k = Inr False \<and> (\<exists>j. outcome_job W d ?c = Inr j \<and> j \<noteq> '''')")
    case True
    then obtain j where j: "outcome_job W d ?c = Inr j" "j \<noteq> ''''" by blast
    have e: "b" "d' = snd (add_contract_event W ?c j (outcome_event cj) (outcome_detail cj) gov_actor d)"
      using assms True j by (auto simp: settle_tee_run_def Some)
    have none: "list_all (\<lambda>e. \<not> is_outcome_of ?c ?k e) (t_events d)"
      using True by (auto simp: has_tee_run_outcome_def list_all_iff list_ex_iff)
    let ?ev = "\<lparr>ev_contract_id = ?c, ev_job_id = j, ev_event = outcome_event cj, ev_detail = outcome_detail cj,
        ev_actor = gov_actor, ev_at = w_now W\<rparr>"
    have "is_outcome_of ?c ?k ?ev"
      using outcome_detail_marks outcome_event_kinds by (auto simp: is_outcome_of_def)
    moreover have "d' = d \<or> d' = d\<lparr>t_events := t_events d @ [?ev]\<rparr>"
      unfolding e(2) add_contract_event_def by (rule db_write_cases)
    ultimately show ?thesis using e(1) none Some by (auto simp: run_of_def)
  next
    case False
    then show ?thesis using assms
      by (auto simp: settle_tee_run_def Some split: if_splits sum.splits bool.splits)
  qed
qed

lemma settle_done:
  assumes "run_of raw = Some (cid, k)" and "list_ex (is_outcome_of cid k) (t_events d)"
  shows "snd (settle_tee_run S W raw d) = d"
proof -
  obtain b d' where s: "settle_tee_run S W raw d = (b, d')" by (metis surj_pair)
  have "d' = d"
    using settle_cases [OF s] assms by (auto simp: list_ex_iff list_all_iff)
  then show ?thesis using s by simp
qed

lemma watch_polls_events:
  "\<exists>es. length es \<le> 1 \<and> watch_polls S k deadline Ws d = d\<lparr>t_events := t_events d @ es\<rparr>"
proof (induction Ws arbitrary: d)
  case Nil
  then show ?case by (intro exI [of _ "[]"]) simp
next
  case (Cons W Ws)
  have none: "\<exists>es. length es \<le> 1 \<and> d = d\<lparr>t_events := t_events d @ es\<rparr>"
    by (intro exI [of _ "[]"]) simp
  show ?case
  proof (cases "w_now W < deadline")
    case False
    then show ?thesis using none by simp
  next
    case True
    show ?thesis
    proof (cases "fetch_coordinator_job S W k")
      case (Inl e)
      then show ?thesis using True Cons.IH by simp
    next
      case (Inr p)
      obtain t out where p: "p = (t, out)" by (metis surj_pair)
      obtain b d' where s: "settle_tee_run S W out d = (b, d')" by (metis surj_pair)
      have "d' = d \<or> (b \<and> (\<exists>ev. d' = d\<lparr>t_events := t_events d @ [ev]\<rparr>))" using settle_cases [OF s] by blast
      then consider (settled) "b" "d' = d" | (again) "\<not> b" "d' = d"
        | (recorded) ev where "b" "d' = d\<lparr>t_events := t_events d @ [ev]\<rparr>" by blast
      then show ?thesis
      proof cases
        case settled
        then show ?thesis using True Inr p s none by simp
      next
        case again
        then show ?thesis using True Inr p s Cons.IH by simp
      next
        case recorded
        then show ?thesis using True Inr p s by (intro exI [of _ "[ev]"]) simp
      qed
    qed
  qed
qed

section \<open>Properties\<close>

text \<open>
  C18. Enabling a job's TEE run succeeds only for the consumer who generated the contract, only
  while the contract passes the run gate and only once it is final; afterwards every final row of
  the job is stamped, and the time reported is the first enabling's. Nothing final, audited or
  registered changes.
\<close>

theorem enable_tee_effect:
  assumes "enable_job_tee S W auth job_id d = (Inr (c, at), d')"
  shows "(\<exists>claims. status_checks S W auth job_id d claims c) \<and>
    (\<exists>g. require_all_providers_signed S W d (ct_contract_id c) = Inr g) \<and>
    (\<exists>r \<in> set (t_contracts d). row_has_job job_id r \<and> cr_finalized_at r \<noteq> None \<and>
      at = (case cr_tee_enabled_at r of None \<Rightarrow> w_now W | Some t \<Rightarrow> t)) \<and>
    (\<forall>r \<in> set (t_contracts d'). row_has_job job_id r \<and> cr_finalized_at r \<noteq> None \<longrightarrow> cr_tee_enabled_at r \<noteq> None) \<and>
    t_final d' = t_final d \<and> t_audit d' = t_audit d \<and> t_keys d' = t_keys d"
proof -
  obtain d1 where chk: "enable_checks S W auth job_id d = Inr c"
      and row: "enable_job_tee_row W job_id d = (Inr (Some at), d1)"
      and d': "d' = mark_job_participants W job_id ''tee_enabled'' d1"
    using assms by (rule enable_job_tee_Inr)
  have "t_final d1 = t_final d" "t_audit d1 = t_audit d" "t_keys d1 = t_keys d"
    using enable_job_tee_row_frame [of W job_id d] by (simp_all add: row)
  then show ?thesis
    using enable_checks_Inr [OF chk] enable_job_tee_row_Inr [OF row] d'
    unfolding gate_iff_authorised by simp
qed

definition sample_final_db :: db where
  "sample_final_db = sample_approved_db\<lparr>t_contracts :=
     map (\<lambda>r. r\<lparr>cr_finalized := True, cr_finalized_at := Some 11\<rparr>) (t_contracts sample_approved_db)\<rparr>"

definition sample_enable :: "(contract \<times> time) response \<times> db" where
  "sample_enable = enable_job_tee sample_server (job_world 12) ''Bearer u'' ''j'' sample_final_db"

lemma sample_enable_ok: "\<exists>r d'. sample_enable = (Inr r, d') \<and> snd r = 12"
  by (rule reply_obtain) code_simp

theorem enable_tee_effect_witness:
  "\<exists>c claims g. status_checks sample_server (job_world 12) ''Bearer u'' ''j'' sample_final_db claims c \<and>
     require_all_providers_signed sample_server (job_world 12) sample_final_db (ct_contract_id c) = Inr g"
proof -
  obtain c at d' where "sample_enable = (Inr (c, at), d')" using sample_enable_ok by (metis surj_pair)
  then show ?thesis unfolding sample_enable_def by (blast dest: enable_tee_effect)
qed

text \<open>
  C19. A run that starts was authorised: the contract passes the run gate and lacks nothing the
  coordinator needs, the sub-contract sent is the stored contract's, the contract documents stay as
  they are, and no final contract, audit entry or key changes.
\<close>

theorem started_run_authorised:
  assumes "run_tee_job S W (Some b) d = (Inr (sub, out, k), d')"
  shows "\<exists>c. require_all_providers_signed S W d (trim_space b) = Inr c \<and> new_sub_contract c = (sub, []) \<and>
    coordinator_call S W ''CreateJob'' (enc_sub_contract sub) = Inr out \<and>
    d' = record_started S W (trim_space b) c k d \<and>
    map cr_contract (t_contracts d') = map cr_contract (t_contracts d) \<and>
    t_final d' = t_final d \<and> t_audit d' = t_audit d \<and> t_keys d' = t_keys d"
proof -
  obtain c where c: "run_authorised S W d (trim_space b) c"
      and s: "start_run S W (trim_space b) c d = (Inr (sub, out, k), d')"
    using assms by (rule run_tee_job_Inr)
  show ?thesis
    using c start_run_Inr [OF s] record_started_simps record_started_documents
    unfolding gate_iff_authorised by (intro exI [of _ c]) simp
qed

definition sample_run :: "db \<Rightarrow> (sub_contract \<times> (string \<times> json option) \<times> string) response \<times> db" where
  "sample_run = run_tee_job sample_server (job_world 12) (Some ''c'')"

lemma sample_run_ok: "\<exists>r d'. sample_run sample_approved_db = (Inr r, d') \<and> snd (snd r) = ''k''"
  by (rule reply_obtain) code_simp

theorem started_run_authorised_witness:
  "\<exists>c. require_all_providers_signed sample_server (job_world 12) sample_approved_db ''c'' = Inr c"
proof -
  obtain r d' where "sample_run sample_approved_db = (Inr r, d')" using sample_run_ok by blast
  then obtain sub out k where "sample_run sample_approved_db = (Inr (sub, out, k), d')" by (metis surj_pair)
  then obtain c where "require_all_providers_signed sample_server (job_world 12) sample_approved_db (trim_space ''c'') = Inr c"
    unfolding sample_run_def by (blast dest: started_run_authorised)
  moreover have "trim_space ''c'' = ''c''" by code_simp
  ultimately show ?thesis by auto
qed

text \<open>
  C20. A run that does not start changes nothing but the contract's history: at most one event is
  appended, a refusal or a failed start.
\<close>

theorem refused_run_only_recorded:
  assumes "run_tee_job S W body d = (Inl e, d')"
  shows "d' = d \<or> (\<exists>ev. d' = d\<lparr>t_events := t_events d @ [ev]\<rparr> \<and> ev_event ev \<in> {''run_refused'', ''run_failed''})"
  using assms by (rule run_tee_job_Inl)

lemma sample_refused_ok: "\<exists>e d'. sample_run (sample_db (sample_job [''x''])) = (Inl e, d') \<and> d' \<noteq> sample_db (sample_job [''x''])"
proof -
  have "isl (fst (sample_run (sample_db (sample_job [''x'']))))" by code_simp
  moreover have "t_events (snd (sample_run (sample_db (sample_job [''x''])))) \<noteq> []" by code_simp
  moreover have "t_events (sample_db (sample_job [''x''])) = []" by (simp add: sample_db_def)
  ultimately show ?thesis
    by (cases "sample_run (sample_db (sample_job [''x'']))") (auto simp: isl_def)
qed

theorem refused_run_only_recorded_witness:
  "\<exists>ev. snd (sample_run (sample_db (sample_job [''x'']))) =
     (sample_db (sample_job [''x'']))\<lparr>t_events := t_events (sample_db (sample_job [''x''])) @ [ev]\<rparr>"
proof -
  obtain e d' where s: "sample_run (sample_db (sample_job [''x''])) = (Inl e, d')"
      and ne: "d' \<noteq> sample_db (sample_job [''x''])" using sample_refused_ok by blast
  have "snd (sample_run (sample_db (sample_job [''x'']))) = d'" by (simp only: s snd_conv)
  then show ?thesis
    using refused_run_only_recorded [OF s [unfolded sample_run_def]] ne by metis
qed

text \<open>
  Starting a run does not ask whether the run was enabled: whenever the run gate passes, the
  contract is complete and the coordinator accepts the job, the run starts, also for a contract that
  needs approval whose TEE run was never enabled, and the job then counts as enabled.
\<close>

theorem run_needs_no_enabling:
  assumes "b \<noteq> ''''" and "trim_space b = b" and "require_all_providers_signed S W d b = Inr c"
    and "cfg_coordinator_addr (srv_cfg S) \<noteq> ''''" and "new_sub_contract c = (sub, [])"
    and "coordinator_call S W ''CreateJob'' (enc_sub_contract sub) = Inr (t, out)"
  shows "run_tee_job S W (Some b) d =
    (Inr (sub, (t, out), created_job out), record_started S W b c (created_job out) d)"
proof -
  have "srv_has_db S" using assms(3) by (simp add: gate_iff_authorised run_authorised_def)
  then show ?thesis
    using assms by (simp add: run_tee_job_def start_run_def Let_def require_workload_allowed_def)
qed

theorem run_needs_no_enabling_witness:
  "\<exists>c d'. require_tee_enabled (job_world 12) sample_approved_db c \<noteq> None \<and>
     require_all_providers_signed sample_server (job_world 12) sample_approved_db ''c'' = Inr c \<and>
     run_tee_job sample_server (job_world 12) (Some ''c'') sample_approved_db =
       (Inr (fst (new_sub_contract c), ('''', Some (JObj [(''jobId'', JStr ''k'')])), ''k''), d')"
proof -
  let ?c = "with_data_providers (map (set_data_sig (signature_over 2 ''a'' ''sha256:cu'' ''asha256:cu'')))
      (sample_job [''x''])"
  let ?out = "Some (JObj [(''jobId'', JStr ''k'')])"
  have g: "require_all_providers_signed sample_server (job_world 12) sample_approved_db ''c'' = Inr ?c" by code_simp
  have n: "require_tee_enabled (job_world 12) sample_approved_db ?c \<noteq> None" by code_simp
  have m: "snd (new_sub_contract ?c) = []" by code_simp
  have "run_tee_job sample_server (job_world 12) (Some ''c'') sample_approved_db =
      (Inr (fst (new_sub_contract ?c), ('''', ?out), created_job ?out),
       record_started sample_server (job_world 12) ''c'' ?c (created_job ?out) sample_approved_db)"
  proof (rule run_needs_no_enabling)
    show "trim_space ''c'' = ''c''" by code_simp
    show "new_sub_contract ?c = (fst (new_sub_contract ?c), [])" using m by (metis prod.collapse)
    show "cfg_coordinator_addr (srv_cfg sample_server) \<noteq> ''''" by (simp add: sample_server_def sample_config_def)
    show "coordinator_call sample_server (job_world 12) ''CreateJob''
        (enc_sub_contract (fst (new_sub_contract ?c))) = Inr ('''', ?out)"
      by (simp add: coordinator_call_def job_world_def)
  qed (simp_all only: g, simp_all)
  moreover have "created_job ?out = ''k''" by code_simp
  ultimately show ?thesis using g n by (intro exI [of _ ?c]) simp
qed


definition sample_outcome :: "string \<Rightarrow> json option" where
  "sample_outcome state =
     Some (JObj [(''jobId'', JStr ''k''), (''contractId'', JStr ''c''), (''state'', JStr state)])"


text \<open>
  A watcher records at most one event and nothing else, however long it polls.
\<close>

theorem watcher_records_at_most_one:
  "\<exists>es. length es \<le> 1 \<and> watch_tee_run S k start Ws d = d\<lparr>t_events := t_events d @ es\<rparr>"
proof (cases "cfg_coordinator_addr (srv_cfg S) = '''' \<or> \<not> is_coord_job k")
  case True
  then show ?thesis by (intro exI [of _ "[]"]) (simp add: watch_tee_run_def)
next
  case False
  then show ?thesis using watch_polls_events by (simp add: watch_tee_run_def)
qed

end
