(* ===== verification/Attestation.thy ===== *)
theory Attestation
  imports World
begin

text \<open>
  Verification of an attestation token (\<^verbatim>\<open>services/attestation.go\<close>): which attestation service is
  believed, its signing keys, freshness by the nonce, and what the claims must say of the guest.
  The JWT and X.509 libraries are parameters (\<open>jwt_lib\<close>); what is relied on of them is
  \<open>jwt_lib_ok\<close>.
\<close>

section \<open>The libraries\<close>

record jwt_options =
  jo_methods :: "string list"
  jo_leeway :: time
  jo_issuer :: string
  jo_now :: time

text \<open>
  \<open>jl_unverified\<close> is \<^verbatim>\<open>ParseUnverified\<close>; \<open>jl_parse\<close> is \<^verbatim>\<open>ParseWithClaims\<close>, which asks the key
  function for the key of the token's \<^verbatim>\<open>kid\<close> header and gives \<^verbatim>\<open>token.Valid\<close> and the claims. Claims
  are JSON, their numeric dates as \<open>JTime\<close>. \<open>jl_signed tok key\<close>: the token's RS256 signature
  verifies under the key.
\<close>

record jwt_lib =
  jl_unverified :: "string \<Rightarrow> json result"
  jl_parse :: "jwt_options \<Rightarrow> (string \<Rightarrow> public_key result) \<Rightarrow> string \<Rightarrow> (bool \<times> json) result"
  jl_signed :: "string \<Rightarrow> public_key \<Rightarrow> bool"
  jl_parse_cert :: "string \<Rightarrow> public_key result"  \<comment> \<open>\<^verbatim>\<open>x509.ParseCertificate\<close>: the certificate's key\<close>
  jl_raw_url_decode :: "string \<Rightarrow> string result"  \<comment> \<open>\<^verbatim>\<open>base64.RawURLEncoding\<close>\<close>
  jl_rsa_key :: "string \<Rightarrow> string \<Rightarrow> public_key"  \<comment> \<open>\<^verbatim>\<open>rsa.PublicKey\<close> of big-endian modulus and exponent\<close>
  jl_random :: "nat \<Rightarrow> string result"  \<comment> \<open>\<^verbatim>\<open>rand.Read\<close> of so many bytes\<close>

text \<open>
  The library's documented contract: a parsed token is signed with a key the key function gave,
  carries the issuer asked for, and its claims are the token's own.
\<close>

definition jwt_lib_ok :: "jwt_lib \<Rightarrow> bool" where
  "jwt_lib_ok L \<longleftrightarrow>
     (\<forall>opts keyfunc tok claims. jl_parse L opts keyfunc tok = Inr (True, claims) \<longrightarrow>
        (\<exists>kid key. keyfunc kid = Inr key \<and> jl_signed L tok key) \<and>
        jget ''iss'' claims = JStr (jo_issuer opts) \<and> jl_unverified L tok = Inr claims)"

section \<open>Policy, claims and result\<close>

record attestation_policy =
  ap_allowed_issuers :: "string list"
  ap_nonce :: string
  ap_expected_measurement :: string
  ap_leeway :: time

record attestation_result =
  at_issuer :: string
  at_vm_id :: string
  at_type :: string
  at_compliance_status :: string
  at_launch_measurement :: string
  at_chip_family :: string
  at_guest_svn :: int
  at_bootloader_svn :: int
  at_secure_boot :: bool
  at_debuggable :: bool
  at_measurement_pinned :: bool
  at_nonce_verified :: bool
  at_issued_at :: time
  at_expires_at :: time
  at_verified_at :: time

record isolation_tee =
  it_type :: string
  it_compliance_status :: string
  it_launch_measurement :: string
  it_chip_family :: string
  it_guest_svn :: int
  it_bootloader_svn :: int
  it_debuggable :: bool

record maa_claims =
  mc_issuer :: string
  mc_issued_at :: "time option"
  mc_expires_at :: "time option"
  mc_secure_boot :: bool
  mc_vm_id :: string
  mc_nonce :: string
  mc_isolation :: isolation_tee

definition dec_isolation_tee :: "json \<Rightarrow> isolation_tee option" where
  "dec_isolation_tee j = do {
     ty \<leftarrow> dec_str (jget ''x-ms-attestation-type'' j);
     compliance \<leftarrow> dec_str (jget ''x-ms-compliance-status'' j);
     measurement \<leftarrow> dec_str (jget ''x-ms-sevsnpvm-launchmeasurement'' j);
     chip \<leftarrow> dec_str (jget ''x-ms-sevsnpvm-chip-family'' j);
     guest_svn \<leftarrow> dec_int (jget ''x-ms-sevsnpvm-guestsvn'' j);
     bootloader_svn \<leftarrow> dec_int (jget ''x-ms-sevsnpvm-bootloader-svn'' j);
     debuggable \<leftarrow> dec_bool (jget ''x-ms-sevsnpvm-is-debuggable'' j);
     Some \<lparr>it_type = ty, it_compliance_status = compliance, it_launch_measurement = measurement,
       it_chip_family = chip, it_guest_svn = guest_svn, it_bootloader_svn = bootloader_svn,
       it_debuggable = debuggable\<rparr> }"

definition dec_maa_claims :: "json \<Rightarrow> maa_claims option" where
  "dec_maa_claims j = do {
     issuer \<leftarrow> dec_str (jget ''iss'' j);
     issued_at \<leftarrow> dec_opt dec_time (jget ''iat'' j);
     expires_at \<leftarrow> dec_opt dec_time (jget ''exp'' j);
     secure_boot \<leftarrow> dec_bool (jget ''secureboot'' j);
     vm_id \<leftarrow> dec_str (jget ''x-ms-azurevm-vmid'' j);
     nonce \<leftarrow> dec_struct (\<lambda>r. dec_struct (\<lambda>p. dec_str (jget ''nonce'' p)) (jget ''client-payload'' r))
       (jget ''x-ms-runtime'' j);
     isolation \<leftarrow> dec_struct dec_isolation_tee (jget ''x-ms-isolation-tee'' j);
     Some \<lparr>mc_issuer = issuer, mc_issued_at = issued_at, mc_expires_at = expires_at,
       mc_secure_boot = secure_boot, mc_vm_id = vm_id, mc_nonce = nonce, mc_isolation = isolation\<rparr> }"

section \<open>The attestation service's keys\<close>

definition issuer_allowed :: "string \<Rightarrow> string list \<Rightarrow> bool" where
  "issuer_allowed issuer allowed \<longleftrightarrow>
     issuer \<noteq> '''' \<and> list_ex (\<lambda>a. issuer = trim_right_slash (trim_space a)) allowed"

record jwk =
  jk_kid :: string
  jk_kty :: string
  jk_n :: string
  jk_e :: string
  jk_x5c :: "string list"

definition dec_jwk :: "json \<Rightarrow> jwk option" where
  "dec_jwk j = do {
     kid \<leftarrow> dec_str (jget ''kid'' j);
     kty \<leftarrow> dec_str (jget ''kty'' j);
     n \<leftarrow> dec_str (jget ''n'' j);
     e \<leftarrow> dec_str (jget ''e'' j);
     x5c \<leftarrow> dec_list dec_str (jget ''x5c'' j);
     Some \<lparr>jk_kid = kid, jk_kty = kty, jk_n = n, jk_e = e, jk_x5c = x5c\<rparr> }"

definition trim_right_equals :: "string \<Rightarrow> string" where
  "trim_right_equals s = rev (dropWhile (\<lambda>c. c = CHR ''='') (rev s))"

definition jwk_to_rsa :: "crypto \<Rightarrow> jwt_lib \<Rightarrow> string list \<Rightarrow> string \<Rightarrow> string \<Rightarrow> public_key result" where
  "jwk_to_rsa C L x5c n e =
     (case x5c of
        cert # _ \<Rightarrow>
          and_then (or_fail (\<lambda>m. ''decode x5c: '' @ m) (base64_decode C cert)) (\<lambda>der.
          and_then (or_fail (\<lambda>m. ''parse x5c cert: '' @ m) (jl_parse_cert L der)) (\<lambda>key.
          case key of RsaKey k bits \<Rightarrow> Inr key | OtherKey k \<Rightarrow> Inl ''x5c key is not RSA''))
      | [] \<Rightarrow>
          require (n \<noteq> '''' \<and> e \<noteq> '''') ''JWK has neither x5c nor n/e'' (
          and_then (or_fail (\<lambda>m. ''decode modulus: '' @ m) (jl_raw_url_decode L (trim_right_equals n))) (\<lambda>nb.
          and_then (or_fail (\<lambda>m. ''decode exponent: '' @ m) (jl_raw_url_decode L (trim_right_equals e))) (\<lambda>eb.
          Inr (jl_rsa_key L nb eb)))))"

text \<open>The usable keys by \<^verbatim>\<open>kid\<close>, in document order; a later entry replaces an earlier one of its \<^verbatim>\<open>kid\<close>.\<close>

fun usable_keys :: "crypto \<Rightarrow> jwt_lib \<Rightarrow> jwk list \<Rightarrow> (string \<times> public_key) list" where
  "usable_keys C L [] = []"
| "usable_keys C L (k # ks) =
     (if jk_kty k \<noteq> '''' \<and> jk_kty k \<noteq> ''RSA'' then usable_keys C L ks
      else case jwk_to_rsa C L (jk_x5c k) (jk_n k) (jk_e k) of
          Inl e \<Rightarrow> usable_keys C L ks
        | Inr key \<Rightarrow> (jk_kid k, key) # usable_keys C L ks)"

definition fetch_jwks ::
  "crypto \<Rightarrow> jwt_lib \<Rightarrow> world \<Rightarrow> string \<Rightarrow> (string \<times> public_key) list result" where
  "fetch_jwks C L W url =
     (case w_http_get W url '''' of
        NetFail e \<Rightarrow> Inl e
      | HttpReply status body \<Rightarrow>
          require (status = 200) (url @ '' returned HTTP '' @ decimal status) (
          and_then (some_or ''decode JWKS: invalid JSON''
            (Option.bind body (dec_struct (\<lambda>j. dec_list (dec_struct dec_jwk) (jget ''keys'' j))))) (\<lambda>doc.
          let keys = usable_keys C L doc in
          require (keys \<noteq> []) (''no usable RSA signing keys at '' @ url) (Inr (rev keys)))))"

section \<open>Verification\<close>

definition jwks_key :: "(string \<times> public_key) list \<Rightarrow> string \<Rightarrow> public_key result" where
  "jwks_key keys kid = some_or (''no MAA signing key for kid '' @ go_quote kid) (map_of keys kid)"

text \<open>The library's error when a payload does not fit the claims struct is abbreviated.\<close>

definition token_claims :: "json \<Rightarrow> maa_claims result" where
  "token_claims j = some_or ''token is malformed: could not JSON decode claim'' (dec_struct dec_maa_claims j)"

definition guest_checks :: "attestation_policy \<Rightarrow> isolation_tee \<Rightarrow> bool result" where
  "guest_checks pol guest =
     require (it_type guest = ''sevsnpvm'')
       (''not an SEV-SNP guest: x-ms-attestation-type is '' @ go_quote (it_type guest) @ '', want '' @ go_quote ''sevsnpvm'') (
     require (it_compliance_status guest = ''azure-compliant-cvm'')
       (''guest is not an Azure-compliant CVM: compliance status '' @ go_quote (it_compliance_status guest)) (
     require (\<not> it_debuggable guest) ''guest is debuggable: TEE memory protection cannot be relied on'' (
     if ap_expected_measurement pol = '''' then Inr False
     else let got = to_lower (it_launch_measurement guest); want = to_lower (ap_expected_measurement pol) in
       require (got = want) (''launch measurement mismatch:'' @ [char_of (10 :: nat)] @ ''  got : '' @ got @
         [char_of (10 :: nat)] @ ''  want: '' @ want) (Inr True))))"

definition attestation_of ::
  "string \<Rightarrow> maa_claims \<Rightarrow> bool \<Rightarrow> time \<Rightarrow> attestation_result" where
  "attestation_of issuer claims pinned now =
     (let guest = mc_isolation claims in
      \<lparr>at_issuer = issuer, at_vm_id = mc_vm_id claims, at_type = it_type guest,
        at_compliance_status = it_compliance_status guest,
        at_launch_measurement = to_lower (it_launch_measurement guest),
        at_chip_family = it_chip_family guest, at_guest_svn = it_guest_svn guest,
        at_bootloader_svn = it_bootloader_svn guest, at_secure_boot = mc_secure_boot claims,
        at_debuggable = it_debuggable guest, at_measurement_pinned = pinned, at_nonce_verified = True,
        at_issued_at = (case mc_issued_at claims of None \<Rightarrow> zero_time | Some t \<Rightarrow> t),
        at_expires_at = (case mc_expires_at claims of None \<Rightarrow> zero_time | Some t \<Rightarrow> t),
        at_verified_at = now\<rparr>)"

text \<open>The issuer of the still unverified token, when it is one of the allowed ones.\<close>

definition claimed_issuer :: "jwt_lib \<Rightarrow> attestation_policy \<Rightarrow> string \<Rightarrow> string result" where
  "claimed_issuer L pol tok =
     and_then (or_fail (\<lambda>m. ''malformed attestation token: '' @ m)
       (and_then (jl_unverified L tok) token_claims)) (\<lambda>claims.
     let issuer = trim_right_slash (mc_issuer claims) in
     require (issuer_allowed issuer (ap_allowed_issuers pol))
       (''attestation issuer '' @ go_quote issuer @ '' is not in the allowed set ['' @
        join '' '' (ap_allowed_issuers pol) @ '']'') (Inr issuer))"

definition verify_maa_token ::
  "crypto \<Rightarrow> jwt_lib \<Rightarrow> world \<Rightarrow> string \<Rightarrow> attestation_policy \<Rightarrow> attestation_result result" where
  "verify_maa_token C L W tok pol =
     require (trim_space tok \<noteq> '''') ''attestation token is empty'' (
     require (ap_nonce pol \<noteq> '''') ''policy.Nonce is required: without it a replayed token would verify'' (
     require (ap_allowed_issuers pol \<noteq> [])
       ''policy.AllowedIssuers is empty: no attestation service is trusted'' (
     and_then (claimed_issuer L pol tok) (\<lambda>issuer.
     and_then (or_fail (\<lambda>m. ''fetch MAA signing keys: '' @ m) (fetch_jwks C L W (issuer @ ''/certs''))) (\<lambda>keys.
     let opts = \<lparr>jo_methods = [''RS256''], jo_leeway = ap_leeway pol, jo_issuer = issuer, jo_now = w_now W\<rparr> in
     and_then (or_fail (\<lambda>m. ''attestation token signature/claims invalid: '' @ m)
       (and_then (jl_parse L opts (jwks_key keys) tok) (\<lambda>(valid, j).
          and_then (token_claims j) (\<lambda>claims. Inr (valid, claims))))) (\<lambda>(valid, claims).
     require valid ''attestation token is not valid'' (
     and_then (or_fail (\<lambda>m. ''nonce claim is not valid base64: '' @ m) (base64_decode C (mc_nonce claims))) (\<lambda>raw_nonce.
     require (raw_nonce = ap_nonce pol)
       ''nonce mismatch: token does not answer this attestation challenge (possible replay)'' (
     and_then (guest_checks pol (mc_isolation claims)) (\<lambda>pinned.
     Inr (attestation_of issuer claims pinned (w_now W))))))))))))"

abbreviation nonce_bytes :: nat where "nonce_bytes \<equiv> 32"

definition new_attestation_nonce :: "crypto \<Rightarrow> jwt_lib \<Rightarrow> string result" where
  "new_attestation_nonce C L =
     and_then (or_fail (\<lambda>m. ''generate attestation nonce: '' @ m) (jl_random L nonce_bytes)) (\<lambda>b.
     Inr (base64_encode C b))"

end
