(* ===== verification/TEE_Orchestrator.thy ===== *)
theory TEE_Orchestrator
  imports Attestation Signing
begin

text \<open>
  The orchestrator's primitives (\<^verbatim>\<open>httpapi/tee_orchestrator.go\<close>) with what they call: the contract
  of a provisioning request (\<^verbatim>\<open>services/tee_contract.go\<close>), the confidential VM and its enclave
  manager (\<^verbatim>\<open>services/azuretee.go\<close>), deployment (\<^verbatim>\<open>services/tee.go\<close>). The Go code shares instances by
  pointer between the registry and running sessions; the model keeps them in a store and the
  registry holds addresses.
\<close>

section \<open>Errors\<close>

datatype tee_error = TeeError (te_status: nat) (te_code: string) (te_message: string) (te_detail: string)

text \<open>\<^verbatim>\<open>teeAPIError.Error\<close>.\<close>

definition tee_error_text :: "tee_error \<Rightarrow> string" where
  "tee_error_text e =
     te_code e @ '': '' @ te_message e @ (if te_detail e \<noteq> '''' then '' ('' @ te_detail e @ '')'' else '''')"

text \<open>The signature gate's errors carry no detail.\<close>

definition tee_of_http :: "http_error \<Rightarrow> tee_error" where
  "tee_of_http e = TeeError (he_status e) (he_code e) (he_message e) ''''"

section \<open>Calls to the VM and the enclave\<close>

text \<open>
  What the orchestrator sees beyond the world of the other handlers: \<open>tv_post\<close> answers
  \<^verbatim>\<open>postReceiver\<close> (status and text), \<open>tv_output\<close> the buffered output response or its failure,
  \<open>tv_json\<close> parses a text, \<open>tv_url\<close> is \<^verbatim>\<open>url.Parse\<close> (scheme and host), \<open>tv_duration\<close>
  \<^verbatim>\<open>Duration.String\<close>, \<open>tv_session_id\<close> the next random session id.
\<close>

record tee_output_result =
  to_status_code :: nat
  to_content_type :: string
  to_content_disposition :: string
  to_body :: string

datatype output_failure = RequestInvalid string | TransportFailed string | BodyFailed string

record tee_env =
  tv_lib :: jwt_lib
  tv_post :: "string \<Rightarrow> json \<Rightarrow> (nat \<times> string) result"
  tv_output :: "string \<Rightarrow> output_failure + tee_output_result"
  tv_json :: "string \<Rightarrow> json option"
  tv_url :: "string \<Rightarrow> (string \<times> string) result"
  tv_duration :: "time \<Rightarrow> string"
  tv_session_id :: string

record azure_vm =
  vm_resource_group :: string
  vm_name :: string

definition az_run :: "world \<Rightarrow> string list \<Rightarrow> (string \<times> json option) result" where
  "az_run W args = or_fail (\<lambda>e. ''az '' @ join '' '' args @ '': '' @ e) (w_exec W (''az'' # args))"

definition start_vm :: "world \<Rightarrow> azure_vm \<Rightarrow> string option" where
  "start_vm W vm =
     (case az_run W [''vm'', ''start'', ''-g'', vm_resource_group vm, ''-n'', vm_name vm, ''-o'', ''none''] of
        Inl e \<Rightarrow> Some e | Inr out \<Rightarrow> None)"

definition stop_vm :: "world \<Rightarrow> azure_vm \<Rightarrow> string option" where
  "stop_vm W vm =
     (case az_run W [''vm'', ''deallocate'', ''-g'', vm_resource_group vm, ''-n'', vm_name vm, ''-o'', ''none''] of
        Inl e \<Rightarrow> Some e | Inr out \<Rightarrow> None)"

definition cut_prefix :: "string \<Rightarrow> string \<Rightarrow> string option" where
  "cut_prefix s p = (if has_prefix s p then Some (drop (length p) s) else None)"

fun power_state_of :: "string list \<Rightarrow> string" where
  "power_state_of [] = ''unknown''"
| "power_state_of (c # cs) =
     (case cut_prefix c ''PowerState/'' of Some rest \<Rightarrow> rest | None \<Rightarrow> power_state_of cs)"

definition vm_power_state :: "world \<Rightarrow> azure_vm \<Rightarrow> string result" where
  "vm_power_state W vm =
     and_then (az_run W [''vm'', ''get-instance-view'', ''-g'', vm_resource_group vm, ''-n'', vm_name vm,
         ''--query'', ''instanceView.statuses[].code'', ''-o'', ''json'']) (\<lambda>(raw, out).
     and_then (some_or ''parse instance view: invalid JSON'' (Option.bind out (dec_list dec_str))) (\<lambda>codes.
     Inr (power_state_of codes)))"

record enclave_state =
  es_step :: int
  es_max_steps :: int
  es_title :: string
  es_description :: string

definition dec_enclave_state :: "json \<Rightarrow> enclave_state option" where
  "dec_enclave_state j = do {
     step \<leftarrow> dec_int (jget ''step'' j);
     max_steps \<leftarrow> dec_int (jget ''maxSteps'' j);
     title \<leftarrow> dec_str (jget ''title'' j);
     description \<leftarrow> dec_str (jget ''description'' j);
     Some \<lparr>es_step = step, es_max_steps = max_steps, es_title = title, es_description = description\<rparr> }"

definition fetch_enclave_state :: "world \<Rightarrow> string \<Rightarrow> enclave_state result" where
  "fetch_enclave_state W base =
     (case w_http_get W (base @ ''/enclave/state'') '''' of
        NetFail e \<Rightarrow> Inl e
      | HttpReply status body \<Rightarrow>
          require (status = 200) (''enclave manager returned HTTP '' @ decimal status)
            (some_or ''decode enclave state: invalid JSON'' (Option.bind body (dec_struct dec_enclave_state))))"

text \<open>
  One world for each probe made before the budget ran out; the world of the first answer is when
  the caller goes on. There is always a first probe.
\<close>

fun wait_for_enclave :: "string \<Rightarrow> string \<Rightarrow> string \<Rightarrow> world \<Rightarrow> world list \<Rightarrow> (world \<times> enclave_state) result" where
  "wait_for_enclave base timeout last_err W Ws =
     (case fetch_enclave_state W base of
        Inr st \<Rightarrow> Inr (W, st)
      | Inl e \<Rightarrow> (case Ws of
          [] \<Rightarrow> Inl (''enclave manager at '' @ base @ '' not ready within '' @ timeout @
            '' (last error: '' @ e @ '')'')
        | W' # Ws' \<Rightarrow> wait_for_enclave base timeout e W' Ws'))"

section \<open>The contract of a provisioning request\<close>

record tee_app_details =
  ta_image_id :: string
  ta_image_hash :: string
  ta_version :: string
  ta_entry_point :: string
  ta_environment :: "(string \<times> string) list"

record tee_dataset_details =
  td_item_id :: string
  td_asset_name :: string
  td_asset_type :: string
  td_resource_url :: string

record tee_contract =
  tc_contract_id :: string
  tc_governance_contract_id :: string
  tc_request_id :: string
  tc_consumer_id :: string
  tc_provider_id :: string
  tc_app_details :: tee_app_details
  tc_dataset_details :: tee_dataset_details
  tc_access_type :: string
  tc_consumer_public_key :: string
  tc_apd_callback_url :: string
  tc_issued_at :: time
  tc_expires_at :: time
  tc_signature :: string

definition resource_url_error :: "tee_env \<Rightarrow> string \<Rightarrow> string option" where
  "resource_url_error T url =
     (case tv_url T url of
        Inl e \<Rightarrow> Some (''datasetDetails.resourceUrl is not a valid URL: '' @ e)
      | Inr (scheme, host) \<Rightarrow>
          if scheme \<noteq> ''https'' \<or> host = '''' then
            Some (''datasetDetails.resourceUrl must be an absolute https URL, got '' @ go_quote url)
          else None)"

definition lifetime_error :: "world \<Rightarrow> tee_contract \<Rightarrow> string option" where
  "lifetime_error W c =
     (if tc_expires_at c = zero_time then Some ''expiresAt is required''
      else if w_now W > tc_expires_at c then
        Some (''contract expired at '' @ w_format_time W rfc3339 (tc_expires_at c))
      else if tc_issued_at c \<noteq> zero_time \<and> w_now W < tc_issued_at c then
        Some (''contract is not valid until '' @ w_format_time W rfc3339 (tc_issued_at c))
      else None)"

definition validate_tee_contract :: "world \<Rightarrow> tee_env \<Rightarrow> tee_contract \<Rightarrow> string option" where
  "validate_tee_contract W T c =
     (let app = tc_app_details c; ds = tc_dataset_details c in
      if tc_contract_id c = '''' then Some ''contractId is required''
      else if tc_request_id c = '''' then Some ''requestId is required''
      else if ta_image_id app = '''' then Some ''appDetails.imageId is required''
      else if ta_image_hash app = '''' then
        Some ''appDetails.imageHash is required (expected TEE measurement)''
      else if td_item_id ds = '''' then Some ''datasetDetails.itemId is required''
      else if td_resource_url ds = '''' then Some ''datasetDetails.resourceUrl is required''
      else case resource_url_error T (td_resource_url ds) of
          Some e \<Rightarrow> Some e
        | None \<Rightarrow> lifetime_error W c)"

section \<open>Instances and sessions\<close>

record tee_instance =
  ti_tee_id :: string
  ti_contract_id :: string
  ti_request_id :: string
  ti_dataset_url :: string
  ti_vm :: azure_vm
  ti_enclave_base :: string
  ti_provisioned_at :: time
  ti_attestation :: "attestation_result option"
  ti_attested_at :: time

definition attestation_fresh :: "time \<Rightarrow> time \<Rightarrow> tee_instance \<Rightarrow> bool" where
  "attestation_fresh ttl now t \<longleftrightarrow>
     ti_attestation t \<noteq> None \<and> ti_attested_at t \<noteq> zero_time \<and> now - ti_attested_at t \<le> ttl"

datatype session_status =
  Provisioning | Attesting | Running | Complete | SessionFailed | Terminated

record tee_session =
  ss_id :: string
  ss_tee_id :: string
  ss_status :: session_status
  ss_error :: string
  ss_output :: "tee_output_result option"
  ss_created_at :: time
  ss_updated_at :: time

text \<open>The store of instances, the registry of live ones by TEE id, the sessions by session id.\<close>

record tee_state =
  ts_store :: "tee_instance list"
  ts_tees :: "string \<Rightarrow> nat option"
  ts_sessions :: "string \<Rightarrow> tee_session option"

definition tees_get :: "(string \<Rightarrow> nat option) \<Rightarrow> string \<Rightarrow> nat option" where
  "tees_get t k = t k"

definition tees_put :: "string \<Rightarrow> nat \<Rightarrow> (string \<Rightarrow> nat option) \<Rightarrow> string \<Rightarrow> nat option" where
  "tees_put k a t = t(k \<mapsto> a)"

definition tees_delete :: "string \<Rightarrow> (string \<Rightarrow> nat option) \<Rightarrow> string \<Rightarrow> nat option" where
  "tees_delete k t = t(k := None)"

definition sessions_get :: "(string \<Rightarrow> tee_session option) \<Rightarrow> string \<Rightarrow> tee_session option" where
  "sessions_get t k = t k"

definition sessions_put ::
  "string \<Rightarrow> tee_session \<Rightarrow> (string \<Rightarrow> tee_session option) \<Rightarrow> string \<Rightarrow> tee_session option" where
  "sessions_put k s t = t(k \<mapsto> s)"

interpretation tees: keyed_rows tees_get tees_put tees_delete
  by unfold_locales (simp_all add: tees_get_def tees_put_def tees_delete_def)

interpretation sessions: keyed_table sessions_get sessions_put
  by unfold_locales (simp add: sessions_get_def sessions_put_def)

definition register_tee :: "nat \<Rightarrow> tee_instance \<Rightarrow> tee_state \<Rightarrow> tee_state" where
  "register_tee a inst st = st\<lparr>ts_tees := tees_put (ti_tee_id inst) a (ts_tees st)\<rparr>"

definition live_tee :: "tee_state \<Rightarrow> string \<Rightarrow> (nat \<times> tee_instance) option" where
  "live_tee st tee_id =
     (case tees_get (ts_tees st) tee_id of
        None \<Rightarrow> None
      | Some a \<Rightarrow> if a < length (ts_store st) then Some (a, ts_store st ! a) else None)"

text \<open>\<open>lookupTEE\<close>.\<close>

definition lookup_tee :: "tee_state \<Rightarrow> string \<Rightarrow> tee_error + nat \<times> tee_instance" where
  "lookup_tee st tee_id =
     some_or (TeeError 404 ''UNKNOWN_TEE'' (''No such TEE instance: '' @ tee_id) '''') (live_tee st tee_id)"

section \<open>Provisioning\<close>

definition tee_vm :: "server \<Rightarrow> azure_vm" where
  "tee_vm S = \<lparr>vm_resource_group = cfg_tee_azure_rg (srv_cfg S), vm_name = cfg_tee_vm_name (srv_cfg S)\<rparr>"

definition enclave_base_url :: "server \<Rightarrow> string" where
  "enclave_base_url S =
     (let cfg = srv_cfg S in
      if cfg_tee_enclave_base_url cfg \<noteq> '''' then cfg_tee_enclave_base_url cfg
      else ''http://'' @ cfg_tee_vm_ip cfg @ '':'' @ cfg_tee_enclave_port cfg)"

text \<open>The refusals before any VM is started.\<close>

definition provision_checks :: "server \<Rightarrow> world \<Rightarrow> tee_env \<Rightarrow> db \<Rightarrow> tee_contract \<Rightarrow> tee_error option" where
  "provision_checks S W T d c =
     (case validate_tee_contract W T c of
        Some e \<Rightarrow> Some (TeeError 400 ''INVALID_CONTRACT'' e '''')
      | None \<Rightarrow>
          (case (if cfg_require_signed_contract (srv_cfg S)
              then require_signed_contract S W d (tc_governance_contract_id c)
                (td_resource_url (tc_dataset_details c))
              else None) of
            Some e \<Rightarrow> Some (tee_of_http e)
          | None \<Rightarrow>
              if cfg_tee_azure_rg (srv_cfg S) = '''' \<or> cfg_tee_vm_name (srv_cfg S) = '''' then
                Some (TeeError 500 ''TEE_NOT_CONFIGURED'' ''TEE_AZURE_RG and TEE_VM_NAME must be set'' '''')
              else None))"

definition new_instance :: "server \<Rightarrow> time \<Rightarrow> tee_contract \<Rightarrow> tee_instance" where
  "new_instance S now c =
     \<lparr>ti_tee_id = (if tc_request_id c = '''' then tc_contract_id c else tc_request_id c),
       ti_contract_id = tc_contract_id c, ti_request_id = tc_request_id c,
       ti_dataset_url = td_resource_url (tc_dataset_details c), ti_vm = tee_vm S,
       ti_enclave_base = enclave_base_url S, ti_provisioned_at = now, ti_attestation = None,
       ti_attested_at = zero_time\<rparr>"

text \<open>The address of the instance. \<open>Ws\<close> are the probes of the enclave manager after the first.\<close>

definition do_provision_tee ::
  "server \<Rightarrow> world \<Rightarrow> tee_env \<Rightarrow> world list \<Rightarrow> db \<Rightarrow> tee_contract \<Rightarrow> tee_state \<Rightarrow>
   (tee_error + nat \<times> enclave_state) \<times> tee_state" where
  "do_provision_tee S W T Ws d c st =
     (case provision_checks S W T d c of
        Some e \<Rightarrow> (Inl e, st)
      | None \<Rightarrow>
          (case start_vm W (tee_vm S) of
             Some e \<Rightarrow> (Inl (TeeError 502 ''VM_START_FAILED'' e ''''), st)
           | None \<Rightarrow>
               (case wait_for_enclave (enclave_base_url S)
                   (tv_duration T (cfg_tee_start_timeout (srv_cfg S))) '''' W Ws of
                  Inl e \<Rightarrow> (Inl (TeeError 502 ''ENCLAVE_NOT_READY'' e
                    ''VM started but the enclave manager did not become reachable; VM left running for diagnosis''), st)
                | Inr (W', state) \<Rightarrow>
                    let inst = new_instance S (w_now W') c; a = length (ts_store st) in
                    (Inr (a, state), register_tee a inst (st\<lparr>ts_store := ts_store st @ [inst]\<rparr>)))))"

text \<open>POST /v1/tee/provision: the instance and the enclave's state.\<close>

definition invalid_json_tee :: tee_error where
  "invalid_json_tee = TeeError 400 ''INVALID_JSON'' ''Invalid JSON in request body'' ''''"

definition provision_tee ::
  "server \<Rightarrow> world \<Rightarrow> tee_env \<Rightarrow> world list \<Rightarrow> db \<Rightarrow> tee_contract option \<Rightarrow> tee_state \<Rightarrow>
   (tee_error + tee_instance \<times> enclave_state) \<times> tee_state" where
  "provision_tee S W T Ws d body st =
     (case body of
        None \<Rightarrow> (Inl invalid_json_tee, st)
      | Some c \<Rightarrow>
          (case do_provision_tee S W T Ws d c st of
             (Inl e, st') \<Rightarrow> (Inl e, st')
           | (Inr (a, state), st') \<Rightarrow> (Inr (ts_store st' ! a, state), st')))"

section \<open>State, attestation, run, output, termination\<close>

definition do_tee_state :: "world \<Rightarrow> tee_instance \<Rightarrow> string \<times> enclave_state result" where
  "do_tee_state W inst =
     ((case vm_power_state W (ti_vm inst) of Inl e \<Rightarrow> ''unknown'' | Inr p \<Rightarrow> p),
      fetch_enclave_state W (ti_enclave_base inst))"

definition tee_state_of ::
  "world \<Rightarrow> string \<Rightarrow> tee_state \<Rightarrow> tee_error + tee_instance \<times> string \<times> enclave_state result" where
  "tee_state_of W tee_id st =
     and_then (lookup_tee st tee_id) (\<lambda>(a, inst). Inr (inst, do_tee_state W inst))"

definition unreachable :: "tee_instance \<Rightarrow> string \<Rightarrow> tee_error" where
  "unreachable inst e = TeeError 502 ''ENCLAVE_UNREACHABLE''
     (''enclave manager at '' @ ti_enclave_base inst @ '' unreachable: '' @ e) ''''"

definition is_success :: "nat \<Rightarrow> bool" where
  "is_success status \<longleftrightarrow> \<not> (status < 200 \<or> status \<ge> 300)"

definition attestation_policy_of :: "server \<Rightarrow> string \<Rightarrow> attestation_policy" where
  "attestation_policy_of S nonce =
     \<lparr>ap_allowed_issuers = cfg_tee_maa_issuers (srv_cfg S), ap_nonce = nonce,
       ap_expected_measurement = cfg_tee_expected_measurement (srv_cfg S),
       ap_leeway = cfg_tee_clock_leeway (srv_cfg S)\<rparr>"

text \<open>The verified verdict of one challenge.\<close>

definition challenge_tee ::
  "server \<Rightarrow> world \<Rightarrow> tee_env \<Rightarrow> tee_instance \<Rightarrow> tee_error + attestation_result" where
  "challenge_tee S W T inst =
     require (cfg_tee_maa_issuers (srv_cfg S) \<noteq> []) (TeeError 500 ''ATTESTATION_NOT_CONFIGURED''
       ''TEE_MAA_ISSUERS is empty, so no attestation service is trusted and no token can be verified'' '''') (
     and_then (or_fail (\<lambda>e. TeeError 500 ''INTERNAL_ERROR'' e '''')
       (new_attestation_nonce (srv_crypto S) (tv_lib T))) (\<lambda>nonce.
     and_then (or_fail (unreachable inst)
       (tv_post T (ti_enclave_base inst @ ''/enclave/attest'') (JObj [(''nonce'', JStr nonce)]))) (\<lambda>(status, body).
     require (is_success status) (TeeError 502 ''ATTESTATION_FAILED''
       (''enclave could not produce an attestation token (HTTP '' @ decimal status @ '')'') (take 500 body)) (
     case Option.bind (tv_json T body) (dec_struct (\<lambda>j. dec_str (jget ''jwt'' j))) of
       None \<Rightarrow> Inl (TeeError 502 ''ATTESTATION_MALFORMED'' ''enclave response did not contain a token'' (take 300 body))
     | Some tok \<Rightarrow>
         require (tok \<noteq> '''') (TeeError 502 ''ATTESTATION_MALFORMED''
           ''enclave response did not contain a token'' (take 300 body))
         (or_fail (\<lambda>e. TeeError 403 ''ATTESTATION_REJECTED'' e '''')
           (verify_maa_token (srv_crypto S) (tv_lib T) W tok (attestation_policy_of S nonce)))))))"

text \<open>The instance at the address is changed in place and put into the registry.\<close>

definition do_attest_tee ::
  "server \<Rightarrow> world \<Rightarrow> tee_env \<Rightarrow> nat \<Rightarrow> tee_state \<Rightarrow> (tee_error + attestation_result) \<times> tee_state" where
  "do_attest_tee S W T a st =
     (case challenge_tee S W T (ts_store st ! a) of
        Inl e \<Rightarrow> (Inl e, st)
      | Inr verdict \<Rightarrow>
          let inst = (ts_store st ! a)\<lparr>ti_attestation := Some verdict, ti_attested_at := w_now W\<rparr> in
          (Inr verdict, register_tee a inst (st\<lparr>ts_store := (ts_store st)[a := inst]\<rparr>)))"

definition attest_tee ::
  "server \<Rightarrow> world \<Rightarrow> tee_env \<Rightarrow> string \<Rightarrow> tee_state \<Rightarrow> (tee_error + attestation_result \<times> time) \<times> tee_state" where
  "attest_tee S W T tee_id st =
     (case lookup_tee st tee_id of
        Inl e \<Rightarrow> (Inl e, st)
      | Inr (a, inst) \<Rightarrow>
          (case do_attest_tee S W T a st of
             (Inl e, st') \<Rightarrow> (Inl e, st')
           | (Inr verdict, st') \<Rightarrow> (Inr (verdict,
               ti_attested_at (ts_store st' ! a) + cfg_tee_attestation_ttl (srv_cfg S)), st')))"

definition attestation_required :: "server \<Rightarrow> world \<Rightarrow> tee_env \<Rightarrow> tee_instance \<Rightarrow> tee_error option" where
  "attestation_required S W T inst =
     (let ttl = cfg_tee_attestation_ttl (srv_cfg S) in
      if cfg_tee_attestation_required (srv_cfg S) \<and> \<not> attestation_fresh ttl (w_now W) inst then
        Some (TeeError 409 ''ATTESTATION_REQUIRED''
          (if ti_attestation inst \<noteq> None then ''attestation expired (verified at '' @
             w_format_time W rfc3339 (ti_attested_at inst) @ '', TTL '' @ tv_duration T ttl @ ''); re-attest before running''
           else ''this TEE has not been attested; POST /v1/tee/{teeId}/attest first'') '''')
      else None)"

definition do_run_tee :: "server \<Rightarrow> world \<Rightarrow> tee_env \<Rightarrow> tee_instance \<Rightarrow> tee_error + string" where
  "do_run_tee S W T inst =
     none_or (attestation_required S W T inst) (
     and_then (or_fail (unreachable inst) (tv_post T (ti_enclave_base inst @ ''/enclave/run'')
       (JObj [(''contract_id'', JStr (ti_contract_id inst)), (''tee_id'', JStr (ti_tee_id inst)),
         (''dataset_url'', JStr (ti_dataset_url inst))]))) (\<lambda>(status, body).
     require (is_success status) (TeeError 502 ''RUN_REJECTED''
       (''enclave manager returned HTTP '' @ decimal status) (take 500 body)) (Inr (take 500 body))))"

definition run_tee :: "server \<Rightarrow> world \<Rightarrow> tee_env \<Rightarrow> string \<Rightarrow> tee_state \<Rightarrow> tee_error + string" where
  "run_tee S W T tee_id st = and_then (lookup_tee st tee_id) (\<lambda>(a, inst). do_run_tee S W T inst)"

definition do_fetch_output :: "tee_env \<Rightarrow> tee_instance \<Rightarrow> string \<Rightarrow> tee_error + tee_output_result" where
  "do_fetch_output T inst raw_query =
     (case tv_output T (ti_enclave_base inst @ ''/enclave/output'' @
          (if raw_query \<noteq> '''' then ''?'' @ raw_query else '''')) of
        Inl (RequestInvalid e) \<Rightarrow> Inl (TeeError 500 ''INTERNAL_ERROR'' e '''')
      | Inl (TransportFailed e) \<Rightarrow> Inl (unreachable inst e)
      | Inl (BodyFailed e) \<Rightarrow> Inl (TeeError 502 ''OUTPUT_READ_FAILED'' e '''')
      | Inr out \<Rightarrow> Inr out)"

definition tee_output :: "tee_env \<Rightarrow> string \<Rightarrow> string \<Rightarrow> tee_state \<Rightarrow> tee_error + tee_output_result" where
  "tee_output T tee_id raw_query st =
     and_then (lookup_tee st tee_id) (\<lambda>(a, inst). do_fetch_output T inst raw_query)"

definition do_terminate_tee :: "world \<Rightarrow> tee_instance \<Rightarrow> tee_state \<Rightarrow> tee_error option \<times> tee_state" where
  "do_terminate_tee W inst st =
     (case stop_vm W (ti_vm inst) of
        Some e \<Rightarrow> (Some (TeeError 502 ''VM_STOP_FAILED'' e ''''), st)
      | None \<Rightarrow> (None, st\<lparr>ts_tees := tees_delete (ti_tee_id inst) (ts_tees st)\<rparr>))"

definition terminate_tee :: "world \<Rightarrow> string \<Rightarrow> tee_state \<Rightarrow> tee_error option \<times> tee_state" where
  "terminate_tee W tee_id st =
     (case lookup_tee st tee_id of
        Inl e \<Rightarrow> (Some e, st)
      | Inr (a, inst) \<Rightarrow> do_terminate_tee W inst st)"

definition tee_key_bundle :: "string \<Rightarrow> tee_state \<Rightarrow> tee_error" where
  "tee_key_bundle tee_id st =
     (case lookup_tee st tee_id of
        Inl e \<Rightarrow> e
      | Inr x \<Rightarrow> TeeError 501 ''KEY_BUNDLE_NOT_SUPPORTED''
          (''This TEE fetches its dataset key from Key Vault via managed identity; '' @
           ''no key bundle is accepted. Relaying is not implemented on this path.'') '''')"

text \<open>\<^verbatim>\<open>DeployEnclave\<close>; the error, if any.\<close>

definition deploy_enclave :: "world \<Rightarrow> string \<Rightarrow> json \<Rightarrow> string \<Rightarrow> string \<Rightarrow> string option" where
  "deploy_enclave W base c sig top_sig =
     (if base = '''' then Some ''enclave base URL is not configured''
      else case w_http_post W (base @ ''/enclave/deploy'') ''''
          (JObj [(''contract'', c), (''signature'', JStr sig), (''topSignature'', JStr top_sig)]) of
          NetFail e \<Rightarrow> Some e
        | HttpReply status body \<Rightarrow>
            if is_success status then None else Some (''deployment failed with status '' @ decimal status))"

end
