(* ===== verification/TEE_Session.thy ===== *)
theory TEE_Session
  imports TEE_Orchestrator
begin

text \<open>
  TEE sessions (\<^verbatim>\<open>httpapi/tee_session.go\<close>): the background sequence provision, attest, run, poll,
  output, one call at a time, the handlers that start, read and terminate a session, and the step
  relation of the whole orchestrator, in which sessions and handlers interleave.
\<close>

section \<open>The status\<close>

text \<open>How far a status is along the sequence; the three final ones come last.\<close>

instantiation session_status :: linorder
begin

fun status_rank :: "session_status \<Rightarrow> nat" where
  "status_rank Provisioning = 0"
| "status_rank Attesting = 1"
| "status_rank Running = 2"
| "status_rank Complete = 3"
| "status_rank SessionFailed = 4"
| "status_rank Terminated = 5"

definition less_eq_session_status :: "session_status \<Rightarrow> session_status \<Rightarrow> bool" where
  "s \<le> t \<longleftrightarrow> status_rank s \<le> status_rank t"

definition less_session_status :: "session_status \<Rightarrow> session_status \<Rightarrow> bool" where
  "s < t \<longleftrightarrow> status_rank s < status_rank t"

instance
proof
  fix s t u :: session_status
  show "s < t \<longleftrightarrow> s \<le> t \<and> \<not> t \<le> s" "s \<le> s" "s \<le> t \<or> t \<le> s"
    by (auto simp: less_eq_session_status_def less_session_status_def)
  show "s \<le> t \<Longrightarrow> t \<le> u \<Longrightarrow> s \<le> u" by (simp add: less_eq_session_status_def)
  show "s \<le> t \<Longrightarrow> t \<le> s \<Longrightarrow> s = t"
    by (cases s; cases t) (simp_all add: less_eq_session_status_def)
qed

end

definition status_text :: "session_status \<Rightarrow> string" where
  "status_text s =
     (case s of Provisioning \<Rightarrow> ''provisioning'' | Attesting \<Rightarrow> ''attesting'' | Running \<Rightarrow> ''running''
      | Complete \<Rightarrow> ''complete'' | SessionFailed \<Rightarrow> ''failed'' | Terminated \<Rightarrow> ''terminated'')"

section \<open>Updating a session\<close>

definition update_session :: "world \<Rightarrow> string \<Rightarrow> (tee_session \<Rightarrow> tee_session) \<Rightarrow> tee_state \<Rightarrow> tee_state" where
  "update_session W sid f st =
     (case sessions_get (ts_sessions st) sid of
        None \<Rightarrow> st
      | Some s \<Rightarrow> st\<lparr>ts_sessions := sessions_put sid ((f s)\<lparr>ss_updated_at := w_now W\<rparr>) (ts_sessions st)\<rparr>)"

definition fail_session :: "world \<Rightarrow> string \<Rightarrow> string \<Rightarrow> string \<Rightarrow> tee_state \<Rightarrow> tee_state" where
  "fail_session W sid step e st =
     update_session W sid (\<lambda>s. s\<lparr>ss_status := SessionFailed, ss_error := step @ '': '' @ e\<rparr>) st"

section \<open>The sequence\<close>

text \<open>
  Where the goroutine of a session stands; addresses are those of the instance it provisioned, the
  time is the deadline of the wait for completion.
\<close>

datatype session_pc =
    AtProvision tee_contract
  | AtAttest nat
  | AtRun nat
  | AtWait nat time
  | AtOutput nat

text \<open>What the outside world is during one call: also the database and the later probes of the enclave.\<close>

record call_env =
  ce_world :: world
  ce_tee :: tee_env
  ce_probes :: "world list"
  ce_db :: db

definition enclave_done :: "enclave_state result \<Rightarrow> bool" where
  "enclave_done r \<longleftrightarrow>
     (case r of Inl e \<Rightarrow> False | Inr s \<Rightarrow> es_max_steps s > 0 \<and> es_step s \<ge> es_max_steps s)"

definition completion_budget :: "server \<Rightarrow> time" where
  "completion_budget S = cfg_tee_output_timeout (srv_cfg S) * 10"

definition session_provision ::
  "server \<Rightarrow> call_env \<Rightarrow> string \<Rightarrow> tee_contract \<Rightarrow> tee_state \<Rightarrow> session_pc option \<times> tee_state" where
  "session_provision S E sid c st =
     (case do_provision_tee S (ce_world E) (ce_tee E) (ce_probes E) (ce_db E) c st of
        (Inl e, st) \<Rightarrow> (None, fail_session (ce_world E) sid ''provision'' (tee_error_text e) st)
      | (Inr (a, state), st) \<Rightarrow> (Some (AtAttest a), update_session (ce_world E) sid
          (\<lambda>s. s\<lparr>ss_tee_id := ti_tee_id (ts_store st ! a), ss_status := Attesting\<rparr>) st))"

definition session_attest ::
  "server \<Rightarrow> call_env \<Rightarrow> string \<Rightarrow> nat \<Rightarrow> tee_state \<Rightarrow> session_pc option \<times> tee_state" where
  "session_attest S E sid a st =
     (case do_attest_tee S (ce_world E) (ce_tee E) a st of
        (Inl e, st) \<Rightarrow> (None, fail_session (ce_world E) sid ''attest'' (tee_error_text e) st)
      | (Inr verdict, st) \<Rightarrow>
          (Some (AtRun a), update_session (ce_world E) sid (\<lambda>s. s\<lparr>ss_status := Running\<rparr>) st))"

definition session_run ::
  "server \<Rightarrow> call_env \<Rightarrow> string \<Rightarrow> nat \<Rightarrow> tee_state \<Rightarrow> session_pc option \<times> tee_state" where
  "session_run S E sid a st =
     (case do_run_tee S (ce_world E) (ce_tee E) (ts_store st ! a) of
        Inl e \<Rightarrow> (None, fail_session (ce_world E) sid ''run'' (tee_error_text e) st)
      | Inr detail \<Rightarrow> (Some (AtWait a (w_now (ce_world E) + completion_budget S)), st))"

text \<open>One round of \<open>waitForCompletion\<close>.\<close>

definition session_wait ::
  "server \<Rightarrow> call_env \<Rightarrow> string \<Rightarrow> nat \<Rightarrow> time \<Rightarrow> tee_state \<Rightarrow> session_pc option \<times> tee_state" where
  "session_wait S E sid a deadline st =
     (if enclave_done (snd (do_tee_state (ce_world E) (ts_store st ! a))) then (Some (AtOutput a), st)
      else if w_now (ce_world E) > deadline then
        (None, fail_session (ce_world E) sid ''run'' (''anonymisation did not report completion within '' @
          tv_duration (ce_tee E) (completion_budget S)) st)
      else (Some (AtWait a deadline), st))"

definition session_output ::
  "call_env \<Rightarrow> string \<Rightarrow> nat \<Rightarrow> tee_state \<Rightarrow> session_pc option \<times> tee_state" where
  "session_output E sid a st =
     (None,
      case do_fetch_output (ce_tee E) (ts_store st ! a) '''' of
        Inl e \<Rightarrow> fail_session (ce_world E) sid ''output'' (tee_error_text e) st
      | Inr out \<Rightarrow>
          if \<not> is_success (to_status_code out) then
            fail_session (ce_world E) sid ''output'' (''enclave returned HTTP '' @
              decimal (to_status_code out) @ '' fetching output'') st
          else update_session (ce_world E) sid (\<lambda>s. s\<lparr>ss_status := Complete, ss_output := Some out\<rparr>) st)"

definition session_call ::
  "server \<Rightarrow> call_env \<Rightarrow> string \<Rightarrow> session_pc \<Rightarrow> tee_state \<Rightarrow> session_pc option \<times> tee_state" where
  "session_call S E sid pc st =
     (case pc of
        AtProvision c \<Rightarrow> session_provision S E sid c st
      | AtAttest a \<Rightarrow> session_attest S E sid a st
      | AtRun a \<Rightarrow> session_run S E sid a st
      | AtWait a deadline \<Rightarrow> session_wait S E sid a deadline st
      | AtOutput a \<Rightarrow> session_output E sid a st)"

text \<open>The sequence on its own: one environment for each call it gets to make.\<close>

fun run_tee_session ::
  "server \<Rightarrow> call_env list \<Rightarrow> string \<Rightarrow> session_pc option \<Rightarrow> tee_state \<Rightarrow> session_pc option \<times> tee_state" where
  "run_tee_session S Es sid None st = (None, st)"
| "run_tee_session S [] sid (Some pc) st = (Some pc, st)"
| "run_tee_session S (E # Es) sid (Some pc) st =
     (case session_call S E sid pc st of (pc', st') \<Rightarrow> run_tee_session S Es sid pc' st')"

section \<open>The handlers\<close>

definition lookup_session :: "tee_state \<Rightarrow> string \<Rightarrow> tee_error + tee_session" where
  "lookup_session st sid =
     some_or (TeeError 404 ''UNKNOWN_SESSION'' (''No such TEE session: '' @ sid) '''')
       (sessions_get (ts_sessions st) sid)"

definition new_session :: "world \<Rightarrow> string \<Rightarrow> tee_session" where
  "new_session W sid = \<lparr>ss_id = sid, ss_tee_id = '''', ss_status = Provisioning, ss_error = '''',
     ss_output = None, ss_created_at = w_now W, ss_updated_at = w_now W\<rparr>"

text \<open>POST /v1/tee/sessions: the session id and the goroutine it starts.\<close>

definition start_tee_session ::
  "server \<Rightarrow> call_env \<Rightarrow> tee_contract option \<Rightarrow> tee_state \<Rightarrow> (tee_error + string \<times> session_pc) \<times> tee_state" where
  "start_tee_session S E body st =
     (case body of
        None \<Rightarrow> (Inl invalid_json_tee, st)
      | Some c \<Rightarrow>
          (case (if cfg_require_signed_contract (srv_cfg S)
              then require_signed_contract S (ce_world E) (ce_db E) (tc_governance_contract_id c)
                (td_resource_url (tc_dataset_details c))
              else None) of
             Some e \<Rightarrow> (Inl (tee_of_http e), st)
           | None \<Rightarrow>
               let sid = tv_session_id (ce_tee E) in
               (Inr (sid, AtProvision c), st\<lparr>ts_sessions :=
                  sessions_put sid (new_session (ce_world E) sid) (ts_sessions st)\<rparr>)))"

definition get_tee_session :: "string \<Rightarrow> tee_state \<Rightarrow> tee_error + tee_session" where
  "get_tee_session sid st = lookup_session st sid"

text \<open>
  The output of a complete session. \<open>OutputPanic\<close> is the nil dereference of a complete session
  without output.
\<close>

datatype output_reply = OutputOk tee_output_result | OutputError tee_error | OutputPanic

definition get_tee_session_output :: "string \<Rightarrow> tee_state \<Rightarrow> output_reply" where
  "get_tee_session_output sid st =
     (case lookup_session st sid of
        Inl e \<Rightarrow> OutputError e
      | Inr s \<Rightarrow>
          (case ss_status s of
             Complete \<Rightarrow> (case ss_output s of None \<Rightarrow> OutputPanic | Some out \<Rightarrow> OutputOk out)
           | SessionFailed \<Rightarrow> OutputError (TeeError 422 ''SESSION_FAILED'' (ss_error s) '''')
           | t \<Rightarrow> OutputError (TeeError 409 ''NOT_READY'' (''session is still '' @ status_text t) '''')))"

definition terminate_tee_session :: "world \<Rightarrow> string \<Rightarrow> tee_state \<Rightarrow> tee_error option \<times> tee_state" where
  "terminate_tee_session W sid st =
     (case lookup_session st sid of
        Inl e \<Rightarrow> (Some e, st)
      | Inr s \<Rightarrow>
          if ss_tee_id s = '''' then
            (Some (TeeError 409 ''NOT_PROVISIONED'' ''session has no TEE instance yet'' ''''), st)
          else case live_tee st (ss_tee_id s) of
              None \<Rightarrow> (Some (TeeError 404 ''UNKNOWN_TEE'' ''underlying TEE instance is gone'' ''''), st)
            | Some (a, inst) \<Rightarrow>
                (case do_terminate_tee W inst st of
                   (Some e, st) \<Rightarrow> (Some e, st)
                 | (None, st) \<Rightarrow> (None, update_session W sid (\<lambda>s. s\<lparr>ss_status := Terminated\<rparr>) st)))"

section \<open>The orchestrator as a step relation\<close>

text \<open>The state, and the goroutines of the sessions started: their id and where they stand.\<close>

record tee_system =
  sy_state :: tee_state
  sy_runs :: "(string \<times> session_pc option) list"

definition tee_initial :: tee_system where
  "tee_initial = \<lparr>sy_state = \<lparr>ts_store = [], ts_tees = (\<lambda>k. None), ts_sessions = (\<lambda>k. None)\<rparr>, sy_runs = []\<rparr>"

inductive tee_step :: "server \<Rightarrow> tee_system \<Rightarrow> tee_system \<Rightarrow> bool" for S where
  provision: "provision_tee S W T Ws d body (sy_state y) = (r, st') \<Longrightarrow>
    tee_step S y (y\<lparr>sy_state := st'\<rparr>)"
| attest: "attest_tee S W T tee_id (sy_state y) = (r, st') \<Longrightarrow>
    tee_step S y (y\<lparr>sy_state := st'\<rparr>)"
| terminate: "terminate_tee W tee_id (sy_state y) = (r, st') \<Longrightarrow>
    tee_step S y (y\<lparr>sy_state := st'\<rparr>)"
| start_session: "start_tee_session S E body (sy_state y) = (Inr (sid, pc), st') \<Longrightarrow>
    tee_step S y (y\<lparr>sy_state := st', sy_runs := sy_runs y @ [(sid, Some pc)]\<rparr>)"
| terminate_session: "terminate_tee_session W sid (sy_state y) = (r, st') \<Longrightarrow>
    tee_step S y (y\<lparr>sy_state := st'\<rparr>)"
| session: "i < length (sy_runs y) \<Longrightarrow> sy_runs y ! i = (sid, Some pc) \<Longrightarrow>
    session_call S E sid pc (sy_state y) = (pc', st') \<Longrightarrow>
    tee_step S y (y\<lparr>sy_state := st', sy_runs := (sy_runs y)[i := (sid, pc')]\<rparr>)"

inductive_cases tee_stepE: "tee_step S y y'"

definition tee_reachable :: "server \<Rightarrow> tee_system \<Rightarrow> bool" where
  "tee_reachable S y \<longleftrightarrow> (tee_step S)\<^sup>*\<^sup>* tee_initial y"

end
