(* ===== verification/TEE_Facts.thy ===== *)
theory TEE_Facts
  imports TEE_Session Sample
begin

text \<open>
  What holds of attestation verdicts and of every reachable state of the orchestrator: verdicts
  say what the policy asks, the registry and the goroutines name instances that exist, a complete
  session has its output; how long a session can take; and what a run needs.
\<close>

section \<open>Verdicts\<close>

definition verdict_ok :: "attestation_policy \<Rightarrow> attestation_result \<Rightarrow> bool" where
  "verdict_ok pol r \<longleftrightarrow>
     issuer_allowed (at_issuer r) (ap_allowed_issuers pol) \<and> at_type r = ''sevsnpvm'' \<and>
     at_compliance_status r = ''azure-compliant-cvm'' \<and> \<not> at_debuggable r \<and> at_nonce_verified r \<and>
     (at_measurement_pinned r \<longleftrightarrow> ap_expected_measurement pol \<noteq> '''') \<and>
     (ap_expected_measurement pol \<noteq> '''' \<longrightarrow>
        at_launch_measurement r = to_lower (ap_expected_measurement pol))"

lemma guest_checks_Inr:
  "guest_checks pol guest = Inr pinned \<longleftrightarrow>
     it_type guest = ''sevsnpvm'' \<and> it_compliance_status guest = ''azure-compliant-cvm'' \<and>
     \<not> it_debuggable guest \<and> pinned = (ap_expected_measurement pol \<noteq> '''') \<and>
     (ap_expected_measurement pol \<noteq> '''' \<longrightarrow>
        to_lower (it_launch_measurement guest) = to_lower (ap_expected_measurement pol))"
  unfolding guest_checks_def Let_def
  by (cases "ap_expected_measurement pol = ''''") (simp_all only: early_return if_True if_False, auto)

lemma claimed_issuer_Inr:
  assumes "claimed_issuer L pol tok = Inr issuer"
  shows "issuer_allowed issuer (ap_allowed_issuers pol)"
  using assms unfolding claimed_issuer_def Let_def by (auto simp only: early_return)

lemma verify_maa_token_cases:
  assumes "verify_maa_token C L W tok pol = Inr r"
  obtains issuer keys opts j claims pinned
  where "claimed_issuer L pol tok = Inr issuer" and "fetch_jwks C L W (issuer @ ''/certs'') = Inr keys"
    and "jl_parse L opts (jwks_key keys) tok = Inr (True, j)" and "jo_issuer opts = issuer"
    and "token_claims j = Inr claims" and "base64_decode C (mc_nonce claims) = Inr (ap_nonce pol)"
    and "ap_nonce pol \<noteq> ''''" and "guest_checks pol (mc_isolation claims) = Inr pinned"
    and "r = attestation_of issuer claims pinned (w_now W)"
  using assms unfolding verify_maa_token_def Let_def
  by (auto simp only: early_return split_beta' split_paired_Ex fst_conv snd_conv)
    (rule that, (assumption | simp)+)

lemma verify_maa_token_ok:
  assumes "verify_maa_token C L W tok pol = Inr r"
  shows "verdict_ok pol r"
  using assms
proof (cases rule: verify_maa_token_cases)
  case (1 issuer keys opts j claims pinned)
  then show ?thesis
    using claimed_issuer_Inr [OF 1(1)] 1(8)
    by (simp add: verdict_ok_def attestation_of_def Let_def guest_checks_Inr)
qed

lemma jwks_key_Inr: "jwks_key keys kid = Inr key \<Longrightarrow> map_of keys kid = Some key"
  by (simp add: jwks_key_def)

text \<open>The keys come from the issuer's document, and from nowhere else.\<close>

lemma usable_keys_in:
  "(kid, key) \<in> set (usable_keys C L ks) \<Longrightarrow>
     \<exists>k \<in> set ks. jk_kid k = kid \<and> jwk_to_rsa C L (jk_x5c k) (jk_n k) (jk_e k) = Inr key"
  by (induction ks) (auto split: if_splits sum.splits)

lemma fetch_jwks_Inr:
  assumes "fetch_jwks C L W url = Inr keys" and "map_of keys kid = Some key"
  obtains body doc where "w_http_get W url '''' = HttpReply 200 (Some body)"
    and "dec_struct (\<lambda>j. dec_list (dec_struct dec_jwk) (jget ''keys'' j)) body = Some doc"
    and "\<exists>k \<in> set doc. jk_kid k = kid \<and> jwk_to_rsa C L (jk_x5c k) (jk_n k) (jk_e k) = Inr key"
proof (cases "w_http_get W url ''''")
  case (NetFail e)
  with assms(1) show ?thesis by (simp add: fetch_jwks_def)
next
  case (HttpReply status b)
  with assms(1) obtain doc where st: "status = 200"
      and doc: "Option.bind b (dec_struct (\<lambda>j. dec_list (dec_struct dec_jwk) (jget ''keys'' j))) = Some doc"
      and keys: "keys = rev (usable_keys C L doc)"
    unfolding fetch_jwks_def Let_def by (auto simp only: http_outcome.case early_return)
  from doc obtain body where "b = Some body"
      "dec_struct (\<lambda>j. dec_list (dec_struct dec_jwk) (jget ''keys'' j)) body = Some doc"
    by (cases b) auto
  moreover have "(kid, key) \<in> set (usable_keys C L doc)"
    using map_of_SomeD [OF assms(2)] keys by simp
  ultimately show ?thesis using that HttpReply st usable_keys_in by metis
qed

text \<open>Who signed a verified token: a key the allowed issuer publishes.\<close>

definition issuer_key :: "crypto \<Rightarrow> jwt_lib \<Rightarrow> world \<Rightarrow> string \<Rightarrow> public_key \<Rightarrow> bool" where
  "issuer_key C L W issuer key \<longleftrightarrow>
     (\<exists>body doc. w_http_get W (issuer @ ''/certs'') '''' = HttpReply 200 (Some body) \<and>
        dec_struct (\<lambda>j. dec_list (dec_struct dec_jwk) (jget ''keys'' j)) body = Some doc \<and>
        (\<exists>k \<in> set doc. jwk_to_rsa C L (jk_x5c k) (jk_n k) (jk_e k) = Inr key))"

text \<open>
  C22. A verified attestation token was signed by a key that an allowed attestation service
  publishes, names that service as its issuer, answers this challenge, and says of the guest that it
  is a compliant SEV-SNP machine, not debuggable, with the pinned launch measurement where one is
  configured.
\<close>

theorem attestation_verified:
  assumes "jwt_lib_ok L" and "verify_maa_token C L W tok pol = Inr r"
  shows "verdict_ok pol r \<and> (\<exists>key. issuer_key C L W (at_issuer r) key \<and> jl_signed L tok key) \<and>
    (\<exists>j claims. jl_unverified L tok = Inr j \<and> jget ''iss'' j = JStr (at_issuer r) \<and>
       dec_struct dec_maa_claims j = Some claims \<and> base64_decode C (mc_nonce claims) = Inr (ap_nonce pol))"
  using assms(2)
proof (cases rule: verify_maa_token_cases)
  case (1 issuer keys opts j claims pinned)
  have iss: "at_issuer r = issuer" using 1(9) by (simp add: attestation_of_def Let_def)
  obtain kid key where k: "jwks_key keys kid = Inr key" "jl_signed L tok key"
      and j: "jget ''iss'' j = JStr issuer" "jl_unverified L tok = Inr j"
    using assms(1) 1(3) unfolding jwt_lib_ok_def 1(4) [symmetric] by blast
  have "issuer_key C L W issuer key"
    using fetch_jwks_Inr [OF 1(2) jwks_key_Inr [OF k(1)]] unfolding issuer_key_def by metis
  moreover have "dec_struct dec_maa_claims j = Some claims" using 1(5) by (simp add: token_claims_def)
  ultimately show ?thesis using verify_maa_token_ok [OF assms(2)] k(2) j 1(6) iss by blast
qed

text \<open>
  C34. A token answers one challenge: it never verifies against two different nonces, whichever
  time, key set, leeway and policy it is verified with, so a genuine token kept from an earlier
  attestation is refused.
\<close>

theorem attestation_not_replayed:
  assumes "jwt_lib_ok L" and "verify_maa_token C L W tok pol = Inr r"
    and "verify_maa_token C L W' tok pol' = Inr r'"
  shows "ap_nonce pol = ap_nonce pol'"
  using assms(2)
proof (cases rule: verify_maa_token_cases)
  case first: (1 issuer keys opts j claims pinned)
  from assms(3) show ?thesis
  proof (cases rule: verify_maa_token_cases)
    case second: (1 issuer' keys' opts' j' claims' pinned')
    have "jl_unverified L tok = Inr j" "jl_unverified L tok = Inr j'"
      using assms(1) first(3) second(3) unfolding jwt_lib_ok_def by blast+
    then have "claims = claims'" using first(5) second(5) by simp
    then show ?thesis using first(6) second(6) by simp
  qed
qed

section \<open>A concrete attestation\<close>

definition sample_maa_claims :: "string \<Rightarrow> json" where
  "sample_maa_claims nonce = JObj [(''iss'', JStr ''maa''),
     (''x-ms-runtime'', JObj [(''client-payload'', JObj [(''nonce'', JStr nonce)])]),
     (''x-ms-isolation-tee'', JObj [(''x-ms-attestation-type'', JStr ''sevsnpvm''),
       (''x-ms-compliance-status'', JStr ''azure-compliant-cvm'')])]"

text \<open>A token is the nonce it answers, signed with the key \<^verbatim>\<open>m\<close>.\<close>

definition sample_jwt_lib :: jwt_lib where
  "sample_jwt_lib = \<lparr>jl_unverified = (\<lambda>tok. Inr (sample_maa_claims tok)),
     jl_parse = (\<lambda>opts keyfunc tok. case keyfunc ''k'' of Inl e \<Rightarrow> Inl e
       | Inr key \<Rightarrow> if key = RsaKey ''m'' 2048 \<and> jo_issuer opts = ''maa'' then Inr (True, sample_maa_claims tok)
           else Inl ''bad signature''),
     jl_signed = (\<lambda>tok key. key = RsaKey ''m'' 2048),
     jl_parse_cert = (\<lambda>b. Inr (RsaKey b 2048)), jl_raw_url_decode = (\<lambda>s. Inr s),
     jl_rsa_key = (\<lambda>n e. OtherKey n), jl_random = (\<lambda>n. Inr ''n'')\<rparr>"

lemma sample_jwt_lib_ok: "jwt_lib_ok sample_jwt_lib"
  by (auto simp: jwt_lib_ok_def sample_jwt_lib_def sample_maa_claims_def jget_def
      split: sum.splits if_splits)

definition sample_certs :: json where
  "sample_certs = JObj [(''keys'', JArr [JObj [(''kid'', JStr ''k''), (''x5c'', JArr [JStr ''m''])]])]"

definition sample_enclave_json :: json where
  "sample_enclave_json = JObj [(''step'', JInt 3), (''maxSteps'', JInt 3)]"

definition tee_world :: "time \<Rightarrow> world" where
  "tee_world now = (sample_world now)\<lparr>w_http_get := (\<lambda>url tok.
     if url = ''maa/certs'' then HttpReply 200 (Some sample_certs)
     else HttpReply 200 (Some sample_enclave_json))\<rparr>"

lemma sample_verified:
  "\<exists>r. verify_maa_token sample_crypto sample_jwt_lib (tee_world 5) ''n'' (attestation_policy_of sample_server ''n'') = Inr r"
proof -
  have "\<not> isl (verify_maa_token sample_crypto sample_jwt_lib (tee_world 5) ''n''
      (attestation_policy_of sample_server ''n''))" by code_simp
  then show ?thesis by (cases "verify_maa_token sample_crypto sample_jwt_lib (tee_world 5) ''n''
      (attestation_policy_of sample_server ''n'')") simp_all
qed

theorem attestation_verified_witness:
  "\<exists>r. verdict_ok (attestation_policy_of sample_server ''n'') r \<and> at_issuer r = ''maa''"
proof -
  obtain r where r: "verify_maa_token sample_crypto sample_jwt_lib (tee_world 5) ''n''
      (attestation_policy_of sample_server ''n'') = Inr r"
    using sample_verified by blast
  have "jget ''iss'' (sample_maa_claims ''n'') = JStr (at_issuer r)" "verdict_ok (attestation_policy_of sample_server ''n'') r"
    using attestation_verified [OF sample_jwt_lib_ok r] by (auto simp: sample_jwt_lib_def)
  then show ?thesis by (auto simp: sample_maa_claims_def jget_def)
qed

theorem attestation_not_replayed_witness:
  "\<forall>r'. verify_maa_token sample_crypto sample_jwt_lib (tee_world 9) ''n'' (attestation_policy_of sample_server ''later'') \<noteq> Inr r'"
proof (intro allI notI)
  fix r'
  assume "verify_maa_token sample_crypto sample_jwt_lib (tee_world 9) ''n''
      (attestation_policy_of sample_server ''later'') = Inr r'"
  moreover obtain r where "verify_maa_token sample_crypto sample_jwt_lib (tee_world 5) ''n''
      (attestation_policy_of sample_server ''n'') = Inr r"
    using sample_verified by blast
  ultimately have "ap_nonce (attestation_policy_of sample_server ''n'') = ap_nonce (attestation_policy_of sample_server ''later'')"
    using attestation_not_replayed [OF sample_jwt_lib_ok] by blast
  then show False by (simp add: attestation_policy_of_def)
qed

section \<open>The state\<close>

text \<open>What an instance, a session and the registry look like in every reachable state.\<close>

definition server_policy_ok :: "server \<Rightarrow> attestation_result \<Rightarrow> bool" where
  "server_policy_ok S r \<longleftrightarrow> verdict_ok (attestation_policy_of S '''') r"

definition instance_ok :: "server \<Rightarrow> tee_instance \<Rightarrow> bool" where
  "instance_ok S t \<longleftrightarrow> (\<forall>r. ti_attestation t = Some r \<longrightarrow> server_policy_ok S r)"

definition session_ok :: "tee_session \<Rightarrow> bool" where
  "session_ok s \<longleftrightarrow> (ss_status s = Complete \<longrightarrow> ss_output s \<noteq> None)"

definition tee_ok :: "server \<Rightarrow> tee_state \<Rightarrow> bool" where
  "tee_ok S st \<longleftrightarrow>
     (\<forall>t \<in> set (ts_store st). instance_ok S t) \<and>
     (\<forall>k a. tees_get (ts_tees st) k = Some a \<longrightarrow>
        a < length (ts_store st) \<and> ti_tee_id (ts_store st ! a) = k) \<and>
     (\<forall>k s. sessions_get (ts_sessions st) k = Some s \<longrightarrow> session_ok s)"

fun pc_address :: "session_pc \<Rightarrow> nat option" where
  "pc_address (AtProvision c) = None"
| "pc_address (AtAttest a) = Some a"
| "pc_address (AtRun a) = Some a"
| "pc_address (AtWait a t) = Some a"
| "pc_address (AtOutput a) = Some a"

definition pc_ok :: "tee_state \<Rightarrow> session_pc option \<Rightarrow> bool" where
  "pc_ok st pc \<longleftrightarrow> (\<forall>p a. pc = Some p \<longrightarrow> pc_address p = Some a \<longrightarrow> a < length (ts_store st))"

text \<open>Preserving the state's invariant, and never forgetting an instance.\<close>

definition tee_keeps :: "server \<Rightarrow> tee_state \<Rightarrow> tee_state \<Rightarrow> bool" where
  "tee_keeps S st st' \<longleftrightarrow> length (ts_store st) \<le> length (ts_store st') \<and> (tee_ok S st \<longrightarrow> tee_ok S st')"

lemma tee_keeps_refl [simp]: "tee_keeps S st st"
  by (simp add: tee_keeps_def)

lemma tee_keeps_trans: "tee_keeps S a b \<Longrightarrow> tee_keeps S b c \<Longrightarrow> tee_keeps S a c"
  by (auto simp: tee_keeps_def)

lemma pc_ok_mono: "pc_ok st pc \<Longrightarrow> length (ts_store st) \<le> length (ts_store st') \<Longrightarrow> pc_ok st' pc"
  by (fastforce simp: pc_ok_def)

lemma keeps_update_session:
  assumes "\<And>s. session_ok s \<Longrightarrow> session_ok ((f s)\<lparr>ss_updated_at := w_now W\<rparr>)"
  shows "tee_keeps S st (update_session W sid f st)"
  using assms by (auto simp: tee_keeps_def tee_ok_def update_session_def sessions.get_put
      split: option.splits if_splits)

lemma keeps_fail_session [simp]: "tee_keeps S st (fail_session W sid step e st)"
  unfolding fail_session_def by (rule keeps_update_session) (simp add: session_ok_def)

lemma store_update_session [simp]: "ts_store (update_session W sid f st) = ts_store st"
  by (simp add: update_session_def split: option.split)

lemma store_fail_session [simp]: "ts_store (fail_session W sid step e st) = ts_store st"
  by (simp add: fail_session_def)

lemma keeps_provision:
  assumes "do_provision_tee S W T Ws d c st = (r, st')"
  shows "tee_keeps S st st' \<and> (\<forall>a state. r = Inr (a, state) \<longrightarrow> a < length (ts_store st'))"
proof -
  have step: "tee_keeps S st (register_tee (length (ts_store st)) (new_instance S now c)
      (st\<lparr>ts_store := ts_store st @ [new_instance S now c]\<rparr>))" for now
    by (auto simp: tee_keeps_def tee_ok_def register_tee_def tees.get_put nth_append instance_ok_def
        new_instance_def less_Suc_eq split: if_splits)
  show ?thesis
    using assms step unfolding do_provision_tee_def Let_def
    by (auto split: option.splits sum.splits prod.splits simp: register_tee_def)
qed

lemma challenge_tee_ok:
  assumes "challenge_tee S W T inst = Inr r"
  shows "server_policy_ok S r"
proof -
  obtain tok nonce where "verify_maa_token (srv_crypto S) (tv_lib T) W tok (attestation_policy_of S nonce) = Inr r"
    using assms unfolding challenge_tee_def
    by (auto simp: split_beta split: option.splits)
  then have "verdict_ok (attestation_policy_of S nonce) r" by (rule verify_maa_token_ok)
  then show ?thesis by (simp add: server_policy_ok_def verdict_ok_def attestation_policy_of_def)
qed

lemma keeps_attest:
  assumes "do_attest_tee S W T a st = (r, st')" and "a < length (ts_store st)"
  shows "tee_keeps S st st' \<and> length (ts_store st') = length (ts_store st)"
proof (cases r)
  case (Inl e)
  with assms(1) show ?thesis by (auto simp: do_attest_tee_def Let_def split: sum.splits)
next
  case (Inr verdict)
  let ?inst = "(ts_store st ! a)\<lparr>ti_attestation := Some verdict, ti_attested_at := w_now W\<rparr>"
  have ch: "challenge_tee S W T (ts_store st ! a) = Inr verdict"
      and st': "st' = register_tee a ?inst (st\<lparr>ts_store := (ts_store st)[a := ?inst]\<rparr>)"
    using assms(1) Inr by (auto simp: do_attest_tee_def Let_def split: sum.splits)
  have "instance_ok S ?inst" using challenge_tee_ok [OF ch] by (simp add: instance_ok_def)
  then show ?thesis
    using assms(2) set_update_subset_insert [of "ts_store st" a ?inst] unfolding st'
    by (auto simp: tee_keeps_def tee_ok_def register_tee_def tees.get_put nth_list_update split: if_splits)
qed

lemma keeps_terminate: "tee_keeps S st (snd (do_terminate_tee W inst st))"
  by (auto simp: tee_keeps_def tee_ok_def do_terminate_tee_def tees.get_del split: option.split if_splits)

lemma provision_tee_keeps:
  assumes "provision_tee S W T Ws d body st = (r, st')"
  shows "tee_keeps S st st'"
  using assms keeps_provision [of S W T Ws d _ st]
  by (auto simp: provision_tee_def split: option.splits prod.splits sum.splits)

lemma lookup_tee_Inr: "lookup_tee st k = Inr (a, inst) \<Longrightarrow> a < length (ts_store st) \<and> inst = ts_store st ! a"
  by (auto simp: lookup_tee_def live_tee_def split: option.splits if_splits)

lemma attest_tee_keeps:
  assumes "attest_tee S W T k st = (r, st')"
  shows "tee_keeps S st st'"
  using assms keeps_attest [of S W T _ st] lookup_tee_Inr [of st k]
  by (fastforce simp: attest_tee_def split: option.splits prod.splits sum.splits)

lemma terminate_tee_keeps: "terminate_tee W k st = (r, st') \<Longrightarrow> tee_keeps S st st'"
  using keeps_terminate [of S st W]
  by (auto simp: terminate_tee_def split: sum.splits) (metis snd_conv)

lemma start_session_keeps:
  assumes "start_tee_session S E body st = (Inr (sid, pc), st')"
  shows "tee_keeps S st st' \<and> pc_address pc = None"
  using assms
  by (auto simp: start_tee_session_def Let_def tee_keeps_def tee_ok_def sessions.get_put new_session_def
      session_ok_def split: option.splits if_splits)

lemma terminate_session_keeps:
  assumes "terminate_tee_session W sid st = (r, st')"
  shows "tee_keeps S st st'"
proof -
  have upd: "tee_keeps S st1 (update_session W sid (\<lambda>s. s\<lparr>ss_status := Terminated\<rparr>) st1)" for st1
    by (rule keeps_update_session) (simp add: session_ok_def)
  have "tee_keeps S st st1 \<and> tee_keeps S st (update_session W sid (\<lambda>s. s\<lparr>ss_status := Terminated\<rparr>) st1)"
    if "do_terminate_tee W inst st = (x, st1)" for inst x st1
    using keeps_terminate [of S st W inst] upd [of st1] tee_keeps_trans that by (metis snd_conv)
  then show ?thesis using assms
    by (fastforce simp: terminate_tee_session_def split: sum.splits option.splits if_splits prod.splits)
qed

lemma session_call_keeps:
  assumes "session_call S E sid pc st = (pc', st')" and "pc_ok st (Some pc)"
  shows "tee_keeps S st st' \<and> pc_ok st' pc'"
proof (cases pc)
  case (AtProvision c)
  have upd: "tee_keeps S st1 (update_session (ce_world E) sid (\<lambda>s. s\<lparr>ss_tee_id := k, ss_status := Attesting\<rparr>) st1)"
    for st1 k by (rule keeps_update_session) (simp add: session_ok_def)
  show ?thesis
    using assms(1) AtProvision upd keeps_provision [of S "ce_world E" "ce_tee E" "ce_probes E" "ce_db E" c st]
      tee_keeps_trans keeps_fail_session
    by (fastforce simp: session_call_def session_provision_def pc_ok_def split: prod.splits sum.splits)
next
  case (AtAttest a)
  have upd: "tee_keeps S st1 (update_session (ce_world E) sid (\<lambda>s. s\<lparr>ss_status := Running\<rparr>) st1)" for st1
    by (rule keeps_update_session) (simp add: session_ok_def)
  have "a < length (ts_store st)" using assms(2) AtAttest by (simp add: pc_ok_def)
  then show ?thesis
    using assms(1) AtAttest upd keeps_attest [of S "ce_world E" "ce_tee E" a st]
      tee_keeps_trans keeps_fail_session
    by (fastforce simp: session_call_def session_attest_def pc_ok_def split: prod.splits sum.splits)
next
  case (AtRun a)
  with assms show ?thesis
    by (auto simp: session_call_def session_run_def pc_ok_def split: sum.splits)
next
  case (AtWait a deadline)
  with assms show ?thesis
    by (auto simp: session_call_def session_wait_def pc_ok_def split: if_splits)
next
  case (AtOutput a)
  have upd: "tee_keeps S st (update_session (ce_world E) sid (\<lambda>s. s\<lparr>ss_status := Complete, ss_output := Some out\<rparr>) st)"
    for out by (rule keeps_update_session) (simp add: session_ok_def)
  with assms AtOutput show ?thesis
    by (auto simp: session_call_def session_output_def pc_ok_def split: sum.splits if_splits)
qed

definition system_ok :: "server \<Rightarrow> tee_system \<Rightarrow> bool" where
  "system_ok S y \<longleftrightarrow> tee_ok S (sy_state y) \<and> (\<forall>p \<in> set (sy_runs y). pc_ok (sy_state y) (snd p))"

lemma system_ok_state:
  assumes "system_ok S y" and "tee_keeps S (sy_state y) st'"
  shows "system_ok S (y\<lparr>sy_state := st'\<rparr>)"
  using assms pc_ok_mono by (fastforce simp: system_ok_def tee_keeps_def)

lemma tee_step_keeps:
  assumes "tee_step S y y'" and ok: "system_ok S y"
  shows "system_ok S y'"
  using assms(1)
proof cases
  case (provision W T Ws d body r st')
  then show ?thesis using system_ok_state [OF ok] provision_tee_keeps by metis
next
  case (attest W T tee_id r st')
  then show ?thesis using system_ok_state [OF ok] attest_tee_keeps by metis
next
  case (terminate W tee_id r st')
  then show ?thesis using system_ok_state [OF ok] terminate_tee_keeps by metis
next
  case (start_session E body sid pc st')
  then show ?thesis using system_ok_state [OF ok] start_session_keeps
    by (fastforce simp: system_ok_def pc_ok_def)
next
  case (terminate_session W sid r st')
  then show ?thesis using system_ok_state [OF ok] terminate_session_keeps by metis
next
  case (session i sid pc E pc' st')
  have "pc_ok (sy_state y) (Some pc)"
    using ok session(2,3) nth_mem [of i "sy_runs y"] by (fastforce simp: system_ok_def)
  with session(4) have st': "tee_keeps S (sy_state y) st'" "pc_ok st' pc'"
    using session_call_keeps by metis+
  have "system_ok S (y\<lparr>sy_state := st'\<rparr>)" using ok st'(1) by (rule system_ok_state)
  then show ?thesis using st'(2) set_update_subset_insert [of "sy_runs y" i "(sid, pc')"]
    unfolding session(1) by (auto simp: system_ok_def)
qed

lemma tee_reachable_ok: "tee_reachable S y \<Longrightarrow> system_ok S y"
  unfolding tee_reachable_def
proof (induction rule: rtranclp_induct)
  case base
  show ?case by (simp add: system_ok_def tee_ok_def tee_initial_def tees_get_def sessions_get_def)
next
  case (step y z)
  then show ?case using tee_step_keeps by blast
qed

text \<open>
  The two ways the orchestrator starts a run, and the address of the instance it runs on: the
  request POST /v1/tee/{teeId}/run and the run step of a session's goroutine.
\<close>

inductive run_starts :: "server \<Rightarrow> tee_system \<Rightarrow> world \<Rightarrow> nat \<Rightarrow> bool" for S y where
  by_request: "live_tee (sy_state y) k = Some (a, inst) \<Longrightarrow> run_tee S W T k (sy_state y) = Inr out \<Longrightarrow>
    run_starts S y W a"
| by_session: "(sid, Some (AtRun a)) \<in> set (sy_runs y) \<Longrightarrow>
    session_call S E sid (AtRun a) (sy_state y) = (Some pc, st') \<Longrightarrow> run_starts S y (ce_world E) a"

lemma started_run_instance:
  assumes "tee_reachable S y" and "run_starts S y W a"
  shows "a < length (ts_store (sy_state y)) \<and> (\<exists>T out. do_run_tee S W T (ts_store (sy_state y) ! a) = Inr out)"
  using assms(2)
proof cases
  case (by_request k inst T out)
  then show ?thesis by (auto simp: run_tee_def lookup_tee_def live_tee_def split: option.splits if_splits)
next
  case (by_session sid E pc st')
  have "pc_ok (sy_state y) (Some (AtRun a))"
    using tee_reachable_ok [OF assms(1)] by_session(2) by (fastforce simp: system_ok_def)
  then show ?thesis
    using by_session(1,3) by (auto simp: pc_ok_def session_call_def session_run_def split: sum.splits)
qed

text \<open>
  C23. Where attestation is required (\<^verbatim>\<open>TEE_ATTESTATION_REQUIRED\<close>), an enclave run the orchestrator
  starts, by request or in a session, whatever requests and sessions went before, is on an instance
  whose verdict is not older than its lifetime and says: a compliant SEV-SNP guest, not debuggable,
  vouched for by an allowed service, with the pinned measurement where one is configured. In a
  session this also holds when the instance has been terminated and left the registry meanwhile.
\<close>

theorem started_run_attested:
  assumes "tee_reachable S y" and "cfg_tee_attestation_required (srv_cfg S)" and "run_starts S y W a"
  shows "\<exists>inst r. a < length (ts_store (sy_state y)) \<and> inst = ts_store (sy_state y) ! a \<and>
    ti_attestation inst = Some r \<and> verdict_ok (attestation_policy_of S '''') r \<and>
    w_now W - ti_attested_at inst \<le> cfg_tee_attestation_ttl (srv_cfg S)"
proof -
  let ?inst = "ts_store (sy_state y) ! a"
  have ok: "tee_ok S (sy_state y)" using tee_reachable_ok [OF assms(1)] by (simp add: system_ok_def)
  obtain T out where a: "a < length (ts_store (sy_state y))" and run: "do_run_tee S W T ?inst = Inr out"
    using started_run_instance [OF assms(1,3)] by blast
  have fresh: "attestation_fresh (cfg_tee_attestation_ttl (srv_cfg S)) (w_now W) ?inst"
    using run assms(2) by (auto simp: do_run_tee_def attestation_required_def Let_def split: if_splits)
  then obtain r where "ti_attestation ?inst = Some r" by (auto simp: attestation_fresh_def)
  moreover from this have "server_policy_ok S r"
    using ok nth_mem [OF a] unfolding tee_ok_def instance_ok_def by blast
  ultimately show ?thesis using a fresh by (auto simp: attestation_fresh_def server_policy_ok_def)
qed

text \<open>
  Reading a session's output never hits a complete session without output, in any reachable
  state, also after sessions failed or were terminated half way.
\<close>

theorem session_output_never_panics:
  assumes "tee_reachable S y"
  shows "get_tee_session_output sid (sy_state y) \<noteq> OutputPanic"
proof -
  have "session_ok s" if "lookup_session (sy_state y) sid = Inr s" for s
    using tee_reachable_ok [OF assms] that by (auto simp: system_ok_def tee_ok_def lookup_session_def)
  then show ?thesis
    by (auto simp: get_tee_session_output_def session_ok_def split: sum.splits session_status.splits)
qed

section \<open>The registry as a map of instances\<close>

text \<open>The abstract registry: TEE ids to instances, without addresses and sharing.\<close>

definition registry_of :: "tee_state \<Rightarrow> string \<Rightarrow> tee_instance option" where
  "registry_of st = (\<lambda>k. map_option snd (live_tee st k))"

lemma registry_register:
  assumes "tee_ok S st" and "a < length (ts_store st')" and "inst = ts_store st' ! a"
    and "\<And>k b. tees_get (ts_tees st) k = Some b \<Longrightarrow> k \<noteq> ti_tee_id inst \<Longrightarrow>
      b < length (ts_store st') \<and> ts_store st' ! b = ts_store st ! b"
    and "ts_tees st' = ts_tees st"
  shows "registry_of (register_tee a inst st') = (registry_of st)(ti_tee_id inst \<mapsto> inst)"
proof
  fix k
  show "registry_of (register_tee a inst st') k = ((registry_of st)(ti_tee_id inst \<mapsto> inst)) k"
    using assms unfolding registry_of_def live_tee_def register_tee_def tee_ok_def
    by (cases "tees_get (ts_tees st) k") (auto simp: tees.get_put)
qed

lemma registry_steps:
  assumes "tee_reachable S y" and "sy_state y = st"
  shows "provision_tee S W T Ws d (Some c) st = (r, st') \<Longrightarrow> registry_of st' =
      (case r of Inl e \<Rightarrow> registry_of st | Inr (inst, state) \<Rightarrow> (registry_of st)(ti_tee_id inst \<mapsto> inst))"
    and "a < length (ts_store st) \<Longrightarrow> do_attest_tee S W T a st = (v, st') \<Longrightarrow> registry_of st' =
      (case v of Inl e \<Rightarrow> registry_of st | Inr verdict \<Rightarrow> (registry_of st)(ti_tee_id (ts_store st ! a) \<mapsto>
        (ts_store st ! a)\<lparr>ti_attestation := Some verdict, ti_attested_at := w_now W\<rparr>))"
    and "terminate_tee W k st = (e, st') \<Longrightarrow> registry_of st' =
      (if e = None then (registry_of st)(k := None) else registry_of st)"
proof -
  have ok: "tee_ok S st" using tee_reachable_ok [OF assms(1)] assms(2) by (simp add: system_ok_def)
  then have reg: "\<And>k b. tees_get (ts_tees st) k = Some b \<Longrightarrow> b < length (ts_store st) \<and> ti_tee_id (ts_store st ! b) = k"
    by (simp add: tee_ok_def)
  have prov: "registry_of (register_tee (length (ts_store st)) inst (st\<lparr>ts_store := ts_store st @ [inst]\<rparr>)) =
      (registry_of st)(ti_tee_id inst \<mapsto> inst)" for inst
    by (rule registry_register [OF ok]) (use reg in \<open>auto simp: nth_append less_Suc_eq\<close>)
  have att: "registry_of (register_tee a inst (st\<lparr>ts_store := (ts_store st)[a := inst]\<rparr>)) =
      (registry_of st)(ti_tee_id inst \<mapsto> inst)"
    if "a < length (ts_store st)" "ti_tee_id inst = ti_tee_id (ts_store st ! a)" for a inst
    by (rule registry_register [OF ok]) (use reg that in \<open>auto simp: nth_list_update\<close>)
  show "provision_tee S W T Ws d (Some c) st = (r, st') \<Longrightarrow> registry_of st' =
      (case r of Inl e \<Rightarrow> registry_of st | Inr (inst, state) \<Rightarrow> (registry_of st)(ti_tee_id inst \<mapsto> inst))"
    using prov by (auto simp: provision_tee_def do_provision_tee_def register_tee_def Let_def
        split: option.splits sum.splits prod.splits)
  show "a < length (ts_store st) \<Longrightarrow> do_attest_tee S W T a st = (v, st') \<Longrightarrow> registry_of st' =
      (case v of Inl e \<Rightarrow> registry_of st | Inr verdict \<Rightarrow> (registry_of st)(ti_tee_id (ts_store st ! a) \<mapsto>
        (ts_store st ! a)\<lparr>ti_attestation := Some verdict, ti_attested_at := w_now W\<rparr>))"
    using att by (auto simp: do_attest_tee_def Let_def split: sum.splits)
  have "ti_tee_id inst = k" if "lookup_tee st k = Inr (a, inst)" for a inst
    using that reg by (auto simp: lookup_tee_def live_tee_def split: option.splits if_splits)
  then show "terminate_tee W k st = (e, st') \<Longrightarrow> registry_of st' =
      (if e = None then (registry_of st)(k := None) else registry_of st)"
    by (fastforce simp: terminate_tee_def do_terminate_tee_def registry_of_def live_tee_def tees.get_del
        split: sum.splits option.splits)
qed

text \<open>
  C24. The registry of instances behaves as a map from TEE ids to instances, although instances
  are shared and changed in place: provisioning enters a fresh unattested instance of the request,
  a successful attestation replaces the entry of the instance's own id by the instance with its
  verdict, a termination removes it, and a failure changes no entry.
\<close>

theorem registry_refines_map:
  assumes "tee_reachable S y" and "sy_state y = st"
  shows "(provision_tee S W T Ws d (Some c) st = (r, st1) \<longrightarrow> registry_of st1 =
      (case r of Inl e \<Rightarrow> registry_of st | Inr (inst, state) \<Rightarrow> (registry_of st)(ti_tee_id inst \<mapsto> inst))) \<and>
    (a < length (ts_store st) \<and> do_attest_tee S W T a st = (v, st2) \<longrightarrow> registry_of st2 =
      (case v of Inl e \<Rightarrow> registry_of st | Inr verdict \<Rightarrow> (registry_of st)(ti_tee_id (ts_store st ! a) \<mapsto>
        (ts_store st ! a)\<lparr>ti_attestation := Some verdict, ti_attested_at := w_now W\<rparr>))) \<and>
    (terminate_tee W k st = (e, st3) \<longrightarrow> registry_of st3 =
      (if e = None then (registry_of st)(k := None) else registry_of st))"
  by (intro conjI impI; (elim conjE)?; rule registry_steps [OF assms]; assumption)

section \<open>Sessions\<close>

text \<open>The status a session shows when its goroutine stands there, unless it was terminated.\<close>

definition status_at :: "session_pc option \<Rightarrow> session_status \<Rightarrow> bool" where
  "status_at pc s \<longleftrightarrow>
     (case pc of
        Some (AtProvision c) \<Rightarrow> s = Provisioning
      | Some (AtAttest a) \<Rightarrow> s = Attesting
      | None \<Rightarrow> s = Complete \<or> s = SessionFailed
      | Some pc \<Rightarrow> s = Running)"

lemma sessions_update_session:
  "sessions_get (ts_sessions st) sid = Some s \<Longrightarrow>
     sessions_get (ts_sessions (update_session W sid f st)) sid = Some ((f s)\<lparr>ss_updated_at := w_now W\<rparr>)"
  by (simp add: update_session_def)

lemma sessions_do_provision: "do_provision_tee S W T Ws d c st = (r, st') \<Longrightarrow> ts_sessions st' = ts_sessions st"
  by (auto simp: do_provision_tee_def register_tee_def Let_def split: option.splits sum.splits prod.splits)

lemma sessions_do_attest: "do_attest_tee S W T a st = (r, st') \<Longrightarrow> ts_sessions st' = ts_sessions st"
  by (auto simp: do_attest_tee_def register_tee_def Let_def split: sum.splits)

lemma sessions_update_other:
  "other \<noteq> sid \<Longrightarrow> sessions_get (ts_sessions (update_session W sid f st)) other = sessions_get (ts_sessions st) other"
  by (simp add: update_session_def sessions.get_put split: option.split)

text \<open>A session may also show that it was terminated, wherever its goroutine stands.\<close>

definition shows_position :: "session_pc option \<Rightarrow> session_status \<Rightarrow> bool" where
  "shows_position pc s \<longleftrightarrow> status_at pc s \<or> s = Terminated"

definition progress :: "session_pc option \<Rightarrow> nat" where
  "progress pc =
     (case pc of
        Some (AtProvision c) \<Rightarrow> 0
      | Some (AtAttest a) \<Rightarrow> 1
      | None \<Rightarrow> 3
      | Some pc \<Rightarrow> 2)"

lemma shows_progress: "shows_position pc s \<Longrightarrow> progress pc \<le> status_rank s"
  by (auto simp: shows_position_def status_at_def progress_def split: option.splits session_pc.splits)

lemma status_progress: "status_at (Some pc) s \<Longrightarrow> status_rank s = progress (Some pc)"
  by (cases pc) (simp_all add: status_at_def progress_def)

lemma session_call_status:
  assumes "session_call S E sid pc st = (pc', st')"
    and "sessions_get (ts_sessions st) sid = Some s" and "shows_position (Some pc) (ss_status s)"
  shows "\<exists>s'. sessions_get (ts_sessions st') sid = Some s' \<and> shows_position pc' (ss_status s') \<and>
    progress (Some pc) \<le> progress pc'"
proof -
  have fail: "\<exists>s'. sessions_get (ts_sessions (fail_session W sid step e st1)) sid = Some s' \<and>
      ss_status s' = SessionFailed" if "ts_sessions st1 = ts_sessions st" for W step e st1
    using assms(2) that by (simp add: fail_session_def sessions_update_session)
  note defs = session_call_def shows_position_def status_at_def progress_def sessions_update_session
  show ?thesis
  proof (cases pc)
    case (AtProvision c)
    then show ?thesis
      using assms fail sessions_do_provision [of S "ce_world E" "ce_tee E" "ce_probes E" "ce_db E" c st]
      by (fastforce simp: defs session_provision_def split: prod.splits sum.splits)
  next
    case (AtAttest a)
    then show ?thesis
      using assms fail sessions_do_attest [of S "ce_world E" "ce_tee E" a st]
      by (fastforce simp: defs session_attest_def split: prod.splits sum.splits)
  next
    case (AtRun a)
    then show ?thesis
      using assms fail [of st] by (fastforce simp: defs session_run_def split: sum.splits)
  next
    case (AtWait a deadline)
    then show ?thesis
      using assms fail [of st] by (fastforce simp: defs session_wait_def split: if_splits)
  next
    case (AtOutput a)
    then show ?thesis
      using assms fail [of st] by (fastforce simp: defs session_output_def split: sum.splits if_splits)
  qed
qed

text \<open>The goroutine of one session leaves every other session as it is.\<close>

lemma session_call_other:
  assumes "session_call S E sid pc st = (pc', st')" and "other \<noteq> sid"
  shows "sessions_get (ts_sessions st') other = sessions_get (ts_sessions st) other"
proof -
  note upd = sessions_update_other [OF assms(2)]
  have fail: "sessions_get (ts_sessions (fail_session W sid step e st1)) other = sessions_get (ts_sessions st1) other"
    for W step e st1 unfolding fail_session_def by (rule upd)
  show ?thesis
    using assms(1) sessions_do_provision [of S "ce_world E" "ce_tee E" "ce_probes E" "ce_db E" _ st]
      sessions_do_attest [of S "ce_world E" "ce_tee E" _ st]
    by (cases pc)
      (auto simp: session_call_def session_provision_def session_attest_def session_run_def session_wait_def
        session_output_def upd fail split: prod.splits sum.splits if_splits)
qed

lemma terminate_session_status:
  assumes "terminate_tee_session W sid st = (r, st')" and "sessions_get (ts_sessions st) k = Some s"
  shows "\<exists>s'. sessions_get (ts_sessions st') k = Some s' \<and> (ss_status s' = ss_status s \<or> ss_status s' = Terminated)"
proof -
  have t: "ts_sessions st1 = ts_sessions st" if "do_terminate_tee W inst st = (x, st1)" for inst x st1
    using that by (auto simp: do_terminate_tee_def split: option.splits)
  have "\<exists>s'. sessions_get (ts_sessions (update_session W sid (\<lambda>s. s\<lparr>ss_status := Terminated\<rparr>) st1)) k = Some s' \<and>
      (ss_status s' = ss_status s \<or> ss_status s' = Terminated)" if "ts_sessions st1 = ts_sessions st" for st1
    using that assms(2)
    by (cases "k = sid") (simp_all add: sessions_update_session sessions_update_other)
  then show ?thesis
    using assms t by (fastforce simp: terminate_tee_session_def split: sum.splits option.splits if_splits prod.splits)
qed

text \<open>
  Where the session of the goroutine at an index stands: what it shows, compared with an earlier
  position and what was shown there.
\<close>

definition session_follows :: "tee_system \<Rightarrow> nat \<Rightarrow> string \<Rightarrow> session_pc option \<Rightarrow> tee_session \<Rightarrow> bool" where
  "session_follows y i sid pc s \<longleftrightarrow> i < length (sy_runs y) \<and> sy_runs y ! i = (sid, pc) \<and>
     sessions_get (ts_sessions (sy_state y)) sid = Some s \<and> shows_position pc (ss_status s)"

definition moved_on :: "session_pc option \<Rightarrow> tee_session \<Rightarrow> session_pc option \<Rightarrow> tee_session \<Rightarrow> bool" where
  "moved_on pc s pc' s' \<longleftrightarrow> progress pc \<le> progress pc' \<and>
     (pc = None \<longrightarrow> pc' = None \<and> (ss_status s' = ss_status s \<or> ss_status s' = Terminated))"

lemma moved_on_refl [simp]: "moved_on pc s pc s"
  by (simp add: moved_on_def)

lemma moved_on_trans: "moved_on p s p1 s1 \<Longrightarrow> moved_on p1 s1 p2 s2 \<Longrightarrow> moved_on p s p2 s2"
  by (auto simp: moved_on_def)

lemma moved_on_forward:
  assumes "moved_on pc s pc' s'" and "shows_position pc (ss_status s)" and "shows_position pc' (ss_status s')"
  shows "ss_status s = Terminated \<or> ss_status s \<le> ss_status s'"
proof (cases pc)
  case None
  then show ?thesis using assms(1,2)
    by (auto simp: moved_on_def shows_position_def status_at_def less_eq_session_status_def)
next
  case (Some p)
  have "progress pc \<le> progress pc'" using assms(1) by (simp add: moved_on_def)
  then show ?thesis
    using assms(2) shows_progress [OF assms(3)] status_progress [of p "ss_status s"]
    by (auto simp: Some shows_position_def less_eq_session_status_def)
qed

lemma ids_update: "i < length rs \<Longrightarrow> rs ! i = (sid, p) \<Longrightarrow> map fst (rs[i := (sid, p')]) = map fst rs"
  by (simp add: map_update list_update_same_conv)

lemma runs_grow: "tee_step S y y' \<Longrightarrow> \<exists>ids. map fst (sy_runs y') = map fst (sy_runs y) @ ids"
  by (erule tee_stepE) (auto simp: ids_update)

lemma runs_grow_all: "(tee_step S)\<^sup>*\<^sup>* y y' \<Longrightarrow> \<exists>ids. map fst (sy_runs y') = map fst (sy_runs y) @ ids"
  by (induction rule: rtranclp_induct) (use runs_grow in fastforce)+

lemma tee_step_session:
  assumes step: "tee_step S y y'" and ids: "distinct (map fst (sy_runs y'))" and f: "session_follows y i sid pc s"
  shows "\<exists>pc' s'. session_follows y' i sid pc' s' \<and> moved_on pc s pc' s'"
proof -
  note i = f [unfolded session_follows_def]
  have kept: "\<exists>pc' s'. session_follows (y\<lparr>sy_state := st'\<rparr>) i sid pc' s' \<and> moved_on pc s pc' s'"
    if "ts_sessions st' = ts_sessions (sy_state y)" for st'
    using i that by (auto simp: session_follows_def)
  from step show ?thesis
  proof cases
    case (provision W T Ws d body r st')
    then show ?thesis using kept sessions_do_provision
      by (auto simp: provision_tee_def split: option.splits prod.splits sum.splits)
  next
    case (attest W T tee_id r st')
    then show ?thesis using kept sessions_do_attest
      by (auto simp: attest_tee_def split: prod.splits sum.splits)
  next
    case (terminate W tee_id r st')
    then show ?thesis using kept
      by (auto simp: terminate_tee_def do_terminate_tee_def split: option.splits prod.splits sum.splits)
  next
    case (start_session E body new p st')
    have "sid \<in> fst ` set (sy_runs y)" using i by (metis fst_conv image_eqI nth_mem)
    then have "sid \<noteq> new" using ids start_session(1) by auto
    then have "sessions_get (ts_sessions st') sid = sessions_get (ts_sessions (sy_state y)) sid"
      using start_session(2)
      by (auto simp: start_tee_session_def Let_def sessions.get_put split: option.splits if_splits)
    then show ?thesis using i start_session(1) by (auto simp: session_follows_def nth_append)
  next
    case (terminate_session W other r st')
    obtain s' where "sessions_get (ts_sessions st') sid = Some s'" "ss_status s' = ss_status s \<or> ss_status s' = Terminated"
      using terminate_session_status [OF terminate_session(2)] i by blast
    then have "session_follows y' i sid pc s' \<and> moved_on pc s pc s'"
      using i terminate_session(1) by (auto simp: session_follows_def moved_on_def shows_position_def)
    then show ?thesis by blast
  next
    case (session j other p E p' st')
    show ?thesis
    proof (cases "j = i")
      case True
      then have p: "other = sid" "pc = Some p" using i session(3) by simp_all
      obtain s' where "sessions_get (ts_sessions st') sid = Some s'" "shows_position p' (ss_status s')"
          "progress pc \<le> progress p'"
        using session_call_status [OF session(4) [unfolded p(1)]] i unfolding p(2) by blast
      then have "session_follows y' i sid p' s' \<and> moved_on pc s p' s'"
        using i session(1) p True by (simp add: session_follows_def moved_on_def)
      then show ?thesis by blast
    next
      case False
      have "map fst (sy_runs y') = map fst (sy_runs y)"
        using session(1) ids_update [OF session(2,3)] by simp
      then have "other \<noteq> sid"
        using ids i session(2,3) False by (metis fst_conv length_map nth_eq_iff_index_eq nth_map)
      from session_call_other [OF session(4) this [symmetric]] have "session_follows y' i sid pc s"
        using i session(1) False by (simp add: session_follows_def)
      then show ?thesis using moved_on_refl by blast
    qed
  qed
qed

lemma tee_steps_session:
  assumes "(tee_step S)\<^sup>*\<^sup>* y y'" and "distinct (map fst (sy_runs y'))" and "session_follows y i sid pc s"
  shows "\<exists>pc' s'. session_follows y' i sid pc' s' \<and> moved_on pc s pc' s'"
  using assms
proof (induction rule: rtranclp_induct)
  case (step z z')
  have "distinct (map fst (sy_runs z))" using runs_grow [OF step.hyps(2)] step.prems(1) by auto
  with step.IH step.prems(2) obtain p1 s1 where 1: "session_follows z i sid p1 s1" "moved_on pc s p1 s1" by blast
  obtain p2 s2 where "session_follows z' i sid p2 s2" "moved_on p1 s1 p2 s2"
    using tee_step_session [OF step.hyps(2) step.prems(1) 1(1)] by blast
  then show ?case using 1(2) moved_on_trans by blast
qed (auto intro: moved_on_refl)

lemma reachable_session_follows:
  assumes "tee_reachable S y" and "distinct (map fst (sy_runs y))" and "i < length (sy_runs y)"
  shows "\<exists>sid pc s. session_follows y i sid pc s"
  using assms unfolding tee_reachable_def
proof (induction arbitrary: i rule: rtranclp_induct)
  case base
  then show ?case by (simp add: tee_initial_def)
next
  case (step z z')
  have d: "distinct (map fst (sy_runs z))" using runs_grow [OF step.hyps(2)] step.prems(1) by auto
  show ?case
  proof (cases "i < length (sy_runs z)")
    case True
    then show ?thesis using step.IH [OF d] tee_step_session [OF step.hyps(2) step.prems(1)] by blast
  next
    case False
    from step.hyps(2) show ?thesis
    proof cases
      case (start_session E body sid pc st')
      then have "i = length (sy_runs z)" using False step.prems(2) by simp
      then have "\<exists>s. session_follows z' i sid (Some pc) s"
        using start_session
        by (auto simp: session_follows_def start_tee_session_def Let_def new_session_def shows_position_def
            status_at_def split: option.splits if_splits)
      then show ?thesis by blast
    qed (use False step.prems(2) in auto)
  qed
qed

text \<open>
  C25. In every reachable state of the orchestrator, whatever requests, sessions and terminations
  interleaved, a session's status tells where its goroutine stands (provisioning, attesting, running,
  and complete or failed once it is over) or that the session was terminated. From any such state on
  it only moves forward, unless it showed terminated: that a later step of the goroutine may
  overwrite. Session ids are not drawn twice.
\<close>

theorem session_moves_forward:
  assumes "tee_reachable S y" and "(tee_step S)\<^sup>*\<^sup>* y y'" and "distinct (map fst (sy_runs y'))"
    and "i < length (sy_runs y)" and "sy_runs y ! i = (sid, pc)"
  shows "\<exists>s pc' s'. sessions_get (ts_sessions (sy_state y)) sid = Some s \<and>
    (status_at pc (ss_status s) \<or> ss_status s = Terminated) \<and>
    sy_runs y' ! i = (sid, pc') \<and> sessions_get (ts_sessions (sy_state y')) sid = Some s' \<and>
    (status_at pc' (ss_status s') \<or> ss_status s' = Terminated) \<and>
    (ss_status s = Terminated \<or> ss_status s \<le> ss_status s')"
proof -
  have "distinct (map fst (sy_runs y))" using runs_grow_all [OF assms(2)] assms(3) by auto
  then obtain s where s: "session_follows y i sid pc s"
    using reachable_session_follows [OF assms(1) _ assms(4)] assms(5) by (auto simp: session_follows_def)
  obtain pc' s' where s': "session_follows y' i sid pc' s'" "moved_on pc s pc' s'"
    using tee_steps_session [OF assms(2,3) s] by blast
  show ?thesis
    using s s'(1) moved_on_forward [OF s'(2)] unfolding session_follows_def shows_position_def by blast
qed

text \<open>Clocks of consecutive calls are at least \<open>dt\<close> apart.\<close>

fun spaced :: "time \<Rightarrow> time \<Rightarrow> call_env list \<Rightarrow> bool" where
  "spaced dt t [] \<longleftrightarrow> True"
| "spaced dt t (E # Es) \<longleftrightarrow> w_now (ce_world E) \<ge> t + dt \<and> spaced dt (w_now (ce_world E)) Es"

lemma run_session_over [simp]: "run_tee_session S Es sid None st = (None, st)"
  by (cases Es) simp_all

lemma run_session_step:
  "run_tee_session S (E # Es) sid (Some pc) st =
     run_tee_session S Es sid (fst (session_call S E sid pc st)) (snd (session_call S E sid pc st))"
  by (simp add: split_beta)

lemma session_attest_next: "fst (session_attest S E sid a st) \<in> {None, Some (AtRun a)}"
  by (simp add: session_attest_def split: prod.split sum.split)

lemma session_provision_next: "\<exists>a. fst (session_provision S E sid c st) \<in> {None, Some (AtAttest a)}"
  by (auto simp: session_provision_def split: prod.split sum.split)

lemma run_session_output: "Es \<noteq> [] \<Longrightarrow> fst (run_tee_session S Es sid (Some (AtOutput a)) st) = None"
  by (cases Es) (simp_all add: session_call_def session_output_def)

lemma run_session_wait:
  assumes "spaced dt t Es" and "dt > 0" and "length Es \<ge> nat ((deadline - t) div dt) + 2"
  shows "fst (run_tee_session S Es sid (Some (AtWait a deadline)) st) = None"
  using assms(1,3)
proof (induction Es arbitrary: t st)
  case Nil
  then show ?case by simp
next
  case (Cons E Es)
  let ?now = "w_now (ce_world E)"
  have now: "?now \<ge> t + dt" "spaced dt ?now Es" using Cons.prems(1) by simp_all
  have "Es \<noteq> []" using Cons.prems(2) by auto
  show ?case
  proof (cases "\<not> enclave_done (snd (do_tee_state (ce_world E) (ts_store st ! a))) \<and> ?now \<le> deadline")
    case True
    have "(deadline - ?now) div dt \<le> (deadline - t - dt) div dt" using now(1) assms(2) by (intro zdiv_mono1) auto
    also have "\<dots> = (deadline - t) div dt - 1" using assms(2) div_add_self2 [of dt "deadline - t - dt"] by simp
    finally have "(deadline - ?now) div dt + 1 \<le> (deadline - t) div dt" by simp
    moreover have "0 \<le> (deadline - ?now) div dt" using True assms(2) by (simp add: pos_imp_zdiv_nonneg_iff)
    ultimately have "length Es \<ge> nat ((deadline - ?now) div dt) + 2" using Cons.prems(2) by simp
    from Cons.IH [OF now(2) this] True show ?thesis by (simp add: session_call_def session_wait_def)
  next
    case False
    then show ?thesis using run_session_output [OF \<open>Es \<noteq> []\<close>]
      by (auto simp: session_call_def session_wait_def)
  qed
qed

text \<open>
  C26. Every session ends: with calls at least \<open>dt\<close> apart, it is over after at most its four calls,
  one poll for every \<open>dt\<close> in the completion budget, and one more, whatever the enclave answers.
\<close>

theorem session_ends:
  assumes "spaced dt t Es" and "dt > 0" and "length Es \<ge> nat (completion_budget S div dt) + 5"
  shows "fst (run_tee_session S Es sid (Some (AtProvision c)) st) = None"
proof -
  obtain E1 E2 E3 Es' where Es: "Es = E1 # E2 # E3 # Es'"
    using assms(3) by (cases Es rule: remdups_adj.cases; cases "tl (tl Es)") auto
  let ?now = "w_now (ce_world E3)"
  have wait: "fst (run_tee_session S Es' sid (Some (AtWait a (?now + completion_budget S))) st) = None" for a st
    by (rule run_session_wait [of dt ?now]) (use assms in \<open>auto simp: Es\<close>)
  have run: "fst (run_tee_session S (E3 # Es') sid (Some (AtRun a)) st) = None" for a st
    using wait by (simp add: session_call_def session_run_def split: sum.split)
  have attest: "fst (run_tee_session S (E2 # E3 # Es') sid (Some (AtAttest a)) st) = None" for a st
    using run session_attest_next [of S E2 sid a st]
    by (auto simp: run_session_step session_call_def simp del: run_tee_session.simps(3))
  then show ?thesis unfolding Es using session_provision_next [of S E1 sid c st]
    by (auto simp: run_session_step session_call_def simp del: run_tee_session.simps(3))
qed

text \<open>
  Terminating a session does not stop its goroutine: when the instance is terminated before the
  session has attested it, a successful attestation afterwards shows the session as running again
  and puts the deallocated instance back into the registry.
\<close>

theorem termination_overwritten:
  assumes "terminate_tee_session W sid st = (None, st1)"
    and "session_call S E sid (AtAttest a) st1 = (Some pc, st2)" and "a < length (ts_store st1)"
  shows "(\<exists>s. sessions_get (ts_sessions st2) sid = Some s \<and> ss_status s = Running) \<and>
    live_tee st2 (ti_tee_id (ts_store st1 ! a)) \<noteq> None"
proof -
  obtain s where s: "sessions_get (ts_sessions st) sid = Some s"
    using assms(1) by (auto simp: terminate_tee_session_def lookup_session_def split: option.splits sum.splits)
  then obtain s1 where "sessions_get (ts_sessions st1) sid = Some s1"
    using assms(1) by (auto simp: terminate_tee_session_def do_terminate_tee_def update_session_def
        split: option.splits sum.splits if_splits prod.splits)
  then show ?thesis using assms(2,3)
    by (auto simp: session_call_def session_attest_def do_attest_tee_def register_tee_def update_session_def
        live_tee_def Let_def tees.get_put split: sum.splits prod.splits)
qed

section \<open>A concrete session\<close>

definition tee_server :: server where
  "tee_server = sample_server\<lparr>srv_cfg := sample_config\<lparr>cfg_require_signed_contract := False\<rparr>\<rparr>"

text \<open>The enclave answers every call with the token \<^verbatim>\<open>n\<close>.\<close>

definition sample_tee_env :: tee_env where
  "sample_tee_env = \<lparr>tv_lib = sample_jwt_lib, tv_post = (\<lambda>url body. Inr (200, ''n'')),
     tv_output = (\<lambda>url. Inr \<lparr>to_status_code = 200, to_content_type = '''', to_content_disposition = '''', to_body = ''o''\<rparr>),
     tv_json = (\<lambda>s. Some (JObj [(''jwt'', JStr s)])), tv_url = (\<lambda>u. Inr (''https'', ''h'')),
     tv_duration = (\<lambda>t. ''D''), tv_session_id = ''sid''\<rparr>"

definition sample_tee_contract :: tee_contract where
  "sample_tee_contract = \<lparr>tc_contract_id = ''t'', tc_governance_contract_id = ''c'', tc_request_id = ''r'',
     tc_consumer_id = '''', tc_provider_id = '''',
     tc_app_details = \<lparr>ta_image_id = ''i'', ta_image_hash = ''h'', ta_version = '''', ta_entry_point = '''', ta_environment = []\<rparr>,
     tc_dataset_details = \<lparr>td_item_id = ''x'', td_asset_name = '''', td_asset_type = '''', td_resource_url = ''ux''\<rparr>,
     tc_access_type = '''', tc_consumer_public_key = '''', tc_apd_callback_url = '''',
     tc_issued_at = 0, tc_expires_at = 1000, tc_signature = ''''\<rparr>"

definition sample_call :: "time \<Rightarrow> call_env" where
  "sample_call now = \<lparr>ce_world = tee_world now, ce_tee = sample_tee_env, ce_probes = [], ce_db = sample_db sample_draft\<rparr>"

definition provision_reply where
  "provision_reply = provision_tee tee_server (tee_world 5) sample_tee_env [] (sample_db sample_draft)
     (Some sample_tee_contract) (sy_state tee_initial)"

definition attest_reply where
  "attest_reply = attest_tee tee_server (tee_world 6) sample_tee_env ''r'' (snd provision_reply)"

definition sample_system :: tee_system where
  "sample_system = tee_initial\<lparr>sy_state := snd attest_reply\<rparr>"

lemma sample_system_reachable: "tee_reachable tee_server sample_system"
proof -
  have "tee_step tee_server tee_initial (tee_initial\<lparr>sy_state := snd provision_reply\<rparr>)"
    by (rule tee_step.provision [where r = "fst provision_reply"]) (simp add: provision_reply_def)
  moreover have "tee_step tee_server (tee_initial\<lparr>sy_state := snd provision_reply\<rparr>)
      ((tee_initial\<lparr>sy_state := snd provision_reply\<rparr>)\<lparr>sy_state := snd attest_reply\<rparr>)"
    by (rule tee_step.attest [where r = "fst attest_reply"]) (simp add: attest_reply_def)
  ultimately show ?thesis by (simp add: tee_reachable_def sample_system_def)
qed

lemma sample_system_run_ok: "\<exists>out. run_tee tee_server (tee_world 7) sample_tee_env ''r'' (sy_state sample_system) = Inr out"
proof -
  have "\<not> isl (run_tee tee_server (tee_world 7) sample_tee_env ''r'' (sy_state sample_system))" by code_simp
  then show ?thesis
    by (cases "run_tee tee_server (tee_world 7) sample_tee_env ''r'' (sy_state sample_system)") simp_all
qed

theorem started_run_attested_witness:
  "\<exists>inst r. inst = ts_store (sy_state sample_system) ! 0 \<and> ti_attestation inst = Some r \<and>
     verdict_ok (attestation_policy_of tee_server '''') r"
proof -
  obtain out where run: "run_tee tee_server (tee_world 7) sample_tee_env ''r'' (sy_state sample_system) = Inr out"
    using sample_system_run_ok by blast
  have "map_option fst (live_tee (sy_state sample_system) ''r'') = Some 0" by code_simp
  then obtain inst where "live_tee (sy_state sample_system) ''r'' = Some (0, inst)" by auto
  from run_starts.by_request [OF this run] have "run_starts tee_server sample_system (tee_world 7) 0" .
  moreover have "cfg_tee_attestation_required (srv_cfg tee_server)"
    by (simp add: tee_server_def sample_server_def sample_config_def)
  ultimately show ?thesis using started_run_attested [OF sample_system_reachable] by blast
qed

theorem session_output_never_panics_witness:
  "get_tee_session_output ''sid'' (sy_state sample_system) \<noteq> OutputPanic"
  using session_output_never_panics [OF sample_system_reachable] .

theorem registry_refines_map_witness:
  "registry_of (snd (terminate_tee (tee_world 8) ''r'' (sy_state sample_system))) =
     (registry_of (sy_state sample_system))(''r'' := None)"
proof -
  have "fst (terminate_tee (tee_world 8) ''r'' (sy_state sample_system)) = None" by code_simp
  then have "terminate_tee (tee_world 8) ''r'' (sy_state sample_system) =
      (None, snd (terminate_tee (tee_world 8) ''r'' (sy_state sample_system)))"
    by (metis prod.collapse)
  then show ?thesis using registry_refines_map [OF sample_system_reachable refl] by fastforce
qed

definition session_start :: tee_state where
  "session_start = snd (start_tee_session tee_server (sample_call 5) (Some sample_tee_contract) (sy_state tee_initial))"

lemma session_start_status: "\<exists>s. sessions_get (ts_sessions session_start) ''sid'' = Some s \<and> ss_status s = Provisioning"
  by (simp add: session_start_def start_tee_session_def tee_server_def sample_server_def sample_config_def
      sample_call_def sample_tee_env_def Let_def new_session_def)

text \<open>The system once a session is started, and after its goroutine has provisioned.\<close>

definition session_system :: tee_system where
  "session_system = tee_initial\<lparr>sy_state := session_start, sy_runs := [(''sid'', Some (AtProvision sample_tee_contract))]\<rparr>"

definition provisioned_call :: "session_pc option \<times> tee_state" where
  "provisioned_call = session_call tee_server (sample_call 6) ''sid'' (AtProvision sample_tee_contract) session_start"

definition provisioned_system :: tee_system where
  "provisioned_system = session_system\<lparr>sy_state := snd provisioned_call, sy_runs := [(''sid'', fst provisioned_call)]\<rparr>"

lemma session_system_reachable: "tee_reachable tee_server session_system"
proof -
  have "start_tee_session tee_server (sample_call 5) (Some sample_tee_contract) (sy_state tee_initial) =
      (Inr (''sid'', AtProvision sample_tee_contract), session_start)"
    by (simp add: session_start_def start_tee_session_def tee_server_def sample_server_def sample_config_def
        sample_call_def sample_tee_env_def Let_def)
  from tee_step.start_session [OF this] have "tee_step tee_server tee_initial session_system"
    by (simp add: session_system_def tee_initial_def)
  then show ?thesis by (simp add: tee_reachable_def)
qed

lemma session_system_step: "tee_step tee_server session_system provisioned_system"
proof -
  have "tee_step tee_server session_system (session_system\<lparr>sy_state := snd provisioned_call,
      sy_runs := (sy_runs session_system)[0 := (''sid'', fst provisioned_call)]\<rparr>)"
    by (rule tee_step.session [where pc = "AtProvision sample_tee_contract" and E = "sample_call 6"])
      (simp_all add: session_system_def provisioned_call_def)
  then show ?thesis by (simp add: provisioned_system_def session_system_def)
qed

theorem session_moves_forward_witness:
  "\<exists>s s'. sessions_get (ts_sessions (sy_state session_system)) ''sid'' = Some s \<and>
     sessions_get (ts_sessions (sy_state provisioned_system)) ''sid'' = Some s' \<and>
     ss_status s = Provisioning \<and> ss_status s \<le> ss_status s'"
proof -
  have "(tee_step tee_server)\<^sup>*\<^sup>* session_system provisioned_system" using session_system_step by (rule r_into_rtranclp)
  from session_moves_forward [OF session_system_reachable this, of 0 "''sid''" "Some (AtProvision sample_tee_contract)"]
  obtain s s' where "sessions_get (ts_sessions (sy_state session_system)) ''sid'' = Some s"
      "sessions_get (ts_sessions (sy_state provisioned_system)) ''sid'' = Some s'"
      "ss_status s = Terminated \<or> ss_status s \<le> ss_status s'"
    by (auto simp: session_system_def provisioned_system_def)
  then show ?thesis using session_start_status by (auto simp: session_system_def)
qed

theorem session_ends_witness:
  "fst (run_tee_session tee_server (map sample_call (map (\<lambda>i. int i * (100 * second)) [1..<12])) ''sid''
     (Some (AtProvision sample_tee_contract)) session_start) = None"
  by (rule session_ends [of "100 * second" 0])
    (simp_all add: sample_call_def tee_world_def sample_world_def completion_budget_def tee_server_def
      sample_server_def sample_config_def upt_rec)

definition terminated_reply where
  "terminated_reply = terminate_tee_session (tee_world 7) ''sid'' (snd (session_call tee_server (sample_call 6) ''sid''
     (AtProvision sample_tee_contract) session_start))"

lemma terminated_reply_ok: "fst terminated_reply = None"
  by code_simp

lemma terminated_store: "length (ts_store (snd terminated_reply)) = 1"
  by code_simp

lemma attest_after_termination:
  "\<exists>pc st2. session_call tee_server (sample_call 8) ''sid'' (AtAttest 0) (snd terminated_reply) = (Some pc, st2)"
proof -
  have "fst (session_call tee_server (sample_call 8) ''sid'' (AtAttest 0) (snd terminated_reply)) \<noteq> None"
    by code_simp
  then show ?thesis by (metis option.exhaust prod.collapse)
qed

theorem termination_overwritten_witness:
  "\<exists>st2 s. sessions_get (ts_sessions st2) ''sid'' = Some s \<and> ss_status s = Running \<and>
     live_tee st2 (ti_tee_id (ts_store (snd terminated_reply) ! 0)) \<noteq> None"
proof -
  obtain pc st2 where call:
      "session_call tee_server (sample_call 8) ''sid'' (AtAttest 0) (snd terminated_reply) = (Some pc, st2)"
    using attest_after_termination by blast
  have ended: "terminate_tee_session (tee_world 7) ''sid'' (snd (session_call tee_server (sample_call 6) ''sid''
      (AtProvision sample_tee_contract) session_start)) = (None, snd terminated_reply)"
    using terminated_reply_ok unfolding terminated_reply_def by (metis prod.collapse)
  show ?thesis using termination_overwritten [OF ended call] terminated_store by auto
qed

end
