(* ===== verification/Negotiation.thy ===== *)
theory Negotiation
  imports Database "HOL-Library.Char_ord" "HOL-Library.List_Lexorder"
begin

text \<open>
  Participation in a federated-learning session (\<^verbatim>\<open>httpapi/fl_notifications.go\<close>,
  \<^verbatim>\<open>httpapi/fl_negotiation.go\<close>, the queries of \<^verbatim>\<open>db/fl_notifications.go\<close>): notifications and their
  answers, the limit of one decline, the removal of a provider on the second, and the signature
  an acceptance leaves on the session's contract (\<^verbatim>\<open>SignDataProviderParty\<close> in \<^verbatim>\<open>db/contracts.go\<close>).
  Times are instants; \<^theory_text>\<open>Wire\<close> has the correction of their zones.
\<close>

section \<open>Queries\<close>

text \<open>\<^verbatim>\<open>payload->>'kind'\<close> and \<^verbatim>\<open>payload->>'submission_id'\<close> against a value.\<close>

definition is_request :: "string \<Rightarrow> notification \<Rightarrow> bool" where
  "is_request sub n \<longleftrightarrow> jget ''kind'' (nf_payload n) = JStr ''participation_request'' \<and>
     jget ''submission_id'' (nf_payload n) = JStr sub"

definition is_ask :: "string \<Rightarrow> notification \<Rightarrow> bool" where
  "is_ask sub n \<longleftrightarrow>
     (jget ''kind'' (nf_payload n) = JStr ''participation_request'' \<or>
      jget ''kind'' (nf_payload n) = JStr ''participation_update'') \<and>
     jget ''submission_id'' (nf_payload n) = JStr sub"

definition is_decline :: "string \<Rightarrow> string \<Rightarrow> notification \<Rightarrow> bool" where
  "is_decline username sub n \<longleftrightarrow>
     nf_recipient_username n = username \<and> is_ask sub n \<and> nf_response n = Some ''declined''"

definition count_participation_requests :: "world \<Rightarrow> db \<Rightarrow> string \<Rightarrow> string \<Rightarrow> nat result" where
  "count_participation_requests W d username sub =
     db_read W ''CountParticipationRequests'' [username]
       (length (filter (\<lambda>n. nf_recipient_username n = username \<and> is_request sub n) (t_notifications d)))"

definition count_participation_declines :: "world \<Rightarrow> db \<Rightarrow> string \<Rightarrow> string \<Rightarrow> nat result" where
  "count_participation_declines W d username sub =
     db_read W ''CountParticipationDeclines'' [username]
       (length (filter (is_decline username sub) (t_notifications d)))"

definition is_removed :: "db \<Rightarrow> string \<Rightarrow> string \<Rightarrow> bool" where
  "is_removed d sub username \<longleftrightarrow>
     list_ex (\<lambda>p. rp_submission_id p = sub \<and> rp_username p = username) (t_removed d)"

definition remove_provider_row :: "world \<Rightarrow> string \<Rightarrow> string \<Rightarrow> string \<Rightarrow> db \<Rightarrow> bool result \<times> db" where
  "remove_provider_row W sub username reason d =
     (if is_removed d sub username then db_write W ''RemoveProviderFromSession'' [username] False d d
      else db_write W ''RemoveProviderFromSession'' [username] True
        (d\<lparr>t_removed := t_removed d @ [\<lparr>rp_submission_id = sub, rp_username = username,
            rp_reason = reason, rp_removed_at = w_now W\<rparr>]\<rparr>) d)"

definition get_removed_rows :: "world \<Rightarrow> db \<Rightarrow> string \<Rightarrow> removed_provider list result" where
  "get_removed_rows W d sub =
     db_read W ''GetRemovedProviders'' [sub]
       (sort_key rp_removed_at (filter (\<lambda>p. rp_submission_id p = sub) (t_removed d)))"

text \<open>\<^verbatim>\<open>DISTINCT ON (recipient_username) .. ORDER BY recipient_username, created_at DESC\<close>\<close>

definition get_latest_participation_requests :: "world \<Rightarrow> db \<Rightarrow> string \<Rightarrow> notification list result" where
  "get_latest_participation_requests W d sub =
     (let asks = filter (is_request sub) (t_notifications d) in
      db_read W ''GetLatestParticipationRequests'' [sub]
        (List.map_filter (\<lambda>u. latest_by nf_created_at (filter (\<lambda>n. nf_recipient_username n = u) asks))
          (sort (remdups (map nf_recipient_username asks)))))"

definition get_notification_for_recipient ::
  "world \<Rightarrow> db \<Rightarrow> string \<Rightarrow> string \<Rightarrow> notification option result" where
  "get_notification_for_recipient W d nid username =
     db_read W ''GetNotificationForRecipient'' [nid]
       (List.find (\<lambda>n. nf_id n = nid \<and> nf_recipient_username n = username) (t_notifications d))"

definition has_newer_participation_ask :: "world \<Rightarrow> db \<Rightarrow> notification \<Rightarrow> string \<Rightarrow> bool result" where
  "has_newer_participation_ask W d n sub =
     db_read W ''HasNewerParticipationAsk'' [nf_id n]
       (list_ex (\<lambda>m. nf_recipient_username m = nf_recipient_username n \<and> is_ask sub m \<and> nf_id m \<noteq> nf_id n \<and>
          list_ex (\<lambda>k. nf_id k = nf_id n \<and> nf_created_at m > nf_created_at k) (t_notifications d))
        (t_notifications d))"

definition mark_notification_as_read :: "world \<Rightarrow> string \<Rightarrow> string \<Rightarrow> db \<Rightarrow> notification option result \<times> db" where
  "mark_notification_as_read W nid username d =
     (let P = (\<lambda>n. nf_id n = nid \<and> nf_recipient_username n = username);
          f = (\<lambda>n. n\<lparr>nf_read := True, nf_read_at := Some (w_now W)\<rparr>)
      in db_write W ''MarkNotificationAsRead'' [nid] (map_option f (List.find P (t_notifications d)))
        (d\<lparr>t_notifications := update_rows P f (t_notifications d)\<rparr>) d)"

text \<open>\<^verbatim>\<open>ORDER BY created_at DESC LIMIT n\<close>\<close>

definition newest :: "nat \<Rightarrow> notification list \<Rightarrow> notification list" where
  "newest n ns = take n (sort_key (\<lambda>m. - nf_created_at m) ns)"

definition get_notifications_for_user :: "world \<Rightarrow> db \<Rightarrow> string \<Rightarrow> notification list result" where
  "get_notifications_for_user W d username =
     db_read W ''GetNotificationsForUser'' [username]
       (newest 50 (filter (\<lambda>n. nf_recipient_username n = username) (t_notifications d)))"

definition get_notifications_by_sender :: "world \<Rightarrow> db \<Rightarrow> string \<Rightarrow> notification list result" where
  "get_notifications_by_sender W d sender =
     db_read W ''GetNotificationsBySender'' [sender]
       (newest 200 (filter (\<lambda>n. nf_sender_username n = sender) (t_notifications d)))"

text \<open>
  \<^verbatim>\<open>SignDataProviderParty\<close>: the parties of that name on the session's latest contract, signed now
  where they have not signed yet. Both of its statements fail together.
\<close>

definition sign_party_now :: "time \<Rightarrow> string \<Rightarrow> data_party \<Rightarrow> data_party" where
  "sign_party_now now username p =
     (if dp_name p = username \<and> sg_signed_at (dp_signature p) = None
      then set_data_sig ((dp_signature p)\<lparr>sg_signed_at := Some now\<rparr>) p else p)"

definition sign_data_provider_party :: "world \<Rightarrow> string \<Rightarrow> string \<Rightarrow> db \<Rightarrow> bool result \<times> db" where
  "sign_data_provider_party W sid username d =
     (case latest_by cr_updated_at (filter (\<lambda>r. cr_session_id r = sid) (t_contracts d)) of
        None \<Rightarrow> db_write W ''SignDataProviderParty'' [sid, username] False d d
      | Some r \<Rightarrow>
          (case dec_struct dec_contract (cr_contract r) of
             None \<Rightarrow> (Inl ''json: cannot unmarshal contract'', d)
           | Some c \<Rightarrow>
               let c' = with_data_providers (map (sign_party_now (w_now W) username)) c in
               if \<not> list_ex (\<lambda>p. dp_name p = username \<and> sg_signed_at (dp_signature p) = None) (data_providers c)
               then db_write W ''SignDataProviderParty'' [sid, username] False d d
               else if \<not> json_ok (enc_contract c') then
                 (Inl ''json: Time.MarshalJSON: year outside of range [0,9999]'', d)
               else db_write W ''SignDataProviderParty'' [sid, username] True
                 (d\<lparr>t_contracts := update_rows (\<lambda>x. cr_id x = cr_id r)
                     (put_document (enc_contract c') (w_now W)) (t_contracts d)\<rparr>) d))"

section \<open>Payloads\<close>

definition is_session_kind :: "string \<Rightarrow> bool" where
  "is_session_kind k = List.member [''participation_request'', ''participation_update'', ''final_roster''] k"

definition set_field :: "string \<Rightarrow> json \<Rightarrow> (string \<times> json) list \<Rightarrow> (string \<times> json) list" where
  "set_field k v kvs = (k, v) # filter (\<lambda>kv. fst kv \<noteq> k) kvs"

text \<open>An absent payload counts as an empty object.\<close>

definition with_payload_fields :: "json \<Rightarrow> (string \<times> json) list \<Rightarrow> json" where
  "with_payload_fields payload fs =
     (case payload of
        JObj kvs \<Rightarrow> JObj (fold (\<lambda>(k, v). set_field k v) fs kvs)
      | JNull \<Rightarrow> JObj (fold (\<lambda>(k, v). set_field k v) fs [])
      | _ \<Rightarrow> payload)"

definition names_removed :: "string list \<Rightarrow> json \<Rightarrow> bool" where
  "names_removed removed item =
     (case item of
        JObj kvs \<Rightarrow> List.member removed (claim_str ''username'' item)
      | JStr u \<Rightarrow> List.member removed u
      | _ \<Rightarrow> False)"

definition prune_list :: "string list \<Rightarrow> string \<Rightarrow> (string \<times> json) list \<Rightarrow> (string \<times> json) list" where
  "prune_list removed k kvs =
     (case map_of kvs k of
        Some (JArr items) \<Rightarrow> set_field k (JArr (filter (\<lambda>i. \<not> names_removed removed i) items)) kvs
      | _ \<Rightarrow> kvs)"

definition without_removed_providers :: "json \<Rightarrow> string list \<Rightarrow> json" where
  "without_removed_providers payload removed =
     (case payload of
        JObj kvs \<Rightarrow> JObj (fold (prune_list removed)
          [''selected_providers'', ''requested_providers'', ''willing_providers''] kvs)
      | _ \<Rightarrow> payload)"

definition removed_provider_set :: "world \<Rightarrow> db \<Rightarrow> string \<Rightarrow> string list result" where
  "removed_provider_set W d sub = and_then (get_removed_rows W d sub) (\<lambda>rows. Inr (map rp_username rows))"

definition final_warning_text :: string where
  "final_warning_text = map char_of [226 :: nat, 154, 160] @
     '' You declined an earlier request for this session '' @ em_dash @
     '' if you decline again, you will be removed from the session.''"

section \<open>Sending notifications\<close>

record notifications_body =
  nb_recipients :: "(string \<times> string) list"  \<comment> \<open>id and username\<close>
  nb_sender :: string
  nb_message :: string
  nb_payload :: json

definition db_error :: "string \<Rightarrow> http_error" where
  "db_error e = HttpError 500 ''INTERNAL_ERROR'' e"

text \<open>The message and payload for one recipient: the round and the final warning of a request.\<close>

definition notification_for ::
  "world \<Rightarrow> db \<Rightarrow> notifications_body \<Rightarrow> string list \<Rightarrow> string \<Rightarrow> (string \<times> json) response" where
  "notification_for W d b removed username =
     (let kind = claim_str ''kind'' (nb_payload b); sub = claim_str ''submission_id'' (nb_payload b);
          payload = (if removed \<noteq> [] then without_removed_providers (nb_payload b) removed else nb_payload b)
      in if kind = ''participation_request'' \<and> sub \<noteq> '''' then
          and_then (or_fail db_error (count_participation_requests W d username sub)) (\<lambda>prior.
          and_then (or_fail db_error (count_participation_declines W d username sub)) (\<lambda>declines.
          Inr (if declines \<ge> 1 then nb_message b @ '' '' @ final_warning_text else nb_message b,
            with_payload_fields payload [(''round'', JInt (int prior + 1)), (''final_warning'', JBool (declines \<ge> 1))])))
        else Inr (nb_message b, payload))"

fun send_notifications ::
  "world \<Rightarrow> notifications_body \<Rightarrow> string list \<Rightarrow> (string \<times> string) list \<Rightarrow>
   notification list \<times> string list \<Rightarrow> db \<Rightarrow> (notification list \<times> string list) response \<times> db" where
  "send_notifications W b removed [] (sent, skipped) d = (Inr (rev sent, rev skipped), d)"
| "send_notifications W b removed ((rid, username) # rs) (sent, skipped) d =
     (if List.member removed username then send_notifications W b removed rs (sent, username # skipped) d
      else case notification_for W d b removed username of
          Inl e \<Rightarrow> (Inl e, d)
        | Inr (message, payload) \<Rightarrow>
            (case create_notification W rid username (nb_sender b) message payload d of
               (Inl e, d) \<Rightarrow> (Inl (db_error e), d)
             | (Inr n, d) \<Rightarrow> send_notifications W b removed rs (n # sent, skipped) d))"

text \<open>POST /notifications: the notifications created and the removed providers skipped.\<close>

definition post_notifications ::
  "world \<Rightarrow> notifications_body option \<Rightarrow> db \<Rightarrow> (notification list \<times> string list) response \<times> db" where
  "post_notifications W body d =
     (case body of
        None \<Rightarrow> (Inl (HttpError 400 ''INVALID_JSON'' ''Invalid JSON in request body''), d)
      | Some b \<Rightarrow>
          if nb_recipients b = [] then (Inl (HttpError 400 ''MISSING_RECIPIENTS'' ''''), d)
          else let sub = claim_str ''submission_id'' (nb_payload b) in
            case (if sub \<noteq> '''' \<and> is_session_kind (claim_str ''kind'' (nb_payload b))
                then removed_provider_set W d sub else Inr []) of
              Inl e \<Rightarrow> (Inl (db_error e), d)
            | Inr removed \<Rightarrow> send_notifications W b removed (nb_recipients b) ([], []) d)"

section \<open>Removing a provider\<close>

definition provider_ref :: "notification \<Rightarrow> json" where
  "provider_ref n = JObj [(''id'', JStr (nf_recipient_id n)), (''username'', JStr (nf_recipient_username n))]"

definition try_notify :: "world \<Rightarrow> string \<Rightarrow> string \<Rightarrow> string \<Rightarrow> string \<Rightarrow> json \<Rightarrow> db \<Rightarrow> db" where
  "try_notify W rid username sender message payload d =
     snd (create_notification W rid username sender message payload d)"

text \<open>A count that cannot be read is logged and taken as 0.\<close>

definition count_or_zero :: "nat result \<Rightarrow> nat" where
  "count_or_zero r = (case r of Inl e \<Rightarrow> 0 | Inr n \<Rightarrow> n)"

fun send_updates ::
  "world \<Rightarrow> string \<Rightarrow> string \<Rightarrow> string \<Rightarrow> string \<Rightarrow> string \<Rightarrow> json \<Rightarrow> json \<Rightarrow> notification list \<Rightarrow> db \<Rightarrow> db" where
  "send_updates W sub output_owner username owner msg remaining willing [] d = d"
| "send_updates W sub output_owner username owner msg remaining willing (p # ps) d =
     (let u = nf_recipient_username p;
          round = count_or_zero (count_participation_requests W d u sub);
          final = (count_or_zero (count_participation_declines W d u sub) \<ge> 1);
          payload = JObj [(''kind'', JStr ''participation_update''), (''submission_id'', JStr sub),
            (''output_owner_id'', JStr output_owner), (''removed_provider'', JStr username),
            (''requested_providers'', remaining), (''willing_providers'', willing),
            (''round'', JInt (int round)), (''final_warning'', JBool final)]
      in send_updates W sub output_owner username owner msg remaining willing ps
        (try_notify W (nf_recipient_id p) u owner (if final then msg @ '' '' @ final_warning_text else msg) payload d))"

definition removal_messages ::
  "world \<Rightarrow> notification \<Rightarrow> string \<Rightarrow> string \<Rightarrow> string \<Rightarrow> notification list \<Rightarrow> db \<Rightarrow> db" where
  "removal_messages W declined sub output_owner reason remaining d =
     (let username = nf_recipient_username declined; owner = nf_sender_username declined;
          refs = JArr (map provider_ref remaining);
          willing = filter (\<lambda>n. nf_response n = Some ''accepted'') remaining;
          willing_refs = JArr (map provider_ref willing);
          d = try_notify W (if output_owner = '''' then owner else output_owner) owner username
            (username @ '' declined to participate a second time and has been removed from session '' @ sub @ ''.'' @
             (if reason \<noteq> '''' then '' Reason: '' @ reason else ''''))
            (JObj [(''kind'', JStr ''provider_removed''), (''submission_id'', JStr sub),
              (''removed_provider'', JStr username), (''reason'', JStr reason),
              (''remaining_providers'', refs), (''willing_providers'', willing_refs)]) d;
          d = try_notify W (nf_recipient_id declined) username owner
            (''You declined to participate a second time, so you have been removed from session '' @ sub @ ''.'')
            (JObj [(''kind'', JStr ''removed_from_session''), (''submission_id'', JStr sub),
              (''output_owner_id'', JStr output_owner), (''removed_provider'', JStr username)]) d;
          msg = username @ '' has been removed from session '' @ sub @ ''. Updated list: '' @
            decimal (length remaining) @ '' provider(s) remaining, '' @ decimal (length willing) @
            '' willing. Are you still willing to take part?''
      in send_updates W sub output_owner username owner msg refs willing_refs remaining d)"

definition remove_provider_from_session ::
  "world \<Rightarrow> notification \<Rightarrow> string \<Rightarrow> string \<Rightarrow> string \<Rightarrow> db \<Rightarrow> bool result \<times> db" where
  "remove_provider_from_session W declined sub output_owner reason d =
     (let username = nf_recipient_username declined in
      case remove_provider_row W sub username reason d of
        (Inl e, d) \<Rightarrow> (Inl e, d)
      | (Inr False, d) \<Rightarrow> (Inr True, d)
      | (Inr True, d) \<Rightarrow>
          let removed = (case removed_provider_set W d sub of Inl e \<Rightarrow> [username] | Inr us \<Rightarrow> us);
              latest = (case get_latest_participation_requests W d sub of Inl e \<Rightarrow> [] | Inr ns \<Rightarrow> ns);
              remaining = filter (\<lambda>n. \<not> List.member removed (nf_recipient_username n)) latest
          in (Inr True, removal_messages W declined sub output_owner reason remaining d))"

section \<open>Answering\<close>

record respond_body =
  rb_username :: string
  rb_response :: string
  rb_message :: string

text \<open>The refusals that rest on the notification itself; a query that fails refuses nothing.\<close>

definition stale_answer :: "world \<Rightarrow> db \<Rightarrow> string \<Rightarrow> string \<Rightarrow> http_error option" where
  "stale_answer W d nid username =
     (case get_notification_for_recipient W d nid username of
        Inr (Some n) \<Rightarrow>
          let kind = claim_str ''kind'' (nf_payload n); sub = claim_str ''submission_id'' (nf_payload n) in
          if sub \<noteq> '''' \<and> is_session_kind kind \<and>
             (case removed_provider_set W d sub of Inl e \<Rightarrow> False | Inr us \<Rightarrow> List.member us username)
          then Some (HttpError 409 ''REMOVED_FROM_SESSION'' ''you have been removed from this session'')
          else if sub \<noteq> '''' \<and> (kind = ''participation_request'' \<or> kind = ''participation_update'') \<and>
             has_newer_participation_ask W d n sub = Inr True
          then Some (HttpError 409 ''SUPERSEDED''
            (''a newer participation request has replaced this one '' @ em_dash @ '' answer the latest one''))
          else None
      | _ \<Rightarrow> None)"

definition respond_checks :: "world \<Rightarrow> db \<Rightarrow> string \<Rightarrow> respond_body option \<Rightarrow> respond_body response" where
  "respond_checks W d nid body =
     and_then (some_or (HttpError 400 ''INVALID_JSON'' ''Invalid JSON in request body'') body) (\<lambda>b.
     require (rb_username b \<noteq> '''') (HttpError 400 ''MISSING_USERNAME'' '''') (
     require (rb_response b = ''accepted'' \<or> rb_response b = ''declined'')
       (HttpError 400 ''INVALID_RESPONSE'' (''response must be 'accepted' or 'declined'' @ [CHR 0x27])) (
     none_or (stale_answer W d nid (rb_username b)) (Inr b))))"

text \<open>A decline of an ask is the second one when the provider's declines, this one included, are two.\<close>

definition is_second_decline :: "world \<Rightarrow> db \<Rightarrow> respond_body \<Rightarrow> json \<Rightarrow> bool" where
  "is_second_decline W d b payload \<longleftrightarrow>
     (let kind = claim_str ''kind'' payload; sub = claim_str ''submission_id'' payload in
      rb_response b = ''declined'' \<and> sub \<noteq> '''' \<and>
      (kind = ''participation_request'' \<or> kind = ''participation_update'') \<and>
      (case count_participation_declines W d (rb_username b) sub of Inl e \<Rightarrow> False | Inr n \<Rightarrow> n \<ge> 2))"

text \<open>POST /notifications/{id}/respond: the notification and, on a removal, whether it is removed.\<close>

definition respond_to_notification ::
  "world \<Rightarrow> string \<Rightarrow> respond_body option \<Rightarrow> db \<Rightarrow> (notification \<times> bool option) response \<times> db" where
  "respond_to_notification W nid body d =
     (case respond_checks W d nid body of
        Inl e \<Rightarrow> (Inl e, d)
      | Inr b \<Rightarrow>
          (case respond_to_notification_row W nid (rb_username b) (rb_response b) (rb_message b) d of
             (Inl e, d) \<Rightarrow> (Inl (HttpError 500 ''INTERNAL_ERROR'' ''''), d)
           | (Inr None, d) \<Rightarrow> (Inl (HttpError 404 ''NOT_FOUND'' ''''), d)
           | (Inr (Some n), d) \<Rightarrow>
               let sub = claim_str ''submission_id'' (nf_payload n) in
               if is_second_decline W d b (nf_payload n) then
                 (case remove_provider_from_session W n sub (claim_str ''output_owner_id'' (nf_payload n))
                     (rb_message b) d of
                    (Inl e, d) \<Rightarrow> (Inl (db_error e), d)
                  | (Inr gone, d) \<Rightarrow> (Inr (n, Some gone), d))
               else if rb_response b = ''accepted'' \<and> sub \<noteq> '''' then
                 (Inr (n, None), snd (sign_data_provider_party W sub (rb_username b) d))
               else (Inr (n, None), d)))"

section \<open>The other handlers\<close>

definition get_notifications :: "world \<Rightarrow> db \<Rightarrow> string \<Rightarrow> notification list response" where
  "get_notifications W d username =
     or_fail (\<lambda>e. HttpError 500 ''INTERNAL_ERROR'' '''') (get_notifications_for_user W d username)"

definition get_sent_notifications :: "world \<Rightarrow> db \<Rightarrow> string \<Rightarrow> notification list response" where
  "get_sent_notifications W d sender =
     or_fail (\<lambda>e. HttpError 500 ''INTERNAL_ERROR'' '''') (get_notifications_by_sender W d sender)"

definition get_removed_providers :: "world \<Rightarrow> db \<Rightarrow> string \<Rightarrow> removed_provider list response" where
  "get_removed_providers W d sub =
     or_fail (\<lambda>e. HttpError 500 ''INTERNAL_ERROR'' '''') (get_removed_rows W d sub)"

definition patch_notification_read ::
  "world \<Rightarrow> string \<Rightarrow> string option \<Rightarrow> db \<Rightarrow> notification response \<times> db" where
  "patch_notification_read W nid username d =
     (case username of
        None \<Rightarrow> (Inl (HttpError 400 ''INVALID_JSON'' ''Invalid JSON in request body''), d)
      | Some u \<Rightarrow>
          (case mark_notification_as_read W nid u d of
             (Inl e, d) \<Rightarrow> (Inl (HttpError 500 ''INTERNAL_ERROR'' ''''), d)
           | (Inr None, d) \<Rightarrow> (Inl (HttpError 404 ''NOT_FOUND'' ''''), d)
           | (Inr (Some n), d) \<Rightarrow> (Inr n, d)))"

end
