(* ===== verification/Negotiation_Facts.thy ===== *)
theory Negotiation_Facts
  imports Negotiation Sample
begin

text \<open>
  What a provider's removal from a session means: the asks addressed to them are frozen, and they
  are removed exactly by their second decline.
\<close>

section \<open>Payloads\<close>

lemma map_of_filter_other: "k \<noteq> k' \<Longrightarrow> map_of (filter (\<lambda>kv. fst kv \<noteq> k') kvs) k = map_of kvs k"
  by (induction kvs) auto

lemma jget_set_field: "jget k (JObj (set_field k' v kvs)) = (if k = k' then v else jget k (JObj kvs))"
  by (simp add: jget_def set_field_def map_of_filter_other)

lemma jget_prune_list: "k \<noteq> k' \<Longrightarrow> jget k (JObj (prune_list us k' kvs)) = jget k (JObj kvs)"
  by (simp add: prune_list_def jget_set_field split: option.split json.split)

lemma without_removed_providers_claims:
  assumes "k \<notin> {''selected_providers'', ''requested_providers'', ''willing_providers''}"
  shows "claim_str k (without_removed_providers p us) = claim_str k p"
  using assms by (cases p) (simp_all add: without_removed_providers_def claim_str_def jget_prune_list)

lemma with_payload_fields_claims:
  assumes "k \<notin> {''round'', ''final_warning''}"
  shows "claim_str k (with_payload_fields p [(''round'', r), (''final_warning'', w)]) = claim_str k p"
proof -
  have "jget k (JObj []) = JNull" by (simp add: jget_def)
  then show ?thesis
    using assms by (cases p) (simp_all add: with_payload_fields_def claim_str_def jget_set_field, simp add: jget_def)
qed

lemma notification_for_claims:
  assumes "notification_for W d b removed u = Inr (m, p)"
  shows "claim_str ''kind'' p = claim_str ''kind'' (nb_payload b) \<and>
    claim_str ''submission_id'' p = claim_str ''submission_id'' (nb_payload b)"
  using assms unfolding notification_for_def Let_def
  by (auto simp: with_payload_fields_claims without_removed_providers_claims split: if_splits)

section \<open>Frozen asks\<close>

definition session_ask :: "string \<Rightarrow> string \<Rightarrow> notification \<Rightarrow> bool" where
  "session_ask sub u n \<longleftrightarrow> nf_recipient_username n = u \<and>
     claim_str ''submission_id'' (nf_payload n) = sub \<and> is_session_kind (claim_str ''kind'' (nf_payload n))"

text \<open>The asks addressed to a provider with their answers.\<close>

definition asks_of :: "string \<Rightarrow> string \<Rightarrow> db \<Rightarrow> (string \<times> string option) list" where
  "asks_of sub u d = map (\<lambda>n. (nf_id n, nf_response n)) (filter (session_ask sub u) (t_notifications d))"

definition notifications_keyed :: "db \<Rightarrow> bool" where
  "notifications_keyed d \<longleftrightarrow> distinct (map nf_id (t_notifications d))"

text \<open>What a step keeps for a removed provider.\<close>

definition keeps_removed :: "string \<Rightarrow> string \<Rightarrow> db \<Rightarrow> db \<Rightarrow> bool" where
  "keeps_removed sub u d d' \<longleftrightarrow> asks_of sub u d' = asks_of sub u d \<and>
     (notifications_keyed d \<longrightarrow> notifications_keyed d') \<and> (is_removed d sub u \<longrightarrow> is_removed d' sub u)"

lemma keeps_removed_refl [simp]: "keeps_removed sub u d d"
  by (simp add: keeps_removed_def)

text \<open>A step that also removes nobody.\<close>

definition silent :: "string \<Rightarrow> string \<Rightarrow> db \<Rightarrow> db \<Rightarrow> bool" where
  "silent sub u d d' \<longleftrightarrow> keeps_removed sub u d d' \<and> t_removed d' = t_removed d"

lemma silent_refl [simp]: "silent sub u d d"
  by (simp add: silent_def)

lemma keeps_removed_trans: "keeps_removed sub u a b \<Longrightarrow> keeps_removed sub u b c \<Longrightarrow> keeps_removed sub u a c"
  by (simp add: keeps_removed_def)

lemma silent_trans: "silent sub u a b \<Longrightarrow> silent sub u b c \<Longrightarrow> silent sub u a c"
  using keeps_removed_trans by (auto simp: silent_def)

lemma claim_str_null [simp]: "claim_str k (JObj []) = claim_str k JNull"
  by (simp add: claim_str_def jget_def)

lemma create_notification_cases:
  assumes "create_notification W rid username sender msg payload d = (r, d')"
  obtains "d' = d"
  | n where "d' = d\<lparr>t_notifications := t_notifications d @ [n]\<rparr>" and "nf_recipient_username n = username"
      and "\<forall>k. claim_str k (nf_payload n) = claim_str k payload" and "\<forall>m \<in> set (t_notifications d). nf_id m \<noteq> nf_id n"
      and "r = Inr n" and "nf_response n = None"
proof -
  have "d' = d \<or> (\<exists>n. d' = d\<lparr>t_notifications := t_notifications d @ [n]\<rparr> \<and> nf_recipient_username n = username \<and>
      (\<forall>k. claim_str k (nf_payload n) = claim_str k payload) \<and> (\<forall>m \<in> set (t_notifications d). nf_id m \<noteq> nf_id n) \<and>
      r = Inr n \<and> nf_response n = None)"
    using assms unfolding create_notification_def Let_def
    by (cases "payload = JNull") (auto simp: db_write_def list_ex_iff split: option.splits if_splits)
  then show thesis using that by blast
qed

lemma create_keeps:
  assumes "create_notification W rid username sender msg payload d = (r, d')"
    and "\<not> (username = u \<and> claim_str ''submission_id'' payload = sub \<and> is_session_kind (claim_str ''kind'' payload))"
  shows "silent sub u d d'"
  using assms(1)
proof (cases rule: create_notification_cases)
  case (2 n)
  then have "\<not> session_ask sub u n" using assms(2) by (simp add: session_ask_def)
  with 2 show ?thesis by (auto simp: silent_def keeps_removed_def asks_of_def notifications_keyed_def is_removed_def)
qed simp

lemma try_notify_keeps:
  assumes "\<not> (username = u \<and> claim_str ''submission_id'' payload = sub \<and> is_session_kind (claim_str ''kind'' payload))"
  shows "silent sub u d (try_notify W rid username sender msg payload d)"
  unfolding try_notify_def using create_keeps [OF _ assms, of W rid sender msg d] by (metis prod.collapse)

lemma send_notifications_keeps:
  assumes "claim_str ''submission_id'' (nb_payload b) = sub \<Longrightarrow> is_session_kind (claim_str ''kind'' (nb_payload b)) \<Longrightarrow>
      List.member removed u"
  shows "send_notifications W b removed rs acc d = (r, d') \<Longrightarrow> silent sub u d d'"
  using assms
proof (induction W b removed rs acc d arbitrary: r d' rule: send_notifications.induct)
  case (2 W b removed rid username rs sent skipped d)
  show ?case
  proof (cases "List.member removed username")
    case True
    then show ?thesis using 2 by simp
  next
    case False
    show ?thesis
    proof (cases "notification_for W d b removed username")
      case (Inl e)
      then show ?thesis using False 2 by simp
    next
      case note_mp: (Inr mp)
      obtain m p where mp: "mp = (m, p)" by fastforce
      obtain r1 d1 where c: "create_notification W rid username (nb_sender b) m p d = (r1, d1)" by fastforce
      have "\<not> (username = u \<and> claim_str ''submission_id'' p = sub \<and> is_session_kind (claim_str ''kind'' p))"
        using notification_for_claims note_mp mp 2(4) False by metis
      from create_keeps [OF c this] have k: "silent sub u d d1" .
      show ?thesis
      proof (cases r1)
        case (Inl e)
        then show ?thesis using False note_mp mp c k 2(3) by simp
      next
        case (Inr n)
        have "send_notifications W b removed rs (n # sent, skipped) d1 = (r, d')"
          using False note_mp mp c Inr 2(3) by simp
        from 2(2) [OF False note_mp mp [symmetric] c [symmetric] Inr this 2(4)]
        show ?thesis using silent_trans [OF k] by simp
      qed
    qed
  qed
qed auto

lemma removed_provider_set_member:
  assumes "removed_provider_set W d sub = Inr us"
  shows "List.member us u \<longleftrightarrow> is_removed d sub u"
  using assms by (auto simp: removed_provider_set_def get_removed_rows_def is_removed_def list_ex_iff image_iff)

lemma post_notifications_keeps:
  assumes "post_notifications W body d = (r, d')" and "is_removed d sub u" and "sub \<noteq> ''''"
  shows "keeps_removed sub u d d'"
proof (cases body)
  case None
  then show ?thesis using assms(1) by (simp add: post_notifications_def)
next
  case (Some b)
  let ?S = "if claim_str ''submission_id'' (nb_payload b) \<noteq> '''' \<and> is_session_kind (claim_str ''kind'' (nb_payload b))
      then removed_provider_set W d (claim_str ''submission_id'' (nb_payload b)) else Inr []"
  show ?thesis
  proof (cases ?S)
    case (Inl e)
    then show ?thesis using assms(1) Some by (simp add: post_notifications_def Let_def split: if_splits)
  next
    case (Inr removed)
    have "List.member removed u"
      if "claim_str ''submission_id'' (nb_payload b) = sub" "is_session_kind (claim_str ''kind'' (nb_payload b))"
      using that Inr assms(2,3) removed_provider_set_member by simp
    then show ?thesis
      using assms(1) Some Inr send_notifications_keeps [of b sub removed u W "nb_recipients b" "([], [])" d r d']
      by (auto simp: post_notifications_def Let_def silent_def split: if_splits)
  qed
qed

section \<open>Answering and removing\<close>

lemma send_updates_keeps:
  assumes "\<forall>p \<in> set ps. \<not> (nf_recipient_username p = u \<and> sub' = sub)"
  shows "silent sub u d (send_updates W sub' oo un owner msg rem wil ps d)"
  using assms
proof (induction ps arbitrary: d)
  case (Cons p ps)
  let ?r = "count_or_zero (count_participation_requests W d (nf_recipient_username p) sub')"
  let ?f = "count_or_zero (count_participation_declines W d (nf_recipient_username p) sub') \<ge> 1"
  let ?pl = "JObj [(''kind'', JStr ''participation_update''), (''submission_id'', JStr sub'),
            (''output_owner_id'', JStr oo), (''removed_provider'', JStr un),
            (''requested_providers'', rem), (''willing_providers'', wil),
            (''round'', JInt (int ?r)), (''final_warning'', JBool ?f)]"
  have "\<not> (nf_recipient_username p = u \<and> claim_str ''submission_id'' ?pl = sub \<and> is_session_kind (claim_str ''kind'' ?pl))"
    using Cons.prems by (auto simp: claim_str_def jget_def)
  from silent_trans [OF try_notify_keeps [OF this] Cons.IH] Cons.prems show ?case
    unfolding send_updates.simps Let_def by simp
qed simp

lemma removal_messages_keeps:
  assumes "\<forall>p \<in> set remaining. \<not> (nf_recipient_username p = u \<and> sub' = sub)"
  shows "silent sub u d (removal_messages W n sub' oo reason remaining d)"
proof -
  have told: "silent sub u d (try_notify W rid un sender m (JObj ((''kind'', JStr k) # kvs)) d)"
    if "\<not> is_session_kind k" for rid un sender m k kvs d
    by (rule try_notify_keeps) (simp add: that claim_str_def jget_def)
  have "\<not> is_session_kind ''provider_removed''" "\<not> is_session_kind ''removed_from_session''"
    by (simp_all add: is_session_kind_def)
  then show ?thesis
    unfolding removal_messages_def Let_def
    by (intro silent_trans [OF told silent_trans [OF told send_updates_keeps [OF assms]]])
qed

lemma remove_row_cases:
  assumes "remove_provider_row W sub un reason d = (r, d')"
  shows "keeps_removed s u d d' \<and> (r = Inr False \<longrightarrow> d' = d \<and> is_removed d sub un) \<and>
    (r = Inr True \<longrightarrow> is_removed d' sub un \<and> (\<forall>s' v. is_removed d' s' v \<longleftrightarrow> is_removed d s' v \<or> s' = sub \<and> v = un)) \<and>
    (isl r \<longrightarrow> d' = d)"
  using assms by (auto simp: remove_provider_row_def db_write_def keeps_removed_def asks_of_def
      notifications_keyed_def is_removed_def split: if_splits option.splits)

lemma removed_silent: "silent sub u d d' \<Longrightarrow> is_removed d' s v = is_removed d s v"
  by (simp add: silent_def is_removed_def)

lemma remove_provider_facts:
  assumes "remove_provider_from_session W n sub' oo reason d = (r, d')"
  shows "(\<exists>gone. r = Inr gone) \<longrightarrow> is_removed d' sub' (nf_recipient_username n) \<and>
      (\<forall>s v. is_removed d' s v \<longleftrightarrow> is_removed d s v \<or> s = sub' \<and> v = nf_recipient_username n)"
    and "is_removed d sub u \<Longrightarrow> w_fault W (Db ''GetRemovedProviders'' [sub]) = None \<Longrightarrow> keeps_removed sub u d d'"
proof -
  let ?un = "nf_recipient_username n"
  obtain r1 d1 where row: "remove_provider_row W sub' ?un reason d = (r1, d1)" by fastforce
  note k = remove_row_cases [OF row]
  let ?removed = "case removed_provider_set W d1 sub' of Inl e \<Rightarrow> [?un] | Inr us \<Rightarrow> us"
  let ?latest = "case get_latest_participation_requests W d1 sub' of Inl e \<Rightarrow> [] | Inr ns \<Rightarrow> ns"
  let ?rem = "filter (\<lambda>n. \<not> List.member ?removed (nf_recipient_username n)) ?latest"
  let ?d2 = "removal_messages W n sub' oo reason ?rem d1"
  have d': "d' = (if r1 = Inr True then ?d2 else d1)" "isl r \<longleftrightarrow> isl r1"
    using assms row by (auto simp: remove_provider_from_session_def Let_def split: sum.splits bool.splits)
  have told: "silent s u d1 ?d2" if "s = sub' \<Longrightarrow> List.member ?removed u" for s u
    by (rule removal_messages_keeps) (use that in auto)
  have other: "silent (sub' @ ''-'') u d1 ?d2" for u
    by (rule told) simp
  show "(\<exists>gone. r = Inr gone) \<longrightarrow> is_removed d' sub' ?un \<and>
      (\<forall>s v. is_removed d' s v \<longleftrightarrow> is_removed d s v \<or> s = sub' \<and> v = ?un)"
  proof
    assume "\<exists>gone. r = Inr gone"
    then have "\<not> isl r1" using d'(2) by auto
    then consider "r1 = Inr True" | "r1 = Inr False" by (cases r1) auto
    then show "is_removed d' sub' ?un \<and> (\<forall>s v. is_removed d' s v \<longleftrightarrow> is_removed d s v \<or> s = sub' \<and> v = ?un)"
    proof cases
      case 1
      then show ?thesis using k d'(1) removed_silent [OF other] by simp
    next
      case 2
      then show ?thesis using k d'(1) by auto
    qed
  qed
  show "keeps_removed sub u d d'" if u: "is_removed d sub u" "w_fault W (Db ''GetRemovedProviders'' [sub]) = None"
  proof (cases "r1 = Inr True")
    case True
    have "List.member ?removed u" if eq: "sub = sub'"
    proof -
      have "is_removed d1 sub' u" using k u(1) eq by (simp add: keeps_removed_def)
      moreover obtain us where "removed_provider_set W d1 sub' = Inr us"
        using u(2) unfolding eq by (auto simp: removed_provider_set_def get_removed_rows_def db_read_def)
      ultimately show ?thesis using removed_provider_set_member by simp
    qed
    from told [of sub u, OF this] have "keeps_removed sub u d1 d'" using True d'(1) by (simp add: silent_def)
    with k show ?thesis using keeps_removed_trans by blast
  next
    case False
    then show ?thesis using k d'(1) by simp
  qed
qed

lemma answer_keeps:
  assumes "respond_to_notification_row W nid un resp msg d = (r, d')" and "notifications_keyed d"
    and "\<And>n. List.find (\<lambda>n. nf_id n = nid \<and> nf_recipient_username n = un) (t_notifications d) = Some n \<Longrightarrow>
      \<not> session_ask sub u n"
  shows "keeps_removed sub u d d'"
proof -
  let ?P = "\<lambda>n. nf_id n = nid \<and> nf_recipient_username n = un"
  have none: "\<not> session_ask sub u n" if n: "n \<in> set (t_notifications d)" "?P n" for n
  proof -
    obtain m where m: "List.find ?P (t_notifications d) = Some m" using find_exists [OF n(1), of ?P] n(2) by auto
    then have "m \<in> set (t_notifications d)" "nf_id m = nf_id n" using find_Some [OF m] that by auto
    then have "m = n" using assms(2) that(1) by (simp add: notifications_keyed_def inj_on_def distinct_map)
    with assms(3) [OF m] show ?thesis by simp
  qed
  have "asks_of sub u (d\<lparr>t_notifications := update_rows ?P (answer_notification resp msg (w_now W)) (t_notifications d)\<rparr>) =
      asks_of sub u d"
    unfolding asks_of_def using none
    by (simp,
      subst filter_update_rows_other) (simp_all add: answer_notification_def session_ask_def)
  moreover have "map nf_id (update_rows ?P (answer_notification resp msg (w_now W)) (t_notifications d)) = map nf_id (t_notifications d)"
    by (rule map_update_rows) (simp add: answer_notification_def)
  ultimately show ?thesis
    using assms(1) by (auto simp: respond_to_notification_row_def Let_def db_write_def keeps_removed_def
        notifications_keyed_def is_removed_def split: option.splits)
qed

lemma respond_checks_Inr:
  assumes "respond_checks W d nid body = Inr b"
  shows "body = Some b \<and> stale_answer W d nid (rb_username b) = None \<and>
    (rb_response b = ''accepted'' \<or> rb_response b = ''declined'')"
  using assms unfolding respond_checks_def by (simp only: early_return) auto

lemma sign_data_provider_party_frame [simp]:
  "t_notifications (snd (sign_data_provider_party W sid un d)) = t_notifications d"
  "t_removed (snd (sign_data_provider_party W sid un d)) = t_removed d"
  by (simp_all add: sign_data_provider_party_def db_write_def Let_def split: option.split)

lemma answered_row:
  assumes "respond_to_notification_row W nid un resp msg d = (Inr (Some n), d')"
  shows "nf_recipient_username n = un \<and> t_removed d' = t_removed d"
proof -
  obtain m where "List.find (\<lambda>n. nf_id n = nid \<and> nf_recipient_username n = un) (t_notifications d) = Some m"
      "n = answer_notification resp msg (w_now W) m"
    using assms by (auto simp: respond_to_notification_row_def Let_def db_write_def split: option.splits)
  then show ?thesis using assms find_Some
    by (fastforce simp: answer_notification_def respond_to_notification_row_def Let_def db_write_def split: option.splits)
qed

lemma respond_cases:
  assumes "respond_to_notification W nid body d = (r, d')"
  obtains (refused) "d' = d" and "isl r"
  | (answered) b n d1 where "respond_checks W d nid body = Inr b"
      and "respond_to_notification_row W nid (rb_username b) (rb_response b) (rb_message b) d = (Inr (Some n), d1)"
      and "\<not> is_second_decline W d1 b (nf_payload n)" and "r = Inr (n, None)"
      and "t_notifications d' = t_notifications d1" and "t_removed d' = t_removed d1"
  | (second) b n d1 r2 where "respond_checks W d nid body = Inr b"
      and "respond_to_notification_row W nid (rb_username b) (rb_response b) (rb_message b) d = (Inr (Some n), d1)"
      and "is_second_decline W d1 b (nf_payload n)"
      and "remove_provider_from_session W n (claim_str ''submission_id'' (nf_payload n))
        (claim_str ''output_owner_id'' (nf_payload n)) (rb_message b) d1 = (r2, d')"
      and "isl r \<longleftrightarrow> isl r2"
proof (cases "respond_checks W d nid body")
  case (Inl e)
  then have "d' = d" "isl r" using assms by (auto simp: respond_to_notification_def)
  then show thesis by (rule refused)
next
  case chk: (Inr b)
  obtain q d1 where row: "respond_to_notification_row W nid (rb_username b) (rb_response b) (rb_message b) d = (q, d1)"
    by fastforce
  have same: "d1 = d" if "\<forall>n. q \<noteq> Inr (Some n)"
  proof -
    have "update_rows (\<lambda>n. nf_id n = nid \<and> nf_recipient_username n = rb_username b) f (t_notifications d) = t_notifications d"
      if "List.find (\<lambda>n. nf_id n = nid \<and> nf_recipient_username n = rb_username b) (t_notifications d) = None" for f
      using that by (intro update_rows_id) (auto simp: find_None_iff)
    then show ?thesis using row that
      by (cases "List.find (\<lambda>n. nf_id n = nid \<and> nf_recipient_username n = rb_username b) (t_notifications d)")
        (auto simp: respond_to_notification_row_def Let_def db_write_def split: option.splits)
  qed
  consider "\<forall>n. q \<noteq> Inr (Some n)" | n where "q = Inr (Some n)" by blast
  then show thesis
  proof cases
    case 1
    have "d' = d" "isl r" using assms chk row same 1
      by (auto simp: respond_to_notification_def split: sum.splits option.splits)
    then show thesis by (rule refused)
  next
    case (2 n)
    show thesis
    proof (cases "is_second_decline W d1 b (nf_payload n)")
      case True
      obtain r2 d2 where rm: "remove_provider_from_session W n (claim_str ''submission_id'' (nf_payload n))
        (claim_str ''output_owner_id'' (nf_payload n)) (rb_message b) d1 = (r2, d2)" by fastforce
      have "d2 = d'" "isl r \<longleftrightarrow> isl r2"
        using assms chk row 2 True rm by (auto simp: respond_to_notification_def Let_def split: sum.splits)
      then show thesis using second [OF chk _ True] row 2 rm by simp
    next
      case False
      then have "r = Inr (n, None)" "t_notifications d' = t_notifications d1" "t_removed d' = t_removed d1"
        using assms chk row 2 by (auto simp: respond_to_notification_def Let_def split: if_splits)
      then show thesis using answered [OF chk _ False] row 2 by simp
    qed
  qed
qed

lemma stale_answer_None:
  assumes "stale_answer W d nid un = None" and "is_removed d sub un" and "sub \<noteq> ''''"
    and "w_fault W (Db ''GetRemovedProviders'' [sub]) = None"
    and "w_fault W (Db ''GetNotificationForRecipient'' [nid]) = None"
    and "List.find (\<lambda>n. nf_id n = nid \<and> nf_recipient_username n = un) (t_notifications d) = Some n"
  shows "\<not> session_ask sub un n"
proof
  assume ask: "session_ask sub un n"
  obtain us where us: "removed_provider_set W d sub = Inr us"
    using assms(4) by (auto simp: removed_provider_set_def get_removed_rows_def db_read_def)
  have "get_notification_for_recipient W d nid un = Inr (Some n)"
    using assms(5,6) by (simp add: get_notification_for_recipient_def)
  moreover have "List.member us un" using removed_provider_set_member [OF us] assms(2) by simp
  ultimately show False using assms(1,3) ask us by (simp add: stale_answer_def session_ask_def Let_def)
qed

lemma respond_keeps:
  assumes "respond_to_notification W nid body d = (r, d')" and "notifications_keyed d"
    and "is_removed d sub u" and "sub \<noteq> ''''" and "w_fault W (Db ''GetRemovedProviders'' [sub]) = None"
    and "w_fault W (Db ''GetNotificationForRecipient'' [nid]) = None"
  shows "keeps_removed sub u d d'"
proof -
  have row: "keeps_removed sub u d d1"
    if "respond_checks W d nid body = Inr b"
      "respond_to_notification_row W nid (rb_username b) (rb_response b) (rb_message b) d = (Inr (Some n), d1)" for b n d1
  proof (rule answer_keeps [OF that(2) assms(2)])
    fix m assume m: "List.find (\<lambda>n. nf_id n = nid \<and> nf_recipient_username n = rb_username b) (t_notifications d) = Some m"
    show "\<not> session_ask sub u m"
    proof (cases "rb_username b = u")
      case True
      then show ?thesis using stale_answer_None [of W d nid u sub m] respond_checks_Inr [OF that(1)] assms m by simp
    next
      case False
      then show ?thesis using find_Some [OF m] by (simp add: session_ask_def)
    qed
  qed
  from assms(1) show ?thesis
  proof (cases rule: respond_cases)
    case (answered b n d1)
    from row [OF answered(1,2)] answered(5,6) show ?thesis
      by (simp add: keeps_removed_def asks_of_def notifications_keyed_def is_removed_def)
  next
    case (second b n d1 r2)
    have k: "keeps_removed sub u d d1" by (rule row [OF second(1,2)])
    then have "is_removed d1 sub u" using assms(3) by (simp add: keeps_removed_def)
    from remove_provider_facts(2) [OF second(4) this assms(5)] k keeps_removed_trans show ?thesis by blast
  qed simp
qed

section \<open>Sessions over time\<close>

text \<open>
  The requests that touch notifications, interleaved in any order. Creating notifications may fail
  anywhere; the two reads a refusal rests on answer.
\<close>

inductive negotiates :: "db \<Rightarrow> db \<Rightarrow> bool" where
  post: "post_notifications W body d = (r, d') \<Longrightarrow> negotiates d d'"
| respond: "respond_to_notification W nid body d = (r, d') \<Longrightarrow>
    (\<forall>sub. w_fault W (Db ''GetRemovedProviders'' [sub]) = None) \<Longrightarrow>
    w_fault W (Db ''GetNotificationForRecipient'' [nid]) = None \<Longrightarrow> negotiates d d'"
| read: "patch_notification_read W nid username d = (r, d') \<Longrightarrow> negotiates d d'"

lemma patch_read_keeps:
  assumes "patch_notification_read W nid username d = (r, d')"
  shows "keeps_removed sub u d d'"
proof -
  have upd: "keeps_removed sub u d (d\<lparr>t_notifications := update_rows P (\<lambda>n. n\<lparr>nf_read := True, nf_read_at := Some t\<rparr>)
      (t_notifications d)\<rparr>)" for P t
  proof -
    have "filter (session_ask sub u) (update_rows P f ns) = update_rows P f (filter (session_ask sub u) ns)"
      if "\<And>n. session_ask sub u (f n) = session_ask sub u n" for f :: "notification \<Rightarrow> notification" and ns
      by (induction ns) (simp_all add: that)
    then show ?thesis
      by (simp add: keeps_removed_def asks_of_def notifications_keyed_def is_removed_def session_ask_def map_update_rows)
  qed
  show ?thesis using assms upd
    by (auto simp: patch_notification_read_def mark_notification_as_read_def Let_def db_write_def
        split: option.splits sum.splits)
qed

text \<open>
  C27. Once a provider is removed from a session, no sequence of posting, answering and reading
  notifications sends them another ask of that session (a participation request, an updated list or
  a final roster), changes an answer they gave to one, or takes them off the list of removed ones;
  posts may fail anywhere, while the two queries an answer is checked with have to succeed (the code
  lets the answer through when one fails). Other notices of the session are not covered: the answer
  to the notice of the removal itself is taken (\<open>removed_may_accept_notice\<close>), and a contract that
  still lists the provider is sent to them for signing.
\<close>

theorem removed_asks_frozen:
  assumes "negotiates\<^sup>*\<^sup>* d d'" and "is_removed d sub u" and "sub \<noteq> ''''" and "notifications_keyed d"
  shows "asks_of sub u d' = asks_of sub u d \<and> is_removed d' sub u"
proof -
  have "keeps_removed sub u d d' \<and> is_removed d' sub u \<and> notifications_keyed d'"
    using assms(1)
  proof (induction rule: rtranclp_induct)
    case base
    show ?case using assms(2,4) by simp
  next
    case (step d1 d2)
    have "keeps_removed sub u d1 d2"
      using step.hyps(2) step.IH assms(3) post_notifications_keeps respond_keeps patch_read_keeps
      by (cases rule: negotiates.cases) metis+
    then show ?case using step.IH keeps_removed_trans by (auto simp: keeps_removed_def)
  qed
  then show ?thesis by (simp add: keeps_removed_def)
qed

text \<open>
  The notice that tells a provider of their removal names the session and can be answered: accepting
  it marks their party on the session's contract as signed, as accepting an ask does.
\<close>

theorem removed_may_accept_notice:
  assumes "List.find (\<lambda>n. nf_id n = nid \<and> nf_recipient_username n = u) (t_notifications d) = Some n"
    and "claim_str ''kind'' (nf_payload n) = ''removed_from_session''"
    and "claim_str ''submission_id'' (nf_payload n) = sub" and "sub \<noteq> ''''" and "u \<noteq> ''''"
    and "w_fault W (Db ''RespondToNotification'' [nid]) = None"
  shows "\<exists>n' d1. respond_to_notification W nid (Some \<lparr>rb_username = u, rb_response = ''accepted'', rb_message = m\<rparr>) d =
      (Inr (n', None), snd (sign_data_provider_party W sub u d1)) \<and> t_contracts d1 = t_contracts d \<and> t_removed d1 = t_removed d"
proof -
  have "stale_answer W d nid u = None"
    using assms(1,2) by (auto simp: stale_answer_def get_notification_for_recipient_def db_read_def Let_def
        is_session_kind_def split: option.split)
  then show ?thesis
    using assms by (auto simp: respond_to_notification_def respond_checks_def respond_to_notification_row_def
        db_write_def Let_def is_second_decline_def answer_notification_def)
qed

text \<open>
  A decline removes its provider from the session exactly when it is the second: after a
  successful answer a provider is removed if they were removed before, or if they declined an ask of
  the session and have now declined two; nobody else is removed.
\<close>

theorem second_decline_removes:
  assumes "respond_to_notification W nid (Some b) d = (Inr (n, gone), d')"
    and "\<forall>u s. w_fault W (Db ''CountParticipationDeclines'' [u]) = None"
  shows "\<exists>d1. respond_to_notification_row W nid (rb_username b) (rb_response b) (rb_message b) d = (Inr (Some n), d1) \<and>
    (is_removed d' sub u \<longleftrightarrow> is_removed d sub u \<or>
      u = rb_username b \<and> sub = claim_str ''submission_id'' (nf_payload n) \<and> sub \<noteq> '''' \<and> rb_response b = ''declined'' \<and>
      (claim_str ''kind'' (nf_payload n) = ''participation_request'' \<or>
       claim_str ''kind'' (nf_payload n) = ''participation_update'') \<and>
      length (filter (is_decline u sub) (t_notifications d1)) \<ge> 2)"
proof -
  let ?two = "\<lambda>d1 m. rb_response b = ''declined'' \<and> claim_str ''submission_id'' (nf_payload m) \<noteq> '''' \<and>
      (claim_str ''kind'' (nf_payload m) = ''participation_request'' \<or>
       claim_str ''kind'' (nf_payload m) = ''participation_update'') \<and>
      length (filter (is_decline (rb_username b) (claim_str ''submission_id'' (nf_payload m))) (t_notifications d1)) \<ge> 2"
  have two: "is_second_decline W d1 b (nf_payload m) \<longleftrightarrow> ?two d1 m" for d1 m
    using assms(2) by (auto simp: is_second_decline_def Let_def count_participation_declines_def db_read_def)
  from assms(1) show ?thesis
  proof (cases rule: respond_cases)
    case (answered b' m d1)
    have b': "b' = b" using respond_checks_Inr [OF answered(1)] by simp
    have m: "m = n" using answered(4) by simp
    have "t_removed d1 = t_removed d" using answered_row [OF answered(2)] by simp
    then have "is_removed d' sub u \<longleftrightarrow> is_removed d sub u" using answered(6) by (simp add: is_removed_def)
    moreover have "\<not> ?two d1 n" using answered(3) two unfolding b' m by blast
    ultimately show ?thesis using answered(2) unfolding b' m by (intro exI [of _ d1]) auto
  next
    case (second b' m d1 r2)
    have b': "b' = b" using respond_checks_Inr [OF second(1)] by simp
    have row: "respond_to_notification_row W nid (rb_username b) (rb_response b) (rb_message b) d = (Inr (Some m), d1)"
      using second(2) b' by simp
    have m: "m = n"
      using assms(1) second row unfolding b' by (auto simp: respond_to_notification_def Let_def split: sum.splits)
    have un: "nf_recipient_username n = rb_username b" "t_removed d1 = t_removed d"
      using answered_row [OF row] m by simp_all
    have "\<exists>g. r2 = Inr g" using second(5) by (cases r2) auto
    with remove_provider_facts(1) [OF second(4)]
    have "\<forall>s v. is_removed d' s v \<longleftrightarrow> is_removed d1 s v \<or>
        s = claim_str ''submission_id'' (nf_payload n) \<and> v = rb_username b"
      unfolding m un(1) by (elim impE conjE)
    then have "is_removed d' sub u \<longleftrightarrow> is_removed d1 sub u \<or>
        sub = claim_str ''submission_id'' (nf_payload n) \<and> u = rb_username b" by blast
    moreover have "is_removed d1 sub u \<longleftrightarrow> is_removed d sub u" using un(2) by (simp add: is_removed_def)
    moreover have "?two d1 n" using second(3) two unfolding b' m by blast
    ultimately have "is_removed d' sub u \<longleftrightarrow> is_removed d sub u \<or>
      u = rb_username b \<and> sub = claim_str ''submission_id'' (nf_payload n) \<and> sub \<noteq> '''' \<and> rb_response b = ''declined'' \<and>
      (claim_str ''kind'' (nf_payload n) = ''participation_request'' \<or>
       claim_str ''kind'' (nf_payload n) = ''participation_update'') \<and>
      length (filter (is_decline u sub) (t_notifications d1)) \<ge> 2"
      by (cases "u = rb_username b \<and> sub = claim_str ''submission_id'' (nf_payload n)") auto
    then show ?thesis using row unfolding m by blast
  qed simp
qed

section \<open>A concrete session\<close>

definition sample_ask :: "string \<Rightarrow> string option \<Rightarrow> time \<Rightarrow> notification" where
  "sample_ask i answer at = \<lparr>nf_id = i, nf_recipient_id = ''1'', nf_recipient_username = ''p'', nf_sender_username = ''o'',
     nf_message = '''', nf_payload = JObj [(''kind'', JStr ''participation_request''), (''submission_id'', JStr ''s'')],
     nf_read = False, nf_read_at = None, nf_created_at = at, nf_response = answer,
     nf_response_message = None, nf_responded_at = None\<rparr>"

text \<open>The provider \<^verbatim>\<open>p\<close> declined one ask and got a second.\<close>

definition asked_db :: db where
  "asked_db = (sample_db sample_draft)\<lparr>t_notifications := [sample_ask ''n0'' (Some ''declined'') 1, sample_ask ''n1'' None 2]\<rparr>"

definition decline_body :: respond_body where
  "decline_body = \<lparr>rb_username = ''p'', rb_response = ''declined'', rb_message = ''no''\<rparr>"

definition decline_reply where
  "decline_reply = respond_to_notification (sample_world 9) ''n1'' (Some decline_body) asked_db"

definition invite_body :: notifications_body where
  "invite_body = \<lparr>nb_recipients = [(''1'', ''p'')], nb_sender = ''o'', nb_message = ''again'',
     nb_payload = JObj [(''kind'', JStr ''participation_request''), (''submission_id'', JStr ''s'')]\<rparr>"

lemma decline_ok: "\<exists>n gone. fst decline_reply = Inr (n, gone)"
proof -
  have "\<not> isl (fst decline_reply)" by code_simp
  then show ?thesis by (cases "fst decline_reply") (auto simp: surj_pair)
qed

lemma decline_removed: "is_removed (snd decline_reply) ''s'' ''p''"
  by code_simp

lemma decline_keyed: "notifications_keyed (snd decline_reply)"
proof -
  have "map nf_id (t_notifications (snd decline_reply)) = [''n0'', ''n1'', ''notif2'', ''notif3'']"
    by code_simp
  then show ?thesis by (simp add: notifications_keyed_def)
qed

theorem removed_asks_frozen_witness:
  "asks_of ''s'' ''p'' (snd (post_notifications (sample_world 10) (Some invite_body) (snd decline_reply))) =
     asks_of ''s'' ''p'' (snd decline_reply)"
proof -
  have "negotiates (snd decline_reply) (snd (post_notifications (sample_world 10) (Some invite_body) (snd decline_reply)))"
    by (rule negotiates.post) (rule prod.collapse [symmetric])
  then show ?thesis
    using removed_asks_frozen [OF r_into_rtranclp decline_removed _ decline_keyed] by simp
qed

text \<open>The second decline left \<^verbatim>\<open>p\<close> the notice \<^verbatim>\<open>notif3\<close>; accepting it is taken.\<close>

theorem removed_may_accept_notice_witness:
  "\<exists>n d'. respond_to_notification (sample_world 10) ''notif3''
     (Some \<lparr>rb_username = ''p'', rb_response = ''accepted'', rb_message = ''''\<rparr>) (snd decline_reply) = (Inr (n, None), d')"
proof -
  have "map_option (\<lambda>n. (claim_str ''kind'' (nf_payload n), claim_str ''submission_id'' (nf_payload n)))
      (List.find (\<lambda>n. nf_id n = ''notif3'' \<and> nf_recipient_username n = ''p'') (t_notifications (snd decline_reply))) =
      Some (''removed_from_session'', ''s'')" by code_simp
  then obtain n where n: "List.find (\<lambda>n. nf_id n = ''notif3'' \<and> nf_recipient_username n = ''p'')
      (t_notifications (snd decline_reply)) = Some n" "claim_str ''kind'' (nf_payload n) = ''removed_from_session''"
      "claim_str ''submission_id'' (nf_payload n) = ''s''" by auto
  have "w_fault (sample_world 10) (Db ''RespondToNotification'' [''notif3'']) = None" by (simp add: sample_world_def)
  with removed_may_accept_notice [OF n] show ?thesis by blast
qed

theorem second_decline_removes_witness:
  "is_removed (snd decline_reply) ''s'' ''q'' \<longleftrightarrow> is_removed asked_db ''s'' ''q''"
proof -
  obtain n gone where "fst decline_reply = Inr (n, gone)" using decline_ok by blast
  then have reply: "respond_to_notification (sample_world 9) ''n1'' (Some decline_body) asked_db = (Inr (n, gone), snd decline_reply)"
    unfolding decline_reply_def by (metis prod.collapse)
  have "\<forall>u s. w_fault (sample_world 9) (Db ''CountParticipationDeclines'' [u]) = None"
    by (simp add: sample_world_def)
  from second_decline_removes [OF reply this, of "''s''" "''q''"] show ?thesis
    by (auto simp: decline_body_def)
qed

end
