(* ===== verification/Provider_Keys.thy ===== *)
theory Provider_Keys
  imports Sample
begin

text \<open>
  The registry of providers' public keys (\<^verbatim>\<open>httpapi/provider_keys.go\<close>) and that of participant
  machines (\<^verbatim>\<open>httpapi/vm_registry.go\<close>, \<^verbatim>\<open>db/vm_registry.go\<close>).
\<close>

section \<open>Registering a key\<close>

abbreviation min_provider_key_bits :: nat where "min_provider_key_bits \<equiv> 2048"

text \<open>The re-encoded key and its fingerprint, or an error code.\<close>

definition normalise_provider_key :: "crypto \<Rightarrow> string \<Rightarrow> string + string \<times> string" where
  "normalise_provider_key C pem =
     (if trim_space pem = '''' then Inl ''MISSING_PUBLIC_KEY''
      else if contains pem ''PRIVATE KEY'' then Inl ''PRIVATE_KEY_NOT_ACCEPTED''
      else case pem_decode C (trim_space pem) of
          None \<Rightarrow> Inl ''EXPECTED_SPKI_PEM''
        | Some (block_type, bytes) \<Rightarrow>
            if block_type \<noteq> ''PUBLIC KEY'' then Inl ''EXPECTED_SPKI_PEM''
            else (case parse_pkix C bytes of
                Inl e \<Rightarrow> Inl ''INVALID_PUBLIC_KEY''
              | Inr (OtherKey k) \<Rightarrow> Inl ''EXPECTED_RSA_KEY''
              | Inr (RsaKey k bits) \<Rightarrow>
                  if bits < min_provider_key_bits then Inl ''KEY_TOO_SHORT''
                  else Inr (pem_encode C bytes, hex_encode C (sha256_sum C bytes))))"

definition provider_key_roles :: "string list" where
  "provider_key_roles = [''data-provider'', ''infra-provider'']"

definition provider_from_token :: "server \<Rightarrow> world \<Rightarrow> string \<Rightarrow> string \<Rightarrow> provider_identity response" where
  "provider_from_token S W role auth =
     require (List.member provider_key_roles role \<or> role = data_provider_role S)
       (HttpError 400 ''ROLE_NOT_ALLOWED'' '''') (
     and_then (provider_token_identity S W auth) (\<lambda>i.
     require (has_provider_key_role (pi_roles i) role (data_provider_role S))
       (HttpError 403 ''INSUFFICIENT_ROLE'' '''') (Inr i)))"

text \<open>PUT /provider-keys/{role}: the fingerprint and whether a key was replaced.\<close>

definition put_provider_key ::
  "server \<Rightarrow> world \<Rightarrow> string \<Rightarrow> string \<Rightarrow> string option \<Rightarrow> db \<Rightarrow> (string \<times> bool) response \<times> db" where
  "put_provider_key S W role auth body d =
     (case (and_then (provider_from_token S W role auth) (\<lambda>i.
            and_then (some_or (HttpError 400 ''INVALID_JSON'' ''Invalid JSON in request body'') body) (\<lambda>pem.
            and_then (or_fail (\<lambda>code. HttpError 400 code '''') (normalise_provider_key (srv_crypto S) pem)) (\<lambda>k.
            Inr (i, k))))) of
        Inl e \<Rightarrow> (Inl e, d)
      | Inr (i, normalised, fingerprint) \<Rightarrow>
          (case upsert_provider_public_key W (pi_username i) (pi_user_id i) role normalised fingerprint d of
             (Inl e, d) \<Rightarrow> (Inl (HttpError 500 ''INTERNAL_ERROR'' ''''), d)
           | (Inr rotated, d) \<Rightarrow> (Inr (fingerprint, rotated), d)))"

text \<open>The registered key, if there is one.\<close>

definition get_provider_key_status :: "server \<Rightarrow> world \<Rightarrow> string \<Rightarrow> string \<Rightarrow> db \<Rightarrow> string option response" where
  "get_provider_key_status S W role auth d =
     and_then (provider_from_token S W role auth) (\<lambda>i.
     case provider_public_key W d (pi_username i) of
       Inr pem \<Rightarrow> Inr (Some pem)
     | Inl NoPublicKey \<Rightarrow> Inr None
     | Inl (KeyLookupFailed e) \<Rightarrow> Inl (HttpError 500 ''INTERNAL_ERROR'' ''''))"

section \<open>Facts\<close>

lemma normalise_Inr:
  assumes "normalise_provider_key C pem = Inr (n, f)"
  obtains bytes k bits where "pem_decode C (trim_space pem) = Some (''PUBLIC KEY'', bytes)"
    and "parse_pkix C bytes = Inr (RsaKey k bits)" and "bits \<ge> min_provider_key_bits"
    and "n = pem_encode C bytes" and "f = hex_encode C (sha256_sum C bytes)" and "\<not> contains pem ''PRIVATE KEY''"
  using assms unfolding normalise_provider_key_def
  by (auto split: if_splits option.splits prod.splits sum.splits public_key.splits)

lemma key_of_put_key: "key_of (put_key k ks) u = (if u = kr_username k then Some k else key_of ks u)"
proof -
  have app: "key_of (xs @ [k]) u = (if u = kr_username k then Some k else key_of xs u)"
    if "\<forall>x \<in> set xs. kr_username x \<noteq> kr_username k" for xs
    using that by (induction xs) (auto simp: key_of_def)
  have upd: "list_ex (\<lambda>b. kr_username b = kr_username k) xs \<Longrightarrow>
      key_of (map (\<lambda>x. if kr_username x = kr_username k then k else x) xs) u =
      (if u = kr_username k then Some k else key_of xs u)" for xs
  proof (induction xs)
    case (Cons x xs)
    have "List.find (\<lambda>x. kr_username x = u) (map (\<lambda>x. if kr_username x = kr_username k then k else x) xs) =
        List.find (\<lambda>x. kr_username x = u) xs" if "u \<noteq> kr_username k" for xs
      using that by (induction xs) auto
    with Cons show ?case by (auto simp: key_of_def)
  qed simp
  show ?thesis
  proof (cases "list_ex (\<lambda>b. kr_username b = kr_username k) ks")
    case True
    then show ?thesis using upd [OF True] by (simp add: put_key_def upsert_row_def)
  next
    case False
    then have "\<forall>x \<in> set ks. kr_username x \<noteq> kr_username k" by (auto simp: list_ex_iff)
    with False app show ?thesis by (simp add: put_key_def upsert_row_def)
  qed
qed

text \<open>
  What the PEM functions of Go's standard library promise: encoding keeps type and bytes, and the
  signature check of a key depends on its bytes only.
\<close>

definition pem_lossless :: "crypto \<Rightarrow> bool" where
  "pem_lossless C \<longleftrightarrow> (\<forall>b. pem_decode C (pem_encode C b) = Some (''PUBLIC KEY'', b))"

text \<open>
  C28. Registering a key stores it under the user name of the caller's validated token, whatever the
  request says, and nowhere else: afterwards that user's registered key checks signatures exactly as
  the key they submitted, everyone else's key is the one it was, and no table but the keys changes.
\<close>

theorem put_key_effect:
  assumes "put_provider_key S W role auth (Some pem) d = (Inr (fp, rotated), d')" and "pem_lossless (srv_crypto S)"
    and "w_fault W (Db ''ProviderPublicKey'' [to_lower u]) = None"
  shows "\<exists>i n. provider_token_identity S W auth = Inr i \<and>
    (\<forall>h v. verify_contract_hash_signature (srv_crypto S) n h v =
       verify_contract_hash_signature (srv_crypto S) (trim_space pem) h v) \<and>
    provider_public_key W d' u = (if to_lower u = to_lower (pi_username i) then Inr n else provider_public_key W d u) \<and>
    (rotated \<longleftrightarrow> key_of (t_keys d) (to_lower (pi_username i)) \<noteq> None) \<and> d' = d\<lparr>t_keys := t_keys d'\<rparr>"
proof -
  obtain i n where i: "provider_from_token S W role auth = Inr i"
      and n: "normalise_provider_key (srv_crypto S) pem = Inr (n, fp)"
      and up: "upsert_provider_public_key W (pi_username i) (pi_user_id i) role n fp d = (Inr rotated, d')"
    using assms(1) unfolding put_provider_key_def
    by (auto split: sum.splits prod.splits)
  have tok: "provider_token_identity S W auth = Inr i"
    using i unfolding provider_from_token_def by (auto simp only: early_return)
  obtain bytes k bits where b: "pem_decode (srv_crypto S) (trim_space pem) = Some (''PUBLIC KEY'', bytes)"
      "n = pem_encode (srv_crypto S) bytes"
    using n by (rule normalise_Inr) simp
  have "verify_contract_hash_signature (srv_crypto S) n h v =
      verify_contract_hash_signature (srv_crypto S) (trim_space pem) h v" for h v
    using assms(2) b by (simp add: verify_contract_hash_signature_def pem_lossless_def)
  moreover have "provider_public_key W d' u =
      (if to_lower u = to_lower (pi_username i) then Inr n else provider_public_key W d u)"
    using up assms(3) by (auto simp: upsert_provider_public_key_def Let_def db_write_Inr provider_public_key_def key_of_put_key)
  moreover have "rotated \<longleftrightarrow> key_of (t_keys d) (to_lower (pi_username i)) \<noteq> None" "d' = d\<lparr>t_keys := t_keys d'\<rparr>"
    using up by (auto simp: upsert_provider_public_key_def Let_def db_write_Inr)
  ultimately show ?thesis using tok by blast
qed

definition pem_crypto :: crypto where
  "pem_crypto = sample_crypto\<lparr>pem_decode := (\<lambda>s. Some (''PUBLIC KEY'', s))\<rparr>"

lemma put_key_effect_witness:
  "provider_public_key (sample_world 1)
     (snd (put_provider_key (sample_server\<lparr>srv_crypto := pem_crypto\<rparr>) (sample_world 1) ''data-provider'' ''Bearer a''
        (Some ''K'') (sample_db sample_draft))) ''a'' = Inr ''K''"
proof -
  let ?S = "sample_server\<lparr>srv_crypto := pem_crypto\<rparr>" and ?d = "sample_db sample_draft"
  have r: "put_provider_key ?S (sample_world 1) ''data-provider'' ''Bearer a'' (Some ''K'') ?d =
      (Inr (''K'', True), snd (put_provider_key ?S (sample_world 1) ''data-provider'' ''Bearer a'' (Some ''K'') ?d))"
  proof (rule prod_eqI)
    show "fst (put_provider_key ?S (sample_world 1) ''data-provider'' ''Bearer a'' (Some ''K'') ?d) =
        fst (Inr (''K'', True), snd (put_provider_key ?S (sample_world 1) ''data-provider'' ''Bearer a'' (Some ''K'') ?d))"
      by code_simp
  qed simp
  have pem: "pem_lossless (srv_crypto ?S)"
    by (simp add: pem_lossless_def pem_crypto_def sample_crypto_def)
  have "w_fault (sample_world 1) (Db ''ProviderPublicKey'' [to_lower ''a'']) = None" by (simp add: sample_world_def)
  from put_key_effect [OF r pem this] obtain i n where i: "provider_token_identity ?S (sample_world 1) ''Bearer a'' = Inr i"
      and k: "provider_public_key (sample_world 1)
        (snd (put_provider_key ?S (sample_world 1) ''data-provider'' ''Bearer a'' (Some ''K'') ?d)) ''a'' =
        (if to_lower ''a'' = to_lower (pi_username i) then Inr n else provider_public_key (sample_world 1) ?d ''a'')"
    by blast
  show ?thesis by code_simp
qed

section \<open>The machines of the participants\<close>

definition upsert_vm_registry :: "world \<Rightarrow> string \<Rightarrow> string \<Rightarrow> string \<Rightarrow> db \<Rightarrow> unit result \<times> db" where
  "upsert_vm_registry W role participant ip d =
     db_write W ''UpsertVMRegistry'' [role, participant] ()
       (d\<lparr>t_vms := upsert_row (\<lambda>a b. vm_role b = vm_role a \<and> vm_participant b = vm_participant a) (\<lambda>a b. a)
          \<lparr>vm_role = role, vm_participant = participant, vm_ip_address = ip, vm_updated_at = w_now W\<rparr> (t_vms d)\<rparr>) d"

definition get_output_owner_vm_row :: "world \<Rightarrow> db \<Rightarrow> vm_entry option result" where
  "get_output_owner_vm_row W d =
     db_read W ''GetOutputOwnerVM'' [] (latest_by vm_updated_at (filter (\<lambda>v. vm_role v = ''user'') (t_vms d)))"

definition list_data_provider_vms :: "world \<Rightarrow> db \<Rightarrow> vm_entry list result" where
  "list_data_provider_vms W d =
     db_read W ''ListDataProviderVMs'' []
       (sort_key (\<lambda>v. - vm_updated_at v) (filter (\<lambda>v. vm_role v = ''data-provider'') (t_vms d)))"

text \<open>The shared secret; a blank one disables the check.\<close>

definition require_vm_registry_token :: "string \<Rightarrow> string \<Rightarrow> http_error option" where
  "require_vm_registry_token expected header =
     (if expected \<noteq> '''' \<and> header \<noteq> expected
      then Some (HttpError 401 ''UNAUTHORIZED'' ''invalid or missing X-VM-Registry-Token'') else None)"

definition post_vm_registry :: "world \<Rightarrow> (string \<times> string \<times> string) option \<Rightarrow> db \<Rightarrow> unit response \<times> db" where
  "post_vm_registry W body d =
     (case body of
        None \<Rightarrow> (Inl (HttpError 400 ''INVALID_JSON'' ''Invalid JSON in request body''), d)
      | Some (role, participant, ip) \<Rightarrow>
          if role \<noteq> ''data-provider'' \<and> role \<noteq> ''user'' then
            (Inl (HttpError 400 ''INVALID_ROLE'' (''role must be '' @ go_quote ''data-provider'' @ '' or '' @ go_quote ''user'')), d)
          else if participant = '''' \<or> ip = '''' then
            (Inl (HttpError 400 ''MISSING_FIELDS'' ''participant_name and ip_address are required''), d)
          else case upsert_vm_registry W role participant ip d of
              (Inl e, d) \<Rightarrow> (Inl (HttpError 500 ''INTERNAL_ERROR'' ''Failed to store VM registration''), d)
            | (Inr x, d) \<Rightarrow> (Inr x, d))"

definition get_output_owner_vm :: "world \<Rightarrow> db \<Rightarrow> vm_entry response" where
  "get_output_owner_vm W d =
     and_then (or_fail (\<lambda>e. HttpError 500 ''INTERNAL_ERROR'' ''Failed to fetch output-owner VM'') (get_output_owner_vm_row W d))
       (some_or (HttpError 404 ''NOT_FOUND'' ''no output-owner VM registered yet''))"

definition get_data_provider_vms :: "world \<Rightarrow> db \<Rightarrow> vm_entry list response" where
  "get_data_provider_vms W d =
     or_fail (\<lambda>e. HttpError 500 ''INTERNAL_ERROR'' ''Failed to list data-provider VMs'') (list_data_provider_vms W d)"

end
