(* ===== verification/Generation.thy ===== *)
theory Generation
  imports Job_Requests Workloads
begin

text \<open>
  Generating a contract from a selection of datasets (\<^verbatim>\<open>services/contractgen.go\<close>,
  \<^verbatim>\<open>httpapi/generate_contract.go\<close>): what APD and the catalogue say of each dataset and
  infrastructure, the contract built from it, its hash and governance signature, the stored draft
  and the requests sent to its providers. The provider form fetched for federated learning is not
  modelled: the builder discards it. JSON numbers are integers here.
\<close>

section \<open>What is known of a selection\<close>

record dataset_input =
  di_dataset_id :: string
  di_dataset_name :: string
  di_provider_name :: string
  di_provider_id :: string
  di_is_private :: bool
  di_data_url :: string
  di_key_resource_path :: string

record infra_input =
  ii_id :: string
  ii_name :: string
  ii_region :: string
  ii_attestation :: attestation
  ii_allocation :: resource_allocation

record generate_input =
  gi_datasets :: "dataset_input list"
  gi_application_id :: string
  gi_technique :: string
  gi_compute_choice :: string
  gi_purpose :: string
  gi_consumer_id :: string
  gi_consumer_name :: string
  gi_kbs_url :: string
  gi_result_url :: string
  gi_callback_url :: string
  gi_infras :: "infra_input list"

definition default_compute_choice :: "string \<Rightarrow> string" where
  "default_compute_choice technique =
     (if technique = ''FL'' then ''FEDERATED_LEARNING''
      else if technique = ''TEE'' then ''ANONYMIZATION''
      else if technique = ''SMPC'' then ''SECURE_MULTIPARTY_COMPUTATION'' else '''')"

section \<open>The parties\<close>

definition open_constraints :: "string \<Rightarrow> constraints" where
  "open_constraints level =
     \<lparr>cn_accessibility_level = level, cn_restricted_to = Some [], cn_consent_valid_until = None\<rparr>"

definition trustee_for :: "string \<Rightarrow> dataset_input \<Rightarrow> trustee option" where
  "trustee_for kbs_url i =
     map_option (\<lambda>t. if di_key_resource_path i \<noteq> '''' then t\<lparr>tr_key_resource_path := di_key_resource_path i\<rparr> else t)
       (new_trustee kbs_url (di_dataset_name i) (di_dataset_id i))"

definition data_party_of :: "string \<Rightarrow> dataset_input \<Rightarrow> data_party" where
  "data_party_of kbs_url i =
     \<lparr>dp_id = di_provider_id i,
      dp_name = (if di_provider_name i = '''' then ''Unknown Data Provider'' else di_provider_name i),
      dp_dataset_id = di_dataset_id i, dp_dataset_name = di_dataset_name i, dp_dataset_version = ''v1'',
      dp_data_url = di_data_url i,
      dp_constraints = open_constraints (if di_is_private i then ''PRIVATE'' else ''PUBLIC''),
      dp_trustee = trustee_for kbs_url i, dp_signature = zero_signature\<rparr>"

definition app_parties_of :: "string \<Rightarrow> app_party list" where
  "app_parties_of app_id =
     (if app_id = '''' then []
      else [\<lparr>ap_id = app_id, ap_name = ''Unknown Application Provider'', ap_app_name = app_id,
             ap_container_image = (case known_workload_of app_id of None \<Rightarrow> '''' | Some w \<Rightarrow> kw_image w),
             ap_container_digest = '''', ap_constraints = open_constraints ''PUBLIC'',
             ap_signature = zero_signature\<rparr>])"

definition workload_of_app :: "string \<Rightarrow> workload option" where
  "workload_of_app app_id =
     (if app_id = '''' then None
      else map_option (\<lambda>w. \<lparr>wl_image = kw_image w, wl_resources = kw_resources w, wl_env = []\<rparr>)
        (known_workload_of app_id))"

definition zero_allocation :: resource_allocation where
  "zero_allocation = \<lparr>ra_cpu_cores = 0, ra_ram_mb = 0, ra_gpu = '''', ra_sgx_enabled = False,
     ra_tdx_enabled = False, ra_sev_snp_enabled = False, ra_sev_enabled = False,
     ra_nitro_enclave_enabled = False\<rparr>"

definition infra_party_of :: "infra_input \<Rightarrow> infra_party" where
  "infra_party_of i =
     \<lparr>ip_id = ii_id i, ip_name = (if ii_name i = '''' then ''Unknown Infrastructure'' else ii_name i),
      ip_region = ii_region i, ip_attestation = ii_attestation i,
      ip_resource_allocation = ii_allocation i, ip_constraints = open_constraints ''PUBLIC'',
      ip_signature = zero_signature\<rparr>"

text \<open>The placeholder of a TEE or SMPC contract without infrastructure.\<close>

definition default_infra_party :: infra_party where
  "default_infra_party =
     \<lparr>ip_id = '''', ip_name = ''Azure Confidential Compute'', ip_region = ''UNKNOWN'',
      ip_attestation = \<lparr>at_required = True, at_service = ''MAA'', at_policy_id = ''''\<rparr>,
      ip_resource_allocation = zero_allocation, ip_constraints = open_constraints ''PUBLIC'',
      ip_signature = zero_signature\<rparr>"

definition infra_parties_of :: "string \<Rightarrow> infra_input list \<Rightarrow> infra_party list" where
  "infra_parties_of technique infras =
     (if technique = ''TEE'' \<or> technique = ''SMPC'' then
        if infras = [] then [default_infra_party] else map infra_party_of infras
      else [])"

section \<open>The contract\<close>

text \<open>
  A contract with a workload is completed to what the coordinator needs: environment, trustee of
  the first dataset, callback URL.
\<close>

definition complete_workload :: "generate_input \<Rightarrow> contract \<Rightarrow> contract" where
  "complete_workload inp c =
     (case ct_workload c of
        None \<Rightarrow> c
      | Some w \<Rightarrow>
          let env = (case data_providers c of
                  p # ps \<Rightarrow> if dp_data_url p \<noteq> '''' then [(''DATASET_URL'', dp_data_url p)] else [] | [] \<Rightarrow> []) @
                (if gi_result_url inp \<noteq> '''' then [(''RESULT_URL'', gi_result_url inp)] else []);
              c = c\<lparr>ct_workload := Some (w\<lparr>wl_env := env\<rparr>)\<rparr>;
              c = (case data_providers c of
                  p # ps \<Rightarrow> (case dp_trustee p of
                      Some t \<Rightarrow> c\<lparr>ct_trustee := Some \<lparr>jt_kbs_url = tr_kbs_url t,
                        jt_key_resource_path = tr_key_resource_path t\<rparr>\<rparr>
                    | None \<Rightarrow> c)
                | [] \<Rightarrow> c)
          in if gi_callback_url inp \<noteq> '''' then
               c\<lparr>ct_callback_url := gi_callback_url inp @ ''/'' @ ct_contract_id c\<rparr> else c)"

definition unhashed_contract :: "time \<Rightarrow> string \<Rightarrow> string \<Rightarrow> generate_input \<Rightarrow> contract" where
  "unhashed_contract now contract_id job_id inp =
     (let dps = map (data_party_of (gi_kbs_url inp)) (gi_datasets inp);
          ips = infra_parties_of (gi_technique inp) (gi_infras inp)
      in complete_workload inp
        \<lparr>ct_project_id = '''', ct_contract_id = contract_id, ct_job_id = job_id, ct_version = 1,
         ct_lifecycle = \<lparr>lc_created_at = now, lc_valid_from = now, lc_valid_until = now + 90 * 24 * hour,
           lc_requested_valid_until = None\<rparr>,
         ct_technique = gi_technique inp,
         ct_compute_choice = (if gi_compute_choice inp = '''' then default_compute_choice (gi_technique inp)
           else gi_compute_choice inp),
         ct_purpose = gi_purpose inp, ct_workload = workload_of_app (gi_application_id inp),
         ct_trustee = None, ct_callback_url = '''',
         ct_parties = \<lparr>pt_user = \<lparr>up_id = gi_consumer_id inp, up_name = gi_consumer_name inp,
             up_datablob_url = gi_result_url inp, up_signature = zero_signature\<rparr>,
           pt_data_providers = dps, pt_data_provider_count = int (length dps),
           pt_application_providers = app_parties_of (gi_application_id inp),
           pt_infra_providers = ips, pt_infra_provider_count = int (length ips)\<rparr>,
         ct_session_info = \<lparr>si_id = '''', si_session_id = '''', si_requested_by = gi_consumer_id inp\<rparr>,
         ct_contract_hash = '''', ct_governance_signature = None, ct_amendment = None\<rparr>)"

text \<open>A contract that cannot be hashed goes without a hash.\<close>

definition build_generated_contract ::
  "crypto \<Rightarrow> time \<Rightarrow> string \<Rightarrow> string \<Rightarrow> generate_input \<Rightarrow> contract" where
  "build_generated_contract C now contract_id job_id inp =
     (let c = unhashed_contract now contract_id job_id inp
      in case compute_hash C c of Inl e \<Rightarrow> c | Inr hash \<Rightarrow> c\<lparr>ct_contract_hash := hash\<rparr>)"

section \<open>The request\<close>

record generate_request =
  gq_datasets :: "(string \<times> string) list"  \<comment> \<open>dataset id and name\<close>
  gq_application_id :: string
  gq_technique :: string
  gq_provider_id :: string
  gq_compute_choice :: string
  gq_infra_ids :: "string list"
  gq_purpose :: string

definition valid_techniques :: "string list" where
  "valid_techniques = [''FL'', ''TEE'', ''SMPC'']"

abbreviation max_purpose_len :: nat where "max_purpose_len \<equiv> 1000"

definition plain_error :: "nat \<Rightarrow> string \<Rightarrow> http_error" where
  "plain_error status msg = HttpError status '''' msg"

definition generate_checks ::
  "world \<Rightarrow> string \<Rightarrow> generate_request option \<Rightarrow> (string \<times> json \<times> generate_request) response" where
  "generate_checks W auth body =
     (let tok = (case bearer_token auth of None \<Rightarrow> '''' | Some t \<Rightarrow> t) in
      case w_access_token W tok of
        Inr (True, claims) \<Rightarrow>
          and_then (some_or (plain_error 400 ''Invalid request body'') body) (\<lambda>q.
          require (gq_datasets q \<noteq> []) (plain_error 400 ''at least one dataset is required'') (
          require (List.member valid_techniques (gq_technique q))
            (plain_error 400 ''technique must be one of FL, TEE, SMPC'') (
          require (gq_technique q = ''SMPC'' \<longrightarrow> length (gq_infra_ids q) = 2)
            (plain_error 400 ''exactly 2 infra_ids are required for SMPC'') (
          let q = q\<lparr>gq_purpose := trim_space (gq_purpose q)\<rparr> in
          require (length (gq_purpose q) \<le> max_purpose_len)
            (plain_error 400 ''purpose must be at most 1000 characters'') (Inr (tok, claims, q))))))
      | _ \<Rightarrow> Inl (plain_error 401 ''Invalid Keycloak token''))"

text \<open>\<^verbatim>\<open>GetDataProviders\<close>: the program's own static directory (id, name, email).\<close>

definition get_data_providers :: "(string \<times> string \<times> string) list" where
  "get_data_providers =
     [(''provider-1'', ''Provider A'', ''provider-a@example.com''),
      (''provider-2'', ''Provider B'', ''provider-b@example.com''),
      (''provider-3'', ''Provider C'', ''provider-c@example.com'')]"

text \<open>\<^verbatim>\<open>lookupProvider\<close>: email and name, blank when unknown.\<close>

definition lookup_provider :: "string \<Rightarrow> string \<times> string" where
  "lookup_provider provider_id =
     (case map_of get_data_providers provider_id of None \<Rightarrow> ('''', '''') | Some (name, email) \<Rightarrow> (email, name))"

section \<open>What APD and the catalogue say\<close>

definition catalogue_owner_as_provider ::
  "server \<Rightarrow> world \<Rightarrow> string \<Rightarrow> string \<Rightarrow> dataset_input \<Rightarrow> dataset_input" where
  "catalogue_owner_as_provider S W dataset_id tok i =
     (case lookup_catalogue_item S W dataset_id tok of
        Inl e \<Rightarrow> i
      | Inr item \<Rightarrow>
          if dx_uploaded_by item = '''' then i
          else i\<lparr>di_provider_id := provider_id_for_username (dx_uploaded_by item),
                 di_provider_name := dx_uploaded_by item\<rparr>)"

definition policy_provider :: "generate_request \<Rightarrow> json \<Rightarrow> dataset_input \<Rightarrow> dataset_input" where
  "policy_provider q policy i =
     (if gq_provider_id q \<noteq> '''' then
        i\<lparr>di_provider_id := gq_provider_id q, di_provider_name := snd (lookup_provider (gq_provider_id q))\<rparr>
      else if gq_technique q \<noteq> ''FL'' then
        let pid = claim_str ''provider_id'' policy; email = claim_str ''provider_email'' policy
        in i\<lparr>di_provider_id := pid, di_provider_name := (if email = '''' then pid else email)\<rparr>
      else i)"

text \<open>One dataset's fields, and the notice its private policy sends out.\<close>

definition dataset_input_of ::
  "server \<Rightarrow> world \<Rightarrow> string \<Rightarrow> json \<Rightarrow> generate_request \<Rightarrow> string \<times> string \<Rightarrow>
   dataset_input \<times> private_notice option" where
  "dataset_input_of S W tok claims q ds =
     (let dataset_id = fst ds; dataset_name = (if snd ds = '''' then dataset_id else snd ds);
          i = \<lparr>di_dataset_id = dataset_id, di_dataset_name = dataset_name, di_provider_name = '''',
               di_provider_id = '''', di_is_private = False, di_data_url = '''', di_key_resource_path = ''''\<rparr>
      in case fetch_policy_for_dataset W lookup_provider claims dataset_id '''' (gq_provider_id q)
            dataset_name (gq_technique q) of
          (PolicyFound policy, notice) \<Rightarrow>
            (policy_provider q policy
              (i\<lparr>di_is_private := is_private_dataset policy, di_data_url := claim_str ''data_url'' policy,
                 di_key_resource_path := trim_space (claim_str ''key_resource_path'' (jget ''rules'' policy))\<rparr>),
             notice)
        | (failed, notice) \<Rightarrow>
            (if gq_technique q \<noteq> ''FL'' then catalogue_owner_as_provider S W dataset_id tok i else i, notice))"

definition claim_int :: "string \<Rightarrow> json \<Rightarrow> int" where
  "claim_int k j = (case jget k j of JInt n \<Rightarrow> n | _ \<Rightarrow> 0)"

definition claim_bool :: "string \<Rightarrow> json \<Rightarrow> bool" where
  "claim_bool k j = (case jget k j of JBool b \<Rightarrow> b | _ \<Rightarrow> False)"

definition infra_input_of :: "world \<Rightarrow> string \<Rightarrow> infra_input" where
  "infra_input_of W infra_id =
     (case fetch_infra_policy W infra_id of
        PolicyFound policy \<Rightarrow>
          let infra = jget ''infrastructure'' (jget ''rules'' policy);
              att = jget ''attestation'' infra; cap = jget ''capacity'' infra
          in \<lparr>ii_id = infra_id, ii_name = claim_str ''name'' infra, ii_region = claim_str ''region'' infra,
              ii_attestation = \<lparr>at_required = claim_bool ''required'' att, at_service = claim_str ''service'' att,
                at_policy_id = claim_str ''policy_id'' att\<rparr>,
              ii_allocation = \<lparr>ra_cpu_cores = claim_int ''cpu_cores'' cap, ra_ram_mb = claim_int ''ram_mb'' cap,
                ra_gpu = '''', ra_sgx_enabled = claim_bool ''sgx_enabled'' cap,
                ra_tdx_enabled = claim_bool ''tdx_enabled'' cap,
                ra_sev_snp_enabled = claim_bool ''sev_snp_enabled'' cap,
                ra_sev_enabled = claim_bool ''sev_enabled'' cap,
                ra_nitro_enclave_enabled = claim_bool ''nitro_enclave_enabled'' cap\<rparr>\<rparr>
      | _ \<Rightarrow> \<lparr>ii_id = infra_id, ii_name = '''', ii_region = '''',
              ii_attestation = \<lparr>at_required = False, at_service = '''', at_policy_id = ''''\<rparr>,
              ii_allocation = zero_allocation\<rparr>)"

definition generate_input_of ::
  "server \<Rightarrow> world \<Rightarrow> string \<Rightarrow> json \<Rightarrow> generate_request \<Rightarrow> generate_input \<times> private_notice list" where
  "generate_input_of S W tok claims q =
     (let ds = map (dataset_input_of S W tok claims q) (gq_datasets q) in
      (\<lparr>gi_datasets = map fst ds, gi_application_id = gq_application_id q, gi_technique = gq_technique q,
        gi_compute_choice = gq_compute_choice q, gi_purpose = gq_purpose q,
        gi_consumer_id = claim_str ''sub'' claims, gi_consumer_name = consumer_display_name claims,
        gi_kbs_url = cfg_kbs_url (srv_cfg S), gi_result_url = cfg_default_result_url (srv_cfg S),
        gi_callback_url = cfg_contract_callback_url (srv_cfg S),
        gi_infras = (if gq_technique q = ''TEE'' \<or> gq_technique q = ''SMPC''
          then map (infra_input_of W) (gq_infra_ids q) else [])\<rparr>,
       List.map_filter snd ds))"

section \<open>The handler\<close>

text \<open>
  The hash a job's providers approve is that of the stored copy; any other TEE or SMPC contract
  is signed by the governance layer, when it can be.
\<close>

definition seal_generated :: "server \<Rightarrow> world \<Rightarrow> contract \<Rightarrow> contract" where
  "seal_generated S W c =
     (if job_approval_required c then
        let c = c\<lparr>ct_contract_hash := ''''\<rparr>
        in case stored_contract_hash (srv_crypto S) c of
             Inl e \<Rightarrow> c | Inr (stored, hash) \<Rightarrow> c\<lparr>ct_contract_hash := hash\<rparr>
      else if ct_technique c \<noteq> ''FL'' \<and> ct_contract_hash c \<noteq> '''' then
        (case governance_sign S W c of Inl e \<Rightarrow> c | Inr c \<Rightarrow> c)
      else c)"

text \<open>The key of the stored draft: the sorted dataset ids, so the order of selection does not matter.\<close>

definition dataset_key :: "string list \<Rightarrow> string" where
  "dataset_key ids = join ''+'' (sort ids)"

record generated =
  gd_contract :: contract
  gd_sign_requests_sent :: nat
  gd_signing :: string
  gd_approval_required :: bool
  gd_providers_notified :: nat

definition request_signatures ::
  "server \<Rightarrow> world \<Rightarrow> contract \<Rightarrow> bool \<Rightarrow> string \<Rightarrow> db \<Rightarrow> nat \<times> string \<times> db" where
  "request_signatures S W c stored sender d =
     (if ct_technique c = ''FL'' \<or> \<not> stored then (0, ''not_applicable'', d)
      else if job_approval_required c then (0, ''on_hold_pending_approval'', d)
      else if ct_governance_signature c \<noteq> None then
        (case send_sign_requests_once S W c sender d of (sent, d) \<Rightarrow>
          (sent, ''requested'',
           if sent > 0 then record_contract_event S W (Some c) ''sign_requested''
             (''Signature requested from '' @ decimal sent @ '' data provider(s)'') ''governance-layer'' d
           else d))
      else (0, ''not_applicable'', d))"

text \<open>Everything after the draft is built: store it, record who takes part, notify.\<close>

definition publish_generated ::
  "server \<Rightarrow> world \<Rightarrow> json \<Rightarrow> string \<Rightarrow> contract \<Rightarrow> db \<Rightarrow> generated \<times> db" where
  "publish_generated S W claims key c d =
     (let consumer_id = claim_str ''sub'' claims;
          sender = (let u = claim_str ''preferred_username'' claims in if u = '''' then consumer_id else u)
      in case (case marshal_contract c of
             Inl e \<Rightarrow> (False, d)
           | Inr raw \<Rightarrow> (case store_generated_contract W consumer_id key (ct_technique c) (ct_contract_id c)
               (ct_job_id c) raw d of (Inl e, d) \<Rightarrow> (False, d) | (Inr x, d) \<Rightarrow> (True, d))) of
        (stored, d) \<Rightarrow>
          let d = (if stored then record_contract_event S W (Some c) ''generated''
                (ct_technique c @ '' consent request generated by '' @ sender) sender
                (record_job_participants W c sender d) else d)
          in case (if job_approval_required c \<and> stored then notify_job_request S W c sender d else (0, d)) of
            (notified, d) \<Rightarrow>
              (case request_signatures S W c stored sender d of (sent, signing, d) \<Rightarrow>
                (\<lparr>gd_contract = c, gd_sign_requests_sent = sent, gd_signing = signing,
                  gd_approval_required = job_approval_required c, gd_providers_notified = notified\<rparr>, d)))"

definition handle_generate_contract ::
  "server \<Rightarrow> world \<Rightarrow> string \<Rightarrow> generate_request option \<Rightarrow> db \<Rightarrow>
   (generated \<times> private_notice list) response \<times> db" where
  "handle_generate_contract S W auth body d =
     (case generate_checks W auth body of
        Inl e \<Rightarrow> (Inl e, d)
      | Inr (tok, claims, q) \<Rightarrow>
          (case generate_input_of S W tok claims q of (inp, notices) \<Rightarrow>
            let n = length (t_contracts d);
                c = seal_generated S W (build_generated_contract (srv_crypto S) (w_now W)
                  (w_new_id W ''uuid'' n) (w_new_id W ''job'' n) inp)
            in case publish_generated S W claims (dataset_key (map fst (gq_datasets q))) c d of
                 (g, d) \<Rightarrow> (Inr (g, notices), d)))"

end
