(* ===== verification/FL_Contracts.thy ===== *)
theory FL_Contracts
  imports Signing
begin

text \<open>
  The contracts of federated-learning sessions: building and storing a session's draft and its
  final roster contract (\<^verbatim>\<open>BuildContract\<close> in \<^verbatim>\<open>db/contracts.go\<close>, \<^verbatim>\<open>httpapi/contracts.go\<close>) and the
  projects recorded beside them (\<^verbatim>\<open>db/projects.go\<close>).
\<close>

section \<open>Building\<close>

record party_input =
  pi_id :: string
  pi_name :: string
  pi_dataset_name :: string
  pi_data_url :: string

text \<open>
  When each provider signed the session's latest contract; nothing when it cannot be read. A later
  party of the same name overrides an earlier one.
\<close>

definition existing_signatures :: "world \<Rightarrow> db \<Rightarrow> string \<Rightarrow> (string \<times> time) list" where
  "existing_signatures W d sid =
     (case get_contract_by_session W d sid of
        Inr (Some raw) \<Rightarrow>
          (case decode_stored raw of
             Inl e \<Rightarrow> []
           | Inr c \<Rightarrow> rev (List.map_filter
               (\<lambda>p. map_option (Pair (dp_name p)) (sg_signed_at (dp_signature p))) (data_providers c)))
      | _ \<Rightarrow> [])"

definition roster_party :: "string \<Rightarrow> (string \<times> time) list \<Rightarrow> party_input \<Rightarrow> data_party" where
  "roster_party kbs_url prior p =
     \<lparr>dp_id = pi_id p, dp_name = pi_name p, dp_dataset_id = '''', dp_dataset_name = pi_dataset_name p,
      dp_dataset_version = '''', dp_data_url = pi_data_url p,
      dp_constraints = \<lparr>cn_accessibility_level = '''', cn_restricted_to = Some [], cn_consent_valid_until = None\<rparr>,
      dp_trustee = new_trustee kbs_url (pi_dataset_name p) '''',
      dp_signature = zero_signature\<lparr>sg_signed_at := map_of prior (pi_name p)\<rparr>\<rparr>"

definition roster_contract ::
  "world \<Rightarrow> db \<Rightarrow> string \<Rightarrow> string \<Rightarrow> party_input list \<Rightarrow> bool \<Rightarrow> string \<Rightarrow> time \<Rightarrow> contract" where
  "roster_contract W d sid owner parties finalize kbs_url validity =
     (let owner = (if owner = '''' then sid else owner); n = length (t_contracts d);
          dps = map (roster_party kbs_url (existing_signatures W d sid)) parties;
          validity = (if validity \<le> 0 then 90 * 24 * hour else validity)
      in \<lparr>ct_project_id = w_new_id W ''proj'' n, ct_contract_id = w_new_id W ''uuid'' n,
          ct_job_id = w_new_id W ''job'' n, ct_version = (if finalize then 2 else 1),
          ct_lifecycle = \<lparr>lc_created_at = w_now W, lc_valid_from = w_now W, lc_valid_until = w_now W + validity,
            lc_requested_valid_until = None\<rparr>,
          ct_technique = ''FL'', ct_compute_choice = ''FEDERATED_LEARNING'', ct_purpose = '''',
          ct_workload = None, ct_trustee = None, ct_callback_url = '''',
          ct_parties = \<lparr>pt_user = \<lparr>up_id = owner, up_name = owner, up_datablob_url = '''',
              up_signature = zero_signature\<lparr>sg_signed_at := Some (w_now W)\<rparr>\<rparr>,
            pt_data_providers = dps, pt_data_provider_count = int (length dps),
            pt_application_providers = [], pt_infra_providers = [], pt_infra_provider_count = 0\<rparr>,
          ct_session_info = \<lparr>si_id = sid, si_session_id = sid, si_requested_by = ''''\<rparr>,
          ct_contract_hash = '''', ct_governance_signature = None, ct_amendment = None\<rparr>)"

definition build_contract ::
  "crypto \<Rightarrow> world \<Rightarrow> db \<Rightarrow> string \<Rightarrow> string \<Rightarrow> party_input list \<Rightarrow> bool \<Rightarrow> string \<Rightarrow> time \<Rightarrow> contract result" where
  "build_contract C W d sid owner parties finalize kbs_url validity =
     (let c = roster_contract W d sid owner parties finalize kbs_url validity
      in and_then (compute_hash C c) (\<lambda>hash. Inr (c\<lparr>ct_contract_hash := hash\<rparr>)))"

section \<open>Projects\<close>

definition upsert_project ::
  "world \<Rightarrow> string \<Rightarrow> string \<Rightarrow> string \<Rightarrow> string list \<Rightarrow> db \<Rightarrow> unit result \<times> db" where
  "upsert_project W project_id sid owner providers d =
     db_write W ''UpsertProject'' [project_id] ()
       (d\<lparr>t_projects := upsert_row (\<lambda>a b. pj_project_id b = pj_project_id a)
          (\<lambda>a b. b\<lparr>pj_owner := pj_owner a, pj_providers := pj_providers a, pj_updated_at := pj_updated_at a\<rparr>)
          \<lparr>pj_project_id = project_id, pj_session_id = sid, pj_owner = owner, pj_providers = providers,
           pj_created_at = w_now W, pj_updated_at = w_now W\<rparr> (t_projects d)\<rparr>) d"

definition get_project_id_by_session :: "world \<Rightarrow> db \<Rightarrow> string \<Rightarrow> string result" where
  "get_project_id_by_session W d sid =
     db_read W ''GetProjectIDBySession'' [sid]
       (case latest_by pj_created_at (filter (\<lambda>p. pj_session_id p = sid) (t_projects d)) of
          None \<Rightarrow> '''' | Some p \<Rightarrow> pj_project_id p)"

text \<open>Newest first; project, session and providers of each. A blank owner lists them all.\<close>

definition list_projects :: "world \<Rightarrow> db \<Rightarrow> string \<Rightarrow> (string \<times> string \<times> string list) list result" where
  "list_projects W d owner =
     db_read W ''ListProjects'' [owner]
       (map (\<lambda>p. (pj_project_id p, pj_session_id p, pj_providers p))
         (sort_key (\<lambda>p. - pj_created_at p) (filter (\<lambda>p. owner = '''' \<or> pj_owner p = owner) (t_projects d))))"

section \<open>The handlers\<close>

record contract_body =
  cb_submission_id :: string
  cb_owner_user_id :: string
  cb_parties :: "party_input list"
  cb_finalize :: bool

text \<open>
  POST /contracts: the row's id, the contract and how many sign requests were sent. Recording the
  project is best effort.
\<close>

definition new_roster_contract ::
  "server \<Rightarrow> world \<Rightarrow> contract_body option \<Rightarrow> db \<Rightarrow> (contract_body \<times> contract) response" where
  "new_roster_contract S W body d =
     and_then (some_or invalid_json body) (\<lambda>b.
     require (cb_submission_id b \<noteq> '''')
       (HttpError 400 ''MISSING_SELECTOR'' ''submission_id is required'') (
     and_then (or_fail internal_error (build_contract (srv_crypto S) W d (cb_submission_id b)
       (cb_owner_user_id b) (cb_parties b) (cb_finalize b) (cfg_kbs_url (srv_cfg S))
       (cfg_fl_contract_validity (srv_cfg S)))) (\<lambda>c.
     and_then (if cb_finalize b then or_fail internal_error (governance_sign S W c) else Inr c) (\<lambda>c.
     Inr (b, c)))))"

definition post_contract ::
  "server \<Rightarrow> world \<Rightarrow> contract_body option \<Rightarrow> db \<Rightarrow> (string \<times> contract \<times> nat) response \<times> db" where
  "post_contract S W body d =
     (case new_roster_contract S W body d of
        Inl e \<Rightarrow> (Inl e, d)
      | Inr (b, c) \<Rightarrow>
          (case store_contract W c (cb_finalize b) ''FL'' d of
             (Inl e, d) \<Rightarrow> (Inl (internal_error e), d)
           | (Inr row_id, d) \<Rightarrow>
               let d = snd (upsert_project W (ct_project_id c) (si_session_id (ct_session_info c))
                     (up_id (user_party c)) (map pi_name (cb_parties b)) d);
                   sender = (if up_name (user_party c) = '''' then up_id (user_party c) else up_name (user_party c))
               in if cb_finalize b then
                    (case notify_contract_signers S W c sender d of (sent, d) \<Rightarrow> (Inr (row_id, c, sent), d))
                  else (Inr (row_id, c, 0), d)))"

definition get_contract :: "world \<Rightarrow> db \<Rightarrow> string \<Rightarrow> json response" where
  "get_contract W d sid =
     and_then (or_fail internal_error (get_contract_by_session W d sid))
       (some_or (HttpError 404 ''NOT_FOUND'' ''No contract for this session''))"

definition get_contract_by_project :: "world \<Rightarrow> db \<Rightarrow> string \<Rightarrow> json response" where
  "get_contract_by_project W d project_id =
     and_then (or_fail internal_error (get_contract_by_project_id W d project_id))
       (some_or (HttpError 404 ''NOT_FOUND'' ''No contract for this project''))"

definition get_project :: "world \<Rightarrow> db \<Rightarrow> string \<Rightarrow> string response" where
  "get_project W d sid =
     and_then (or_fail internal_error (get_project_id_by_session W d sid)) (\<lambda>p.
     require (p \<noteq> '''') (HttpError 404 ''NOT_FOUND'' ''No project for this session'') (Inr p))"

definition get_projects :: "world \<Rightarrow> db \<Rightarrow> string \<Rightarrow> (string \<times> string \<times> string list) list response" where
  "get_projects W d owner = or_fail internal_error (list_projects W d owner)"

end
