(* ===== verification/Gateway.thy ===== *)
theory Gateway
  imports Signing
begin

text \<open>
  TLS certificates for the gateway of a federated-learning session (\<^verbatim>\<open>httpapi/gateway_certs.go\<close>,
  \<^verbatim>\<open>db/gateway_certs.go\<close>) and the check of a service's token (\<^verbatim>\<open>httpapi/service_auth.go\<close>). Go's
  \<^verbatim>\<open>x509\<close> and \<^verbatim>\<open>net\<close> packages are a parameter, \<open>x509_lib\<close>.
\<close>

section \<open>Service tokens\<close>

definition require_service_token :: "world \<Rightarrow> string \<Rightarrow> string \<Rightarrow> string \<Rightarrow> json response" where
  "require_service_token W azp role auth =
     and_then (some_or (HttpError 401 ''MISSING_AUTH_TOKEN'' '''') (bearer_token auth)) (\<lambda>tok.
     case w_access_token W tok of
       Inr (True, claims) \<Rightarrow>
         require (azp \<noteq> '''' \<and> claim_str ''azp'' claims = azp)
           (HttpError 403 ''FORBIDDEN'' (''token was not issued to the '' @ azp @ '' client'')) (
         require (role \<noteq> '''' \<and> List.member (realm_roles claims) role)
           (HttpError 403 ''FORBIDDEN'' (''token lacks the '' @ role @ '' realm role'')) (Inr claims))
     | _ \<Rightarrow> Inl (HttpError 401 ''INVALID_OR_EXPIRED_TOKEN'' ''''))"

section \<open>Certificates\<close>

datatype csr_key = CsrRsa string nat | CsrEcdsa string bool | CsrOther string
  \<comment> \<open>modulus bits; whether the curve is P-256\<close>

record cert_template =
  cx_serial :: string
  cx_common_name :: string
  cx_ip :: string
  cx_uri :: string
  cx_server_auth :: bool
  cx_key_encipherment :: bool
  cx_not_before :: time
  cx_not_after :: time

record x509_lib =
  xl_parse_csr :: "string \<Rightarrow> csr_key result"  \<comment> \<open>\<^verbatim>\<open>ParseCertificateRequest\<close> and \<^verbatim>\<open>CheckSignature\<close>\<close>
  xl_pem_block :: "string \<Rightarrow> (string \<times> string) option"
  xl_parse_ip :: "string \<Rightarrow> string option"
  xl_random_serial :: "string result"
  xl_sign :: "cert_template \<Rightarrow> csr_key \<Rightarrow> string result"  \<comment> \<open>with the governance key, under the CA\<close>
  xl_parse_cert :: "string \<Rightarrow> time result"  \<comment> \<open>its \<^verbatim>\<open>NotAfter\<close>\<close>

definition parse_gateway_csr :: "x509_lib \<Rightarrow> string \<Rightarrow> csr_key result" where
  "parse_gateway_csr X csr_pem =
     (case xl_pem_block X csr_pem of
        Some (ty, bytes) \<Rightarrow>
          if ty \<noteq> ''CERTIFICATE REQUEST'' then Inl ''csr_pem is not a PEM CERTIFICATE REQUEST''
          else and_then (xl_parse_csr X bytes) (\<lambda>key.
            case key of
              CsrRsa k bits \<Rightarrow> if bits < 2048 then Inl ''RSA key must be at least 2048 bits'' else Inr key
            | CsrEcdsa k p256 \<Rightarrow> if \<not> p256 then Inl ''ECDSA key must be on P-256'' else Inr key
            | CsrOther k \<Rightarrow> Inl ''key must be RSA or ECDSA P-256'')
      | None \<Rightarrow> Inl ''csr_pem is not a PEM CERTIFICATE REQUEST'')"

definition gateway_contract_uri :: "string \<Rightarrow> string" where
  "gateway_contract_uri contract_id = ''urn:p3dx:fl:contract:'' @ contract_id"

abbreviation gateway_cert_backdate :: time where "gateway_cert_backdate \<equiv> 5 * 60 * second"

text \<open>The template of the certificate, the certificate and its serial.\<close>

definition issue_gateway_cert ::
  "server \<Rightarrow> x509_lib \<Rightarrow> bool \<Rightarrow> contract \<Rightarrow> csr_key \<Rightarrow> string \<Rightarrow> time \<Rightarrow> (cert_template \<times> string) result" where
  "issue_gateway_cert S X has_ca c key ip now =
     require (srv_gov_key S \<noteq> None \<and> has_ca) ''governance CA not loaded'' (
     and_then (xl_random_serial X) (\<lambda>serial.
     let tmpl = \<lparr>cx_serial = serial, cx_common_name = ''flotilla-gateway-'' @ ct_project_id c, cx_ip = ip,
           cx_uri = gateway_contract_uri (ct_contract_id c), cx_server_auth = True,
           cx_key_encipherment = (case key of CsrRsa k bits \<Rightarrow> True | _ \<Rightarrow> False),
           cx_not_before = now - gateway_cert_backdate, cx_not_after = lc_valid_until (ct_lifecycle c)\<rparr>
     in and_then (xl_sign X tmpl key) (\<lambda>der. Inr (tmpl, der))))"

text \<open>The serial is the primary key.\<close>

definition insert_gateway_cert :: "world \<Rightarrow> gateway_cert \<Rightarrow> db \<Rightarrow> unit result \<times> db" where
  "insert_gateway_cert W g d =
     (if list_ex (\<lambda>x. gc_serial x = gc_serial g) (t_gateway_certs d)
      then (Inl ''duplicate key value violates unique constraint'', d)
      else db_write W ''InsertGatewayCert'' [gc_serial g] () (d\<lparr>t_gateway_certs := t_gateway_certs d @ [g]\<rparr>) d)"

record gateway_body =
  gb_csr_pem :: string
  gb_server_ip :: string
  gb_submission_id :: string
  gb_project_id :: string

definition missing_gateway_fields :: http_error where
  "missing_gateway_fields = HttpError 400 ''MISSING_FIELDS''
     ''csr_pem, server_ip and exactly one of submission_id / project_id are required''"

text \<open>Everything up to the certificate: who asks, for which contract and which key, at which address.\<close>

definition gateway_contract :: "server \<Rightarrow> world \<Rightarrow> db \<Rightarrow> string \<Rightarrow> string \<Rightarrow> contract response" where
  "gateway_contract S W d submission_id project_id =
     and_then (or_fail (HttpError 500 ''INTERNAL_ERROR'') (if project_id \<noteq> ''''
         then get_contract_by_project_id W d project_id else get_contract_by_session W d submission_id)) (\<lambda>raw.
     and_then (some_or (HttpError 404 ''CONTRACT_NOT_FOUND''
         ''No contract found for this submission_id / project_id'') raw) (\<lambda>raw.
     and_then (or_fail (HttpError 500 ''INTERNAL_ERROR'') (decode_stored raw)) (\<lambda>c.
     require (ct_technique c = ''FL'' \<and> signable c)
       (HttpError 409 ''CONTRACT_NOT_SIGNED'' ''contract is not a final FL roster contract'') (
     require (snd (snd (verify_contract_signatures S W d c)))
       (HttpError 409 ''CONTRACT_NOT_SIGNED''
         ''contract is not signed by the governance layer and every data provider'') (
     require (w_now W < lc_valid_until (ct_lifecycle c))
       (HttpError 410 ''CONTRACT_EXPIRED'' (''contract expired at '' @
          w_format_time W ''2006-01-02T15:04:05Z07:00'' (lc_valid_until (ct_lifecycle c)))) (Inr c))))))"

definition gateway_checks ::
  "server \<Rightarrow> world \<Rightarrow> x509_lib \<Rightarrow> string \<Rightarrow> gateway_body option \<Rightarrow> db \<Rightarrow>
   (json \<times> csr_key \<times> string \<times> contract) response" where
  "gateway_checks S W X auth body d =
     and_then (require_service_token W (cfg_orchestrator_client_id (srv_cfg S))
       (cfg_orchestrator_role (srv_cfg S)) auth) (\<lambda>claims.
     and_then (some_or (HttpError 400 ''INVALID_JSON'' ''Invalid JSON in request body'') body) (\<lambda>b.
     let sub = trim_space (gb_submission_id b); proj = trim_space (gb_project_id b) in
     require (gb_csr_pem b \<noteq> '''' \<and> gb_server_ip b \<noteq> '''' \<and> (sub = '''') \<noteq> (proj = ''''))
       missing_gateway_fields (
     and_then (or_fail (HttpError 400 ''INVALID_CSR'') (parse_gateway_csr X (gb_csr_pem b))) (\<lambda>key.
     and_then (some_or (HttpError 400 ''INVALID_IP'' ''server_ip is not an IP address'')
         (xl_parse_ip X (trim_space (gb_server_ip b)))) (\<lambda>ip.
     and_then (gateway_contract S W d sub proj) (\<lambda>c. Inr (claims, key, ip, c)))))))"

text \<open>The certificate, its template and, parsed back, its end.\<close>

definition make_gateway_cert ::
  "server \<Rightarrow> x509_lib \<Rightarrow> bool \<Rightarrow> contract \<Rightarrow> csr_key \<Rightarrow> string \<Rightarrow> time \<Rightarrow> (cert_template \<times> string \<times> time) result" where
  "make_gateway_cert S X has_ca c key ip now =
     and_then (issue_gateway_cert S X has_ca c key ip now) (\<lambda>(tmpl, der).
     and_then (xl_parse_cert X der) (\<lambda>not_after. Inr (tmpl, der, not_after)))"

definition gateway_record ::
  "server \<Rightarrow> json \<Rightarrow> contract \<Rightarrow> string \<Rightarrow> cert_template \<Rightarrow> string \<Rightarrow> time \<Rightarrow> gateway_cert" where
  "gateway_record S claims c ip tmpl der not_after =
     \<lparr>gc_serial = cx_serial tmpl, gc_submission_id = si_session_id (ct_session_info c),
      gc_project_id = ct_project_id c, gc_contract_id = ct_contract_id c, gc_job_id = ct_job_id c,
      gc_server_ip = ip, gc_fingerprint = hex_encode (srv_crypto S) (sha256_sum (srv_crypto S) der),
      gc_not_after = not_after, gc_requested_by = claim_str ''azp'' claims\<rparr>"

text \<open>POST /gateway-certs: the certificate, its template and the contract it was issued for.\<close>

definition post_gateway_cert ::
  "server \<Rightarrow> world \<Rightarrow> x509_lib \<Rightarrow> bool \<Rightarrow> string \<Rightarrow> gateway_body option \<Rightarrow> db \<Rightarrow>
   (string \<times> cert_template \<times> contract) response \<times> db" where
  "post_gateway_cert S W X has_ca auth body d =
     (case gateway_checks S W X auth body d of
        Inl e \<Rightarrow> (Inl e, d)
      | Inr (claims, key, ip, c) \<Rightarrow>
          (case make_gateway_cert S X has_ca c key ip (w_now W) of
             Inl e \<Rightarrow> (Inl (HttpError 500 ''INTERNAL_ERROR'' e), d)
           | Inr (tmpl, der, not_after) \<Rightarrow>
               (case insert_gateway_cert W (gateway_record S claims c ip tmpl der not_after) d of
                  (Inl e, d) \<Rightarrow>
                    (Inl (HttpError 500 ''INTERNAL_ERROR'' ''could not record the issued certificate''), d)
                | (Inr u, d) \<Rightarrow> (Inr (der, tmpl, c), d))))"

text \<open>GET /governance/ca-cert\<close>

definition get_governance_ca_cert :: "string \<Rightarrow> string response" where
  "get_governance_ca_cert ca_pem =
     (if ca_pem = '''' then Inl (HttpError 503 ''CA_NOT_LOADED'' '''') else Inr ca_pem)"

end
