(* ===== verification/FL_Facts.thy ===== *)
theory FL_Facts
  imports FL_Contracts Gateway Contract_Edit
begin

text \<open>
  What holds of the contracts of federated-learning sessions and of the gateway certificates
  issued for them.
\<close>

section \<open>A final roster contract\<close>

text \<open>The ids the request draws are new (\<^verbatim>\<open>NewUUID\<close>, \<^verbatim>\<open>newID\<close> draw them at random).\<close>

definition fresh_roster_ids :: "world \<Rightarrow> db \<Rightarrow> bool" where
  "fresh_roster_ids W d \<longleftrightarrow> (\<forall>r \<in> set (t_contracts d).
     \<not> row_has_contract_id (w_new_id W ''uuid'' (length (t_contracts d))) r \<and>
     cr_project_id r \<noteq> w_new_id W ''proj'' (length (t_contracts d)))"

lemma store_new_contract:
  assumes "store_contract W c fin path d = (Inr rid, d')" and "ct_job_id c \<noteq> ''''"
    and "\<forall>r \<in> set (t_contracts d). \<not> row_has_contract_id (ct_contract_id c) r \<and> cr_project_id r \<noteq> ct_project_id c"
  shows "stored_contract d' (ct_contract_id c) = Some c \<and>
    (\<forall>cid. cid = ct_contract_id c \<or> stored_contract d' cid = stored_contract d cid) \<and>
    d' = d\<lparr>t_contracts := t_contracts d'\<rparr>"
proof -
  have no: "\<not> list_ex (\<lambda>x. cr_project_id x = ct_project_id c) (t_contracts d)"
    using assms(3) by (auto simp: list_ex_iff)
  obtain r where d': "d' = d\<lparr>t_contracts := t_contracts d @ [r]\<rparr>" and r: "cr_contract r = enc_contract c"
    using assms(1,2) no
    by (auto simp: store_contract_def store_contract_rows_def Let_def upsert_row_def db_write_Inr
        split: sum.splits if_splits)
  have "stored_contract d' (ct_contract_id c) = Some c"
    by (rule stored_contract_all [of r]) (use assms(3) in \<open>auto simp: d' r\<close>)
  moreover have "stored_contract d' cid = stored_contract d cid" if "cid \<noteq> ct_contract_id c" for cid
    by (rule stored_contract_filter) (use that in \<open>auto simp: d' r\<close>)
  ultimately show ?thesis by (auto simp: d')
qed

lemma governance_sign_Inr:
  assumes "governance_sign S W c = Inr c'" and "gov_key_sound S"
  shows "unsigned c' = unsigned c \<and> ct_contract_hash c' = ct_contract_hash c \<and>
    ct_parties c' = ct_parties c \<and> ct_contract_id c' = ct_contract_id c \<and>
    ct_project_id c' = ct_project_id c \<and> ct_job_id c' = ct_job_id c \<and> ct_version c' = ct_version c \<and>
    governance_signature_valid S c' (ct_contract_hash c')"
  using assms unfolding governance_sign_def gov_key_sound_def
  by (auto simp: governance_signature_valid_def signature_over_def)

lemma new_roster_contract_body: "new_roster_contract S W (Some b) d = Inr (b', c) \<Longrightarrow> b' = b"
  by (auto simp: new_roster_contract_def)

lemma upsert_project_frame [simp]: "t_contracts (snd (upsert_project W p s u ps d)) = t_contracts d"
  by (simp add: upsert_project_def db_write_def split: option.split)

lemma post_contract_Inr:
  assumes "post_contract S W (Some b) d = (Inr (rid, c, sent), d')"
  obtains d1 where "new_roster_contract S W (Some b) d = Inr (b, c)"
    and "store_contract W c (cb_finalize b) ''FL'' d = (Inr rid, d1)" and "t_contracts d' = t_contracts d1"
proof -
  obtain c1 where n: "new_roster_contract S W (Some b) d = Inr (b, c1)"
    using assms new_roster_contract_body [of S W b d]
    by (cases "new_roster_contract S W (Some b) d") (auto simp: post_contract_def)
  obtain rid1 d1 where st: "store_contract W c1 (cb_finalize b) ''FL'' d = (Inr rid1, d1)"
    using assms by (cases "store_contract W c1 (cb_finalize b) ''FL'' d"; cases "fst (store_contract W c1 (cb_finalize b) ''FL'' d)")
      (auto simp: post_contract_def n)
  let ?d2 = "snd (upsert_project W (ct_project_id c1) (si_session_id (ct_session_info c1))
      (up_id (user_party c1)) (map pi_name (cb_parties b)) d1)"
  let ?sender = "if up_name (user_party c1) = '''' then up_id (user_party c1) else up_name (user_party c1)"
  obtain k d3 where nt: "notify_contract_signers S W c1 ?sender ?d2 = (k, d3)" by (metis surj_pair)
  then have "t_contracts d3 = t_contracts d1"
    using notify_contract_signers_frame(1) [of S W c1 ?sender ?d2] by simp
  then show thesis
    using assms n st nt that [of d1] by (auto simp: post_contract_def Let_def split: if_splits)
qed

lemma unsigned_refused:
  assumes "stored_contract d cid = Some c" and "\<forall>p \<in> set (data_providers c). sg_value (dp_signature p) = []"
  shows "require_all_providers_signed S W d cid \<noteq> Inr x"
proof (cases "data_providers c")
  case Nil
  then show ?thesis
    using assms by (auto simp: gate_iff_authorised run_authorised_def data_parties_consent_def load_contract_Some)
next
  case (Cons p ps)
  then show ?thesis using blank_refused [of d cid c p] assms by simp
qed

text \<open>
  C31. The final roster contract: sent out by POST /contracts, it is stored under a new contract id
  beside every other contract, hashed and signed by the governance layer over that hash, with one
  party per provider of the request in that order. Earlier acceptances carry over as their date
  only: nobody's signature is on it, and no run passes the gate on it until somebody signs.
\<close>

theorem final_roster_unsigned:
  assumes "post_contract S W (Some b) d = (Inr (rid, c, sent), d')" and "cb_finalize b"
    and "fresh_roster_ids W d" and "gov_key_sound S" and "\<And>n. w_new_id W ''job'' n \<noteq> ''''"
  shows "stored_contract d' (ct_contract_id c) = Some c \<and>
    (\<forall>cid. cid = ct_contract_id c \<or> stored_contract d' cid = stored_contract d cid) \<and>
    signable c \<and> compute_hash (srv_crypto S) c = Inr (ct_contract_hash c) \<and>
    governance_signature_valid S c (ct_contract_hash c) \<and>
    map dp_name (data_providers c) = map pi_name (cb_parties b) \<and>
    (\<forall>p \<in> set (data_providers c). sg_value (dp_signature p) = '''' \<and>
      sg_signed_at (dp_signature p) = map_of (existing_signatures W d (cb_submission_id b)) (dp_name p)) \<and>
    require_all_providers_signed S W' d' (ct_contract_id c) \<noteq> Inr c''"
proof -
  let ?c0 = "roster_contract W d (cb_submission_id b) (cb_owner_user_id b) (cb_parties b) True
      (cfg_kbs_url (srv_cfg S)) (cfg_fl_contract_validity (srv_cfg S))"
  obtain d1 where n: "new_roster_contract S W (Some b) d = Inr (b, c)"
      and st: "store_contract W c True ''FL'' d = (Inr rid, d1)" and d': "t_contracts d' = t_contracts d1"
    using post_contract_Inr [OF assms(1)] assms(2) by auto
  obtain h where h: "compute_hash (srv_crypto S) ?c0 = Inr h"
      and g: "governance_sign S W (?c0\<lparr>ct_contract_hash := h\<rparr>) = Inr c"
    using n assms(2) by (auto simp: new_roster_contract_def build_contract_def Let_def)
  note c = governance_sign_Inr [OF g assms(4)]
  have ids: "ct_contract_id c = w_new_id W ''uuid'' (length (t_contracts d))"
      "ct_project_id c = w_new_id W ''proj'' (length (t_contracts d))" "ct_job_id c \<noteq> ''''"
    using c assms(5) by (simp_all add: roster_contract_def Let_def)
  have s: "stored_contract d' = stored_contract d1" by (rule stored_contract_cong [OF d'])
  note stored = store_new_contract [OF st ids(3), unfolded ids, OF assms(3) [unfolded fresh_roster_ids_def]]
  have dps: "data_providers c = map (roster_party (cfg_kbs_url (srv_cfg S))
      (existing_signatures W d (cb_submission_id b))) (cb_parties b)"
    using c by (simp add: roster_contract_def Let_def)
  have blank: "sg_value (dp_signature p) = '''' \<and>
      sg_signed_at (dp_signature p) = map_of (existing_signatures W d (cb_submission_id b)) (dp_name p)"
    if "p \<in> set (data_providers c)" for p
    using that unfolding dps by (auto simp: roster_party_def zero_signature_def)
  have closed: "require_all_providers_signed S W' d' (ct_contract_id c) \<noteq> Inr c''"
    using unsigned_refused [of d' "ct_contract_id c" c] blank stored by (simp add: s ids)
  have "signable c" using c by (simp add: roster_contract_def Let_def signable_def)
  moreover have "compute_hash (srv_crypto S) c = Inr (ct_contract_hash c)"
    using c h compute_hash_unsigned [of c ?c0 "srv_crypto S"] by simp
  moreover have "map dp_name (data_providers c) = map pi_name (cb_parties b)"
    unfolding dps by (simp add: roster_party_def)
  moreover have "governance_signature_valid S c (ct_contract_hash c)" using c by blast
  moreover have "stored_contract d' (ct_contract_id c) = Some c \<and>
      (\<forall>cid. cid = ct_contract_id c \<or> stored_contract d' cid = stored_contract d cid)"
    using stored by (simp only: s ids simp_thms)
  ultimately show ?thesis using blank closed by blast
qed

definition roster_body :: contract_body where
  "roster_body = \<lparr>cb_submission_id = ''s'', cb_owner_user_id = ''u'',
     cb_parties = [\<lparr>pi_id = ''1'', pi_name = ''a'', pi_dataset_name = ''x'', pi_data_url = ''''\<rparr>], cb_finalize = True\<rparr>"

definition empty_db :: db where
  "empty_db = (sample_db sample_draft)\<lparr>t_contracts := []\<rparr>"

lemma final_roster_unsigned_witness:
  "\<exists>c d'. stored_contract d' ''uuid0'' = Some c \<and> map dp_name (data_providers c) = [''a''] \<and>
     require_all_providers_signed sample_server (sample_world 1) d' ''uuid0'' \<noteq> Inr c"
proof -
  let ?r = "post_contract sample_server (sample_world 1) (Some roster_body) empty_db"
  have ok: "case fst ?r of Inl e \<Rightarrow> False | Inr v \<Rightarrow> ct_contract_id (fst (snd v)) = ''uuid0''" by code_simp
  obtain rid c sent d' where r: "?r = (Inr (rid, c, sent), d')" and i: "ct_contract_id c = ''uuid0''"
    using reply_obtain [OF ok] by auto
  have "fresh_roster_ids (sample_world 1) empty_db" by (simp add: fresh_roster_ids_def empty_db_def)
  moreover have "cb_finalize roster_body" by (simp add: roster_body_def)
  moreover have "w_new_id (sample_world 1) ''job'' n \<noteq> ''''" for n by (simp add: sample_world_def)
  ultimately have "stored_contract d' ''uuid0'' = Some c \<and> map dp_name (data_providers c) = map pi_name (cb_parties roster_body) \<and>
      require_all_providers_signed sample_server (sample_world 1) d' ''uuid0'' \<noteq> Inr c"
    using final_roster_unsigned [OF r _ _ sample_gov_key_sound, of "sample_world 1" c] by (simp only: i) blast
  then show ?thesis by (intro exI [of _ c] exI [of _ d']) (simp add: roster_body_def)
qed

section \<open>Gateway certificates\<close>

lemma require_service_token_Inr:
  "require_service_token W azp role auth = Inr claims \<Longrightarrow>
   \<exists>tok. bearer_token auth = Some tok \<and> w_access_token W tok = Inr (True, claims) \<and> azp \<noteq> '''' \<and>
     claim_str ''azp'' claims = azp \<and> role \<in> set (realm_roles claims)"
  unfolding require_service_token_def and_then_Inr some_or_Inr
  by (elim exE conjE, rename_tac tok, case_tac "w_access_token W tok") (auto split: prod.splits bool.splits if_splits)

lemma gateway_contract_Inr:
  assumes "gateway_contract S W d sub proj = Inr c"
  shows "(\<exists>r \<in> set (t_contracts d). decode_stored (cr_contract r) = Inr c) \<and> ct_technique c = ''FL'' \<and>
    ct_version c \<ge> 2 \<and> w_now W < lc_valid_until (ct_lifecycle c) \<and> content_matches_signed_hash S c \<and>
    governance_signature_ok S c (ct_contract_hash c) \<and> data_parties_consent S W d c"
proof -
  obtain raw where raw: "(if proj \<noteq> '''' then get_contract_by_project_id W d proj
        else get_contract_by_session W d sub) = Inr (Some raw)"
      and c: "decode_stored raw = Inr c" "ct_technique c = ''FL''" "signable c"
        "snd (snd (verify_contract_signatures S W d c))" "w_now W < lc_valid_until (ct_lifecycle c)"
    using assms unfolding gateway_contract_def by (auto simp only: early_return)
  have "\<exists>r \<in> set (t_contracts d). cr_contract r = raw"
  proof (cases "proj = ''''")
    case True
    then obtain r where "latest_by cr_updated_at (filter (\<lambda>r. cr_session_id r = sub) (t_contracts d)) = Some r"
        and "cr_contract r = raw"
      using raw by (auto simp: get_contract_by_session_def eq_commute [of "Some raw"])
    then show ?thesis using latest_by_in by fastforce
  next
    case False
    then obtain r where "List.find (\<lambda>r. cr_project_id r = proj) (t_contracts d) = Some r" and "cr_contract r = raw"
      using raw by (auto simp: get_contract_by_project_id_def eq_commute [of "Some raw"])
    then show ?thesis using find_Some by fastforce
  qed
  then show ?thesis using c by (auto simp: verify_contract_signatures_all_valid signable_def)
qed

lemma post_gateway_cert_Inr:
  assumes "post_gateway_cert S W X has_ca auth body d = (Inr (der, tmpl, c), d')"
  obtains claims key ip na g where "gateway_checks S W X auth body d = Inr (claims, key, ip, c)"
    and "make_gateway_cert S X has_ca c key ip (w_now W) = Inr (tmpl, der, na)"
    and "insert_gateway_cert W g d = (Inr (), d')" and "g = gateway_record S claims c ip tmpl der na"
proof -
  obtain claims key ip c1 where ch: "gateway_checks S W X auth body d = Inr (claims, key, ip, c1)"
    using assms by (cases "gateway_checks S W X auth body d") (auto simp: post_gateway_cert_def)
  obtain tmpl1 der1 na where mk: "make_gateway_cert S X has_ca c1 key ip (w_now W) = Inr (tmpl1, der1, na)"
    using assms by (cases "make_gateway_cert S X has_ca c1 key ip (w_now W)") (auto simp: post_gateway_cert_def ch)
  let ?i = "insert_gateway_cert W (gateway_record S claims c1 ip tmpl1 der1 na) d"
  obtain d1 where "?i = (Inr (), d1)"
    using assms by (cases "?i"; cases "fst ?i") (auto simp: post_gateway_cert_def ch mk)
  then show thesis using assms that ch mk by (auto simp: post_gateway_cert_def)
qed

text \<open>
  C32. Every gateway certificate handed out was asked for by the orchestrator's own service account,
  for a stored final roster contract that has not expired, whose content is what was hashed, that
  every data provider on it has signed with their registered key and the governance layer has
  signed; it names that contract, ends with it, and is on record, under a serial no earlier
  certificate has and with the digest of the certificate, before it is returned. Nothing else changes.
\<close>

theorem gateway_cert_authorised:
  assumes "post_gateway_cert S W X has_ca auth body d = (Inr (der, tmpl, c), d')"
  shows "(\<exists>tok claims. bearer_token auth = Some tok \<and> w_access_token W tok = Inr (True, claims) \<and>
      claim_str ''azp'' claims = cfg_orchestrator_client_id (srv_cfg S) \<and>
      cfg_orchestrator_client_id (srv_cfg S) \<noteq> '''') \<and>
    (\<exists>r \<in> set (t_contracts d). decode_stored (cr_contract r) = Inr c) \<and>
    ct_technique c = ''FL'' \<and> ct_version c \<ge> 2 \<and> w_now W < lc_valid_until (ct_lifecycle c) \<and>
    content_matches_signed_hash S c \<and> governance_signature_ok S c (ct_contract_hash c) \<and>
    data_parties_consent S W d c \<and>
    cx_not_after tmpl = lc_valid_until (ct_lifecycle c) \<and>
    cx_uri tmpl = gateway_contract_uri (ct_contract_id c) \<and>
    (\<exists>g. d' = d\<lparr>t_gateway_certs := t_gateway_certs d @ [g]\<rparr> \<and> gc_serial g = cx_serial tmpl \<and>
      gc_contract_id g = ct_contract_id c \<and>
      gc_fingerprint g = hex_encode (srv_crypto S) (sha256_sum (srv_crypto S) der) \<and>
      (\<forall>x \<in> set (t_gateway_certs d). gc_serial x \<noteq> cx_serial tmpl))"
proof -
  obtain claims key ip na g where ch: "gateway_checks S W X auth body d = Inr (claims, key, ip, c)"
      and mk: "make_gateway_cert S X has_ca c key ip (w_now W) = Inr (tmpl, der, na)"
      and g: "insert_gateway_cert W g d = (Inr (), d')" "g = gateway_record S claims c ip tmpl der na"
    using assms by (rule post_gateway_cert_Inr)
  have iss: "issue_gateway_cert S X has_ca c key ip (w_now W) = Inr (tmpl, der)"
    using mk by (auto simp: make_gateway_cert_def)
  have rec: "\<exists>g. d' = d\<lparr>t_gateway_certs := t_gateway_certs d @ [g]\<rparr> \<and> gc_serial g = cx_serial tmpl \<and>
      gc_contract_id g = ct_contract_id c \<and>
      gc_fingerprint g = hex_encode (srv_crypto S) (sha256_sum (srv_crypto S) der) \<and>
      (\<forall>x \<in> set (t_gateway_certs d). gc_serial x \<noteq> cx_serial tmpl)"
    using g(1) by (intro exI [of _ g])
      (auto simp: insert_gateway_cert_def db_write_Inr list_ex_iff g(2) gateway_record_def split: if_splits)
  obtain sub proj where gc: "gateway_contract S W d sub proj = Inr c"
      and st: "require_service_token W (cfg_orchestrator_client_id (srv_cfg S))
        (cfg_orchestrator_role (srv_cfg S)) auth = Inr claims"
    using ch unfolding gateway_checks_def Let_def by (auto simp only: early_return)
  have ends: "cx_not_after tmpl = lc_valid_until (ct_lifecycle c)"
      "cx_uri tmpl = gateway_contract_uri (ct_contract_id c)"
    using iss by (auto simp: issue_gateway_cert_def Let_def)
  from require_service_token_Inr [OF st] have tok: "\<exists>tok claims. bearer_token auth = Some tok \<and>
      w_access_token W tok = Inr (True, claims) \<and>
      claim_str ''azp'' claims = cfg_orchestrator_client_id (srv_cfg S) \<and>
      cfg_orchestrator_client_id (srv_cfg S) \<noteq> ''''"
    by blast
  show ?thesis
    using gateway_contract_Inr [OF gc] tok rec ends by (intro conjI) (elim conjE, assumption)+
qed

text \<open>A roster contract one provider has signed, and a toy \<^verbatim>\<open>x509\<close> library.\<close>

definition sample_roster :: contract where
  "sample_roster = (let c = sample_draft\<lparr>ct_technique := ''FL'', ct_version := 2\<rparr>
     in fold (\<lambda>n. put_provider_signature (''provider-'' @ n)
       (signature_over 2 n ''sha256:cu'' (n @ ''sha256:cu''))) [''a'', ''b''] c)"

definition sample_x509 :: x509_lib where
  "sample_x509 = \<lparr>xl_parse_csr = (\<lambda>b. Inr (CsrEcdsa b True)),
     xl_pem_block = (\<lambda>s. Some (''CERTIFICATE REQUEST'', s)), xl_parse_ip = Some,
     xl_random_serial = Inr ''7'', xl_sign = (\<lambda>t k. Inr (cx_common_name t)), xl_parse_cert = (\<lambda>s. Inr 9)\<rparr>"

definition orchestrator_world :: world where
  "orchestrator_world = (sample_world 1)\<lparr>w_access_token := (\<lambda>tok.
     Inr (True, JObj [(''azp'', JStr ''orch''), (''realm_access'', JObj [(''roles'', JArr [JStr ''provider''])])]))\<rparr>"

definition gateway_request :: gateway_body where
  "gateway_request = \<lparr>gb_csr_pem = ''k'', gb_server_ip = ''10.0.0.1'', gb_submission_id = ''s'', gb_project_id = ''''\<rparr>"

lemma gateway_cert_authorised_witness:
  "\<exists>der tmpl c d'. post_gateway_cert sample_server orchestrator_world sample_x509 True ''Bearer t''
      (Some gateway_request) (sample_db sample_roster) = (Inr (der, tmpl, c), d') \<and>
     data_parties_consent sample_server orchestrator_world (sample_db sample_roster) c"
proof -
  let ?r = "post_gateway_cert sample_server orchestrator_world sample_x509 True ''Bearer t''
      (Some gateway_request) (sample_db sample_roster)"
  have ok: "case fst ?r of Inl e \<Rightarrow> False | Inr v \<Rightarrow> True" by code_simp
  obtain der tmpl c d' where r: "?r = (Inr (der, tmpl, c), d')"
    using reply_obtain [OF ok] by auto
  from gateway_cert_authorised [OF r] show ?thesis using r by blast
qed

end
