(* ===== verification/Marshal.thy ===== *)
theory Marshal
  imports Contract
begin

text \<open>
  When a contract can be marshalled and hashed: exactly when every time it holds lies in the years
  0 to 9999 that \<^verbatim>\<open>time.Time\<close> marshals.
\<close>

definition opt_time_ok :: "time option \<Rightarrow> bool" where
  "opt_time_ok t \<longleftrightarrow> (case t of None \<Rightarrow> True | Some t \<Rightarrow> time_ok t)"

lemma opt_time_ok_simps [simp]: "opt_time_ok None" "opt_time_ok (Some t) \<longleftrightarrow> time_ok t"
  by (simp_all add: opt_time_ok_def)

definition opt_json_ok :: "json option \<Rightarrow> bool" where
  "opt_json_ok j \<longleftrightarrow> (case j of None \<Rightarrow> True | Some j \<Rightarrow> json_ok j)"

lemma opt_json_ok_simps [simp]:
  "opt_json_ok None" "opt_json_ok (Some j) \<longleftrightarrow> json_ok j" "opt_json_ok (omit_str s)" "opt_json_ok (omit_env kvs)"
  "opt_json_ok (map_option JTime t) \<longleftrightarrow> opt_time_ok t" "json_ok (enc_opt JTime t) \<longleftrightarrow> opt_time_ok t"
  "json_ok (enc_opt (\<lambda>ss. JArr (map JStr ss)) x)"
  by (auto simp: opt_json_ok_def omit_str_def omit_env_def enc_opt_def opt_time_ok_def split: option.split)

lemma json_ok_fields_Nil [simp]: "json_ok (json_fields [])"
  by (simp add: json_fields_def map_filter_simps)

lemma json_ok_fields_Cons [simp]: "json_ok (json_fields ((k, v) # kvs)) \<longleftrightarrow> opt_json_ok v \<and> json_ok (json_fields kvs)"
  by (cases v) (simp_all add: json_fields_def map_filter_simps)

lemma json_ok_Arr_map [simp]: "json_ok (JArr (map f xs)) \<longleftrightarrow> (\<forall>x \<in> set xs. json_ok (f x))"
  by simp

definition signature_ok :: "signature \<Rightarrow> bool" where
  "signature_ok s \<longleftrightarrow> opt_time_ok (sg_signed_at s) \<and> opt_time_ok (sg_withdrawn_at s)"

lemma json_ok_signature [simp]: "json_ok (enc_signature s) \<longleftrightarrow> signature_ok s"
  by (simp add: enc_signature_def signature_ok_def)

lemma json_ok_constraints [simp]: "json_ok (enc_constraints x) \<longleftrightarrow> opt_time_ok (cn_consent_valid_until x)"
  by (simp add: enc_constraints_def)

lemma json_ok_plain [simp]:
  "json_ok (enc_trustee t)" "json_ok (enc_workload_resources r)" "json_ok (enc_job_trustee jt)"
  "json_ok (enc_attestation a)" "json_ok (enc_resource_allocation ra)" "json_ok (enc_session_info si)"
  "json_ok (enc_workload w)"
  by (simp_all add: enc_trustee_def enc_workload_resources_def enc_job_trustee_def enc_attestation_def
      enc_resource_allocation_def enc_session_info_def enc_workload_def)

lemma opt_json_ok_plain [simp]:
  "opt_json_ok (map_option enc_workload w)" "opt_json_ok (map_option enc_job_trustee jt)"
  "opt_json_ok (map_option enc_trustee t)"
  "opt_json_ok (map_option enc_signature s) \<longleftrightarrow> (case s of None \<Rightarrow> True | Some s \<Rightarrow> signature_ok s)"
  by (simp_all add: opt_json_ok_def split: option.split)

lemma json_ok_user [simp]: "json_ok (enc_user_party u) \<longleftrightarrow> signature_ok (up_signature u)"
  by (simp add: enc_user_party_def)

lemma json_ok_data [simp]: "json_ok (enc_data_party p) \<longleftrightarrow>
    opt_time_ok (cn_consent_valid_until (dp_constraints p)) \<and> signature_ok (dp_signature p)"
  by (simp add: enc_data_party_def)

lemma json_ok_app [simp]: "json_ok (enc_app_party p) \<longleftrightarrow>
    opt_time_ok (cn_consent_valid_until (ap_constraints p)) \<and> signature_ok (ap_signature p)"
  by (simp add: enc_app_party_def)

lemma json_ok_infra [simp]: "json_ok (enc_infra_party p) \<longleftrightarrow>
    opt_time_ok (cn_consent_valid_until (ip_constraints p)) \<and> signature_ok (ip_signature p)"
  by (simp add: enc_infra_party_def)

lemma json_ok_lifecycle [simp]: "json_ok (enc_lifecycle l) \<longleftrightarrow> time_ok (lc_created_at l) \<and>
    time_ok (lc_valid_from l) \<and> time_ok (lc_valid_until l) \<and> opt_time_ok (lc_requested_valid_until l)"
  by (simp add: enc_lifecycle_def)

lemma json_ok_contract:
  "json_ok (enc_contract c) \<longleftrightarrow> json_ok (enc_lifecycle (ct_lifecycle c)) \<and> json_ok (enc_parties (ct_parties c)) \<and>
     opt_json_ok (map_option enc_signature (ct_governance_signature c)) \<and>
     opt_json_ok (map_option enc_signature (ct_amendment c))"
  by (simp add: enc_contract_def)

lemma signature_ok_zero [simp]: "signature_ok zero_signature"
  by (simp add: signature_ok_def zero_signature_def)

lemma json_ok_parties: "json_ok (enc_parties ps) \<longleftrightarrow> signature_ok (up_signature (pt_user ps)) \<and>
    (\<forall>p \<in> set (pt_data_providers ps). json_ok (enc_data_party p)) \<and>
    (\<forall>p \<in> set (pt_application_providers ps). json_ok (enc_app_party p)) \<and>
    (\<forall>p \<in> set (pt_infra_providers ps). json_ok (enc_infra_party p))"
  by (simp add: enc_parties_def)

text \<open>What can be marshalled can be hashed: blanking signatures adds no time.\<close>

lemma json_ok_unsigned: "json_ok (enc_contract c) \<Longrightarrow> json_ok (enc_contract (unsigned c))"
  by (simp add: json_ok_contract json_ok_parties unsigned_def without_signatures_def Let_def set_user_sig_def
      set_data_sig_def set_app_sig_def set_infra_sig_def)

lemma compute_hash_marshals:
  assumes "json_ok (enc_contract c)"
  obtains h where "compute_hash C c = Inr h"
  using json_ok_unsigned [OF assms] by (simp add: compute_hash_def Let_def)

end
