(* ===== verification/Generation_Facts.thy ===== *)
theory Generation_Facts
  imports Generation FL_Facts Marshal "HOL-Library.Multiset"
begin

text \<open>
  What holds of a generated contract: it is stored unsigned under the key of its selection, with
  the hash its providers will sign.
\<close>

section \<open>The stored documents\<close>

text \<open>The session and document of every contract row.\<close>

definition documents :: "db \<Rightarrow> (string \<times> json) list" where
  "documents d = map (\<lambda>r. (cr_session_id r, cr_contract r)) (t_contracts d)"

lemma documents_cong: "t_contracts d' = t_contracts d \<Longrightarrow> documents d' = documents d"
  by (simp add: documents_def)

lemma stored_documents:
  assumes "(s, enc_contract c) \<in> set (documents d)"
    and "\<And>s j. (s, j) \<in> set (documents d) \<Longrightarrow> jget ''contract_id'' j = JStr (ct_contract_id c) \<Longrightarrow> j = enc_contract c"
  shows "stored_contract d (ct_contract_id c) = Some c"
proof -
  obtain r where r: "r \<in> set (t_contracts d)" "cr_contract r = enc_contract c"
    using assms(1) by (auto simp: documents_def)
  show ?thesis
  proof (rule stored_contract_all [OF r(1)])
    show "row_has_contract_id (ct_contract_id c) r" using r(2) by simp
  next
    fix x
    assume "x \<in> set (t_contracts d)" "row_has_contract_id (ct_contract_id c) x"
    then show "cr_contract x = enc_contract c"
      using assms(2) [of "cr_session_id x" "cr_contract x"] by (auto simp: documents_def row_has_contract_id_def)
  qed
qed

lemma stored_documents_None:
  "(\<And>s j. (s, j) \<in> set (documents d) \<Longrightarrow> jget ''contract_id'' j \<noteq> JStr cid) \<Longrightarrow> stored_contract d cid = None"
  unfolding stored_contract_def documents_def row_has_contract_id_def
  by (subst filter_False) auto

text \<open>A row's document put in place of every earlier one of its session.\<close>

definition put_at :: "string \<Rightarrow> json \<Rightarrow> (string \<times> json) list \<Rightarrow> (string \<times> json) list" where
  "put_at key j = upsert_row (\<lambda>a b. fst b = fst a) (\<lambda>a b. a) (key, j)"

lemma set_put_at: "set (put_at key j ds) = insert (key, j) {x \<in> set ds. fst x \<noteq> key}"
  by (auto simp: put_at_def upsert_row_def list_ex_iff)

lemma length_put_at: "length (put_at key j ds) = (if key \<in> fst ` set ds then length ds else Suc (length ds))"
  by (auto simp: put_at_def upsert_row_def list_ex_iff)

text \<open>
  The ids the request draws are new (\<^verbatim>\<open>NewUUID\<close>, \<^verbatim>\<open>NewJobID\<close>, \<^verbatim>\<open>newID\<close> draw them at random).
\<close>

definition fresh_draft_ids :: "world \<Rightarrow> db \<Rightarrow> bool" where
  "fresh_draft_ids W d \<longleftrightarrow> (let n = length (t_contracts d) in
     list_all (\<lambda>r. \<not> row_has_contract_id (w_new_id W ''uuid'' n) r \<and> cr_id r \<noteq> w_new_id W ''con'' n \<and>
       cr_project_id r \<noteq> w_new_id W ''uuid'' n \<and> cr_job_id r \<noteq> Some (w_new_id W ''job'' n)) (t_contracts d))"

lemma is_preview_session [simp]: "is_preview (preview_session u ids tq)"
  by (simp add: is_preview_def preview_session_def has_prefix_def)

text \<open>A preview row is put in the place of the one row of its session, or at the end.\<close>

lemma upsert_preview:
  assumes "contracts_unique rs" and "is_preview (cr_session_id r)" and "new_keys (r\<lparr>cr_session_id := ''''\<rparr>) rs"
  shows "contracts_unique (upsert_row (\<lambda>a b. cr_session_id b = cr_session_id a) (\<lambda>a b. a\<lparr>cr_id := cr_id b\<rparr>) r rs)"
proof (cases "list_ex (\<lambda>b. cr_session_id b = cr_session_id r) rs")
  case False
  then have "new_keys r rs" using assms(3) by (auto simp: new_keys_def list_ex_iff)
  then have "contracts_unique (rs @ [r])" using contracts_unique_put [of rs "[]" r] assms(1) by simp
  then show ?thesis using False by (simp add: upsert_row_def)
next
  case True
  then obtain as x bs where rs: "rs = as @ x # bs" and x: "cr_session_id x = cr_session_id r"
    by (auto simp: list_ex_iff dest!: split_list)
  have other: "\<forall>y \<in> set (as @ bs). cr_session_id y \<noteq> cr_session_id r"
  proof -
    have "distinct (filter is_preview (map cr_session_id rs))"
      using assms(1) by (simp add: contracts_unique_def)
    then have "cr_session_id x \<notin> set (filter is_preview (map cr_session_id (as @ bs)))"
      using assms(2) x by (auto simp: rs)
    then show ?thesis using assms(2) x by (auto simp: image_iff)
  qed
  have ids: "\<forall>y \<in> set (as @ bs). cr_id y \<noteq> cr_id x"
  proof -
    have "distinct (map cr_id rs)" using assms(1) by (simp add: contracts_unique_def)
    then show ?thesis by (auto simp: rs image_iff)
  qed
  let ?r = "r\<lparr>cr_id := cr_id x\<rparr>"
  have "new_keys ?r (as @ bs)" using other ids assms(3) unfolding rs new_keys_def by simp
  then have u: "contracts_unique (as @ ?r # bs)"
    using contracts_unique_put contracts_unique_drop [OF assms(1) [unfolded rs]] by blast
  have "map (\<lambda>b. if cr_session_id b = cr_session_id r then r\<lparr>cr_id := cr_id b\<rparr> else b) rs = as @ ?r # bs"
    using other x unfolding rs by (auto intro!: map_idI)
  then show ?thesis using u True by (simp add: upsert_row_def)
qed

lemma store_generated_documents:
  assumes "store_generated_contract W u ids tq cid jid raw d = (Inr rid, d')"
  shows "documents d' = put_at (preview_session u ids tq) raw (documents d) \<and> contracts_unique (t_contracts d')"
  using assms
  by (auto simp: store_generated_contract_def store_contract_rows_def documents_def put_at_def upsert_row_def
      db_write_Inr Let_def list_ex_iff split: if_splits)

lemma store_generated_succeeds:
  assumes "w_fault W (Db ''StoreGeneratedContract'' []) = None" and "contracts_unique (t_contracts d)"
    and "fresh_draft_ids W d" and "n = length (t_contracts d)"
  obtains rid d' where
    "store_generated_contract W u ids tq (w_new_id W ''uuid'' n) (w_new_id W ''job'' n) raw d = (Inr rid, d')"
proof -
  let ?r = "\<lparr>cr_id = w_new_id W ''con'' n, cr_project_id = w_new_id W ''uuid'' n,
      cr_session_id = preview_session u ids tq, cr_output_owner_id = u, cr_finalized = False,
      cr_pathway = ''PREVIEW'', cr_contract = raw, cr_job_id = Some (w_new_id W ''job'' n),
      cr_sign_requests_sent_at = None, cr_finalized_at = None, cr_tee_enabled_at = None,
      cr_updated_at = w_now W\<rparr>"
  have "new_keys (?r\<lparr>cr_session_id := ''''\<rparr>) (t_contracts d)"
    using assms(3) by (simp add: fresh_draft_ids_def new_keys_def Let_def list_all_iff assms(4) is_preview_def has_prefix_def)
  from upsert_preview [OF assms(2) _ this] show thesis
    using that assms(1) by (simp add: store_generated_contract_def store_contract_rows_def Let_def db_write_def assms(4))
qed

text \<open>The contract rows but for when their sign requests went out: what a generation stores for good.\<close>

definition unsent :: "contract_row \<Rightarrow> contract_row" where
  "unsent r = r\<lparr>cr_sign_requests_sent_at := None\<rparr>"

definition drafts :: "db \<Rightarrow> contract_row list" where
  "drafts d = map unsent (t_contracts d)"

lemma drafts_cong: "t_contracts d' = t_contracts d \<Longrightarrow> drafts d' = drafts d"
  by (simp add: drafts_def)

lemma unsent_simps [simp]:
  "cr_id (unsent r) = cr_id r" "cr_project_id (unsent r) = cr_project_id r" "cr_job_id (unsent r) = cr_job_id r"
  "cr_session_id (unsent r) = cr_session_id r" "cr_contract (unsent r) = cr_contract r"
  by (simp_all add: unsent_def)

lemma map_drafts: "(\<And>r. f (unsent r) = f r) \<Longrightarrow> map f (drafts d) = map f (t_contracts d)"
  by (simp add: drafts_def)

lemma documents_drafts: "drafts d' = drafts d \<Longrightarrow> documents d' = documents d"
  unfolding documents_def by (metis (no_types, lifting) map_drafts unsent_simps(4,5))

lemma map_filter_drafts: "List.map_filter cr_job_id (drafts d) = List.map_filter cr_job_id (t_contracts d)"
  unfolding drafts_def by (induction "t_contracts d") (simp_all add: List.map_filter_def comp_def filter_map)

lemma unique_drafts: "contracts_unique (drafts d) = contracts_unique (t_contracts d)"
  by (simp add: contracts_unique_def map_drafts map_filter_drafts)

lemma contracts_unique_drafts: "drafts d' = drafts d \<Longrightarrow> contracts_unique (t_contracts d') = contracts_unique (t_contracts d)"
  by (metis unique_drafts)

text \<open>An operation whose result is known to be a pair keeps what its second component keeps.\<close>

lemma pair_kept: "f = (r, d') \<Longrightarrow> drafts (snd f) = drafts d \<Longrightarrow> drafts d' = drafts d"
  by simp

lemma mark_sent_drafts [simp]: "drafts (snd (mark_sign_requests_sent W j d)) = drafts d"
  by (simp add: mark_sign_requests_sent_def db_write_def Let_def drafts_def unsent_def map_update_rows split: option.split)

lemma send_requests_drafts [simp]: "drafts (snd (send_sign_requests_once S W c u d)) = drafts d"
proof -
  have n: "drafts (snd (notify_contract_signers S W c u d)) = drafts d" for d
    by (rule drafts_cong) simp
  show ?thesis
    by (auto simp: send_sign_requests_once_def n split: prod.splits sum.splits bool.splits
        dest!: pair_kept [OF _ mark_sent_drafts])
qed

lemma send_job_requests_contracts: "t_contracts (snd (send_job_requests W c h u rs acc)) = t_contracts (snd acc)"
proof (induction W c h u rs acc rule: send_job_requests.induct)
  case (2 W c h u r rs sent d)
  have f: "create_notification W (jr_provider_id r) (jr_provider_id r) u
      (job_request_message c u r) (job_request_payload c h r) d = (x, d') \<Longrightarrow> t_contracts d' = t_contracts d" for x d'
    by (metis create_notification_frame(1) snd_conv)
  show ?case using 2 by (auto simp: Let_def split: prod.splits sum.splits dest!: f)
qed simp

lemma notify_job_request_drafts [simp]: "drafts (snd (notify_job_request S W c u d)) = drafts d"
  by (rule drafts_cong) (auto simp: notify_job_request_def send_job_requests_contracts split: sum.split)

lemma record_participants_drafts [simp]: "drafts (record_job_participants W c u d) = drafts d"
  by (rule drafts_cong) (simp add: record_job_participants_def Let_def)

lemma record_event_drafts [simp]: "drafts (record_contract_event S W c e t a d) = drafts d"
  by (rule drafts_cong) simp

lemma request_signatures_drafts [simp]:
  "drafts (snd (snd (request_signatures S W c st u d))) = drafts d"
  by (auto simp: request_signatures_def split: prod.splits dest!: pair_kept [OF _ send_requests_drafts])

text \<open>The database when the draft has been stored: every later step leaves the drafts alone.\<close>

lemma publish_stored:
  assumes "publish_generated S W claims key c d = (g, d')"
    and "w_fault W (Db ''StoreGeneratedContract'' []) = None" and "json_ok (enc_contract c)"
    and "contracts_unique (t_contracts d)" and "fresh_draft_ids W d"
    and "ct_contract_id c = w_new_id W ''uuid'' (length (t_contracts d))"
    and "ct_job_id c = w_new_id W ''job'' (length (t_contracts d))"
  obtains rid d1 where "gd_contract g = c" and "drafts d' = drafts d1"
    and "store_generated_contract W (claim_str ''sub'' claims) key (ct_technique c) (ct_contract_id c) (ct_job_id c)
      (enc_contract c) d = (Inr rid, d1)"
proof -
  let ?u = "claim_str ''sub'' claims"
  let ?sender = "if claim_str ''preferred_username'' claims = '''' then ?u else claim_str ''preferred_username'' claims"
  obtain rid d1 where st: "store_generated_contract W ?u key (ct_technique c) (ct_contract_id c) (ct_job_id c)
      (enc_contract c) d = (Inr rid, d1)"
    using store_generated_succeeds [OF assms(2,4,5) refl] unfolding assms(6,7) by blast
  let ?d2 = "record_contract_event S W (Some c) ''generated''
      (ct_technique c @ '' consent request generated by '' @ ?sender) ?sender (record_job_participants W c ?sender d1)"
  let ?n = "if job_approval_required c then notify_job_request S W c ?sender ?d2 else (0, ?d2)"
  obtain k d3 where n: "?n = (k, d3)" by (metis surj_pair)
  have "drafts (snd ?n) = drafts ?d2" by simp
  then have d3: "drafts d3 = drafts d1" by (simp only: n snd_conv) simp
  obtain sent sg d4 where rs: "request_signatures S W c True ?sender d3 = (sent, sg, d4)" by (metis surj_pair)
  have "drafts d4 = drafts d3"
    using request_signatures_drafts [of S W c True ?sender d3] by (simp only: rs snd_conv)
  then have d4: "drafts d4 = drafts d1" using d3 by simp
  have "publish_generated S W claims key c d = (\<lparr>gd_contract = c, gd_sign_requests_sent = sent, gd_signing = sg,
      gd_approval_required = job_approval_required c, gd_providers_notified = k\<rparr>, d4)"
    using assms(3) st n rs by (simp add: publish_generated_def marshal_contract_def Let_def cong: if_cong)
  then have "gd_contract g = c" "d' = d4" using assms(1) by auto
  then show thesis using that st d4 by blast
qed

lemma publish_documents:
  assumes "publish_generated S W claims key c d = (g, d')"
    and "w_fault W (Db ''StoreGeneratedContract'' []) = None" and "json_ok (enc_contract c)"
    and "contracts_unique (t_contracts d)" and "fresh_draft_ids W d"
    and "ct_contract_id c = w_new_id W ''uuid'' (length (t_contracts d))"
    and "ct_job_id c = w_new_id W ''job'' (length (t_contracts d))"
  shows "contracts_unique (t_contracts d') \<and>
    documents d' = put_at (preview_session (claim_str ''sub'' claims) key (ct_technique c)) (enc_contract c) (documents d)"
proof -
  obtain rid d1 where "drafts d' = drafts d1"
    and "store_generated_contract W (claim_str ''sub'' claims) key (ct_technique c) (ct_contract_id c) (ct_job_id c)
      (enc_contract c) d = (Inr rid, d1)"
    using publish_stored [OF assms] by blast
  then show ?thesis
    using documents_drafts [of d' d1] contracts_unique_drafts [of d' d1] store_generated_documents by metis
qed

section \<open>The contract\<close>

lemma complete_workload_simps [simp]:
  "ct_parties (complete_workload i c) = ct_parties c" "ct_contract_id (complete_workload i c) = ct_contract_id c"
  "ct_job_id (complete_workload i c) = ct_job_id c" "ct_technique (complete_workload i c) = ct_technique c"
  "ct_contract_hash (complete_workload i c) = ct_contract_hash c" "ct_version (complete_workload i c) = ct_version c"
  "ct_governance_signature (complete_workload i c) = ct_governance_signature c"
  by (simp_all add: complete_workload_def Let_def split: option.split list.split)

lemma build_simps:
  "ct_parties (build_generated_contract C now cid jid i) = ct_parties (unhashed_contract now cid jid i)"
  "ct_contract_id (build_generated_contract C now cid jid i) = cid"
  "ct_job_id (build_generated_contract C now cid jid i) = jid"
  "ct_technique (build_generated_contract C now cid jid i) = gi_technique i"
  "ct_governance_signature (build_generated_contract C now cid jid i) = None"
  by (simp_all add: build_generated_contract_def unhashed_contract_def Let_def split: sum.split)



text \<open>The times of a contract generated now can be marshalled.\<close>

definition marshals_now :: "world \<Rightarrow> bool" where
  "marshals_now W \<longleftrightarrow> time_ok (w_now W) \<and> time_ok (w_now W + 90 * 24 * hour)"

lemma complete_workload_more [simp]:
  "ct_lifecycle (complete_workload i c) = ct_lifecycle c" "ct_amendment (complete_workload i c) = ct_amendment c"
  by (simp_all add: complete_workload_def Let_def split: option.split list.split)

lemma unhashed_marshals: "marshals_now W \<Longrightarrow> json_ok (enc_contract (unhashed_contract (w_now W) cid jid i))"
  by (auto simp: json_ok_contract json_ok_parties unhashed_contract_def Let_def marshals_now_def data_party_of_def
      open_constraints_def app_parties_of_def infra_parties_of_def infra_party_of_def default_infra_party_def)

lemma json_ok_set_hash: "json_ok (enc_contract (c\<lparr>ct_contract_hash := h\<rparr>)) \<longleftrightarrow> json_ok (enc_contract c)"
  by (simp add: json_ok_contract)

lemma build_marshals:
  "marshals_now W \<Longrightarrow> json_ok (enc_contract (build_generated_contract C (w_now W) cid jid i))"
  using unhashed_marshals [of W cid jid i]
  by (simp add: build_generated_contract_def Let_def json_ok_set_hash split: sum.split)

lemma seal_marshals:
  assumes "json_ok (enc_contract c)" and "marshals_now W"
  shows "json_ok (enc_contract (seal_generated S W c))"
proof -
  have "governance_sign S W c = Inr c' \<Longrightarrow> json_ok (enc_contract c')" for c'
    using assms by (auto simp: governance_sign_def json_ok_contract signature_over_def signature_ok_def marshals_now_def)
  then show ?thesis using assms(1)
    by (auto simp: seal_generated_def Let_def json_ok_set_hash split: sum.split)
qed

lemma compute_hash_nonempty: "compute_hash C c = Inr h \<Longrightarrow> h \<noteq> ''''"
  by (auto simp: compute_hash_def Let_def split: if_splits)

lemma unhashed_data_parties:
  "data_providers (unhashed_contract now cid jid i) = map (data_party_of (gi_kbs_url i)) (gi_datasets i)"
  by (simp add: unhashed_contract_def Let_def)

lemma build_hash:
  assumes "marshals_now W"
  shows "compute_hash C (build_generated_contract C (w_now W) cid jid i) =
     Inr (ct_contract_hash (build_generated_contract C (w_now W) cid jid i))"
proof -
  obtain h where "compute_hash C (unhashed_contract (w_now W) cid jid i) = Inr h"
    using unhashed_marshals [OF assms] by (rule compute_hash_marshals)
  then show ?thesis by (simp add: build_generated_contract_def Let_def)
qed

lemma governance_sign_hash:
  "governance_sign S W c = Inr c' \<Longrightarrow> compute_hash C c' = compute_hash C c"
  by (auto simp: governance_sign_def)

lemma marshal_stored_hash:
  "stored_contract_hash C c = Inr (c', h) \<Longrightarrow> c' = c \<and> compute_hash C c = Inr h"
  by (auto simp: stored_contract_hash_def marshal_contract_def split: if_splits)

text \<open>Sealing keeps the content; a hash it records is that of the content, a signature it adds is valid.\<close>

lemma seal_generated_facts:
  assumes "compute_hash (srv_crypto S) c = Inr (ct_contract_hash c)" and "json_ok (enc_contract c)"
    and "ct_governance_signature c = None" and "gov_key_sound S"
  shows "ct_parties (seal_generated S W c) = ct_parties c \<and> ct_contract_id (seal_generated S W c) = ct_contract_id c \<and>
    ct_technique (seal_generated S W c) = ct_technique c \<and>
    compute_hash (srv_crypto S) (seal_generated S W c) = Inr (ct_contract_hash (seal_generated S W c)) \<and>
    (ct_governance_signature (seal_generated S W c) = None \<or>
      governance_signature_valid S (seal_generated S W c) (ct_contract_hash (seal_generated S W c)))"
proof (cases "job_approval_required c")
  case True
  have "stored_contract_hash (srv_crypto S) (c\<lparr>ct_contract_hash := ''''\<rparr>) =
      Inr (c\<lparr>ct_contract_hash := ''''\<rparr>, ct_contract_hash c)"
    using assms(1,2) by (simp add: stored_contract_hash_def marshal_contract_def json_ok_set_hash)
  then show ?thesis using True assms by (simp add: seal_generated_def Let_def)
next
  case False
  show ?thesis
  proof (cases "governance_sign S W c")
    case (Inl e)
    with False show ?thesis using assms by (auto simp: seal_generated_def)
  next
    case (Inr c')
    have "ct_technique c' = ct_technique c" using Inr by (auto simp: governance_sign_def)
    then show ?thesis
      using False Inr assms governance_sign_Inr [OF Inr assms(4)] governance_sign_hash [OF Inr]
      by (auto simp: seal_generated_def)
  qed
qed

lemma seal_technique: "ct_technique (seal_generated S W c) = ct_technique c"
  by (auto simp: seal_generated_def Let_def governance_sign_def split: sum.split dest!: marshal_stored_hash)

lemma seal_ids:
  "ct_contract_id (seal_generated S W c) = ct_contract_id c" "ct_job_id (seal_generated S W c) = ct_job_id c"
  by (auto simp: seal_generated_def Let_def governance_sign_def split: sum.split dest!: marshal_stored_hash)

lemma provider_of_dataset [simp]:
  "di_dataset_id (policy_provider q pol i) = di_dataset_id i"
  "di_dataset_id (catalogue_owner_as_provider S W ds tok i) = di_dataset_id i"
  by (simp_all add: policy_provider_def catalogue_owner_as_provider_def Let_def split: sum.split)

lemma dataset_input_id [simp]: "di_dataset_id (fst (dataset_input_of S W tok claims q ds)) = fst ds"
  by (simp add: dataset_input_of_def Let_def split: prod.split policy_lookup.split)

lemma generate_Inr:
  assumes "handle_generate_contract S W auth (Some q) d = (Inr (g, notices), d')"
  obtains tok claims inp c where "bearer_token auth = Some tok \<or> tok = ''''"
    and "w_access_token W (case bearer_token auth of None \<Rightarrow> '''' | Some t \<Rightarrow> t) = Inr (True, claims)"
    and "map di_dataset_id (gi_datasets inp) = map fst (gq_datasets q)" and "gq_datasets q \<noteq> []"
    and "gi_technique inp = gq_technique q"
    and "c = seal_generated S W (build_generated_contract (srv_crypto S) (w_now W)
      (w_new_id W ''uuid'' (length (t_contracts d))) (w_new_id W ''job'' (length (t_contracts d))) inp)"
    and "publish_generated S W claims (dataset_key (map fst (gq_datasets q))) c d = (g, d')"
proof -
  obtain tok claims q' where ch: "generate_checks W auth (Some q) = Inr (tok, claims, q')"
    using assms by (cases "generate_checks W auth (Some q)") (auto simp: handle_generate_contract_def)
  then have q': "q' = q\<lparr>gq_purpose := trim_space (gq_purpose q)\<rparr>" "gq_datasets q \<noteq> []"
      and tok: "tok = (case bearer_token auth of None \<Rightarrow> '''' | Some t \<Rightarrow> t)" "w_access_token W tok = Inr (True, claims)"
    unfolding generate_checks_def Let_def by (auto split: sum.splits prod.splits bool.splits)
  obtain inp ns where gi: "generate_input_of S W tok claims q' = (inp, ns)" by (metis surj_pair)
  have "map di_dataset_id (gi_datasets inp) = map fst (gq_datasets q)" "gi_technique inp = gq_technique q"
    using gi by (auto simp: generate_input_of_def Let_def q'(1))
  moreover have "publish_generated S W claims (dataset_key (map fst (gq_datasets q)))
      (seal_generated S W (build_generated_contract (srv_crypto S) (w_now W)
        (w_new_id W ''uuid'' (length (t_contracts d))) (w_new_id W ''job'' (length (t_contracts d))) inp)) d = (g, d')"
    using assms gi by (simp add: handle_generate_contract_def ch Let_def q'(1) split: prod.splits)
  ultimately show thesis
    using that [OF _ _ _ q'(2) _ refl] tok by (cases "bearer_token auth") (blast+)
qed

text \<open>What a successful call has stored: its draft, in the place of the caller's earlier one.\<close>

lemma generate_publishes:
  assumes "handle_generate_contract S W auth (Some q) d = (Inr (g, notices), d')"
    and "w_fault W (Db ''StoreGeneratedContract'' []) = None" and "marshals_now W"
    and "contracts_unique (t_contracts d)" and "fresh_draft_ids W d"
  obtains claims where "w_access_token W (case bearer_token auth of None \<Rightarrow> '''' | Some t \<Rightarrow> t) = Inr (True, claims)"
    and "documents d' = put_at (preview_session (claim_str ''sub'' claims)
      (dataset_key (map fst (gq_datasets q))) (gq_technique q)) (enc_contract (gd_contract g)) (documents d)"
    and "contracts_unique (t_contracts d')"
    and "\<forall>r \<in> set (t_contracts d). \<not> row_has_contract_id (ct_contract_id (gd_contract g)) r"
proof -
  obtain tok claims inp c where tok: "w_access_token W (case bearer_token auth of None \<Rightarrow> '''' | Some t \<Rightarrow> t) = Inr (True, claims)"
      and tq: "gi_technique inp = gq_technique q"
      and c: "c = seal_generated S W (build_generated_contract (srv_crypto S) (w_now W)
        (w_new_id W ''uuid'' (length (t_contracts d))) (w_new_id W ''job'' (length (t_contracts d))) inp)"
      and pb: "publish_generated S W claims (dataset_key (map fst (gq_datasets q))) c d = (g, d')"
    using assms(1) by (rule generate_Inr)
  have g: "gd_contract g = c"
    using pb by (auto simp: publish_generated_def Let_def split: prod.splits)
  have ok: "json_ok (enc_contract c)"
    unfolding c by (intro seal_marshals build_marshals assms(3))
  have ids: "ct_contract_id c = w_new_id W ''uuid'' (length (t_contracts d))"
      "ct_job_id c = w_new_id W ''job'' (length (t_contracts d))" "ct_technique c = gq_technique q"
    using tq by (simp_all add: c seal_ids seal_technique build_simps)
  show thesis
    using publish_documents [OF pb assms(2) ok assms(4,5) ids(1,2)] assms(5)
    by (intro that [OF tok]) (simp_all add: g ids fresh_draft_ids_def Let_def list_all_iff)
qed

lemma generate_stores:
  assumes "handle_generate_contract S W auth (Some q) d = (Inr (g, notices), d')"
    and "w_fault W (Db ''StoreGeneratedContract'' []) = None" and "marshals_now W"
    and "contracts_unique (t_contracts d)" and "fresh_draft_ids W d"
  shows "stored_contract d' (ct_contract_id (gd_contract g)) = Some (gd_contract g)"
proof -
  obtain s where doc: "documents d' = put_at s (enc_contract (gd_contract g)) (documents d)"
    and new: "\<forall>r \<in> set (t_contracts d). \<not> row_has_contract_id (ct_contract_id (gd_contract g)) r"
    using assms by (rule generate_publishes) blast
  show ?thesis
  proof (rule stored_documents)
    show "(s, enc_contract (gd_contract g)) \<in> set (documents d')" by (simp add: doc set_put_at)
  next
    fix s' j
    assume m: "(s', j) \<in> set (documents d')" and id: "jget ''contract_id'' j = JStr (ct_contract_id (gd_contract g))"
    from m have "j = enc_contract (gd_contract g) \<or> (s', j) \<in> set (documents d)"
      by (auto simp only: doc set_put_at)
    then show "j = enc_contract (gd_contract g)"
      using new id by (auto simp: documents_def row_has_contract_id_def)
  qed
qed

text \<open>
  C29. A generated contract that can be stored is found under its new contract id exactly as it was
  returned, with one data party per selected dataset in the order of the selection. It carries the
  hash of its content, a governance signature on it verifies for that hash, and no provider's
  signature is on it: the run gate refuses it.
\<close>

theorem generated_draft_stored:
  assumes "handle_generate_contract S W auth (Some q) d = (Inr (g, notices), d')"
    and "w_fault W (Db ''StoreGeneratedContract'' []) = None" and "marshals_now W"
    and "contracts_unique (t_contracts d)" and "fresh_draft_ids W d" and "gov_key_sound S"
  shows "stored_contract d' (ct_contract_id (gd_contract g)) = Some (gd_contract g) \<and>
    map dp_dataset_id (data_providers (gd_contract g)) = map fst (gq_datasets q) \<and>
    compute_hash (srv_crypto S) (gd_contract g) = Inr (ct_contract_hash (gd_contract g)) \<and>
    (ct_governance_signature (gd_contract g) = None \<or>
      governance_signature_valid S (gd_contract g) (ct_contract_hash (gd_contract g))) \<and>
    list_all (\<lambda>p. dp_signature p = zero_signature) (data_providers (gd_contract g)) \<and>
    require_all_providers_signed S W' d' (ct_contract_id (gd_contract g)) \<noteq> Inr c'"
proof -
  obtain tok claims inp c where ds: "map di_dataset_id (gi_datasets inp) = map fst (gq_datasets q)" "gq_datasets q \<noteq> []"
      and c: "c = seal_generated S W (build_generated_contract (srv_crypto S) (w_now W)
        (w_new_id W ''uuid'' (length (t_contracts d))) (w_new_id W ''job'' (length (t_contracts d))) inp)"
      and pb: "publish_generated S W claims (dataset_key (map fst (gq_datasets q))) c d = (g, d')"
    using assms(1) by (rule generate_Inr)
  have g: "gd_contract g = c"
    using pb by (auto simp: publish_generated_def Let_def split: prod.splits)
  have st: "stored_contract d' (ct_contract_id c) = Some c"
    using generate_stores [OF assms(1-5)] by (simp add: g)
  let ?b = "build_generated_contract (srv_crypto S) (w_now W)
      (w_new_id W ''uuid'' (length (t_contracts d))) (w_new_id W ''job'' (length (t_contracts d))) inp"
  have "compute_hash (srv_crypto S) ?b = Inr (ct_contract_hash ?b)" "json_ok (enc_contract ?b)"
    using assms(3) by (rule build_hash, rule build_marshals)
  note s = seal_generated_facts [OF this build_simps(5) assms(6), of W, folded c]
  have dps: "data_providers c = map (data_party_of (gi_kbs_url inp)) (gi_datasets inp)"
    using s by (simp add: build_simps(1) unhashed_data_parties)
  have blank: "list_all (\<lambda>p. dp_signature p = zero_signature) (data_providers c)"
    by (simp add: dps list_all_iff data_party_of_def)
  then have "require_all_providers_signed S W' d' (ct_contract_id c) \<noteq> Inr c'"
    by (intro unsigned_refused [OF st]) (simp add: list_all_iff zero_signature_def)
  moreover have "map dp_dataset_id (data_providers c) = map fst (gq_datasets q)"
    using ds(1) by (simp add: dps data_party_of_def o_def)
  ultimately show ?thesis using st blank s by (simp add: g)
qed

definition generate_body :: "string list \<Rightarrow> generate_request" where
  "generate_body ids = \<lparr>gq_datasets = map (\<lambda>i. (i, i)) ids, gq_application_id = '''', gq_technique = ''TEE'',
     gq_provider_id = '''', gq_compute_choice = '''', gq_infra_ids = [], gq_purpose = ''''\<rparr>"

lemma generate_checks_ok:
  "generate_checks (sample_world n) ''Bearer u'' (Some (generate_body [''x'', ''y''])) =
     Inr (''u'', sample_claims ''u'', generate_body [''x'', ''y''])"
  "generate_checks (sample_world n) ''Bearer u'' (Some (generate_body [''y'', ''x''])) =
     Inr (''u'', sample_claims ''u'', generate_body [''y'', ''x''])"
  by (simp_all add: generate_checks_def generate_body_def sample_world_def bearer_token_def has_prefix_def
      valid_techniques_def trim_space_def trim_by_def Let_def)

text \<open>Once its checks are passed a generation always answers, with a contract of the id it drew.\<close>

lemma generate_succeeds:
  assumes "generate_checks W auth body = Inr x"
  obtains g ns d' where "handle_generate_contract S W auth body d = (Inr (g, ns), d')"
    and "ct_contract_id (gd_contract g) = w_new_id W ''uuid'' (length (t_contracts d))"
proof -
  obtain tok claims q where x: "x = (tok, claims, q)" by (metis surj_pair)
  obtain inp ns where i: "generate_input_of S W tok claims q = (inp, ns)" by (metis surj_pair)
  let ?c = "seal_generated S W (build_generated_contract (srv_crypto S) (w_now W)
      (w_new_id W ''uuid'' (length (t_contracts d))) (w_new_id W ''job'' (length (t_contracts d))) inp)"
  obtain g d' where p: "publish_generated S W claims (dataset_key (map fst (gq_datasets q))) ?c d = (g, d')"
    by (metis surj_pair)
  then have "gd_contract g = ?c" by (auto simp: publish_generated_def Let_def split: prod.splits)
  moreover have "ct_contract_id ?c = w_new_id W ''uuid'' (length (t_contracts d))"
    by (auto simp: seal_generated_def Let_def governance_sign_def build_simps split: sum.split dest!: marshal_stored_hash)
  moreover have "handle_generate_contract S W auth body d = (Inr (g, ns), d')"
    using assms x i p by (simp add: handle_generate_contract_def Let_def)
  ultimately show thesis using that by simp
qed

lemma sample_marshals: "marshals_now (sample_world 1)" "marshals_now (sample_world 2)"
  by (simp_all add: marshals_now_def sample_world_def time_ok_def)

lemma sample_no_fault: "w_fault (sample_world n) x = None"
  by (simp add: sample_world_def)

lemma empty_id: "length (t_contracts empty_db) = 0"
  by (simp add: empty_db_def)

lemma empty_unique: "contracts_unique (t_contracts empty_db)"
  by (simp add: contracts_unique_def empty_db_def List.map_filter_def)

lemma empty_fresh: "fresh_draft_ids W empty_db"
  by (simp add: fresh_draft_ids_def empty_db_def Let_def)

lemma generated_draft_stored_witness:
  "\<exists>g ns d'. handle_generate_contract sample_server (sample_world 1) ''Bearer u''
       (Some (generate_body [''x'', ''y''])) empty_db = (Inr (g, ns), d') \<and>
     stored_contract d' ''uuid0'' = Some (gd_contract g) \<and>
     map dp_dataset_id (data_providers (gd_contract g)) = [''x'', ''y'']"
proof -
  obtain g ns d' where r: "handle_generate_contract sample_server (sample_world 1) ''Bearer u''
        (Some (generate_body [''x'', ''y''])) empty_db = (Inr (g, ns), d')"
      and i: "ct_contract_id (gd_contract g) = w_new_id (sample_world 1) ''uuid'' (length (t_contracts empty_db))"
    using generate_checks_ok(1) by (rule generate_succeeds)
  have "ct_contract_id (gd_contract g) = ''uuid0''"
    unfolding i empty_id by code_simp
  then show ?thesis
    using generated_draft_stored [OF r sample_no_fault sample_marshals(1) empty_unique empty_fresh sample_gov_key_sound] r
    by (auto simp: generate_body_def)
qed

text \<open>A second world, which draws another id.\<close>

definition later_world :: world where
  "later_world = (sample_world 2)\<lparr>w_new_id := (\<lambda>p n. ''v'')\<rparr>"

lemma later_world_simps:
  "w_access_token later_world = w_access_token (sample_world 1)" "marshals_now later_world"
  "w_fault later_world x = None" "w_new_id later_world p n = ''v''"
  "generate_checks later_world auth body = generate_checks (sample_world 1) auth body"
  using sample_marshals(2) by (simp_all add: later_world_def sample_world_def marshals_now_def generate_checks_def)

lemma fresh_draft_drafts:
  "fresh_draft_ids later_world d \<longleftrightarrow> list_all (\<lambda>r. \<not> row_has_contract_id ''v'' r \<and> cr_id r \<noteq> ''v'' \<and>
     cr_project_id r \<noteq> ''v'' \<and> cr_job_id r \<noteq> Some ''v'') (drafts d)"
  by (simp add: fresh_draft_ids_def Let_def later_world_simps drafts_def list.pred_map comp_def row_has_contract_id_def)

lemma sample_new_id:
  "w_new_id (sample_world 1) ''uuid'' 0 = ''uuid0''" "w_new_id (sample_world 1) ''job'' 0 = ''job0''"
  "w_new_id (sample_world 1) ''con'' 0 = ''con0''"
  by code_simp+

end
