(* ===== verification/General_Contract.thy ===== *)
theory General_Contract
  imports Generation TEE_Orchestrator "HOL-Library.Word"
begin

text \<open>
  POST /contract (\<^verbatim>\<open>httpapi/general_contract.go\<close>): a user submits a contract signed with the key their
  token is bound to; a federated-learning contract is stored, any other is authorised against the
  datasets' policies, stored and deployed to the enclave. With it \<^verbatim>\<open>services/crypto.go\<close>,
  \<^verbatim>\<open>services/store.go\<close> and the bound key of a token (\<^verbatim>\<open>services/keycloak.go\<close>). Go's cryptography and
  the file system are the parameter \<open>host\<close>.
\<close>

section \<open>The host\<close>

record host =
  ho_hex_decode :: "string \<Rightarrow> string result"
  ho_raw_url_decode :: "string \<Rightarrow> string result"
  ho_rsa_verify :: "string \<times> 64 word \<Rightarrow> string \<Rightarrow> string \<Rightarrow> string option"
  ho_rsa_sign :: "string \<Rightarrow> string \<Rightarrow> string result"  \<comment> \<open>private key, digest\<close>
  ho_read_file :: "string \<Rightarrow> string"
  ho_pem_block :: "string \<Rightarrow> string option"
  ho_parse_pkcs1 :: "string \<Rightarrow> string result"
  ho_seal :: "string \<Rightarrow> string \<Rightarrow> string result"  \<comment> \<open>AES-GCM under the key, or its key error\<close>
  ho_write_file :: "string \<Rightarrow> string \<Rightarrow> string option"

section \<open>Keys and storage\<close>

text \<open>The exponent in Go's 64-bit \<^verbatim>\<open>int\<close>: the last eight bytes, 65537 when they are zero.\<close>

definition jwk_exponent :: "string \<Rightarrow> 64 word" where
  "jwk_exponent bytes =
     (let e = fold (\<lambda>b e. push_bit 8 e + of_char b) bytes 0 in if e = 0 then 65537 else e)"

definition jwk_to_rsa_public_key :: "host \<Rightarrow> string \<Rightarrow> string \<Rightarrow> (string \<times> 64 word) result" where
  "jwk_to_rsa_public_key H n e =
     and_then (ho_raw_url_decode H n) (\<lambda>nb.
     and_then (ho_raw_url_decode H e) (\<lambda>eb. Inr (nb, jwk_exponent eb)))"

definition rsa_public_key_from_token :: "host \<Rightarrow> json \<Rightarrow> (string \<times> 64 word) result" where
  "rsa_public_key_from_token H claims =
     require (is_obj (jget ''cnf'' claims)) ''token missing cnf claim'' (
     let jwk = jget ''jwk'' (jget ''cnf'' claims) in
     require (is_obj jwk) ''token cnf claim missing jwk'' (
     let n = claim_str ''n'' jwk; e = claim_str ''e'' jwk in
     require (claim_str ''kty'' jwk = ''RSA'' \<and> n \<noteq> '''' \<and> e \<noteq> '''') ''token cnf.jwk is not a valid RSA key''
       (jwk_to_rsa_public_key H n e)))"

definition verify_bytes :: "crypto \<Rightarrow> host \<Rightarrow> string \<Rightarrow> string \<Rightarrow> string \<times> 64 word \<Rightarrow> string option" where
  "verify_bytes C H data sig key = ho_rsa_verify H key (sha256_sum C data) sig"

definition sign_bytes :: "crypto \<Rightarrow> host \<Rightarrow> string \<Rightarrow> string \<Rightarrow> string result" where
  "sign_bytes C H data priv = ho_rsa_sign H priv (sha256_sum C data)"

text \<open>\<open>None\<close>: the file holds no PEM block and the program dereferences nil.\<close>

definition load_private_key :: "host \<Rightarrow> string \<Rightarrow> string result option" where
  "load_private_key H path = map_option (ho_parse_pkcs1 H) (ho_pem_block H (ho_read_file H path))"

definition secure_store :: "crypto \<Rightarrow> host \<Rightarrow> json \<Rightarrow> string \<Rightarrow> string \<Rightarrow> string result" where
  "secure_store C H doc key path =
     (let data = json_bytes C doc; contract_id = hex_encode C (sha256_sum C data) in
      and_then (ho_seal H key data) (\<lambda>ciphertext.
      case ho_write_file H (path @ contract_id @ ''.bin'') ciphertext of
        Some e \<Rightarrow> Inl e | None \<Rightarrow> Inr contract_id))"

section \<open>Reading the submitted contract\<close>

text \<open>The first of the fields that is a non-empty string.\<close>

definition string_value :: "json \<Rightarrow> string list \<Rightarrow> string" where
  "string_value m keys =
     (case filter (\<lambda>s. s \<noteq> '''') (map (\<lambda>k. claim_str k m) keys) of [] \<Rightarrow> '''' | s # ss \<Rightarrow> s)"

definition dataset_refs :: "string \<Rightarrow> json \<Rightarrow> (string \<times> string) list" where
  "dataset_refs name_key j =
     concat (map (\<lambda>d. case jget ''id'' d of JStr i \<Rightarrow> [(i, claim_str name_key d)] | _ \<Rightarrow> []) (json_array j))"

definition extract_datasets :: "json \<Rightarrow> (string \<times> string) list" where
  "extract_datasets c =
     (let ds = dataset_refs ''dataset_name'' (jget ''data_providers'' (jget ''parties'' c));
          ds = (if ds = [] then dataset_refs ''name'' (jget ''datasets'' c) else ds)
      in if ds = [] then dataset_refs ''name'' (jget ''data_providers'' c) else ds)"

text \<open>The submitted document as a stored contract, with a job id and the hash of its content.\<close>

definition parsed_contract :: "server \<Rightarrow> world \<Rightarrow> json \<Rightarrow> db \<Rightarrow> contract option" where
  "parsed_contract S W doc d =
     map_option (\<lambda>c.
       let c = (if ct_job_id c = '''' then c\<lparr>ct_job_id := w_new_id W ''job'' (length (t_contracts d))\<rparr> else c)
       in case compute_hash (srv_crypto S) c of Inl e \<Rightarrow> c | Inr hash \<Rightarrow> c\<lparr>ct_contract_hash := hash\<rparr>)
     (dec_struct dec_contract doc)"

definition store_submitted :: "server \<Rightarrow> world \<Rightarrow> json \<Rightarrow> string \<Rightarrow> db \<Rightarrow> db" where
  "store_submitted S W doc pathway d =
     (case parsed_contract S W doc d of
        None \<Rightarrow> d | Some c \<Rightarrow> snd (store_contract W c True pathway d))"

section \<open>The two pathways\<close>

definition plain :: "nat \<Rightarrow> string \<Rightarrow> http_error" where
  "plain status msg = HttpError status '''' msg"

text \<open>
  A submission accepted: how many datasets and forms a federated-learning contract has, or the
  ids and what was deployed with which signatures. \<open>None\<close> in place of a response is a panic.
\<close>

datatype submitted = FlStored nat nat | Deployed string json string string

definition handle_fl_contract :: "server \<Rightarrow> world \<Rightarrow> json \<Rightarrow> db \<Rightarrow> submitted response \<times> db" where
  "handle_fl_contract S W doc d =
     (let datasets = extract_datasets doc in
      if datasets = [] then (Inl (plain 400 ''Contract missing datasets''), d)
      else let forms = remdups (map fst (filter (\<lambda>(i, name). \<not> isl (fetch_dataset_form W name)) datasets))
           in (Inr (FlStored (length datasets) (length forms)), store_submitted S W doc ''FL'' d))"

text \<open>Each dataset's policy must allow the user; the first that does not ends it.\<close>

fun authorize_datasets ::
  "world \<Rightarrow> json \<Rightarrow> json \<Rightarrow> (string \<times> string) list \<Rightarrow> http_error option" where
  "authorize_datasets W doc claims [] = None"
| "authorize_datasets W doc claims ((i, name) # ds) =
     (case fst (authorize_contract W lookup_provider doc claims i name) of
        Inl e \<Rightarrow> Some (plain 500 (''Policy authorization failed for dataset '' @ i @ '': '' @ e))
      | Inr False \<Rightarrow> Some (plain 403 (''User not authorized by provider policy for dataset '' @ i))
      | Inr True \<Rightarrow> authorize_datasets W doc claims ds)"

definition general_checks ::
  "server \<Rightarrow> world \<Rightarrow> json \<Rightarrow> json \<Rightarrow> db \<Rightarrow> unit response" where
  "general_checks S W doc claims d =
     and_then (if cfg_require_signed_contract (srv_cfg S)
         then and_then (require_all_providers_signed S W d (string_value doc [''contract_id''])) (\<lambda>c. Inr ())
         else Inr ()) (\<lambda>u.
     require (extract_datasets doc \<noteq> []) (plain 400 ''Contract missing datasets'') (
     none_or (authorize_datasets W doc claims (extract_datasets doc)) (Inr ())))"

definition deploy_general ::
  "server \<Rightarrow> world \<Rightarrow> host \<Rightarrow> json \<Rightarrow> string \<Rightarrow> string \<Rightarrow> string \<Rightarrow> db \<Rightarrow> submitted response \<times> db" where
  "deploy_general S W H doc signature priv store_id d =
     (let d = store_submitted S W doc ''GENERAL'' d in
      (and_then (or_fail (\<lambda>e. plain 500 ''Contract signing failed'')
          (sign_bytes (srv_crypto S) H (json_bytes (srv_crypto S) doc) priv)) (\<lambda>orch.
       let osig = hex_encode (srv_crypto S) orch in
       none_or (map_option (\<lambda>e. plain 500 (''Deployment failed: '' @ e))
         (deploy_enclave W (enclave_base_url S) doc signature osig))
         (Inr (Deployed store_id doc signature osig))), d))"

definition handle_general_contract ::
  "server \<Rightarrow> world \<Rightarrow> host \<Rightarrow> json \<Rightarrow> string \<Rightarrow> json \<Rightarrow> db \<Rightarrow>
   submitted response option \<times> db" where
  "handle_general_contract S W H doc signature claims d =
     (case general_checks S W doc claims d of
        Inl e \<Rightarrow> (Some (Inl e), d)
      | Inr u \<Rightarrow>
          (case load_private_key H (w_getenv W ''ORCH_PRIVATE_KEY'') of
             None \<Rightarrow> (None, d)
           | Some (Inl e) \<Rightarrow> (Some (Inl (plain 500 ''Failed to load orchestrator private key'')), d)
           | Some (Inr priv) \<Rightarrow>
               (case secure_store (srv_crypto S) H doc (w_getenv W ''STORE_KEY'') (w_getenv W ''STORE_PATH'') of
                  Inl e \<Rightarrow> (Some (Inl (plain 500 ''Storage failed'')), d)
                | Inr store_id \<Rightarrow>
                    (case deploy_general S W H doc signature priv store_id d of (r, d) \<Rightarrow> (Some r, d)))))"

section \<open>The handler\<close>

record submission =
  sm_access_token :: string
  sm_token :: string
  sm_contract :: json
  sm_signature :: string

definition submission_checks ::
  "server \<Rightarrow> world \<Rightarrow> host \<Rightarrow> submission option \<Rightarrow> (submission \<times> json) response" where
  "submission_checks S W H body =
     and_then (some_or (plain 400 ''Invalid request body'') body) (\<lambda>b.
     let tok = (if sm_access_token b = '''' then sm_token b else sm_access_token b) in
     case w_access_token W tok of
       Inr (True, claims) \<Rightarrow>
         and_then (or_fail (\<lambda>e. plain 400 ''Invalid signature encoding'') (ho_hex_decode H (sm_signature b))) (\<lambda>sig.
         and_then (or_fail (\<lambda>e. plain 401 ''Token missing bound public key'') (rsa_public_key_from_token H claims)) (\<lambda>key.
         none_or (map_option (\<lambda>e. plain 401 ''Contract signature verification failed'')
           (verify_bytes (srv_crypto S) H (json_bytes (srv_crypto S) (sm_contract b)) sig key)) (
         require (string_value (sm_contract b) [''technique''] \<noteq> '''')
           (plain 400 ''Contract missing technique field'') (Inr (b, claims)))))
     | _ \<Rightarrow> Inl (plain 401 ''Invalid Keycloak token''))"

definition handle_contract ::
  "server \<Rightarrow> world \<Rightarrow> host \<Rightarrow> submission option \<Rightarrow> db \<Rightarrow>
   submitted response option \<times> db" where
  "handle_contract S W H body d =
     (case submission_checks S W H body of
        Inl e \<Rightarrow> (Some (Inl e), d)
      | Inr (b, claims) \<Rightarrow>
          let technique = string_value (sm_contract b) [''technique''] in
          if technique = ''FL'' then
            (case handle_fl_contract S W (sm_contract b) d of (r, d) \<Rightarrow> (Some r, d))
          else if technique = ''TEE'' \<or> technique = ''SMPC'' then
            handle_general_contract S W H (sm_contract b) (sm_signature b) claims d
          else (Some (Inl (plain 400 (''Unsupported technique: '' @ technique))), d))"

end
