(* ===== verification/General_Facts.thy ===== *)
theory General_Facts
  imports General_Contract FL_Facts
begin

text \<open>
  What POST /contract guarantees of a deployment, what it does not check, and what storing a
  submitted contract does to the row of its project.
\<close>

section \<open>What a deployment rests on\<close>

lemma submission_checks_Inr:
  assumes "submission_checks S W H (Some b) = Inr (b', claims)"
  shows "b' = b \<and> w_access_token W (if sm_access_token b = '''' then sm_token b else sm_access_token b) = Inr (True, claims) \<and>
    (\<exists>sig key. ho_hex_decode H (sm_signature b) = Inr sig \<and> rsa_public_key_from_token H claims = Inr key \<and>
      verify_bytes (srv_crypto S) H (json_bytes (srv_crypto S) (sm_contract b)) sig key = None)"
  using assms unfolding submission_checks_def Let_def some_or_simps and_then_simps
  by (cases "w_access_token W (if sm_access_token b = '''' then sm_token b else sm_access_token b)")
    (auto split: prod.splits bool.splits)

lemma authorize_datasets_None:
  "authorize_datasets W doc claims ds = None \<longleftrightarrow>
   (\<forall>(i, name) \<in> set ds. fst (authorize_contract W lookup_provider doc claims i name) = Inr True)"
  by (induction ds) (auto split: sum.splits bool.splits)

lemma general_checks_Inr:
  "general_checks S W doc claims d = Inr u \<Longrightarrow> cfg_require_signed_contract (srv_cfg S) \<Longrightarrow>
   (\<exists>c. require_all_providers_signed S W d (string_value doc [''contract_id'']) = Inr c) \<and>
   extract_datasets doc \<noteq> [] \<and>
   (\<forall>(i, name) \<in> set (extract_datasets doc). fst (authorize_contract W lookup_provider doc claims i name) = Inr True)"
  by (auto simp: general_checks_def authorize_datasets_None)

lemma general_Deployed:
  assumes "handle_general_contract S W H doc sg claims d = (Some (Inr (Deployed i doc' sig osig)), d')"
  shows "doc' = doc \<and> sig = sg \<and> general_checks S W doc claims d = Inr () \<and> d' = store_submitted S W doc ''GENERAL'' d"
  using assms unfolding handle_general_contract_def deploy_general_def Let_def
  by (auto split: sum.splits option.splits prod.splits)

lemma handle_contract_Deployed:
  assumes "handle_contract S W H (Some b) d = (Some (Inr (Deployed i doc sig osig)), d')"
  obtains claims where "submission_checks S W H (Some b) = Inr (b, claims)"
    and "handle_general_contract S W H (sm_contract b) (sm_signature b) claims d =
      (Some (Inr (Deployed i doc sig osig)), d')"
proof (cases "submission_checks S W H (Some b)")
  case (Inr x)
  obtain b' claims where x: "x = (b', claims)" by (metis surj_pair)
  then have "b' = b" using Inr submission_checks_Inr by blast
  then show thesis using assms that Inr x
    by (auto simp: handle_contract_def handle_fl_contract_def Let_def split: if_splits prod.splits)
qed (use assms in \<open>simp add: handle_contract_def\<close>)

text \<open>
  C33. When signed contracts are required, POST /contract deploys only what a user signed: the token
  is valid, the submitted signature verifies, with the key the token is bound to, over the very
  document that goes to the enclave, the contract of the id it names passes the run gate, and every
  dataset it lists has a policy that lets this user use it.
\<close>

theorem deployment_authorised:
  assumes "handle_contract S W H (Some b) d = (Some (Inr (Deployed i doc sig osig)), d')"
    and "cfg_require_signed_contract (srv_cfg S)"
  shows "doc = sm_contract b \<and> (\<exists>tok claims key sg c. w_access_token W tok = Inr (True, claims) \<and>
      rsa_public_key_from_token H claims = Inr key \<and> ho_hex_decode H sig = Inr sg \<and>
      verify_bytes (srv_crypto S) H (json_bytes (srv_crypto S) doc) sg key = None \<and>
      run_authorised S W d (string_value doc [''contract_id'']) c \<and> extract_datasets doc \<noteq> [] \<and>
      list_all (\<lambda>(i, name). fst (authorize_contract W lookup_provider doc claims i name) = Inr True)
        (extract_datasets doc))"
proof -
  obtain claims where ch: "submission_checks S W H (Some b) = Inr (b, claims)"
      and ge: "handle_general_contract S W H (sm_contract b) (sm_signature b) claims d =
        (Some (Inr (Deployed i doc sig osig)), d')"
    using assms(1) by (rule handle_contract_Deployed)
  note g = general_Deployed [OF ge]
  have d: "doc = sm_contract b" "sig = sm_signature b" using g by blast+
  note s = submission_checks_Inr [OF ch]
  from general_checks_Inr [of S W "sm_contract b" claims d "()"] g assms(2)
  obtain c where c: "require_all_providers_signed S W d (string_value doc [''contract_id'']) = Inr c"
      "extract_datasets doc \<noteq> []"
      "\<forall>(i, name) \<in> set (extract_datasets doc). fst (authorize_contract W lookup_provider doc claims i name) = Inr True"
    by (auto simp: d)
  show ?thesis
    using s c d by (simp only: gate_iff_authorised list_all_iff) blast
qed

section \<open>What it does not check\<close>

text \<open>A host whose signatures are the bytes they sign, and policies that name the user.\<close>

definition sample_host :: host where
  "sample_host = \<lparr>ho_hex_decode = Inr, ho_raw_url_decode = Inr,
     ho_rsa_verify = (\<lambda>key digest sig. if sig = digest then None else Some ''bad''),
     ho_rsa_sign = (\<lambda>priv digest. Inr digest), ho_read_file = (\<lambda>p. ''k''), ho_pem_block = Some,
     ho_parse_pkcs1 = Inr, ho_seal = (\<lambda>k b. Inr b), ho_write_file = (\<lambda>p b. None)\<rparr>"

definition bound_claims :: json where
  "bound_claims = JObj [(''sub'', JStr ''m''), (''cnf'', JObj [(''jwk'',
     JObj [(''kty'', JStr ''RSA''), (''n'', JStr ''n''), (''e'', JStr ''e'')])])]"

definition deploy_world :: world where
  "deploy_world = (sample_world 10)\<lparr>w_access_token := (\<lambda>tok. Inr (True, bound_claims)),
     w_getenv := (\<lambda>k. if k = ''APD_BASE_URL'' then ''apd'' else ''''),
     w_http_get := (\<lambda>url tok. HttpReply 200 (Some (JObj [(''data'', JObj [(''users'', JArr [JStr ''m''])])]))),
     w_http_post := (\<lambda>url tok body. HttpReply 200 None)\<rparr>"

text \<open>The signed contract's id on a document with another purpose and another data URL.\<close>

definition swapped_contract :: contract where
  "swapped_contract = (with_data_providers (map (\<lambda>p. p\<lparr>dp_data_url := ''elsewhere''\<rparr>)) sample_draft)
     \<lparr>ct_purpose := ''resale''\<rparr>"

definition swapped_submission :: submission where
  "swapped_submission = \<lparr>sm_access_token = ''t'', sm_token = '''', sm_contract = enc_contract swapped_contract,
     sm_signature = sample_bytes (enc_contract swapped_contract)\<rparr>"

lemma swapped_deployed:
  obtains i doc sig osig d' where "handle_contract sample_server deploy_world sample_host (Some swapped_submission)
     (sample_db (sample_signed [''a'', ''b''])) = (Some (Inr (Deployed i doc sig osig)), d')"
proof -
  let ?r = "handle_contract sample_server deploy_world sample_host (Some swapped_submission)
     (sample_db (sample_signed [''a'', ''b'']))"
  have "case fst ?r of Some (Inr (Deployed i doc sig osig)) \<Rightarrow> True | _ \<Rightarrow> False" by code_simp
  then show thesis using that
    by (cases ?r; cases "fst ?r") (auto split: option.splits sum.splits submitted.splits)
qed

lemma deployment_authorised_witness:
  "\<exists>i doc sig osig d' c. handle_contract sample_server deploy_world sample_host (Some swapped_submission)
       (sample_db (sample_signed [''a'', ''b''])) = (Some (Inr (Deployed i doc sig osig)), d') \<and>
     run_authorised sample_server deploy_world (sample_db (sample_signed [''a'', ''b'']))
       (string_value doc [''contract_id'']) c"
proof -
  obtain i doc sig osig d' where r: "handle_contract sample_server deploy_world sample_host (Some swapped_submission)
       (sample_db (sample_signed [''a'', ''b''])) = (Some (Inr (Deployed i doc sig osig)), d')"
    by (rule swapped_deployed)
  moreover have "cfg_require_signed_contract (srv_cfg sample_server)" by (simp add: sample_server_def sample_config_def)
  ultimately show ?thesis using deployment_authorised [OF r] by blast
qed

text \<open>
  The gate looks at the contract stored under the id the submission names, never at the submitted
  document: one that keeps the id of a signed contract but carries another purpose and other data
  URLs is deployed.
\<close>

theorem unsigned_content_deployed:
  "\<exists>S W H b d i doc sig osig d' c c'. cfg_require_signed_contract (srv_cfg S) \<and>
     handle_contract S W H (Some b) d = (Some (Inr (Deployed i doc sig osig)), d') \<and>
     stored_contract d (string_value doc [''contract_id'']) = Some c \<and> dec_contract doc = Some c' \<and>
     Contract.unsigned c' \<noteq> Contract.unsigned c \<and> ct_purpose c' \<noteq> ct_purpose c"
proof -
  let ?d = "sample_db (sample_signed [''a'', ''b''])"
  obtain i doc sig osig d' where r: "handle_contract sample_server deploy_world sample_host (Some swapped_submission) ?d =
      (Some (Inr (Deployed i doc sig osig)), d')"
    by (rule swapped_deployed)
  have s: "cfg_require_signed_contract (srv_cfg sample_server)" by (simp add: sample_server_def sample_config_def)
  from deployment_authorised [OF r s] obtain c where doc: "doc = enc_contract swapped_contract"
      and c: "run_authorised sample_server deploy_world ?d (string_value doc [''contract_id'']) c"
    by (auto simp: swapped_submission_def)
  have id: "string_value doc [''contract_id''] = ''c''"
    by (simp add: doc string_value_def claim_str_def swapped_contract_def sample_draft_def with_data_providers_def)
  have st: "stored_contract ?d ''c'' = Some c"
    using c unfolding id run_authorised_def load_contract_Some by blast
  have "c = sample_signed [''a'', ''b'']" using st sample_stored by simp
  moreover have "ct_purpose (sample_signed [''a'', ''b'']) = ''''" by code_simp
  ultimately have "ct_purpose c = ''''" by simp
  moreover have "ct_purpose swapped_contract = ''resale''" by (simp add: swapped_contract_def)
  moreover have "ct_purpose (Contract.unsigned x) = ct_purpose x" for x by (simp add: Contract.unsigned_def without_signatures_def Let_def)
  ultimately have "Contract.unsigned swapped_contract \<noteq> Contract.unsigned c" "ct_purpose swapped_contract \<noteq> ct_purpose c"
    by (metis list.distinct(1))+
  then show ?thesis using r s st id doc dec_enc_contract by metis
qed

section \<open>Storing a submitted contract\<close>

text \<open>
  A submitted federated-learning contract replaces the document of the row whose project it names,
  whoever owns that row and whatever stage its contract has reached, whenever the database takes it.
\<close>

theorem submission_overwrites_project:
  assumes "handle_fl_contract S W doc d = (Inr x, d')" and "parsed_contract S W doc d = Some c"
    and "ct_job_id c \<noteq> ''''" and "store_contract W c True ''FL'' d = (Inr rid, d2)"
    and "r \<in> set (t_contracts d)" and "cr_project_id r = ct_project_id c"
  shows "\<exists>r' \<in> set (t_contracts d'). cr_id r' = cr_id r \<and> cr_contract r' = enc_contract c \<and> cr_job_id r' = Some (ct_job_id c)"
proof -
  have d': "d' = snd (store_contract W c True ''FL'' d)"
    using assms(1,2) by (auto simp: handle_fl_contract_def store_submitted_def Let_def split: if_splits)
  have ex: "list_ex (\<lambda>x. cr_project_id x = ct_project_id c) (t_contracts d)"
    using assms(5,6) by (auto simp: list_ex_iff)
  let ?f = "\<lambda>x. if cr_project_id x = ct_project_id c then x\<lparr>cr_job_id := Some (ct_job_id c),
      cr_output_owner_id := up_id (user_party c), cr_finalized := True, cr_pathway := ''FL'',
      cr_contract := enc_contract c, cr_updated_at := w_now W\<rparr> else x"
  have "t_contracts d' = map ?f (t_contracts d)"
    using assms(3,4) ex
    by (auto simp: d' store_contract_def store_contract_rows_def Let_def upsert_row_def db_write_def
        split: option.splits if_splits sum.splits)
  then have "?f r \<in> set (t_contracts d')" using assms(5) by simp
  then show ?thesis using assms(6) by (intro bexI [of _ "?f r"]) simp_all
qed

end
