(* ===== verification/Checkpoints.thy ===== *)
theory Checkpoints
  imports Sample "HOL-Library.Char_ord" "HOL-Library.List_Lexorder"
begin

text \<open>
  The model files of federated-learning sessions (\<^verbatim>\<open>httpapi/model.go\<close>): the names of checkpoints in
  the checkpoint directory, the final model of each session, which file a request is served, and
  the check that the caller owns a session's output (\<^verbatim>\<open>httpapi/fl_output.go\<close>).
\<close>

section \<open>Numbers\<close>

definition is_digit :: "char \<Rightarrow> bool" where
  "is_digit c \<longleftrightarrow> (let n = of_char c :: nat in 48 \<le> n \<and> n \<le> 57)"

definition digits_value :: "string \<Rightarrow> nat" where
  "digits_value s = foldl (\<lambda>n c. 10 * n + (of_char c - 48)) 0 s"

text \<open>\<^verbatim>\<open>strconv.Atoi\<close>: an optional sign, decimal digits, in the range of a 64-bit integer.\<close>

definition atoi :: "string \<Rightarrow> int option" where
  "atoi s =
     (let (neg, ds) = (case s of [] \<Rightarrow> (False, [])
            | c # cs \<Rightarrow> if c = CHR ''-'' then (True, cs) else if c = CHR ''+'' then (False, cs) else (False, s));
          n = int (digits_value ds)
      in if ds = [] \<or> \<not> list_all is_digit ds then None
         else if neg then (if n \<le> 2 ^ 63 then Some (- n) else None)
         else if n < 2 ^ 63 then Some n else None)"

text \<open>The value \<^verbatim>\<open>Atoi\<close> returns beside its error on digits that overflow is the greatest integer.\<close>

definition atoi_clamped :: "string \<Rightarrow> int" where
  "atoi_clamped ds = min (int (digits_value ds)) (2 ^ 63 - 1)"

lemma decimal_digits: "list_all is_digit (decimal n)"
proof (induction n rule: decimal.induct)
  case (1 n)
  have digit: "is_digit (char_of (48 + k))" if "k < 10" for k :: nat
    using that by (simp add: is_digit_def Let_def)
  show ?case
  proof (cases "n < 10")
    case True
    then show ?thesis by (simp add: decimal.simps [of n] digit)
  next
    case False
    then show ?thesis using 1 digit [of "n mod 10"] by (simp add: decimal.simps [of n])
  qed
qed

lemma decimal_not_Nil [simp]: "decimal n \<noteq> []"
  by (subst decimal.simps) simp

lemma digits_value_snoc: "digits_value (s @ [c]) = 10 * digits_value s + (of_char c - 48)"
  by (simp add: digits_value_def)

lemma digits_value_decimal [simp]: "digits_value (decimal n) = n"
proof (induction n rule: decimal.induct)
  case (1 n)
  have val: "(of_char (char_of (48 + k) :: char) :: nat) - 48 = k" if "k < 10" for k :: nat
    using that by simp
  show ?case
  proof (cases "n < 10")
    case True
    then show ?thesis using val [of n] digits_value_snoc [of "[]"]
      by (simp add: decimal.simps [of n] digits_value_def)
  next
    case False
    then show ?thesis using 1 val [of "n mod 10"] by (simp add: decimal.simps [of n] digits_value_snoc)
  qed
qed

section \<open>File names\<close>

definition strip_suffix :: "string \<Rightarrow> string \<Rightarrow> string option" where
  "strip_suffix s t =
     (let n = length s - length t in if length t \<le> length s \<and> drop n s = t then Some (take n s) else None)"

lemma strip_suffix_iff: "strip_suffix s t = Some r \<longleftrightarrow> s = r @ t"
  unfolding strip_suffix_def Let_def
  by (auto simp: if_split_eq1) (metis append_take_drop_id)

definition strip_prefix :: "string \<Rightarrow> string \<Rightarrow> string option" where
  "strip_prefix s t = (if has_prefix s t then Some (drop (length t) s) else None)"

lemma strip_prefix_iff: "strip_prefix s t = Some r \<longleftrightarrow> s = t @ r"
  unfolding strip_prefix_def has_prefix_def
  by (auto simp: if_split_eq1) (metis append_take_drop_id)

text \<open>
  \<^verbatim>\<open>modelFileRe\<close>, \<^verbatim>\<open>^model_(.+)_round_(\d+)\.(pt|weights)$\<close>: the session and the digits of the round. A
  dot does not match a newline; the digits are all those before the extension.
\<close>

definition model_stem :: "string \<Rightarrow> string option" where
  "model_stem name = (case strip_suffix name ''.pt'' of Some s \<Rightarrow> Some s | None \<Rightarrow> strip_suffix name ''.weights'')"

definition model_file_parts :: "string \<Rightarrow> (string \<times> string) option" where
  "model_file_parts name =
     (case model_stem name of None \<Rightarrow> None | Some s \<Rightarrow>
        let ds = rev (takeWhile is_digit (rev s)) in
        if ds = [] then None
        else (case strip_suffix (rev (dropWhile is_digit (rev s))) ''_round_'' of None \<Rightarrow> None | Some front \<Rightarrow>
          (case strip_prefix front ''model_'' of None \<Rightarrow> None | Some sid \<Rightarrow>
             if sid = [] \<or> List.member sid (char_of (10 :: nat)) then None else Some (sid, ds))))"

definition model_file_name :: "string \<Rightarrow> nat \<Rightarrow> string \<Rightarrow> string" where
  "model_file_name sid round ext = ''model_'' @ sid @ ''_round_'' @ decimal round @ ''.'' @ ext"

text \<open>\<^verbatim>\<open>safeID\<close>.\<close>

definition is_id_char :: "char \<Rightarrow> bool" where
  "is_id_char c \<longleftrightarrow> (let n = of_char c :: nat in
     (48 \<le> n \<and> n \<le> 57) \<or> (65 \<le> n \<and> n \<le> 90) \<or> (97 \<le> n \<and> n \<le> 122) \<or> n = 95 \<or> n = 45)"

definition safe_id :: "string \<Rightarrow> bool" where
  "safe_id s \<longleftrightarrow> s \<noteq> [] \<and> list_all is_id_char s"

definition clip :: "string \<Rightarrow> nat \<Rightarrow> string" where
  "clip s n = (if n < length s then take n s else s)"

text \<open>The split is the one the expression describes, and the only one.\<close>

definition is_model_file :: "string \<Rightarrow> string \<Rightarrow> string \<Rightarrow> bool" where
  "is_model_file name sid ds \<longleftrightarrow> sid \<noteq> [] \<and> char_of (10 :: nat) \<notin> set sid \<and> ds \<noteq> [] \<and> list_all is_digit ds \<and>
     (name = ''model_'' @ sid @ ''_round_'' @ ds @ ''.pt'' \<or>
      name = ''model_'' @ sid @ ''_round_'' @ ds @ ''.weights'')"

lemma last_digits:
  assumes "list_all is_digit ds" and "s = [] \<or> \<not> is_digit (last s)"
  shows "takeWhile is_digit (rev (s @ ds)) = rev ds" and "dropWhile is_digit (rev (s @ ds)) = rev s"
proof -
  have digits: "\<forall>c \<in> set (rev ds). is_digit c" using assms(1) by (simp add: list_all_iff)
  have rest: "takeWhile is_digit (rev s) = []" "dropWhile is_digit (rev s) = rev s"
    using assms(2) by (cases s rule: rev_cases; simp)+
  show "takeWhile is_digit (rev (s @ ds)) = rev ds" "dropWhile is_digit (rev (s @ ds)) = rev s"
    unfolding rev_append using digits rest
    by (subst takeWhile_append2, simp, simp, subst dropWhile_append2, simp, simp)
qed

lemma model_stem_iff: "model_stem name = Some s \<longleftrightarrow> name = s @ ''.pt'' \<or> name = s @ ''.weights''"
proof -
  have other: "u @ ''.pt'' \<noteq> v @ ''.weights''" for u v :: string
  proof
    assume "u @ ''.pt'' = v @ ''.weights''"
    then have "last (u @ ''.pt'') = last (v @ ''.weights'')" by (rule arg_cong)
    then show False by simp
  qed
  show ?thesis
  proof (cases "strip_suffix name ''.pt''")
    case None
    then have "name \<noteq> s @ ''.pt''" using strip_suffix_iff [of name "''.pt''" s] by simp
    with None show ?thesis by (simp add: model_stem_def strip_suffix_iff)
  next
    case (Some r)
    then have "name = r @ ''.pt''" by (simp only: strip_suffix_iff)
    with Some other [of r s] show ?thesis by (simp add: model_stem_def)
  qed
qed

lemma model_file_parts_iff: "model_file_parts name = Some (sid, ds) \<longleftrightarrow> is_model_file name sid ds"
proof
  assume parts: "model_file_parts name = Some (sid, ds)"
  then obtain s where s: "model_stem name = Some s" by (auto simp: model_file_parts_def split: option.splits)
  define front where "front = rev (dropWhile is_digit (rev s))"
  from parts s have ds: "ds = rev (takeWhile is_digit (rev s))" "ds \<noteq> []"
    and front: "front = ''model_'' @ sid @ ''_round_''" and sid: "sid \<noteq> []" "char_of (10 :: nat) \<notin> set sid"
    by (auto simp: model_file_parts_def Let_def front_def strip_suffix_iff strip_prefix_iff
        split: option.splits if_splits)
  have "list_all is_digit ds" using ds(1) by (auto simp: list_all_iff dest: set_takeWhileD)
  moreover have "s = front @ ds"
    unfolding front_def ds(1) by (metis rev_append rev_rev_ident takeWhile_dropWhile_id)
  ultimately show "is_model_file name sid ds"
    using s ds(2) sid front by (auto simp: is_model_file_def model_stem_iff)
next
  assume mf: "is_model_file name sid ds"
  define front where "front = ''model_'' @ sid @ ''_round_''"
  have "model_stem name = Some (front @ ds)"
    using mf by (auto simp: is_model_file_def model_stem_iff front_def)
  moreover have "takeWhile is_digit (rev (front @ ds)) = rev ds"
    and "dropWhile is_digit (rev (front @ ds)) = rev front"
    by (rule last_digits; use mf in \<open>simp add: is_model_file_def front_def is_digit_def\<close>)+
  moreover have "strip_suffix front ''_round_'' = Some (''model_'' @ sid)"
    by (simp add: strip_suffix_iff front_def)
  moreover have "strip_prefix (''model_'' @ sid) ''model_'' = Some sid" by (simp add: strip_prefix_iff)
  ultimately show "model_file_parts name = Some (sid, ds)"
    using mf by (simp add: model_file_parts_def Let_def is_model_file_def)
qed

lemma safe_id_model:
  assumes "safe_id sid" and "ext = ''pt'' \<or> ext = ''weights''"
  shows "model_file_parts (model_file_name sid n ext) = Some (sid, decimal n)"
proof -
  have "char_of (10 :: nat) \<notin> set sid"
    using assms(1) by (auto simp: safe_id_def list_all_iff is_id_char_def Let_def)
  then show ?thesis
    using assms decimal_digits [of n]
    by (auto simp: model_file_parts_iff is_model_file_def model_file_name_def safe_id_def)
qed

section \<open>The checkpoint directory\<close>

text \<open>
  Its entries in the order of their names, as \<^verbatim>\<open>os.ReadDir\<close> lists them; \<open>None\<close> when it does not
  exist. \<open>fs_fault\<close> says which system calls fail during the request. A \<open>Lost_File\<close> is listed but can
  no longer be examined. The temporary files of an upload are not kept: they never match a name the
  program reads, and are renamed or removed before the request ends.
\<close>

datatype dir_entry = Sub_Dir | Lost_File | Plain_File (pf_data: string) (pf_mtime: time)

record files =
  fs_path :: "string list"  \<comment> \<open>the components of its absolute path\<close>
  fs_dir :: "(string \<times> dir_entry) list option"
  fs_fault :: "string \<Rightarrow> string option"

definition dir_entries :: "files \<Rightarrow> (string \<times> dir_entry) list" where
  "dir_entries F = (case fs_dir F of None \<Rightarrow> [] | Some es \<Rightarrow> es)"

definition io_ok :: "files \<Rightarrow> string \<Rightarrow> unit result" where
  "io_ok F call = (case fs_fault F call of None \<Rightarrow> Inr () | Some e \<Rightarrow> Inl e)"

lemma io_ok_Inr [simp]: "io_ok F call = Inr u \<longleftrightarrow> fs_fault F call = None"
  by (simp add: io_ok_def split: option.split)

definition read_dir :: "files \<Rightarrow> (string \<times> dir_entry) list result" where
  "read_dir F = and_then (io_ok F ''ReadDir'') (\<lambda>u. Inr (dir_entries F))"

text \<open>The bytes of a file; a directory under that name reads as a failed open.\<close>

definition file_data :: "files \<Rightarrow> string \<Rightarrow> string option" where
  "file_data F name = (case map_of (dir_entries F) name of Some (Plain_File bytes t) \<Rightarrow> Some bytes | _ \<Rightarrow> None)"

text \<open>\<^verbatim>\<open>os.Rename\<close> of a temporary file to this name.\<close>

definition put_file :: "string \<Rightarrow> dir_entry \<Rightarrow> (string \<times> dir_entry) list \<Rightarrow> (string \<times> dir_entry) list" where
  "put_file name e es = insort_key fst (name, e) (filter (\<lambda>x. fst x \<noteq> name) es)"

section \<open>Final models\<close>

record final_model =
  fm_session_id :: string
  fm_round :: int
  fm_file :: string
  fm_size_bytes :: nat
  fm_modified_at :: string
  fm_mod_time :: time

definition checkpoint_of :: "world \<Rightarrow> string \<Rightarrow> string \<times> dir_entry \<Rightarrow> final_model option" where
  "checkpoint_of W layout x =
     (case x of (name, Plain_File bytes t) \<Rightarrow>
        map_option (\<lambda>(sid, ds). \<lparr>fm_session_id = sid, fm_round = atoi_clamped ds, fm_file = name,
          fm_size_bytes = length bytes, fm_modified_at = w_format_time W layout t, fm_mod_time = t\<rparr>)
          (model_file_parts name)
      | _ \<Rightarrow> None)"

abbreviation milli_layout :: string where "milli_layout \<equiv> ''2006-01-02T15:04:05.000Z07:00''"

text \<open>
  The best model of each session, in the order the sessions were met (the code keeps them in a map,
  and ranges over it in any order).
\<close>

definition keep_best :: "final_model \<Rightarrow> final_model list \<Rightarrow> final_model list" where
  "keep_best m best =
     (case List.find (\<lambda>b. fm_session_id b = fm_session_id m) best of
        None \<Rightarrow> best @ [m]
      | Some cur \<Rightarrow> if fm_round m \<le> fm_round cur then best
                    else map (\<lambda>b. if fm_session_id b = fm_session_id m then m else b) best)"

text \<open>Newest first; models of the same instant come in any order in the code.\<close>

definition list_final_models :: "world \<Rightarrow> files \<Rightarrow> final_model list result" where
  "list_final_models W F =
     and_then (read_dir F) (\<lambda>es.
     Inr (sort_key (\<lambda>m. - fm_mod_time m) (fold keep_best (List.map_filter (checkpoint_of W milli_layout) es) [])))"

definition get_final_models :: "world \<Rightarrow> files \<Rightarrow> (final_model list \<times> final_model option) response" where
  "get_final_models W F =
     and_then (or_fail (HttpError 500 ''INTERNAL_ERROR'') (list_final_models W F)) (\<lambda>models.
     Inr (models, case models of [] \<Rightarrow> None | m # ms \<Rightarrow> Some m))"

section \<open>Which file a request is served\<close>

text \<open>\<^verbatim>\<open>filepath.Clean\<close> of an absolute path, by its components.\<close>

definition clean_path :: "string list \<Rightarrow> string list" where
  "clean_path cs = fold (\<lambda>c p. if c = '''' \<or> c = ''.'' then p else if c = ''..'' then butlast p else p @ [c]) cs []"

fun path_parts :: "string \<Rightarrow> string list" where
  "path_parts [] = ['''']"
| "path_parts (c # cs) =
     (if c = CHR ''/'' then '''' # path_parts cs
      else case path_parts cs of [] \<Rightarrow> [[c]] | p # ps \<Rightarrow> (c # p) # ps)"

definition inside_dir :: "files \<Rightarrow> string \<Rightarrow> bool" where
  "inside_dir F name \<longleftrightarrow>
     (let p = clean_path (fs_path F @ path_parts name) in
      p \<noteq> [] \<and> butlast p = clean_path (fs_path F) \<and> model_file_parts (last p) \<noteq> None)"

text \<open>\<^verbatim>\<open>os.Stat\<close> finds the name.\<close>

definition stat_ok :: "files \<Rightarrow> string \<Rightarrow> bool" where
  "stat_ok F name \<longleftrightarrow> fs_fault F ''Stat'' = None \<and>
     (case map_of (dir_entries F) name of None \<Rightarrow> False | Some e \<Rightarrow> e \<noteq> Lost_File)"

definition no_model :: "string \<Rightarrow> http_error" where
  "no_model = HttpError 404 ''NO_MODEL''"

definition round_file :: "files \<Rightarrow> string \<Rightarrow> nat \<Rightarrow> string option" where
  "round_file F session n =
     List.find (stat_ok F) (map (model_file_name session n) [''pt'', ''weights''])"

text \<open>The file's name; the session and round are the query's, blank when absent.\<close>

text \<open>The session's final model, or the file of the round asked for.\<close>

definition picked_file :: "files \<Rightarrow> final_model \<Rightarrow> string \<Rightarrow> string response" where
  "picked_file F fm rnd =
     (if rnd = '''' then Inr (fm_file fm)
      else and_then (some_or (HttpError 400 ''INVALID_ROUND'' '''') (atoi rnd)) (\<lambda>n.
        require (0 \<le> n) (HttpError 400 ''INVALID_ROUND'' '''')
          (some_or (no_model ''No model for that session/round.'') (round_file F (fm_session_id fm) (nat n)))))"

definition resolve_model_file :: "world \<Rightarrow> files \<Rightarrow> string \<Rightarrow> string \<Rightarrow> string response" where
  "resolve_model_file W F session rnd =
     and_then (or_fail (HttpError 500 ''INTERNAL_ERROR'') (list_final_models W F)) (\<lambda>models.
     require (models \<noteq> []) (no_model ''No global model checkpoints found yet.'') (
     require (session = '''' \<or> safe_id session) (HttpError 400 ''INVALID_SESSION_ID'' '''') (
     let session = (if session = '''' then fm_session_id (hd models) else session) in
     and_then (some_or (no_model ''No model for that session.'')
         (List.find (\<lambda>m. fm_session_id m = session) models)) (\<lambda>fm.
     and_then (picked_file F fm rnd) (\<lambda>name.
     require (inside_dir F name) (HttpError 400 ''INVALID_PATH'' '''') (Inr name))))))"

text \<open>
  GET /final-model/download: the file's name and bytes. \<open>None\<close>: the open file cannot be examined and
  the program dereferences nil.
\<close>

definition get_final_model_download ::
  "world \<Rightarrow> files \<Rightarrow> string \<Rightarrow> string \<Rightarrow> (string \<times> string) response option" where
  "get_final_model_download W F session rnd =
     (case resolve_model_file W F session rnd of
        Inl e \<Rightarrow> Some (Inl e)
      | Inr name \<Rightarrow>
          (case (io_ok F ''Open'', file_data F name) of
             (Inr u, Some bytes) \<Rightarrow>
               if fs_fault F ''Fstat'' = None then Some (Inr (name, bytes)) else None
           | (Inr u, None) \<Rightarrow> Some (Inl (HttpError 500 ''READ_ERROR'' ''open''))
           | (Inl e, b) \<Rightarrow> Some (Inl (HttpError 500 ''READ_ERROR'' e))))"

section \<open>The owner of a session's output\<close>

definition is_contract_owner :: "json \<Rightarrow> contract \<Rightarrow> bool" where
  "is_contract_owner claims c \<longleftrightarrow>
     (let owner = trim_space (up_id (user_party c)) in
      owner \<noteq> '''' \<and>
      list_ex (\<lambda>k. claim_str k claims \<noteq> '''' \<and> equal_fold (claim_str k claims) owner)
        [''sub'', ''preferred_username'', ''email''])"

definition check_session_owner :: "world \<Rightarrow> db \<Rightarrow> json \<Rightarrow> string \<Rightarrow> contract response" where
  "check_session_owner W d claims session_id =
     and_then (or_fail (HttpError 500 ''INTERNAL_ERROR'') (get_contract_by_session W d session_id)) (\<lambda>raw.
     and_then (some_or (HttpError 404 ''CONTRACT_NOT_FOUND'' ''No contract found for this session'') raw) (\<lambda>raw.
     and_then (or_fail (HttpError 500 ''INTERNAL_ERROR'') (decode_stored raw)) (\<lambda>c.
     require (is_contract_owner claims c) (HttpError 403 ''NOT_OUTPUT_OWNER''
       ''only this session's output owner can read its output'') (Inr c))))"

definition require_session_owner ::
  "server \<Rightarrow> world \<Rightarrow> db \<Rightarrow> string \<Rightarrow> string \<Rightarrow> contract response" where
  "require_session_owner S W d auth session_id =
     and_then (dev_token_claims S W ''output owner'' auth) (\<lambda>(tok, claims).
       check_session_owner W d claims session_id)"

text \<open>GET /final-model/summary: the file and what the inspector printed of it.\<close>

definition get_final_model_summary ::
  "server \<Rightarrow> world \<Rightarrow> files \<Rightarrow> string \<Rightarrow> string \<Rightarrow> string \<Rightarrow> db \<Rightarrow>
   (string \<times> int \<times> string \<times> json) response" where
  "get_final_model_summary S W F auth session rnd d =
     require (session = '''' \<or> safe_id session) (HttpError 400 ''INVALID_SESSION_ID'' '''') (
     and_then (dev_token_claims S W ''output owner'' auth) (\<lambda>(tok, claims).
     and_then (resolve_model_file W F session rnd) (\<lambda>name.
     let sid = (case model_file_parts name of None \<Rightarrow> session | Some (sid, ds) \<Rightarrow> sid) in
     and_then (check_session_owner W d claims sid) (\<lambda>c.
     and_then (or_fail (HttpError 500 ''INTERNAL_ERROR'') (io_ok F ''CreateTemp'')) (\<lambda>u.
     and_then (or_fail (HttpError 500 ''INTERNAL_ERROR'') (io_ok F ''WriteString'')) (\<lambda>u.
     and_then (or_fail (\<lambda>e. HttpError 500 ''PARSE_FAILED'' (clip e 500))
         (w_exec W (''python3'' # fs_path F @ [name]))) (\<lambda>(out, doc).
     and_then (some_or (HttpError 500 ''PARSE_FAILED'' ''inspector returned invalid JSON'') doc) (\<lambda>doc.
     case model_file_parts name of
       None \<Rightarrow> Inr ('''', 0, name, doc)
     | Some (sid, ds) \<Rightarrow> Inr (sid, atoi_clamped ds, name, doc)))))))))"

end
