(* ===== verification/FL_Output.thy ===== *)
theory FL_Output
  imports Complex_Main Checkpoints Gateway
begin

text \<open>
  The output of a federated-learning session (\<^verbatim>\<open>httpapi/fl_output.go\<close>): the upload of the final model
  and its metrics by the orchestrator, and their reading by the session's output owner.
  \<^verbatim>\<open>encoding/json\<close>'s text and \<^verbatim>\<open>strconv.ParseFloat\<close> are the parameter \<open>json_lib\<close>.
\<close>

section \<open>Decoded JSON\<close>

text \<open>A Go \<^verbatim>\<open>any\<close> that \<^verbatim>\<open>json.Unmarshal\<close> filled: every number is a float64.\<close>

datatype float64 = NaN | Infinite bool | Finite rat

datatype go_any =
    GNil
  | GBool bool
  | GNum float64
  | GStr string
  | GList "go_any list"
  | GMap "(string \<times> go_any) list"

record json_lib =
  jl_unmarshal :: "string \<Rightarrow> go_any option"
  jl_marshal :: "go_any \<Rightarrow> string result"
  jl_parse_float :: "string \<Rightarrow> float64 option"

text \<open>A Go map: its entries in the order it is ranged over, one for each key.\<close>

type_synonym go_map = "(string \<times> go_any) list"

definition go_set :: "string \<Rightarrow> go_any \<Rightarrow> go_map \<Rightarrow> go_map" where
  "go_set k v m = (if List.member (map fst m) k then map (\<lambda>(k', v'). (k', if k' = k then v else v')) m
     else m @ [(k, v)])"

lemma map_of_go_set: "map_of (go_set k v m) = (map_of m)(k \<mapsto> v)"
proof -
  have "map_of (map (\<lambda>(k', v'). (k', if k' = k then v else v')) m) =
    (if k \<in> fst ` set m then (map_of m)(k \<mapsto> v) else map_of m)"
    by (induction m) auto
  then show ?thesis
    by (auto simp: go_set_def map_add_def fun_eq_iff split: option.split)
      (metis domI dom_map_of_conv_image_fst image_set)+
qed

section \<open>Sessions and their files\<close>

definition fl_max_sid_len :: nat where "fl_max_sid_len = 200"

definition fl_session_id :: "string \<Rightarrow> string option" where
  "fl_session_id raw =
     (let sid = map (\<lambda>c. if is_id_char c then c else CHR ''_'') raw in
      if fl_max_sid_len < length sid \<or> \<not> safe_id sid then None else Some sid)"

definition fl_output_json_name :: "string \<Rightarrow> string" where
  "fl_output_json_name sid = ''output_'' @ sid @ ''.json''"

text \<open>The highest-round model of the session, the first of them by name.\<close>

definition better_model :: "final_model \<Rightarrow> final_model option \<Rightarrow> final_model option" where
  "better_model m best =
     (case best of None \<Rightarrow> Some m | Some b \<Rightarrow> if fm_round m \<le> fm_round b then Some b else Some m)"

definition fl_session_model :: "world \<Rightarrow> files \<Rightarrow> string \<Rightarrow> final_model option result" where
  "fl_session_model W F sid =
     and_then (read_dir F) (\<lambda>es.
     Inr (fold better_model (filter (\<lambda>m. fm_session_id m = sid)
       (List.map_filter (checkpoint_of W rfc3339) es)) None))"

section \<open>The upload\<close>

text \<open>
  A part as the multipart reader delivers it: its form name, the bytes that can be read and the error
  that ends them early. \<open>Too_Large\<close> is \<^verbatim>\<open>http.MaxBytesError\<close>, the cap on the whole body.
\<close>

datatype read_error = Too_Large | Malformed string

record form_part =
  fp_name :: string
  fp_bytes :: string
  fp_error :: "read_error option"

record multipart =
  mp_open :: "string option"  \<comment> \<open>the body is not multipart\<close>
  mp_parts :: "form_part list"
  mp_end :: "read_error option"  \<comment> \<open>why there is no further part; none at the end of the body\<close>

definition upload_error :: "read_error \<Rightarrow> http_error" where
  "upload_error e =
     (case e of Too_Large \<Rightarrow> HttpError 413 ''TOO_LARGE'' ''upload exceeds the limit''
      | Malformed m \<Rightarrow> HttpError 400 ''INVALID_MULTIPART'' m)"

text \<open>\<^verbatim>\<open>io.ReadAll\<close> of a limited reader: an error beyond the limit is not met.\<close>

definition read_limited :: "nat \<Rightarrow> form_part \<Rightarrow> string response" where
  "read_limited n p =
     (if n \<le> length (fp_bytes p) then Inr (take n (fp_bytes p))
      else case fp_error p of None \<Rightarrow> Inr (fp_bytes p) | Some e \<Rightarrow> Inl (upload_error e))"

definition read_all :: "form_part \<Rightarrow> string response" where
  "read_all p = (case fp_error p of None \<Rightarrow> Inr (fp_bytes p) | Some e \<Rightarrow> Inl (upload_error e))"

definition fl_text_part_max :: nat where "fl_text_part_max = 16 * 1024 * 1024"

text \<open>What was read so far. Unmarshalling into a map that exists adds to it; null makes it nil.\<close>

record upload =
  ul_metrics :: "go_map option"
  ul_round :: int
  ul_model :: "string option"

definition merge_metrics :: "go_map option \<Rightarrow> go_any option \<Rightarrow> go_map option" where
  "merge_metrics old doc =
     (case doc of Some (GMap m) \<Rightarrow> Some (fold (\<lambda>(k, v). go_set k v) m (case old of None \<Rightarrow> [] | Some o' \<Rightarrow> o'))
      | _ \<Rightarrow> None)"

definition upload_part :: "json_lib \<Rightarrow> files \<Rightarrow> form_part \<Rightarrow> upload \<Rightarrow> upload response" where
  "upload_part J F p u =
     (if fp_name p = ''metrics'' then
        and_then (read_limited fl_text_part_max p) (\<lambda>b.
        and_then (some_or (HttpError 400 ''INVALID_METRICS'' ''metrics must be a JSON object'')
          (merge_metrics (ul_metrics u) (jl_unmarshal J b))) (\<lambda>m. Inr (u\<lparr>ul_metrics := Some m\<rparr>)))
      else if fp_name p = ''round'' then
        and_then (read_limited 64 p) (\<lambda>b.
        and_then (some_or (HttpError 400 ''INVALID_ROUND'' ''round must be an integer >= 1'')
          (atoi (trim_space b))) (\<lambda>n.
        require (1 \<le> n) (HttpError 400 ''INVALID_ROUND'' ''round must be an integer >= 1'')
          (Inr (u\<lparr>ul_round := n\<rparr>))))
      else if fp_name p = ''model'' then
        require (ul_model u = None) (HttpError 400 ''DUPLICATE_MODEL'' '''') (
        and_then (or_fail (HttpError 500 ''INTERNAL_ERROR'') (io_ok F ''CreateTemp'')) (\<lambda>x.
        and_then (read_all p) (\<lambda>b. Inr (u\<lparr>ul_model := Some b\<rparr>))))
      else and_then (read_all p) (\<lambda>b. Inr u))"

fun upload_parts :: "json_lib \<Rightarrow> files \<Rightarrow> form_part list \<Rightarrow> read_error option \<Rightarrow> upload \<Rightarrow> upload response" where
  "upload_parts J F [] stop u = (case stop of None \<Rightarrow> Inr u | Some e \<Rightarrow> Inl (upload_error e))"
| "upload_parts J F (p # ps) stop u = and_then (upload_part J F p u) (upload_parts J F ps stop)"

text \<open>Up to the creation of the directory, and the parts.\<close>

definition upload_checks :: "server \<Rightarrow> world \<Rightarrow> files \<Rightarrow> string \<Rightarrow> string \<Rightarrow> multipart \<Rightarrow> string response" where
  "upload_checks S W F auth raw body =
     and_then (require_service_token W (cfg_orchestrator_client_id (srv_cfg S))
       (cfg_orchestrator_role (srv_cfg S)) auth) (\<lambda>claims.
     and_then (some_or (HttpError 400 ''INVALID_SESSION_ID'' '''') (fl_session_id raw)) (\<lambda>sid.
     none_or (map_option (HttpError 400 ''INVALID_MULTIPART'') (mp_open body)) (
     and_then (or_fail (HttpError 500 ''INTERNAL_ERROR'') (io_ok F ''MkdirAll'')) (\<lambda>x. Inr sid))))"

definition read_upload :: "json_lib \<Rightarrow> files \<Rightarrow> multipart \<Rightarrow> (go_map \<times> nat \<times> string) response" where
  "read_upload J F body =
     and_then (upload_parts J F (mp_parts body) (mp_end body)
       \<lparr>ul_metrics = None, ul_round = 0, ul_model = None\<rparr>) (\<lambda>u.
     some_or (HttpError 400 ''MISSING_FIELDS'' ''metrics, round and model parts are required'')
       (case (ul_metrics u, ul_model u) of
          (Some m, Some b) \<Rightarrow> if 1 \<le> ul_round u then Some (m, nat (ul_round u), b) else None
        | _ \<Rightarrow> None))"

text \<open>The model is in place before the metrics are written; \<^verbatim>\<open>fetched_at\<close> is set by the server.\<close>

definition write_output ::
  "world \<Rightarrow> json_lib \<Rightarrow> string \<Rightarrow> go_map \<Rightarrow> nat \<Rightarrow> string \<Rightarrow> files \<Rightarrow> (string \<times> string \<times> nat) result \<times> files" where
  "write_output W J sid metrics n bytes F =
     (case io_ok F ''Rename'' of
        Inl e \<Rightarrow> (Inl e, F)
      | Inr x \<Rightarrow>
          let name = model_file_name sid n ''pt'';
              F = F\<lparr>fs_dir := Some (put_file name (Plain_File bytes (w_now W)) (dir_entries F))\<rparr>;
              metrics = go_set ''fetched_at'' (GStr (w_format_time W rfc3339 (w_now W))) metrics
          in (case and_then (jl_marshal J (GMap metrics)) (\<lambda>out.
                and_then (io_ok F ''WriteFile'') (\<lambda>x. Inr out)) of
                Inl e \<Rightarrow> (Inl e, F)
              | Inr out \<Rightarrow> (Inr (sid, name, length bytes),
                  F\<lparr>fs_dir := Some (put_file (fl_output_json_name sid)
                    (Plain_File out (w_now W)) (dir_entries F))\<rparr>)))"

text \<open>The sid, the file and its size.\<close>

definition post_fl_output ::
  "server \<Rightarrow> world \<Rightarrow> json_lib \<Rightarrow> string \<Rightarrow> string \<Rightarrow> multipart \<Rightarrow> files \<Rightarrow>
   (string \<times> string \<times> nat) response \<times> files" where
  "post_fl_output S W J auth raw body F =
     (case upload_checks S W F auth raw body of
        Inl e \<Rightarrow> (Inl e, F)
      | Inr sid \<Rightarrow>
          let F = F\<lparr>fs_dir := Some (dir_entries F)\<rparr> in
          (case read_upload J F body of
             Inl e \<Rightarrow> (Inl e, F)
           | Inr (metrics, n, bytes) \<Rightarrow>
               (case write_output W J sid metrics n bytes F of
                  (Inl e, F) \<Rightarrow> (Inl (HttpError 500 ''INTERNAL_ERROR'' e), F)
                | (Inr stored, F) \<Rightarrow> (Inr stored, F))))"

section \<open>Reading metrics\<close>

definition finite_value :: "float64 \<Rightarrow> rat option" where
  "finite_value f = (case f of Finite q \<Rightarrow> Some q | _ \<Rightarrow> None)"

lemma size_map_of: "map_of m k = Some v \<Longrightarrow> size v < size (GMap m)"
  by (induction m) (auto split: if_splits)

text \<open>A number, a numeric string, the second of a pair, or what an object calls its value.\<close>

function fl_number :: "json_lib \<Rightarrow> go_any \<Rightarrow> rat option" where
  "fl_number J v =
     (case v of
        GNum f \<Rightarrow> finite_value f
      | GStr s \<Rightarrow> (case jl_parse_float J (trim_space s) of None \<Rightarrow> None | Some f \<Rightarrow> finite_value f)
      | GList xs \<Rightarrow> (case xs of [a, b] \<Rightarrow> fl_number J b | _ \<Rightarrow> None)
      | GMap m \<Rightarrow>
          (case map_of m ''value'' of
             Some x \<Rightarrow> fl_number J x
           | None \<Rightarrow> (case map_of m ''v'' of Some x \<Rightarrow> fl_number J x | None \<Rightarrow> None))
      | _ \<Rightarrow> None)"
  by auto
termination
  by (relation "measure (\<lambda>(J, v). size v)") (use size_map_of in auto)

declare fl_number.simps [simp del]

definition fl_series :: "json_lib \<Rightarrow> go_any \<Rightarrow> rat option list" where
  "fl_series J v =
     (case v of GList xs \<Rightarrow> map (fl_number J) xs
      | _ \<Rightarrow> (case fl_number J v of None \<Rightarrow> [] | Some q \<Rightarrow> [Some q]))"

record fl_round =
  fr_round :: nat
  fr_accuracy :: "rat option"
  fr_loss :: "rat option"

definition go_field :: "string \<Rightarrow> go_map \<Rightarrow> go_any" where
  "go_field k m = (case map_of m k of None \<Rightarrow> GNil | Some v \<Rightarrow> v)"

text \<open>The series of the first key that names an accuracy and of the first other that names a loss.\<close>

definition pick_series ::
  "json_lib \<Rightarrow> go_map \<Rightarrow> string \<Rightarrow> rat option list option \<times> rat option list option \<Rightarrow>
   rat option list option \<times> rat option list option" where
  "pick_series J gvm k acc_loss =
     (case acc_loss of (acc, loss) \<Rightarrow>
        if acc = None \<and> contains (to_lower k) ''acc'' then (Some (fl_series J (go_field k gvm)), loss)
        else if loss = None \<and> contains (to_lower k) ''loss'' then (acc, Some (fl_series J (go_field k gvm)))
        else (acc, loss))"

definition series_at :: "rat option list option \<Rightarrow> nat \<Rightarrow> rat option" where
  "series_at s i = (case s of None \<Rightarrow> None | Some xs \<Rightarrow> if i < length xs then xs ! i else None)"

definition series_length :: "rat option list option \<Rightarrow> nat" where
  "series_length s = (case s of None \<Rightarrow> 0 | Some xs \<Rightarrow> length xs)"

definition fl_per_round :: "json_lib \<Rightarrow> go_map \<Rightarrow> fl_round list" where
  "fl_per_round J metrics =
     (let gvm = (case go_field ''global_validation_metrics'' metrics of GMap m \<Rightarrow> m | _ \<Rightarrow> []);
          (acc, loss) = fold (pick_series J gvm) (sort (map fst gvm)) (None, None)
      in map (\<lambda>i. \<lparr>fr_round = Suc i, fr_accuracy = series_at acc i, fr_loss = series_at loss i\<rparr>)
           [0..<max (series_length acc) (series_length loss)])"

text \<open>
  A positive whole number. From 2^63 on, Go leaves the conversion to the machine; the model has what
  amd64 gives.
\<close>

definition fl_int :: "json_lib \<Rightarrow> go_any \<Rightarrow> int option" where
  "fl_int J v =
     (case fl_number J v of
        None \<Rightarrow> None
      | Some q \<Rightarrow> if 1 \<le> q \<and> q = of_int \<lfloor>q\<rfloor> then Some (if \<lfloor>q\<rfloor> < 2 ^ 63 then \<lfloor>q\<rfloor> else - (2 ^ 63)) else None)"

definition fl_round_keys :: "string list" where
  "fl_round_keys = [''num_training_rounds'', ''num_server_rounds'', ''num_rounds'', ''total_rounds'', ''rounds'',
     ''training_rounds'', ''server_rounds'']"

definition first_some :: "('a \<Rightarrow> 'b option) \<Rightarrow> 'a list \<Rightarrow> 'b option" where
  "first_some f xs = (case List.map_filter f xs of [] \<Rightarrow> None | y # ys \<Rightarrow> Some y)"

lemma first_some_cong [fundef_cong]:
  "xs = ys \<Longrightarrow> (\<And>x. x \<in> set ys \<Longrightarrow> f x = g x) \<Longrightarrow> first_some f xs = first_some g ys"
  unfolding first_some_def by (induction ys arbitrary: xs) (auto simp: List.map_filter_def cong: filter_cong map_cong)

text \<open>A round count among the keys of this object, in lower case, or of its members in key order.\<close>

function fl_find_rounds :: "json_lib \<Rightarrow> go_any \<Rightarrow> nat \<Rightarrow> int option" where
  "fl_find_rounds J v depth =
     (if 3 < depth then None
      else case v of
          GMap m \<Rightarrow>
            (let low = fold (\<lambda>(k, x). go_set (to_lower k) x) m [] in
             case first_some (\<lambda>k. case map_of low k of None \<Rightarrow> None | Some x \<Rightarrow> fl_int J x) fl_round_keys of
               Some n \<Rightarrow> Some n
             | None \<Rightarrow> first_some (\<lambda>k. fl_find_rounds J (go_field k m) (Suc depth)) (sort (map fst m)))
        | _ \<Rightarrow> None)"
  by auto
termination
  by (relation "measure (\<lambda>(J, v, depth). 4 - depth)") auto

declare fl_find_rounds.simps [simp del]

section \<open>Reading the output\<close>

definition read_output_json :: "files \<Rightarrow> string \<Rightarrow> string option result" where
  "read_output_json F name =
     and_then (io_ok F ''ReadFile'') (\<lambda>x.
     case map_of (dir_entries F) name of
       Some (Plain_File bytes t) \<Rightarrow> Inr (Some bytes)
     | Some Sub_Dir \<Rightarrow> Inl ''is a directory''
     | _ \<Rightarrow> Inr None)"

definition stored_metrics :: "json_lib \<Rightarrow> string option \<Rightarrow> go_map option" where
  "stored_metrics J b =
     (case b of None \<Rightarrow> None | Some b \<Rightarrow> (case jl_unmarshal J b of Some (GMap m) \<Rightarrow> Some m | _ \<Rightarrow> None))"

record output_view =
  ov_status :: string
  ov_session_id :: string
  ov_rounds_done :: int
  ov_rounds_total :: "int option"
  ov_final_accuracy :: "rat option"
  ov_final_loss :: "rat option"
  ov_per_round :: "fl_round list"
  ov_artifact :: "final_model option"
  ov_fetched_at :: "string option"

text \<open>The last round that has a value.\<close>

definition last_value :: "(fl_round \<Rightarrow> rat option) \<Rightarrow> fl_round list \<Rightarrow> rat option" where
  "last_value f rs = fold (\<lambda>r v. case f r of None \<Rightarrow> v | Some x \<Rightarrow> Some x) rs None"

definition rounds_total :: "json_lib \<Rightarrow> go_map \<Rightarrow> int option" where
  "rounds_total J m =
     (case fl_int J (go_field ''rounds_total'' m) of
        Some n \<Rightarrow> Some n
      | None \<Rightarrow> fl_find_rounds J (go_field ''session_config'' m) 0)"

definition output_view_of :: "json_lib \<Rightarrow> string \<Rightarrow> go_map option \<Rightarrow> final_model option \<Rightarrow> output_view" where
  "output_view_of J sid metrics model =
     (let rounds = (case metrics of None \<Rightarrow> [] | Some m \<Rightarrow> fl_per_round J m) in
      \<lparr>ov_status = (if metrics \<noteq> None \<and> model \<noteq> None then ''ready'' else ''not_found''),
       ov_session_id = sid,
       ov_rounds_done = (case model of None \<Rightarrow> int (length rounds) | Some m \<Rightarrow> max (int (length rounds)) (fm_round m)),
       ov_rounds_total = (case metrics of None \<Rightarrow> None | Some m \<Rightarrow> rounds_total J m),
       ov_final_accuracy = last_value fr_accuracy rounds, ov_final_loss = last_value fr_loss rounds,
       ov_per_round = rounds, ov_artifact = model,
       ov_fetched_at = (case metrics of None \<Rightarrow> None | Some m \<Rightarrow>
         (case go_field ''fetched_at'' m of GStr s \<Rightarrow> if s = '''' then None else Some s | _ \<Rightarrow> None))\<rparr>)"

definition get_fl_output ::
  "server \<Rightarrow> world \<Rightarrow> json_lib \<Rightarrow> files \<Rightarrow> string \<Rightarrow> string \<Rightarrow> db \<Rightarrow> output_view response" where
  "get_fl_output S W J F auth raw d =
     and_then (some_or (HttpError 400 ''INVALID_SESSION_ID'' '''') (fl_session_id raw)) (\<lambda>sid.
     and_then (require_session_owner S W d auth raw) (\<lambda>c.
     and_then (or_fail (HttpError 500 ''INTERNAL_ERROR'') (read_output_json F (fl_output_json_name sid))) (\<lambda>b.
     and_then (or_fail (HttpError 500 ''INTERNAL_ERROR'') (fl_session_model W F sid)) (\<lambda>model.
     Inr (output_view_of J sid (stored_metrics J b) model)))))"

definition get_fl_output_download ::
  "server \<Rightarrow> world \<Rightarrow> files \<Rightarrow> string \<Rightarrow> string \<Rightarrow> db \<Rightarrow> (string \<times> string) response" where
  "get_fl_output_download S W F auth raw d =
     and_then (some_or (HttpError 400 ''INVALID_SESSION_ID'' '''') (fl_session_id raw)) (\<lambda>sid.
     and_then (require_session_owner S W d auth raw) (\<lambda>c.
     and_then (or_fail (HttpError 500 ''INTERNAL_ERROR'') (fl_session_model W F sid)) (\<lambda>model.
     and_then (some_or (no_model ''No model stored for this session yet.'') model) (\<lambda>m.
     and_then (or_fail (HttpError 500 ''READ_ERROR'') (io_ok F ''Open'')) (\<lambda>x.
     and_then (some_or (HttpError 500 ''READ_ERROR'' ''open'') (file_data F (fm_file m))) (\<lambda>bytes.
     and_then (or_fail (HttpError 500 ''READ_ERROR'') (io_ok F ''Fstat'')) (\<lambda>x.
     Inr (fm_file m, bytes))))))))"

end
