(* ===== verification/Output_Facts.thy ===== *)
theory Output_Facts
  imports FL_Output Gate
begin

text \<open>
  What holds of the model files: a session is served its highest round, what was uploaded is what its
  owner downloads, one session's upload is not seen by another file id, and the file a request
  resolves to is a checkpoint in the directory.
\<close>

section \<open>Writing a file\<close>

lemma map_of_insort_key:
  "name \<notin> fst ` set es \<Longrightarrow> map_of (insort_key fst (name, e) es) = (map_of es)(name \<mapsto> e)"
  by (induction es) (auto simp: fun_eq_iff)

lemma map_of_put_file: "map_of (put_file name e es) = (map_of es)(name \<mapsto> e)"
proof -
  have "map_of (filter (\<lambda>x. fst x \<noteq> name) es) k = map_of es k" if "k \<noteq> name" for k
    using that by (induction es) auto
  then show ?thesis
    unfolding put_file_def by (subst map_of_insort_key) (auto simp: fun_eq_iff)
qed

lemma set_put_file: "set (put_file name e es) = insert (name, e) {x \<in> set es. fst x \<noteq> name}"
  by (simp add: put_file_def set_insort_key)

lemma filter_put_file:
  assumes "\<And>e. \<not> P (name, e)"
  shows "filter P (put_file name e es) = filter P es"
proof -
  have "filter P (filter (\<lambda>x. fst x \<noteq> name) es) = filter P es"
    unfolding filter_filter by (rule filter_cong) (use assms in auto)
  then show ?thesis using assms by (simp add: put_file_def filter_insort_triv)
qed

section \<open>The models of a session\<close>

definition of_session :: "string \<Rightarrow> string \<times> dir_entry \<Rightarrow> bool" where
  "of_session sid x \<longleftrightarrow> (case x of
      (name, Plain_File bytes t) \<Rightarrow> (\<exists>ds. model_file_parts name = Some (sid, ds)) | _ \<Rightarrow> False)"

definition session_models :: "world \<Rightarrow> string \<Rightarrow> string \<Rightarrow> (string \<times> dir_entry) list \<Rightarrow> final_model list" where
  "session_models W layout sid es =
     filter (\<lambda>m. fm_session_id m = sid) (List.map_filter (checkpoint_of W layout) es)"

lemma of_session_checkpoint:
  "of_session sid x \<longleftrightarrow> (\<exists>m. checkpoint_of W layout x = Some m \<and> fm_session_id m = sid)"
  by (auto simp: of_session_def checkpoint_of_def split: prod.splits dir_entry.splits)

lemma session_models_filter:
  "session_models W layout sid es = map (the \<circ> checkpoint_of W layout) (filter (of_session sid) es)"
proof (induction es)
  case (Cons x es)
  then show ?case
    unfolding session_models_def
    using of_session_checkpoint [of sid x W layout]
    by (cases "checkpoint_of W layout x") (auto simp: List.map_filter_def)
qed (simp add: session_models_def List.map_filter_def)

lemma better_model_fold:
  "fold better_model ms best = Some m \<Longrightarrow>
   (m \<in> set ms \<or> best = Some m) \<and> (\<forall>x \<in> set ms. fm_round x \<le> fm_round m) \<and>
   (\<forall>b. best = Some b \<longrightarrow> fm_round b \<le> fm_round m)"
proof (induction ms arbitrary: best)
  case (Cons a ms)
  then have "fold better_model ms (better_model a best) = Some m" by simp
  note IH = Cons.IH [OF this]
  show ?case
  proof (cases best)
    case None
    then show ?thesis using IH by (auto simp: better_model_def)
  next
    case (Some b)
    then show ?thesis using IH by (auto simp: better_model_def split: if_splits)
  qed
qed simp

lemma better_model_fold_Some: "ms \<noteq> [] \<or> best \<noteq> None \<Longrightarrow> fold better_model ms best \<noteq> None"
  by (induction ms arbitrary: best) (auto simp: better_model_def split: option.splits)

lemma fl_session_model_Inr:
  "fl_session_model W F sid = Inr best \<longleftrightarrow> fs_fault F ''ReadDir'' = None \<and>
     best = fold better_model (session_models W rfc3339 sid (dir_entries F)) None"
  by (auto simp: fl_session_model_def read_dir_def session_models_def)

section \<open>Other sessions' files\<close>

lemma and_then_cong: "(\<And>v. m = Inr v \<Longrightarrow> f v = g v) \<Longrightarrow> and_then m f = and_then m g"
  by (cases m) simp_all

text \<open>What the owner of a file id can be shown: its models, what is under their names, its metrics file.\<close>

definition session_files ::
  "string \<Rightarrow> (string \<times> dir_entry) list \<Rightarrow>
   (string \<times> dir_entry) list \<times> (string \<Rightarrow> dir_entry option) \<times> dir_entry option" where
  "session_files sid es =
     (filter (of_session sid) es,
      \<lambda>name. if \<exists>ds. model_file_parts name = Some (sid, ds) then map_of es name else None,
      map_of es (fl_output_json_name sid))"

lemma json_name_not_model [simp]: "model_file_parts (fl_output_json_name sid) = None"
proof -
  have "\<not> is_model_file (fl_output_json_name sid) s ds" for s ds
    by (simp add: is_model_file_def fl_output_json_name_def)
  then show ?thesis using model_file_parts_iff by (metis not_Some_eq surj_pair)
qed

lemma json_name_not_model_name [simp]:
  "fl_output_json_name sid \<noteq> model_file_name s n x" "model_file_name s n x \<noteq> fl_output_json_name sid"
  by (simp_all add: model_file_name_def fl_output_json_name_def)

lemma json_name_inj [simp]: "fl_output_json_name a = fl_output_json_name b \<longleftrightarrow> a = b"
  by (simp add: fl_output_json_name_def)



lemma session_files_put_model:
  assumes "safe_id sid" and "sid \<noteq> sid'"
  shows "session_files sid' (put_file (model_file_name sid n ''pt'') e es) = session_files sid' es"
proof -
  have "\<not> of_session sid' (model_file_name sid n ''pt'', x)" for x
    using assms safe_id_model [OF assms(1), of "''pt''" n] by (simp add: of_session_def split: dir_entry.split)
  moreover have "model_file_parts (model_file_name sid n ''pt'') = Some (sid, decimal n)"
    using safe_id_model [OF assms(1)] by simp
  ultimately show ?thesis
    using assms(2) by (auto simp: session_files_def filter_put_file map_of_put_file fun_eq_iff)
qed

lemma session_files_put_json:
  assumes "sid \<noteq> sid'"
  shows "session_files sid' (put_file (fl_output_json_name sid) e es) = session_files sid' es"
  using assms by (auto simp: session_files_def filter_put_file map_of_put_file of_session_def fun_eq_iff
      split: dir_entry.split)

lemma fl_session_id_safe: "fl_session_id raw = Some sid \<Longrightarrow> safe_id sid"
  by (auto simp: fl_session_id_def Let_def split: if_splits)

lemma dir_entries_update [simp]: "dir_entries (F\<lparr>fs_dir := Some es\<rparr>) = es"
  by (simp add: dir_entries_def)

lemma write_output_other:
  assumes "safe_id sid" and "sid \<noteq> sid'"
  shows "session_files sid' (dir_entries (snd (write_output W J sid m n b F))) = session_files sid' (dir_entries F)"
    and "fs_fault (snd (write_output W J sid m n b F)) = fs_fault F"
  using assms by (simp_all add: write_output_def Let_def session_files_put_model session_files_put_json
      split: sum.split)

lemma post_fl_output_other:
  assumes "fl_session_id raw \<noteq> Some sid'"
  shows "session_files sid' (dir_entries (snd (post_fl_output S W J auth raw body F))) =
      session_files sid' (dir_entries F) \<and> fs_fault (snd (post_fl_output S W J auth raw body F)) = fs_fault F"
proof (cases "upload_checks S W F auth raw body")
  case (Inl e)
  then show ?thesis by (simp add: post_fl_output_def)
next
  case (Inr sid)
  then have sid: "fl_session_id raw = Some sid"
    unfolding upload_checks_def early_return by auto
  with assms have ne: "sid \<noteq> sid'" by auto
  define F1 where "F1 = F\<lparr>fs_dir := Some (dir_entries F)\<rparr>"
  have F1: "dir_entries F1 = dir_entries F" "fs_fault F1 = fs_fault F" by (simp_all add: F1_def)
  note other = write_output_other [OF fl_session_id_safe [OF sid] ne, of W J _ _ _ F1, unfolded F1]
  have snd_post: "snd (post_fl_output S W J auth raw body F) = (case read_upload J F1 body of
      Inl e \<Rightarrow> F1 | Inr (m, n, b) \<Rightarrow> snd (write_output W J sid m n b F1))"
    using Inr by (simp add: post_fl_output_def Let_def F1_def split: sum.split prod.split)
  show ?thesis
    unfolding snd_post using other F1 by (auto split: sum.split prod.split)
qed

lemma session_model_file:
  "m \<in> set (session_models W layout sid es) \<Longrightarrow> \<exists>ds. model_file_parts (fm_file m) = Some (sid, ds)"
  by (auto simp: session_models_def List.map_filter_def checkpoint_of_def split: prod.splits dir_entry.splits)

lemma session_files_same:
  assumes "session_files sid (dir_entries F') = session_files sid (dir_entries F)" and "fs_fault F' = fs_fault F"
  shows "fl_session_model W F' sid = fl_session_model W F sid"
    and "read_output_json F' (fl_output_json_name sid) = read_output_json F (fl_output_json_name sid)"
    and "fl_session_model W F sid = Inr (Some m) \<Longrightarrow> file_data F' (fm_file m) = file_data F (fm_file m)"
    and "io_ok F' = io_ok F"
proof -
  have models: "session_models W layout sid (dir_entries F') = session_models W layout sid (dir_entries F)" for layout
    using assms(1) by (simp add: session_models_filter session_files_def)
  show io: "io_ok F' = io_ok F" using assms(2) by (simp add: io_ok_def fun_eq_iff)
  show "fl_session_model W F' sid = fl_session_model W F sid"
    using models [of rfc3339] io by (simp add: fl_session_model_def read_dir_def session_models_def io_ok_def split: sum.split option.split)
  show "read_output_json F' (fl_output_json_name sid) = read_output_json F (fl_output_json_name sid)"
    using assms(1) io by (simp add: read_output_json_def session_files_def)
  show "file_data F' (fm_file m) = file_data F (fm_file m)" if "fl_session_model W F sid = Inr (Some m)"
  proof -
    from that have "fold better_model (session_models W rfc3339 sid (dir_entries F)) None = Some m"
      by (simp add: fl_session_model_Inr)
    then obtain ds where "model_file_parts (fm_file m) = Some (sid, ds)"
      using better_model_fold session_model_file by blast
    then have "map_of (dir_entries F') (fm_file m) = map_of (dir_entries F) (fm_file m)"
      using assms(1) by (auto simp: session_files_def fun_eq_iff split: if_splits)
    then show ?thesis by (simp add: file_data_def)
  qed
qed

section \<open>A concrete upload\<close>

definition sample_json_lib :: json_lib where
  "sample_json_lib = \<lparr>jl_unmarshal = (\<lambda>s. if s = ''{}'' then Some (GMap []) else None),
     jl_marshal = (\<lambda>v. Inr ''{}''), jl_parse_float = (\<lambda>s. None)\<rparr>"

definition sample_files :: files where
  "sample_files = \<lparr>fs_path = [''ckpt''], fs_dir = Some [(''model_s_round_1.pt'', Plain_File ''old'' 1)],
     fs_fault = (\<lambda>c. None)\<rparr>"

definition sample_upload :: multipart where
  "sample_upload = \<lparr>mp_open = None, mp_parts =
     [\<lparr>fp_name = ''metrics'', fp_bytes = ''{}'', fp_error = None\<rparr>,
      \<lparr>fp_name = ''round'', fp_bytes = '' 2 '', fp_error = None\<rparr>,
      \<lparr>fp_name = ''model'', fp_bytes = ''new'', fp_error = None\<rparr>], mp_end = None\<rparr>"

text \<open>A token of the orchestrator's client; every other token is a user's, as before.\<close>

definition sample_upload_world :: "time \<Rightarrow> world" where
  "sample_upload_world now = (sample_world now)\<lparr>w_access_token := (\<lambda>tok. Inr (True,
     JObj [(''azp'', JStr tok), (''realm_access'', JObj [(''roles'', JArr [JStr ''provider''])])]))\<rparr>"

section \<open>One session's upload and another's reading\<close>

text \<open>
  An upload for one session is not seen by another: whoever posts an output, with whatever result,
  the output and the download served for any submission id with another file id are what they were
  before, for every caller and every state of the database.
\<close>

theorem upload_not_seen_by_others:
  assumes "fl_session_id raw \<noteq> fl_session_id raw'"
  shows "get_fl_output S W' J (snd (post_fl_output S W J auth raw body F)) tok raw' d =
      get_fl_output S W' J F tok raw' d \<and>
    get_fl_output_download S W' (snd (post_fl_output S W J auth raw body F)) tok raw' d =
      get_fl_output_download S W' F tok raw' d"
proof (cases "fl_session_id raw'")
  case None
  then show ?thesis by (simp add: get_fl_output_def get_fl_output_download_def)
next
  case (Some sid')
  let ?F = "snd (post_fl_output S W J auth raw body F)"
  have "fl_session_id raw \<noteq> Some sid'" using assms Some by simp
  note other = post_fl_output_other [OF this, of S W J auth body F]
  note same = session_files_same [OF conjunct1 [OF other] conjunct2 [OF other]]
  show ?thesis
    unfolding get_fl_output_def get_fl_output_download_def Some some_or_simps and_then_simps same(1,2,4)
    by (intro conjI refl and_then_cong) (simp_all only: or_fail_Inr some_or_Inr same(3))
qed

theorem upload_not_seen_by_others_witness:
  "get_fl_output_download sample_server (sample_world 5)
     (snd (post_fl_output sample_server (sample_upload_world 3) sample_json_lib ''Bearer orch'' ''a'' sample_upload
        sample_files)) ''Bearer u'' ''s'' (sample_db sample_draft) =
   get_fl_output_download sample_server (sample_world 5) sample_files ''Bearer u'' ''s'' (sample_db sample_draft)"
proof -
  have "fl_session_id ''a'' \<noteq> fl_session_id ''s''" by code_simp
  from upload_not_seen_by_others [OF this] show ?thesis by blast
qed

section \<open>What is uploaded is what is downloaded\<close>

lemma post_fl_output_stored:
  assumes "post_fl_output S W J auth raw body F = (Inr (sid, name, sz), F')"
  obtains m n b out F1 where "fl_session_id raw = Some sid" and "F1 = F\<lparr>fs_dir := Some (dir_entries F)\<rparr>"
    and "read_upload J F1 body = Inr (m, n, b)" and "name = model_file_name sid n ''pt''" and "sz = length b"
    and "dir_entries F' = put_file (fl_output_json_name sid) (Plain_File out (w_now W))
      (put_file name (Plain_File b (w_now W)) (dir_entries F))"
    and "fs_fault F' = fs_fault F"
proof -
  define F1 where "F1 = F\<lparr>fs_dir := Some (dir_entries F)\<rparr>"
  obtain s where s: "upload_checks S W F auth raw body = Inr s"
    using assms by (cases "upload_checks S W F auth raw body") (simp_all add: post_fl_output_def)
  then have sid: "fl_session_id raw = Some s" unfolding upload_checks_def early_return by auto
  obtain m n b where read: "read_upload J F1 body = Inr (m, n, b)"
    using assms s by (cases "read_upload J F1 body") (auto simp: post_fl_output_def Let_def F1_def)
  with assms s have "write_output W J s m n b F1 = (Inr (sid, name, sz), F')"
    by (auto simp: post_fl_output_def Let_def F1_def split: prod.splits sum.splits)
  then obtain out where "sid = s" "name = model_file_name s n ''pt''" "sz = length b"
    "dir_entries F' = put_file (fl_output_json_name s) (Plain_File out (w_now W))
      (put_file name (Plain_File b (w_now W)) (dir_entries F1))" "fs_fault F' = fs_fault F1"
    unfolding write_output_def Let_def by (auto split: sum.splits)
  then show ?thesis using that sid read F1_def by simp
qed

text \<open>No file of the session but that of round \<open>n\<close> itself is of round \<open>n\<close> or later.\<close>

definition latest_round :: "string \<Rightarrow> nat \<Rightarrow> files \<Rightarrow> bool" where
  "latest_round sid n F \<longleftrightarrow> (\<forall>(name, e) \<in> set (dir_entries F). \<forall>ds.
     model_file_parts name = Some (sid, ds) \<longrightarrow>
     name = model_file_name sid n ''pt'' \<or> atoi_clamped ds < int n)"

lemma atoi_bounded: "atoi s = Some n \<Longrightarrow> n < 2 ^ 63"
  by (auto simp: atoi_def Let_def split: if_splits list.splits)

lemma upload_part_round:
  assumes "upload_part J F p u = Inr u'" and "ul_round u < 2 ^ 63"
  shows "ul_round u' < 2 ^ 63"
  using assms unfolding upload_part_def
  by (auto simp: early_return dest: atoi_bounded split: if_splits)

lemma upload_parts_round:
  "upload_parts J F ps stop u = Inr u' \<Longrightarrow> ul_round u < 2 ^ 63 \<Longrightarrow> ul_round u' < 2 ^ 63"
proof (induction ps arbitrary: u)
  case Nil
  then show ?case by (auto split: option.splits)
next
  case (Cons p ps)
  then show ?case using upload_part_round by (auto simp: early_return)
qed

lemma read_upload_round:
  assumes "read_upload J F body = Inr (m, n, b)"
  shows "0 < n" and "int n < 2 ^ 63"
proof -
  obtain u where u: "upload_parts J F (mp_parts body) (mp_end body)
      \<lparr>ul_metrics = None, ul_round = 0, ul_model = None\<rparr> = Inr u" and "1 \<le> ul_round u" "n = nat (ul_round u)"
    using assms unfolding read_upload_def early_return by (auto split: option.splits if_splits)
  moreover from upload_parts_round [OF u] have "ul_round u < 2 ^ 63" by simp
  ultimately show "0 < n" "int n < 2 ^ 63" by simp_all
qed

lemma atoi_clamped_decimal: "int n < 2 ^ 63 \<Longrightarrow> atoi_clamped (decimal n) = int n"
  by (simp add: atoi_clamped_def)

text \<open>A checkpoint written over everything older is the session's model.\<close>

lemma latest_checkpoint_best:
  assumes es: "es' = put_file (fl_output_json_name sid) (Plain_File out t) (put_file name (Plain_File b t) es)"
    and name: "name = model_file_name sid n ''pt''"
    and check: "checkpoint_of W' rfc3339 (name, Plain_File b t) = Some mine"
    and mine: "fm_session_id mine = sid" "fm_round mine = int n" and latest: "latest_round sid n F" and F: "dir_entries F = es"
  shows "fold better_model (session_models W' rfc3339 sid es') None = Some mine"
proof -
  let ?ms = "session_models W' rfc3339 sid es'"
  have "(name, Plain_File b t) \<in> set es'" using name by (auto simp: es set_put_file)
  then have present: "mine \<in> set ?ms"
    using check mine by (force simp: session_models_def List.map_filter_def)
  have best: "x = mine \<or> fm_round x < int n" if "x \<in> set ?ms" for x
  proof -
    from that obtain k e where e: "(k, e) \<in> set es'" "checkpoint_of W' rfc3339 (k, e) = Some x"
      "fm_session_id x = sid" by (auto simp: session_models_def List.map_filter_def)
    then consider "(k, e) = (name, Plain_File b t)" | "(k, e) \<in> set es" "k \<noteq> name"
      by (auto simp: es set_put_file checkpoint_of_def)
    then show ?thesis
    proof cases
      case 1
      then show ?thesis using e check by simp
    next
      case 2
      then show ?thesis using e(2,3) latest name F
        by (fastforce simp: latest_round_def checkpoint_of_def split: dir_entry.splits)
    qed
  qed
  obtain x where x: "fold better_model ?ms None = Some x"
    using better_model_fold_Some [of ?ms None] present by fastforce
  then have "x = mine"
    using better_model_fold [OF x] present best mine by force
  then show ?thesis using x by simp
qed

text \<open>
  C35. What the orchestrator uploads for a session is what its output owner downloads: an accepted
  upload of a round that is the session's latest is named after the session and the round, and the
  owner's next download of any submission id with that file id returns exactly the uploaded bytes.
\<close>

theorem uploaded_model_downloaded:
  assumes post: "post_fl_output S W J auth raw body F = (Inr (sid, name, sz), F')"
    and no_fault: "fs_fault F = (\<lambda>c. None)"
    and read: "read_upload J (F\<lparr>fs_dir := Some (dir_entries F)\<rparr>) body = Inr (m, n, b)"
    and latest: "latest_round sid n F"
    and owner: "fl_session_id raw' = Some sid" "require_session_owner S W' d tok raw' = Inr c"
  shows "name = model_file_name sid n ''pt'' \<and> sz = length b \<and>
    get_fl_output_download S W' F' tok raw' d = Inr (name, b)"
proof -
  obtain out where sid: "fl_session_id raw = Some sid" and name: "name = model_file_name sid n ''pt''"
    and sz: "sz = length b" and fault: "fs_fault F' = fs_fault F"
    and es: "dir_entries F' = put_file (fl_output_json_name sid) (Plain_File out (w_now W))
      (put_file name (Plain_File b (w_now W)) (dir_entries F))"
    using post_fl_output_stored [OF post] read by (metis (no_types, lifting) Inr_inject prod.inject)
  have parts: "model_file_parts name = Some (sid, decimal n)"
    using safe_id_model [OF fl_session_id_safe [OF sid]] name by simp
  have data: "map_of (dir_entries F') name = Some (Plain_File b (w_now W))"
    using name by (simp add: es map_of_put_file)
  define mine where "mine = \<lparr>fm_session_id = sid, fm_round = int n, fm_file = name, fm_size_bytes = length b,
    fm_modified_at = w_format_time W' rfc3339 (w_now W), fm_mod_time = w_now W\<rparr>"
  have check: "checkpoint_of W' rfc3339 (name, Plain_File b (w_now W)) = Some mine"
    using parts atoi_clamped_decimal [OF read_upload_round(2) [OF read]] by (simp add: checkpoint_of_def mine_def)
  have "fold better_model (session_models W' rfc3339 sid (dir_entries F')) None = Some mine"
    using es name check _ _ latest refl by (rule latest_checkpoint_best) (simp_all add: mine_def)
  then have "fl_session_model W' F' sid = Inr (Some mine)"
    using fault no_fault by (simp add: fl_session_model_Inr)
  then show ?thesis
    using name sz owner data fault no_fault
    by (simp add: get_fl_output_download_def io_ok_def file_data_def mine_def)
qed

theorem uploaded_model_downloaded_witness:
  "get_fl_output_download sample_server (sample_world 5)
     (snd (post_fl_output sample_server (sample_upload_world 3) sample_json_lib ''Bearer orch'' ''s'' sample_upload
        sample_files)) ''Bearer u'' ''s'' (sample_db sample_draft) = Inr (''model_s_round_2.pt'', ''new'')"
proof -
  let ?post = "post_fl_output sample_server (sample_upload_world 3) sample_json_lib ''Bearer orch'' ''s''
    sample_upload sample_files"
  note [simp] = sample_files_def sample_json_lib_def sample_upload_def dir_entries_def
  have "atoi (trim_space '' 2 '') = Some 2" by code_simp
  then have read: "read_upload sample_json_lib (sample_files\<lparr>fs_dir := Some (dir_entries sample_files)\<rparr>) sample_upload =
      Inr ([], 2, ''new'')"
    by (simp add: read_upload_def upload_part_def read_limited_def read_all_def fl_text_part_max_def
        merge_metrics_def io_ok_def)
  have checks: "upload_checks sample_server (sample_upload_world 3) sample_files ''Bearer orch'' ''s'' sample_upload =
      Inr ''s''"
    by code_simp
  have "model_file_name ''s'' 2 ''pt'' = ''model_s_round_2.pt''" by code_simp
  with checks read have "fst ?post = Inr (''s'', ''model_s_round_2.pt'', 3)"
    by (simp add: post_fl_output_def write_output_def Let_def io_ok_def)
  then have post: "?post = (Inr (''s'', ''model_s_round_2.pt'', 3), snd ?post)" by (simp only: prod_eq_iff fst_conv snd_conv)
  have faults: "fs_fault sample_files = (\<lambda>c. None)" by (simp add: sample_files_def)

  have "model_file_parts ''model_s_round_1.pt'' = Some (''s'', ''1'')" and "atoi_clamped ''1'' = 1"
    by code_simp+
  then have latest: "latest_round ''s'' 2 sample_files"
    by (simp add: latest_round_def sample_files_def dir_entries_def)
  have sid: "fl_session_id ''s'' = Some ''s''" by code_simp
  have owner: "require_session_owner sample_server (sample_world 5) (sample_db sample_draft) ''Bearer u'' ''s'' =
      Inr sample_draft"
    by (simp add: require_session_owner_def check_session_owner_def dev_token_claims_def bearer_token_def
        validated_claims_def reject_flotilla_vm_token_def get_contract_by_session_def db_read_def
        is_contract_owner_def claim_str_def sample_defs jget_def has_prefix_def decode_stored_enc equal_fold_def
        trim_space_def trim_by_def is_space_def to_lower_def lower_char_def Let_def)
  show ?thesis
    using uploaded_model_downloaded [OF post faults read latest sid owner] by simp
qed

section \<open>Who reads an output\<close>

lemma dev_token_claims_Inr:
  assumes "dev_token_claims S W whose auth = Inr (tok, claims)"
  shows "bearer_token auth = Some tok \<and>
    (\<exists>url. url \<noteq> '''' \<and> url \<in> {cfg_data_provider_jwks_url (srv_cfg S), cfg_provider_key_jwks_url (srv_cfg S)} \<and>
       w_jwt W url tok = Inr (True, claims))"
proof -
  have tok: "bearer_token auth = Some tok" and "validated_claims S W tok
      [cfg_data_provider_jwks_url (srv_cfg S), cfg_provider_key_jwks_url (srv_cfg S)] = Inr claims"
    using assms by (auto simp: dev_token_claims_def split: option.splits sum.splits)
  with validated_claims_sound [OF this(2)] show ?thesis by auto
qed

text \<open>
  C36. GET /fl-output/{submissionId}/download serves a session's model to its output owner only, and
  it serves the session's latest: it succeeds only with a token one of the two key sets validates,
  whose subject, username or email is the user party of the session's latest contract; the bytes
  served are those of a model file of the session's file id, and no other model file of that id has a
  higher round. The deprecated GET /final-model/download is not so protected: it serves the same
  files to anyone (\<open>final_model_unprotected\<close>).
\<close>

theorem output_served_to_owner:
  assumes "get_fl_output_download S W F auth raw d = Inr (name, bytes)"
  shows "\<exists>tok url claims doc c sid ds.
    bearer_token auth = Some tok \<and> url \<noteq> '''' \<and>
    url \<in> {cfg_data_provider_jwks_url (srv_cfg S), cfg_provider_key_jwks_url (srv_cfg S)} \<and>
    w_jwt W url tok = Inr (True, claims) \<and>
    get_contract_by_session W d raw = Inr (Some doc) \<and> decode_stored doc = Inr c \<and> is_contract_owner claims c \<and>
    fl_session_id raw = Some sid \<and> model_file_parts name = Some (sid, ds) \<and> file_data F name = Some bytes \<and>
    (\<forall>(k, e) \<in> set (dir_entries F). \<forall>b t ds'. e = Plain_File b t \<longrightarrow>
       model_file_parts k = Some (sid, ds') \<longrightarrow> atoi_clamped ds' \<le> atoi_clamped ds)"
proof -
  obtain sid c m where sid: "fl_session_id raw = Some sid" and owner: "require_session_owner S W d auth raw = Inr c"
    and model: "fl_session_model W F sid = Inr (Some m)" and name: "name = fm_file m"
    and bytes: "file_data F name = Some bytes"
    using assms unfolding get_fl_output_download_def early_return by auto
  obtain tok claims doc where tok: "dev_token_claims S W ''output owner'' auth = Inr (tok, claims)"
    and doc: "get_contract_by_session W d raw = Inr (Some doc)" "decode_stored doc = Inr c" "is_contract_owner claims c"
    using owner unfolding require_session_owner_def check_session_owner_def early_return by auto
  let ?ms = "session_models W rfc3339 sid (dir_entries F)"
  have best: "fold better_model ?ms None = Some m" using model by (simp add: fl_session_model_Inr)
  then have m: "m \<in> set ?ms" "\<forall>x \<in> set ?ms. fm_round x \<le> fm_round m" using better_model_fold by blast+
  obtain ds where ds: "model_file_parts name = Some (sid, ds)" "fm_round m = atoi_clamped ds"
    using m(1) name by (auto simp: session_models_def List.map_filter_def checkpoint_of_def
        split: prod.splits dir_entry.splits)
  have latest: "atoi_clamped ds' \<le> atoi_clamped ds"
    if "(k, Plain_File b t) \<in> set (dir_entries F)" "model_file_parts k = Some (sid, ds')" for k b t ds'
  proof -
    let ?x = "\<lparr>fm_session_id = sid, fm_round = atoi_clamped ds', fm_file = k, fm_size_bytes = length b,
      fm_modified_at = w_format_time W rfc3339 t, fm_mod_time = t\<rparr>"
    have "checkpoint_of W rfc3339 (k, Plain_File b t) = Some ?x" using that(2) by (simp add: checkpoint_of_def)
    then have "?x \<in> set ?ms" using that(1) by (force simp: session_models_def List.map_filter_def)
    then show ?thesis using m(2) ds(2) by fastforce
  qed
  obtain url where "bearer_token auth = Some tok" "url \<noteq> ''''"
    "url \<in> {cfg_data_provider_jwks_url (srv_cfg S), cfg_provider_key_jwks_url (srv_cfg S)}"
    "w_jwt W url tok = Inr (True, claims)"
    using dev_token_claims_Inr [OF tok] by auto
  then show ?thesis using doc sid ds(1) bytes latest by blast
qed

theorem output_served_to_owner_witness:
  "\<exists>c. get_contract_by_session (sample_world 5) (sample_db sample_draft) ''s'' = Inr (Some c) \<and>
     model_file_parts ''model_s_round_1.pt'' \<noteq> None"
proof -
  have "get_fl_output_download sample_server (sample_world 5) sample_files ''Bearer u'' ''s'' (sample_db sample_draft) =
      Inr (''model_s_round_1.pt'', ''old'')"
    by code_simp
  from output_served_to_owner [OF this] show ?thesis by blast
qed

text \<open>
  The deprecated download takes no token: whoever asks for the session is served the very file the
  owner is, and nobody else through the other endpoint.
\<close>

theorem final_model_unprotected:
  "get_final_model_download (sample_world 5) sample_files ''s'' '''' = Some (Inr (''model_s_round_1.pt'', ''old''))"
  "get_fl_output_download sample_server (sample_world 5) sample_files ''Bearer u'' ''s'' (sample_db sample_draft) =
     Inr (''model_s_round_1.pt'', ''old'')"
  "get_fl_output_download sample_server (sample_world 5) sample_files ''Bearer a'' ''s'' (sample_db sample_draft) =
     Inl (HttpError 403 ''NOT_OUTPUT_OWNER'' ''only this session's output owner can read its output'')"
  by code_simp+

text \<open>
  Two submission ids with the same file id share their output: the owner of either is served the model
  uploaded for the other.
\<close>

lemma output_shared:
  assumes "fl_session_id raw = fl_session_id raw'"
    and "require_session_owner S W d tok raw = Inr c" and "require_session_owner S W d tok' raw' = Inr c'"
  shows "get_fl_output_download S W F tok raw d = get_fl_output_download S W F tok' raw' d"
  using assms by (simp add: get_fl_output_download_def)

lemma output_ids_collide: "fl_session_id ''form.1'' = fl_session_id ''form_1''"
  by code_simp

section \<open>The file a request resolves to\<close>

lemma path_parts_plain: "CHR ''/'' \<notin> set name \<Longrightarrow> path_parts name = [name]"
  by (induction name) auto

lemma model_name_plain: "is_model_file name sid ds \<Longrightarrow> name \<noteq> '''' \<and> name \<noteq> ''.'' \<and> name \<noteq> ''..''"
  by (auto simp: is_model_file_def)

lemma model_file_inside:
  assumes "is_model_file name sid ds" and "CHR ''/'' \<notin> set name"
  shows "inside_dir F name"
proof -
  have "clean_path (fs_path F @ path_parts name) = clean_path (fs_path F) @ [name]"
    using model_name_plain [OF assms(1)] by (simp add: clean_path_def path_parts_plain [OF assms(2)])
  moreover have "model_file_parts name \<noteq> None" using assms(1) model_file_parts_iff by blast
  ultimately show ?thesis by (simp add: inside_dir_def)
qed

lemma keep_best_from: "set (keep_best m best) \<subseteq> insert m (set best)"
  by (auto simp: keep_best_def split: option.splits if_splits)

lemma fold_keep_best_from: "set (fold keep_best ms best) \<subseteq> set ms \<union> set best"
proof (induction ms arbitrary: best)
  case (Cons m ms)
  then show ?case using keep_best_from [of m best] by fastforce
qed simp

text \<open>Every listed model is a file of the directory.\<close>

lemma list_final_models_from:
  assumes "list_final_models W F = Inr models" and "m \<in> set models"
  shows "\<exists>b t ds. (fm_file m, Plain_File b t) \<in> set (dir_entries F) \<and>
    is_model_file (fm_file m) (fm_session_id m) ds"
proof -
  have "m \<in> set (List.map_filter (checkpoint_of W milli_layout) (dir_entries F))"
    using assms fold_keep_best_from [of "List.map_filter (checkpoint_of W milli_layout) (dir_entries F)" "[]"]
    by (auto simp: list_final_models_def read_dir_def)
  then obtain k e where "(k, e) \<in> set (dir_entries F)" "checkpoint_of W milli_layout (k, e) = Some m"
    by (auto simp: List.map_filter_def)
  then obtain b t ds where "e = Plain_File b t" "fm_file m = k" "is_model_file k (fm_session_id m) ds"
    by (auto simp: checkpoint_of_def model_file_parts_iff split: dir_entry.splits)
  with \<open>(k, e) \<in> set (dir_entries F)\<close> show ?thesis by blast
qed

lemma model_file_name_is_model_file:
  assumes "is_model_file name sid ds" and "ext = ''pt'' \<or> ext = ''weights''"
  shows "is_model_file (model_file_name sid n ext) sid (decimal n)"
  using assms decimal_digits [of n] by (auto simp: is_model_file_def model_file_name_def)

lemma decimal_no_slash: "CHR ''/'' \<notin> set (decimal n)"
  using decimal_digits [of n] by (auto simp: list_all_iff is_digit_def Let_def)

lemma model_file_name_no_slash:
  assumes "is_model_file name sid ds" and "CHR ''/'' \<notin> set name" and "ext = ''pt'' \<or> ext = ''weights''"
  shows "CHR ''/'' \<notin> set (model_file_name sid n ext)"
  using assms decimal_no_slash [of n] by (auto simp: is_model_file_def model_file_name_def)

lemma round_file_Some:
  assumes "round_file F s n = Some name"
  obtains ext where "ext = ''pt'' \<or> ext = ''weights''" and "name = model_file_name s n ext" and "stat_ok F name"
proof -
  have "stat_ok F name" and "name \<in> set (map (model_file_name s n) [''pt'', ''weights''])"
    using find_Some [OF assms [unfolded round_file_def]] by blast+
  then show ?thesis using that by auto
qed

text \<open>What is picked before the last check: a model file of the session, present in the directory.\<close>

lemma picked_model_file:
  assumes models: "list_final_models W F = Inr models" "fm \<in> set models"
    and plain: "\<forall>(k, e) \<in> set (dir_entries F). CHR ''/'' \<notin> set k"
    and name: "picked_file F fm rnd = Inr name"
  shows "\<exists>ds e. is_model_file name (fm_session_id fm) ds \<and> (name, e) \<in> set (dir_entries F) \<and>
    CHR ''/'' \<notin> set name \<and> (rnd = '''' \<or> atoi rnd = Some (int (digits_value ds)))"
proof -
  obtain b t ds where fm: "(fm_file fm, Plain_File b t) \<in> set (dir_entries F)"
    "is_model_file (fm_file fm) (fm_session_id fm) ds"
    using list_final_models_from [OF models] by blast
  then have slash: "CHR ''/'' \<notin> set (fm_file fm)" using plain by fast
  show ?thesis
  proof (cases "rnd = ''''")
    case True
    then show ?thesis using fm slash name by (auto simp: picked_file_def)
  next
    case False
    then obtain n where n: "atoi rnd = Some n" "0 \<le> n" "round_file F (fm_session_id fm) (nat n) = Some name"
      using name by (auto simp: picked_file_def early_return)
    obtain ext where ext: "ext = ''pt'' \<or> ext = ''weights''" and nm: "name = model_file_name (fm_session_id fm) (nat n) ext"
      and stat: "stat_ok F name"
      using round_file_Some [OF n(3)] .
    from stat obtain e where "(name, e) \<in> set (dir_entries F)"
      by (auto simp: stat_ok_def dest: map_of_SomeD split: option.splits)
    then show ?thesis
      using model_file_name_is_model_file [OF fm(2) ext, of "nat n"] model_file_name_no_slash [OF fm(2) slash ext, of "nat n"]
        nm n(1,2) by (metis digits_value_decimal int_nat_eq)
  qed
qed

lemma picked_file_error: "picked_file F fm rnd = Inl e \<Longrightarrow> he_code e \<noteq> ''INVALID_PATH''"
  by (auto simp: picked_file_def no_model_def and_then_def require_def some_or_def
      split: if_splits option.splits)

lemma resolve_cases:
  "resolve_model_file W F session rnd = r \<Longrightarrow>
   (\<exists>models fm name. list_final_models W F = Inr models \<and> fm \<in> set models \<and>
      (session = '''' \<or> fm_session_id fm = session) \<and> picked_file F fm rnd = Inr name \<and>
      r = (if inside_dir F name then Inr name else Inl (HttpError 400 ''INVALID_PATH'' ''''))) \<or>
   (\<exists>e. r = Inl e \<and> he_code e \<noteq> ''INVALID_PATH'')"
  unfolding resolve_model_file_def no_model_def Let_def
  by (auto simp: and_then_def require_def or_fail_def some_or_def dest!: find_Some dest: picked_file_error
      split: sum.splits option.splits if_splits; metis picked_file_error)

text \<open>
  A request for a model resolves to a checkpoint in the directory and nowhere else: when no entry's
  name has a slash, as in any directory, the resolved name is that of an entry, it is the name of a
  model file of the session asked for and of the round asked for, it lies directly in the directory,
  and the path check at the end never refuses.
\<close>

theorem resolved_file_in_directory:
  assumes plain: "\<forall>(k, e) \<in> set (dir_entries F). CHR ''/'' \<notin> set k"
  shows "resolve_model_file W F session rnd \<noteq> Inl (HttpError 400 ''INVALID_PATH'' '''') \<and>
    (\<forall>name. resolve_model_file W F session rnd = Inr name \<longrightarrow>
       (\<exists>s ds e. is_model_file name s ds \<and> (session = '''' \<or> s = session) \<and> (name, e) \<in> set (dir_entries F) \<and>
          clean_path (fs_path F @ path_parts name) = clean_path (fs_path F) @ [name] \<and>
          (rnd = '''' \<or> atoi rnd = Some (int (digits_value ds)))))"
  using resolve_cases [OF refl, of W F session rnd]
proof
  assume "\<exists>models fm name. list_final_models W F = Inr models \<and> fm \<in> set models \<and>
      (session = '''' \<or> fm_session_id fm = session) \<and> picked_file F fm rnd = Inr name \<and>
      resolve_model_file W F session rnd =
        (if inside_dir F name then Inr name else Inl (HttpError 400 ''INVALID_PATH'' ''''))"
  then obtain models fm name where models: "list_final_models W F = Inr models" "fm \<in> set models"
    and session: "session = '''' \<or> fm_session_id fm = session" and name: "picked_file F fm rnd = Inr name"
    and r: "resolve_model_file W F session rnd =
        (if inside_dir F name then Inr name else Inl (HttpError 400 ''INVALID_PATH'' ''''))" by blast
  obtain ds e where mf: "is_model_file name (fm_session_id fm) ds" "(name, e) \<in> set (dir_entries F)"
    "CHR ''/'' \<notin> set name" "rnd = '''' \<or> atoi rnd = Some (int (digits_value ds))"
    using picked_model_file [OF models plain name] by blast
  have "clean_path (fs_path F @ path_parts name) = clean_path (fs_path F) @ [name]"
    using model_name_plain [OF mf(1)] by (simp add: clean_path_def path_parts_plain [OF mf(3)])
  then show ?thesis
    using r model_file_inside [OF mf(1,3)] mf session by auto
qed auto

theorem resolved_file_in_directory_witness:
  "\<exists>s ds. is_model_file ''model_s_round_1.pt'' s ds \<and> s = ''s''"
proof -
  have "\<forall>(k, e) \<in> set (dir_entries sample_files). CHR ''/'' \<notin> set k"
    by (simp add: dir_entries_def sample_files_def)
  moreover have "resolve_model_file (sample_world 5) sample_files ''s'' ''1'' = Inr ''model_s_round_1.pt''"
    by code_simp
  ultimately show ?thesis using resolved_file_in_directory by blast
qed

end
