(* ===== verification/Tokens.thy ===== *)
theory Tokens
  imports General_Contract Gate
begin

text \<open>
  The tokens the program checks and the tokens it obtains: the Keycloak key sets and the validation of
  access tokens (\<^verbatim>\<open>services/keycloak.go\<close>), which \<open>World\<close> has as the parameters \<open>w_jwt\<close> and
  \<open>w_access_token\<close>; the cached service-account token (\<^verbatim>\<open>keycloak/keycloak.go\<close>); and the cached admin
  token and the page loop of the user directory (\<^verbatim>\<open>userdir/userdir.go\<close>).
\<close>

section \<open>Key sets\<close>

type_synonym rsa_key = "string \<times> 64 word"

record keycloak_jwk =
  kk_kty :: string
  kk_kid :: string
  kk_n :: string
  kk_e :: string

definition dec_keycloak_jwk :: "json \<Rightarrow> keycloak_jwk option" where
  "dec_keycloak_jwk j = do {
     kty \<leftarrow> dec_str (jget ''kty'' j);
     kid \<leftarrow> dec_str (jget ''kid'' j);
     n \<leftarrow> dec_str (jget ''n'' j);
     e \<leftarrow> dec_str (jget ''e'' j);
     Some \<lparr>kk_kty = kty, kk_kid = kid, kk_n = n, kk_e = e\<rparr> }"

text \<open>The RSA keys of a set by \<^verbatim>\<open>kid\<close>, the last of a \<^verbatim>\<open>kid\<close> first, as the map the code builds reads.\<close>

definition rsa_jwk :: "host \<Rightarrow> keycloak_jwk \<Rightarrow> (string \<times> rsa_key) option" where
  "rsa_jwk H k =
     (if kk_kty k \<noteq> ''RSA'' \<or> kk_n k = '''' \<or> kk_e k = '''' then None
      else case jwk_to_rsa_public_key H (kk_n k) (kk_e k) of
          Inl e \<Rightarrow> None
        | Inr key \<Rightarrow> Some (if kk_kid k = '''' then ''default'' else kk_kid k, key))"

definition fetch_key_set :: "host \<Rightarrow> world \<Rightarrow> string \<Rightarrow> (string \<times> rsa_key) list result" where
  "fetch_key_set H W url =
     (case w_http_get W url '''' of
        NetFail e \<Rightarrow> Inl (''fetch JWKS: '' @ e)
      | HttpReply status body \<Rightarrow>
          require (status = 200) (''JWKS returned status '' @ decimal status) (
          and_then (some_or ''decode JWKS: invalid JSON''
            (Option.bind body (dec_struct (\<lambda>j. dec_list (dec_struct dec_keycloak_jwk) (jget ''keys'' j))))) (\<lambda>ks.
          let keys = rev (List.map_filter (rsa_jwk H) ks) in
          require (keys \<noteq> []) ''no RSA keys in JWKS'' (Inr keys))))"

text \<open>\<^verbatim>\<open>strings.Split(s, ",")\<close>.\<close>

fun split_commas :: "string \<Rightarrow> string list" where
  "split_commas [] = ['''']"
| "split_commas (c # cs) =
     (if c = CHR '','' then '''' # split_commas cs
      else case split_commas cs of [] \<Rightarrow> [[c]] | p # ps \<Rightarrow> (c # p) # ps)"

definition keycloak_jwks_url :: "world \<Rightarrow> string result" where
  "keycloak_jwks_url W =
     (let url = w_getenv W ''KEYCLOAK_JWKS_URL''; base = trim_right_slash (w_getenv W ''KEYCLOAK_BASE_URL'');
          realm = w_getenv W ''KEYCLOAK_REALM''
      in if url \<noteq> '''' then Inr url
         else if base = '''' \<or> realm = '''' then
           Inl ''KEYCLOAK_JWKS_URL not set (and KEYCLOAK_BASE_URL/KEYCLOAK_REALM not set to derive it)''
         else Inr (base @ ''/realms/'' @ realm @ ''/protocol/openid-connect/certs''))"

definition jwks_urls :: "string \<Rightarrow> string list" where
  "jwks_urls url = filter (\<lambda>u. u \<noteq> '''') (map trim_space (split_commas url))"

text \<open>A set that cannot be fetched is passed over; of two keys with one \<^verbatim>\<open>kid\<close> the later URL's counts.\<close>

fun merge_key_sets ::
  "host \<Rightarrow> world \<Rightarrow> string list \<Rightarrow> (string \<times> rsa_key) list \<times> string option \<Rightarrow>
   (string \<times> rsa_key) list \<times> string option" where
  "merge_key_sets H W [] acc = acc"
| "merge_key_sets H W (u # us) (keys, err) =
     (case fetch_key_set H W u of
        Inl e \<Rightarrow> merge_key_sets H W us (keys, Some e)
      | Inr ks \<Rightarrow> merge_key_sets H W us (ks @ keys, err))"

definition fetch_keycloak_jwks :: "host \<Rightarrow> world \<Rightarrow> (string \<times> rsa_key) list result" where
  "fetch_keycloak_jwks H W =
     and_then (keycloak_jwks_url W) (\<lambda>url.
     case merge_key_sets H W (jwks_urls url) ([], None) of (keys, err) \<Rightarrow>
       if keys = [] then Inl (case err of None \<Rightarrow> ''no JWKS URL in KEYCLOAK_JWKS_URL'' | Some e \<Rightarrow> e)
       else Inr keys)"

section \<open>Validation\<close>

text \<open>
  The JWT library: \<open>tl_parse methods keyfunc token\<close> is \<^verbatim>\<open>parser.Parse\<close>, which asks the key function
  for the key of the token's \<^verbatim>\<open>kid\<close> header, blank when it has none.
\<close>

record token_lib =
  tl_kid :: "string \<Rightarrow> string"
  tl_parse :: "string list \<Rightarrow> (string \<Rightarrow> rsa_key result) \<Rightarrow> string \<Rightarrow> (bool \<times> json) result"
  tl_signed :: "string \<Rightarrow> rsa_key \<Rightarrow> bool"

text \<open>Its documented contract: a valid token is signed with the key its \<^verbatim>\<open>kid\<close> was answered with.\<close>

definition token_lib_ok :: "token_lib \<Rightarrow> bool" where
  "token_lib_ok L \<longleftrightarrow>
     (\<forall>ms kf tok claims. tl_parse L ms kf tok = Inr (True, claims) \<longrightarrow>
        (\<exists>key. kf (tl_kid L tok) = Inr key \<and> tl_signed L tok key))"

definition key_of_kid :: "(string \<times> rsa_key) list \<Rightarrow> string \<Rightarrow> rsa_key result" where
  "key_of_kid keys kid =
     (if kid = '''' then some_or ''token header missing kid'' (map_of keys ''default'')
      else some_or (''kid '' @ go_quote kid @ '' not found in Keycloak JWKS'') (map_of keys kid))"

definition parse_with_keys :: "token_lib \<Rightarrow> string \<Rightarrow> (string \<times> rsa_key) list \<Rightarrow> (bool \<times> json) result" where
  "parse_with_keys L tok keys = tl_parse L [''RS256''] (key_of_kid keys) tok"

definition validate_access_token :: "host \<Rightarrow> token_lib \<Rightarrow> world \<Rightarrow> string \<Rightarrow> (bool \<times> json) result" where
  "validate_access_token H L W tok =
     require (tok \<noteq> '''') ''empty token''
       (and_then (fetch_keycloak_jwks H W) (parse_with_keys L tok))"

definition validate_access_token_at ::
  "host \<Rightarrow> token_lib \<Rightarrow> world \<Rightarrow> string \<Rightarrow> string \<Rightarrow> (bool \<times> json) result" where
  "validate_access_token_at H L W url tok =
     require (tok \<noteq> '''') ''empty token'' (and_then (fetch_key_set H W url) (parse_with_keys L tok))"

lemma merge_key_sets_from:
  "(kid, key) \<in> set (fst (merge_key_sets H W us (keys, err))) \<Longrightarrow>
   (kid, key) \<in> set keys \<or> (\<exists>u \<in> set us. \<exists>ks. fetch_key_set H W u = Inr ks \<and> (kid, key) \<in> set ks)"
proof (induction us arbitrary: keys err)
  case Nil
  then show ?case by simp
next
  case (Cons u us)
  show ?case
  proof (cases "fetch_key_set H W u")
    case (Inl e)
    then show ?thesis using Cons by auto
  next
    case (Inr ks)
    then show ?thesis using Cons.IH [of "ks @ keys" err] Cons.prems by auto
  qed
qed

text \<open>The key a set answers a \<^verbatim>\<open>kid\<close> with is published in it.\<close>

definition publishes :: "(string \<times> rsa_key) list \<Rightarrow> string \<Rightarrow> rsa_key \<Rightarrow> bool" where
  "publishes keys kid key \<longleftrightarrow> (if kid = '''' then ''default'' else kid, key) \<in> set keys"

lemma key_of_kid_Inr: "key_of_kid keys kid = Inr key \<Longrightarrow> publishes keys kid key"
  by (auto simp: key_of_kid_def publishes_def dest: map_of_SomeD split: if_splits)

lemma parse_with_keys_signed:
  assumes "token_lib_ok L" and "parse_with_keys L tok keys = Inr (True, claims)"
  shows "\<exists>key. publishes keys (tl_kid L tok) key \<and> tl_signed L tok key"
  using assms key_of_kid_Inr unfolding token_lib_ok_def parse_with_keys_def by blast

text \<open>
  C37. A token counts as valid only when a configured Keycloak vouches for it: it carries a signature
  that verifies under an RSA key which one of the key sets named by \<^verbatim>\<open>KEYCLOAK_JWKS_URL\<close> (or derived from
  the base URL and realm), answered with status 200, publishes under the token's \<^verbatim>\<open>kid\<close>.
\<close>

theorem valid_token_signed_by_keycloak:
  assumes "token_lib_ok L" and "validate_access_token H L W tok = Inr (True, claims)"
  shows "\<exists>url u doc ks key. keycloak_jwks_url W = Inr url \<and> u \<in> set (jwks_urls url) \<and>
    w_http_get W u '''' = HttpReply 200 (Some doc) \<and> fetch_key_set H W u = Inr ks \<and>
    publishes ks (tl_kid L tok) key \<and> tl_signed L tok key"
proof -
  obtain keys where keys: "fetch_keycloak_jwks H W = Inr keys" and tok: "parse_with_keys L tok keys = Inr (True, claims)"
    using assms(2) by (auto simp: validate_access_token_def early_return)
  from keys obtain url where url: "keycloak_jwks_url W = Inr url" and "(case merge_key_sets H W (jwks_urls url) ([], None) of
      (keys, err) \<Rightarrow> if keys = [] then Inl (case err of None \<Rightarrow> ''no JWKS URL in KEYCLOAK_JWKS_URL'' | Some e \<Rightarrow> e)
        else Inr keys) = Inr keys"
    unfolding fetch_keycloak_jwks_def early_return by blast
  then obtain err where merged: "merge_key_sets H W (jwks_urls url) ([], None) = (keys, err)"
    by (cases "merge_key_sets H W (jwks_urls url) ([], None)") (auto split: if_splits)
  obtain key where key: "publishes keys (tl_kid L tok) key" "tl_signed L tok key"
    using parse_with_keys_signed [OF assms(1) tok] by blast
  then obtain u ks where u: "u \<in> set (jwks_urls url)" "fetch_key_set H W u = Inr ks" "publishes ks (tl_kid L tok) key"
    using merge_key_sets_from [of _ key H W "jwks_urls url" "[]" None] merged unfolding publishes_def by fastforce
  then obtain doc where "w_http_get W u '''' = HttpReply 200 (Some doc)"
    unfolding fetch_key_set_def by (auto simp: early_return bind_eq_Some_conv split: http_outcome.splits)
  then show ?thesis using url u key(2) by blast
qed

text \<open>A small instance: one Keycloak that publishes one key, under which every token is signed.\<close>

definition realm_host :: host where
  "realm_host = \<lparr>ho_hex_decode = Inr, ho_raw_url_decode = Inr, ho_rsa_verify = (\<lambda>k d s. None),
     ho_rsa_sign = (\<lambda>p d. Inr d), ho_read_file = (\<lambda>p. ''''), ho_pem_block = (\<lambda>s. None), ho_parse_pkcs1 = Inr,
     ho_seal = (\<lambda>k d. Inr d), ho_write_file = (\<lambda>p d. None)\<rparr>"

definition sample_token_lib :: token_lib where
  "sample_token_lib = \<lparr>tl_kid = (\<lambda>tok. ''k1''),
     tl_parse = (\<lambda>ms kf tok. and_then (kf ''k1'') (\<lambda>key.
       require (fst key = ''N'') ''crypto/rsa: verification error'' (Inr (True, sample_claims tok)))),
     tl_signed = (\<lambda>tok key. fst key = ''N'')\<rparr>"

definition sample_key_set :: json where
  "sample_key_set = JObj [(''keys'', JArr [
     JObj [(''kty'', JStr ''EC''), (''kid'', JStr ''k0'')],
     JObj [(''kty'', JStr ''RSA''), (''kid'', JStr ''k1''), (''n'', JStr ''N''), (''e'', JStr ''E'')]])]"

definition sample_keycloak_world :: world where
  "sample_keycloak_world = (sample_world 5)
     \<lparr>w_getenv := (\<lambda>k. if k = ''KEYCLOAK_JWKS_URL'' then ''down, kc'' else ''''),
      w_http_get := (\<lambda>url tok. if url = ''kc'' then HttpReply 200 (Some sample_key_set) else NetFail ''down'')\<rparr>"

lemma sample_validates:
  "validate_access_token realm_host sample_token_lib sample_keycloak_world ''u'' = Inr (True, sample_claims ''u'')"
  by code_simp

section \<open>Cached tokens\<close>

record token_cache =
  tk_token :: string
  tk_expires_at :: time

definition empty_token_cache :: token_cache where
  "empty_token_cache = \<lparr>tk_token = '''', tk_expires_at = zero_time\<rparr>"

abbreviation expiry_skew :: time where "expiry_skew \<equiv> 30 * second"

definition cache_live :: "time \<Rightarrow> token_cache \<Rightarrow> bool" where
  "cache_live now c \<longleftrightarrow> tk_token c \<noteq> '''' \<and> now < tk_expires_at c - expiry_skew"

text \<open>\<^verbatim>\<open>time.Duration(n) * time.Second\<close> in 64 bits.\<close>

definition seconds_duration :: "int \<Rightarrow> time" where
  "seconds_duration n = sint (of_int (n * second) :: 64 word)"

text \<open>The form posted and its answer, the time of the check and the time the answer is in.\<close>

type_synonym token_call = "((string \<times> string) list \<Rightarrow> http_outcome) \<times> time \<times> time"

definition dec_token_answer :: "json \<Rightarrow> (string \<times> int) option" where
  "dec_token_answer j = do {
     tok \<leftarrow> dec_str (jget ''access_token'' j);
     ttl \<leftarrow> dec_int (jget ''expires_in'' j);
     Some (tok, ttl) }"

record keycloak_client =
  kc_token_url :: string
  kc_client_id :: string
  kc_secret :: string

definition keycloak_configured :: "keycloak_client \<Rightarrow> bool" where
  "keycloak_configured K \<longleftrightarrow> kc_token_url K \<noteq> '''' \<and> kc_client_id K \<noteq> '''' \<and> kc_secret K \<noteq> ''''"

definition fetch_token ::
  "keycloak_client \<Rightarrow> ((string \<times> string) list \<Rightarrow> http_outcome) \<Rightarrow> (string \<times> time) result" where
  "fetch_token K post =
     (case post [(''grant_type'', ''client_credentials''), (''client_id'', kc_client_id K),
         (''client_secret'', kc_secret K)] of
        NetFail e \<Rightarrow> Inl e
      | HttpReply status body \<Rightarrow>
          require (200 \<le> status \<and> status < 300) (''Keycloak token request failed: HTTP '' @ decimal status) (
          and_then (some_or ''invalid JSON'' (Option.bind body (dec_struct dec_token_answer))) (\<lambda>(tok, ttl).
          require (tok \<noteq> '''') ''Keycloak token response had no access_token''
            (Inr (tok, seconds_duration (if ttl = 0 then 60 else ttl))))))"

definition get_service_token :: "keycloak_client \<Rightarrow> token_call \<Rightarrow> token_cache \<Rightarrow> string result \<times> token_cache" where
  "get_service_token K call c =
     (case call of (post, now, end_at) \<Rightarrow>
        if \<not> keycloak_configured K then (Inr '''', c)
        else if cache_live now c then (Inr (tk_token c), c)
        else case fetch_token K post of
            Inl e \<Rightarrow> (Inl e, c)
          | Inr (tok, ttl) \<Rightarrow> (Inr tok, \<lparr>tk_token = tok, tk_expires_at = end_at + ttl\<rparr>))"

text \<open>The headers a call is sent with, by name; the base is the caller's.\<close>

definition auth_headers ::
  "keycloak_client \<Rightarrow> token_call \<Rightarrow> (string \<rightharpoonup> string) \<Rightarrow> string \<Rightarrow> token_cache \<Rightarrow>
   (string \<rightharpoonup> string) \<times> token_cache" where
  "auth_headers K call base fallback c =
     (let plain = (if fallback = '''' then base else base(''X-Auth-Token'' \<mapsto> fallback)) in
      if \<not> keycloak_configured K then (plain, c)
      else case get_service_token K call c of
          (Inr tok, c) \<Rightarrow> (if tok = '''' then plain else base(''Authorization'' \<mapsto> ''Bearer '' @ tok), c)
        | (Inl e, c) \<Rightarrow> (plain, c))"

definition cache_after :: "keycloak_client \<Rightarrow> token_call list \<Rightarrow> token_cache" where
  "cache_after K calls = fold (\<lambda>call c. snd (get_service_token K call c)) calls empty_token_cache"

lemma fetch_token_not_blank: "fetch_token K post = Inr (tok, ttl) \<Longrightarrow> tok \<noteq> ''''"
  by (auto simp: fetch_token_def early_return split: http_outcome.splits)

lemma get_service_token_cases:
  assumes "get_service_token K (post, now, end_at) c = (r, c')"
  obtains (kept) "c' = c" "\<forall>tok. r = Inr tok \<longrightarrow> tok = '''' \<or> (tok = tk_token c \<and> cache_live now c)"
  | (fetched) tok ttl where "fetch_token K post = Inr (tok, ttl)" "r = Inr tok"
      "c' = \<lparr>tk_token = tok, tk_expires_at = end_at + ttl\<rparr>"
  using assms by (auto simp: get_service_token_def split: if_splits sum.splits prod.splits)

text \<open>What is cached came from one of the calls, with the expiry the answer gave it.\<close>

lemma cache_after_fetched:
  "tk_token (cache_after K calls) \<noteq> '''' \<Longrightarrow>
   \<exists>(post, now, end_at) \<in> set calls. \<exists>ttl. fetch_token K post = Inr (tk_token (cache_after K calls), ttl) \<and>
     tk_expires_at (cache_after K calls) = end_at + ttl"
proof (induction calls rule: rev_induct)
  case Nil
  then show ?case by (simp add: cache_after_def empty_token_cache_def)
next
  case (snoc call calls)
  obtain post now end_at where call: "call = (post, now, end_at)" by (cases call) auto
  obtain r c' where step: "get_service_token K (post, now, end_at) (cache_after K calls) = (r, c')" by fastforce
  then have after: "cache_after K (calls @ [call]) = c'" by (simp add: cache_after_def call)
  from step show ?case
  proof (cases rule: get_service_token_cases)
    case kept
    then show ?thesis using snoc after by auto
  next
    case (fetched tok ttl)
    then show ?thesis using after by (auto simp: call)
  qed
qed

text \<open>
  C38. A service token is never served past its announced lifetime: whatever calls came before, a token
  handed out either was obtained by this call, or was obtained by an earlier one and more than thirty
  seconds of the lifetime announced then still remain.
\<close>

theorem served_token_alive:
  assumes "get_service_token K (post, now, end_at) (cache_after K calls) = (Inr tok, c')" and "tok \<noteq> ''''"
  shows "(\<exists>ttl. fetch_token K post = Inr (tok, ttl)) \<or>
    (\<exists>(post', now', end_at') \<in> set calls. \<exists>ttl. fetch_token K post' = Inr (tok, ttl) \<and>
       now < end_at' + ttl - expiry_skew)"
  using assms(1)
proof (cases rule: get_service_token_cases)
  case kept
  then have "tok = tk_token (cache_after K calls)" "now < tk_expires_at (cache_after K calls) - expiry_skew"
    using assms(2) by (auto simp: cache_live_def)
  then show ?thesis using cache_after_fetched [of K calls] assms(2) by fastforce
qed auto

section \<open>The user directory\<close>

record directory_client =
  dc_base_url :: string
  dc_realm :: string
  dc_user :: string
  dc_password :: string
  dc_client_id :: string
  dc_client_secret :: string

definition uses_client_credentials :: "directory_client \<Rightarrow> bool" where
  "uses_client_credentials D \<longleftrightarrow> dc_client_id D \<noteq> '''' \<and> dc_client_secret D \<noteq> ''''"

definition directory_configured :: "directory_client \<Rightarrow> bool" where
  "directory_configured D \<longleftrightarrow> dc_base_url D \<noteq> '''' \<and> dc_realm D \<noteq> '''' \<and>
     (uses_client_credentials D \<or> dc_user D \<noteq> '''' \<and> dc_password D \<noteq> '''')"

definition admin_form :: "directory_client \<Rightarrow> (string \<times> string) list" where
  "admin_form D =
     (if uses_client_credentials D then
        [(''grant_type'', ''client_credentials''), (''client_id'', dc_client_id D),
         (''client_secret'', dc_client_secret D)]
      else [(''grant_type'', ''password''), (''client_id'', ''admin-cli''), (''username'', dc_user D),
         (''password'', dc_password D)])"

definition admin_token :: "directory_client \<Rightarrow> token_call \<Rightarrow> token_cache \<Rightarrow> string result \<times> token_cache" where
  "admin_token D call c =
     (case call of (post, now, end_at) \<Rightarrow>
        if cache_live now c then (Inr (tk_token c), c)
        else case post (admin_form D) of
            NetFail e \<Rightarrow> (Inl (''keycloak token request: '' @ e), c)
          | HttpReply status body \<Rightarrow>
              if status \<noteq> 200 then (Inl (''keycloak token request returned '' @ decimal status), c)
              else (case Option.bind body (dec_struct dec_token_answer) of
                  None \<Rightarrow> (Inl ''decode keycloak token: invalid JSON'', c)
                | Some (tok, ttl) \<Rightarrow> (Inr tok, \<lparr>tk_token = tok, tk_expires_at = end_at + seconds_duration ttl\<rparr>)))"

text \<open>
  The pages of the users that hold a role. \<open>get first\<close> is the answer to the page of 500 users from
  \<open>first\<close> on. The loop has no bound: \<open>None\<close> is a loop that does not end.
\<close>

abbreviation page_size :: nat where "page_size \<equiv> 500"

definition dec_usernames :: "json \<Rightarrow> string list option" where
  "dec_usernames j = dec_list (dec_struct (\<lambda>u. dec_str (jget ''username'' u))) j"

partial_function (option) role_pages ::
  "(nat \<Rightarrow> http_outcome) \<Rightarrow> nat \<Rightarrow> string list \<Rightarrow> string list result option" where
  "role_pages get first out =
     (case get first of
        NetFail e \<Rightarrow> Some (Inl (''keycloak role users lookup: '' @ e))
      | HttpReply status body \<Rightarrow>
          if status = 404 then Some (Inr out)
          else if status \<noteq> 200 then Some (Inl (''keycloak role users lookup returned '' @ decimal status))
          else (case Option.bind body dec_usernames of
              None \<Rightarrow> Some (Inl ''decode keycloak role users: invalid JSON'')
            | Some users \<Rightarrow>
                if length users < page_size then Some (Inr (out @ users))
                else role_pages get (first + page_size) (out @ users)))"

definition usernames_with_role ::
  "directory_client \<Rightarrow> token_call \<Rightarrow> (string \<Rightarrow> nat \<Rightarrow> http_outcome) \<Rightarrow> token_cache \<Rightarrow>
   string list result option \<times> token_cache" where
  "usernames_with_role D call get c =
     (if \<not> directory_configured D then (Some (Inl ''user Keycloak is not configured''), c)
      else case admin_token D call c of
          (Inl e, c) \<Rightarrow> (Some (Inl e), c)
        | (Inr tok, c) \<Rightarrow> (role_pages (get tok) 0 [], c))"

text \<open>
  The admin API's documented answer: of the users that hold the role, the page from \<open>first\<close> on.
\<close>

definition serves_users :: "(nat \<Rightarrow> http_outcome) \<Rightarrow> string list \<Rightarrow> bool" where
  "serves_users get users \<longleftrightarrow> (\<forall>first. get first = HttpReply 200 (Some (JArr
     (map (\<lambda>u. JObj [(''username'', JStr u)]) (take page_size (drop first users))))))"

lemma dec_usernames_page: "dec_usernames (JArr (map (\<lambda>u. JObj [(''username'', JStr u)]) us)) = Some us"
  unfolding dec_usernames_def by (rule dec_list_map) (simp add: dec_struct_def jget_def)

lemma role_pages_page:
  assumes "get first = HttpReply 200 (Some doc)" and "dec_usernames doc = Some us"
  shows "role_pages get first out =
    (if length us < page_size then Some (Inr (out @ us)) else role_pages get (first + page_size) (out @ us))"
  by (subst role_pages.simps) (simp add: assms)

lemma role_pages_step:
  assumes "serves_users get users"
  shows "role_pages get first out =
    (let us = take page_size (drop first users) in
     if length us < page_size then Some (Inr (out @ us)) else role_pages get (first + page_size) (out @ us))"
  unfolding Let_def
  by (rule role_pages_page [OF assms [unfolded serves_users_def, THEN spec] dec_usernames_page])

lemma role_pages_all:
  assumes "serves_users get users"
  shows "first \<le> length users \<Longrightarrow> role_pages get first (take first users) = Some (Inr users)"
proof (induction "length users - first" arbitrary: first rule: less_induct)
  case less
  let ?us = "take page_size (drop first users)"
  have more: "take first users @ ?us = take (first + page_size) users" by (simp only: take_add)
  show ?case
  proof (cases "length ?us < page_size")
    case True
    then have "take (first + page_size) users = users" by simp
    with True more show ?thesis by (simp only: role_pages_step [OF assms, of first] Let_def if_True)
  next
    case False
    then have le: "first + page_size \<le> length users" by simp
    then have "role_pages get (first + page_size) (take (first + page_size) users) = Some (Inr users)"
      using less.hyps [of "first + page_size"] by simp
    with False more show ?thesis by (simp only: role_pages_step [OF assms, of first] Let_def if_False)
  qed
qed

text \<open>
  C39. Listing the users that hold a role ends, and lists them all: with the directory configured, an
  admin token at hand and an API that answers each page with the users from its first on, the page
  loop returns exactly the users that hold the role, in order, however many there are.
\<close>

theorem role_listing_complete:
  assumes "directory_configured D" and "admin_token D call c = (Inr tok, c')" and "serves_users (get tok) users"
  shows "usernames_with_role D call get c = (Some (Inr users), c')"
  using assms role_pages_all [OF assms(3), of 0] by (simp add: usernames_with_role_def)

text \<open>An API that ignores the page's start and answers with a full page each time keeps the loop going.\<close>

lemma role_listing_never_ends:
  assumes "\<And>first. get first = HttpReply 200 (Some doc)" and "dec_usernames doc = Some us" and "page_size \<le> length us"
  shows "role_pages get first out = None"
proof (rule ccontr)
  assume "role_pages get first out \<noteq> None"
  then obtain r where ret: "role_pages get first out = Some r" by blast
  have "get = (\<lambda>first. HttpReply 200 (Some doc)) \<Longrightarrow> False"
    using ret
  proof (rule role_pages.raw_induct [where P = "\<lambda>get first out r. get = (\<lambda>first. HttpReply 200 (Some doc)) \<longrightarrow> False",
        THEN mp, rotated])
    fix pages get first out r
    assume IH: "\<And>get first out r. pages get first out = Some r \<Longrightarrow> get = (\<lambda>first. HttpReply 200 (Some doc)) \<longrightarrow> False"
      and eq: "(case get first of
        NetFail e \<Rightarrow> Some (Inl (''keycloak role users lookup: '' @ e))
      | HttpReply status body \<Rightarrow>
          if status = 404 then Some (Inr out)
          else if status \<noteq> 200 then Some (Inl (''keycloak role users lookup returned '' @ decimal status))
          else (case Option.bind body dec_usernames of
              None \<Rightarrow> Some (Inl ''decode keycloak role users: invalid JSON'')
            | Some users \<Rightarrow>
                if length users < page_size then Some (Inr (out @ users))
                else pages get (first + page_size) (out @ users))) = Some r"
    show "get = (\<lambda>first. HttpReply 200 (Some doc)) \<longrightarrow> False"
    proof
      assume get: "get = (\<lambda>first. HttpReply 200 (Some doc))"
      then have "pages get (first + page_size) (out @ us) = Some r" using eq assms(2,3) by simp
      from IH [OF this] get show False by blast
    qed
  qed
  then show False using assms(1) by auto
qed

section \<open>Concrete calls\<close>

theorem valid_token_signed_by_keycloak_witness:
  "\<exists>u ks key. u \<in> set (jwks_urls ''down, kc'') \<and> fetch_key_set realm_host sample_keycloak_world u = Inr ks \<and>
     publishes ks ''k1'' key \<and> fst key = ''N''"
proof -
  have "token_lib_ok sample_token_lib"
    by (auto simp: token_lib_ok_def sample_token_lib_def early_return)
  from valid_token_signed_by_keycloak [OF this sample_validates]
  obtain url u ks key where url: "keycloak_jwks_url sample_keycloak_world = Inr url" and u: "u \<in> set (jwks_urls url)"
    and ks: "fetch_key_set realm_host sample_keycloak_world u = Inr ks"
    and key: "publishes ks (tl_kid sample_token_lib ''u'') key" "tl_signed sample_token_lib ''u'' key" by blast
  have "keycloak_jwks_url sample_keycloak_world = Inr ''down, kc''" by code_simp
  then have "u \<in> set (jwks_urls ''down, kc'')" using url u by simp
  moreover have "publishes ks ''k1'' key" "fst key = ''N''" using key by (simp_all add: sample_token_lib_def)
  ultimately show ?thesis using ks by blast
qed

definition sample_client :: keycloak_client where
  "sample_client = \<lparr>kc_token_url = ''t'', kc_client_id = ''i'', kc_secret = ''s''\<rparr>"

definition sample_token_post :: "string \<Rightarrow> (string \<times> string) list \<Rightarrow> http_outcome" where
  "sample_token_post tok form = HttpReply 200 (Some (JObj [(''access_token'', JStr tok), (''expires_in'', JInt 60)]))"

text \<open>A second call twenty seconds later is served the first call's token.\<close>

theorem served_token_alive_witness:
  "fst (get_service_token sample_client (sample_token_post ''b'', 20 * second, 20 * second)
      (cache_after sample_client [(sample_token_post ''a'', 0, 0)])) = Inr ''a'' \<and>
    20 * second < seconds_duration 60 - expiry_skew"
proof -
  let ?call = "(sample_token_post ''b'', 20 * second, 20 * second) :: token_call"
  have answer: "fetch_token sample_client (sample_token_post t) = (if t = '''' then
      Inl ''Keycloak token response had no access_token'' else Inr (t, seconds_duration 60))" for t
    by (simp add: fetch_token_def sample_token_post_def dec_token_answer_def dec_struct_def jget_def)
  have minute: "seconds_duration 60 = 60 * second"
    by (simp add: seconds_duration_def)
  have cache: "cache_after sample_client [(sample_token_post ''a'', 0, 0)] =
      \<lparr>tk_token = ''a'', tk_expires_at = seconds_duration 60\<rparr>"
    by (simp add: cache_after_def get_service_token_def keycloak_configured_def sample_client_def cache_live_def
        empty_token_cache_def answer [unfolded sample_client_def])
  then have served: "get_service_token sample_client ?call (cache_after sample_client [(sample_token_post ''a'', 0, 0)]) =
      (Inr ''a'', cache_after sample_client [(sample_token_post ''a'', 0, 0)])"
    by (simp add: get_service_token_def keycloak_configured_def sample_client_def cache_live_def minute)
  from served_token_alive [OF this] have "(\<exists>ttl. fetch_token sample_client (sample_token_post ''b'') = Inr (''a'', ttl)) \<or>
      (\<exists>ttl. fetch_token sample_client (sample_token_post ''a'') = Inr (''a'', ttl) \<and> 20 * second < 0 + ttl - expiry_skew)"
    by simp
  then show ?thesis using served by (simp add: answer)
qed

definition sample_directory :: directory_client where
  "sample_directory = \<lparr>dc_base_url = ''b'', dc_realm = ''r'', dc_user = ''admin'', dc_password = ''p'',
     dc_client_id = '''', dc_client_secret = ''''\<rparr>"

definition sample_users_page :: "string list \<Rightarrow> nat \<Rightarrow> http_outcome" where
  "sample_users_page users first = HttpReply 200 (Some (JArr
     (map (\<lambda>u. JObj [(''username'', JStr u)]) (take page_size (drop first users)))))"

theorem role_listing_complete_witness:
  "fst (usernames_with_role sample_directory (sample_token_post ''t'', 0, 0)
     (\<lambda>tok. sample_users_page (map decimal [0..<1200])) empty_token_cache) = Some (Inr (map decimal [0..<1200]))"
proof -
  have conf: "directory_configured sample_directory" by code_simp
  have token: "admin_token sample_directory (sample_token_post ''t'', 0, 0) empty_token_cache =
      (Inr ''t'', \<lparr>tk_token = ''t'', tk_expires_at = 0 + seconds_duration 60\<rparr>)"
    by (simp add: admin_token_def cache_live_def empty_token_cache_def sample_token_post_def dec_token_answer_def
        dec_struct_def jget_def)
  have "serves_users (sample_users_page users) users" for users
    by (simp add: serves_users_def sample_users_page_def)
  then show ?thesis
    using role_listing_complete [OF conf token, of "\<lambda>tok. sample_users_page (map decimal [0..<1200])"
        "map decimal [0..<1200]"] by (simp only: fst_conv)
qed

end
