(* ===== verification/Startup.thy ===== *)
theory Startup
  imports Tokens Checkpoints
begin

text \<open>
  What the program reads when it starts: its configuration from the environment
  (\<^verbatim>\<open>config/config.go\<close>), its signing key (\<^verbatim>\<open>services/governance_key.go\<close>) and the certificate of its
  authority (\<^verbatim>\<open>services/governance_ca.go\<close>), which are created when there are none. X.509, PEM and the
  random source are the parameter \<open>key_lib\<close>.
\<close>

section \<open>Environment variables\<close>

definition get_env :: "(string \<Rightarrow> string) \<Rightarrow> string \<Rightarrow> string \<Rightarrow> string" where
  "get_env E key fallback = (if E key = '''' then fallback else E key)"

text \<open>\<^verbatim>\<open>strconv.ParseBool\<close>.\<close>

definition parse_bool :: "string \<Rightarrow> bool option" where
  "parse_bool s =
     (if List.member [''1'', ''t'', ''T'', ''TRUE'', ''true'', ''True''] s then Some True
      else if List.member [''0'', ''f'', ''F'', ''FALSE'', ''false'', ''False''] s then Some False
      else None)"

definition get_env_bool :: "(string \<Rightarrow> string) \<Rightarrow> string \<Rightarrow> bool \<Rightarrow> bool" where
  "get_env_bool E key fallback =
     (let v = trim_space (E key) in
      if v = '''' then fallback else case parse_bool v of None \<Rightarrow> fallback | Some b \<Rightarrow> b)"

definition get_env_duration :: "(string \<Rightarrow> time option) \<Rightarrow> (string \<Rightarrow> string) \<Rightarrow> string \<Rightarrow> time \<Rightarrow> time" where
  "get_env_duration parse E key fallback =
     (let v = trim_space (E key) in
      if v = '''' then fallback
      else case parse v of None \<Rightarrow> fallback | Some d \<Rightarrow> if d \<le> 0 then fallback else d)"

definition get_env_csv :: "(string \<Rightarrow> string) \<Rightarrow> string \<Rightarrow> string list" where
  "get_env_csv E key =
     (let raw = trim_space (E key) in
      if raw = '''' then [] else filter (\<lambda>p. p \<noteq> '''') (map trim_space (split_commas raw)))"

text \<open>A positive integer; a count of milliseconds, in 64 bits, which may be negative.\<close>

definition get_env_int64 :: "(string \<Rightarrow> string) \<Rightarrow> string \<Rightarrow> int \<Rightarrow> int" where
  "get_env_int64 E key fallback =
     (if E key = '''' then fallback
      else case atoi (trim_space (E key)) of None \<Rightarrow> fallback | Some n \<Rightarrow> if 0 < n then n else fallback)"

abbreviation millisecond :: time where "millisecond \<equiv> 1000000"

definition get_env_ms :: "(string \<Rightarrow> string) \<Rightarrow> string \<Rightarrow> int \<Rightarrow> time" where
  "get_env_ms E key fallback =
     (let ms = (if E key = '''' then fallback
        else case atoi (E key) of None \<Rightarrow> fallback | Some n \<Rightarrow> n)
      in sint (of_int (ms * millisecond) :: 64 word))"

definition has_suffix :: "string \<Rightarrow> string \<Rightarrow> bool" where
  "has_suffix s t \<longleftrightarrow> strip_suffix s t \<noteq> None"

definition trim_provision_suffix :: "string \<Rightarrow> string" where
  "trim_provision_suffix u =
     (case List.map_filter (strip_suffix u) [''/provision-env/'', ''/provision-env''] of
        [] \<Rightarrow> u | s # ss \<Rightarrow> s)"

definition owner_env_receiver_fallback :: "(string \<Rightarrow> string) \<Rightarrow> string" where
  "owner_env_receiver_fallback E =
     trim_right_slash (trim_provision_suffix (get_env E ''OWNER_ENV_RECEIVER_URL'' ''http://localhost:8090''))"

definition keycloak_token_url :: "(string \<Rightarrow> string) \<Rightarrow> string" where
  "keycloak_token_url E =
     (let base = E ''KEYCLOAK_BASE_URL''; realm = E ''KEYCLOAK_REALM'' in
      if E ''KEYCLOAK_TOKEN_URL'' \<noteq> '''' then E ''KEYCLOAK_TOKEN_URL''
      else if base \<noteq> '''' \<and> realm \<noteq> '''' then
        trim_right_slash base @ ''/realms/'' @ realm @ ''/protocol/openid-connect/token''
      else '''')"

section \<open>The configuration\<close>

abbreviation default_fl_contract_validity :: time where
  "default_fl_contract_validity \<equiv> 90 * 24 * hour"

definition user_keycloak_certs :: "(string \<Rightarrow> string) \<Rightarrow> string" where
  "user_keycloak_certs E =
     trim_right_slash (get_env E ''USER_KEYCLOAK_BASE_URL'' ''http://localhost:8080'') @ ''/realms/'' @
     get_env E ''USER_KEYCLOAK_REALM'' ''master'' @ ''/protocol/openid-connect/certs''"

text \<open>\<open>Load\<close>, for the part of the configuration the modelled handlers read.\<close>

definition load_config :: "(string \<Rightarrow> time option) \<Rightarrow> (string \<Rightarrow> string) \<Rightarrow> config" where
  "load_config parse_duration E = \<lparr>
     cfg_data_provider_jwks_url = get_env E ''DATA_PROVIDER_JWKS_URL'' (user_keycloak_certs E),
     cfg_provider_key_jwks_url = get_env E ''PROVIDER_KEY_JWKS_URL''
       ''http://localhost:8080/realms/master/protocol/openid-connect/certs'',
     cfg_data_provider_role = get_env E ''DATA_PROVIDER_ROLE'' ''data-provider'',
     cfg_require_infra_approval = get_env_bool E ''REQUIRE_INFRA_APPROVAL'' True,
     cfg_flotilla_vm_client_id = get_env E ''FLOTILLA_VM_CLIENT_ID'' ''flotilla-vm'',
     cfg_catalogue_base_url = trim_right_slash (get_env E ''CATALOGUE_BASE_URL''
       ''https://v2.dev.iudx.io/controlplane/iudx/v2/cat''),
     cfg_iudx_apd_policy_url = E ''IUDX_APD_POLICY_URL'',
     cfg_iudx_policy_callback_url = E ''IUDX_POLICY_CALLBACK_URL'',
     cfg_require_signed_contract = get_env_bool E ''REQUIRE_SIGNED_CONTRACT''
       (get_env_bool E ''TEE_REQUIRE_SIGNED_CONTRACT'' True),
     cfg_coordinator_addr = E ''COORDINATOR_ADDR'',
     cfg_grpcurl_bin = get_env E ''GRPCURL_BIN'' ''grpcurl'',
     cfg_kbs_url = trim_right_slash (E ''KBS_URL''),
     cfg_default_result_url = trim_space (E ''DEFAULT_RESULT_URL''),
     cfg_result_read_url = trim_space (E ''RESULT_READ_URL''),
     cfg_contract_callback_url = trim_right_slash (trim_space (E ''CONTRACT_CALLBACK_URL'')),
     cfg_fl_contract_validity = get_env_duration parse_duration E ''FL_CONTRACT_VALIDITY''
       default_fl_contract_validity,
     cfg_tee_azure_rg = E ''TEE_AZURE_RG'',
     cfg_tee_vm_name = E ''TEE_VM_NAME'',
     cfg_tee_enclave_base_url = E ''TEE_ENCLAVE_BASE_URL'',
     cfg_tee_vm_ip = E ''TEE_VM_IP'',
     cfg_tee_enclave_port = get_env E ''TEE_ENCLAVE_PORT'' ''4000'',
     cfg_tee_maa_issuers = get_env_csv E ''TEE_MAA_ISSUERS'',
     cfg_tee_expected_measurement = E ''TEE_EXPECTED_LAUNCH_MEASUREMENT'',
     cfg_tee_attestation_required = get_env_bool E ''TEE_ATTESTATION_REQUIRED'' True,
     cfg_tee_attestation_ttl = get_env_ms E ''TEE_ATTESTATION_TTL_MS'' 900000,
     cfg_tee_start_timeout = get_env_ms E ''TEE_START_TIMEOUT_MS'' 300000,
     cfg_tee_output_timeout = get_env_ms E ''TEE_OUTPUT_TIMEOUT_MS'' 60000,
     cfg_tee_clock_leeway = get_env_ms E ''TEE_CLOCK_LEEWAY_MS'' 60000,
     cfg_orchestrator_client_id = get_env E ''ORCHESTRATOR_CLIENT_ID'' ''p3dx-fl-orchestrator'',
     cfg_orchestrator_role = get_env E ''ORCHESTRATOR_ROLE'' ''fl-orchestrator''\<rparr>"

text \<open>The parts its other clients take: the database, the token clients, the upload cap and the key files.\<close>

record db_settings =
  dbs_host :: string
  dbs_port :: string
  dbs_name :: string
  dbs_user :: string
  dbs_password :: string

definition load_db_settings :: "(string \<Rightarrow> string) \<Rightarrow> db_settings" where
  "load_db_settings E = \<lparr>dbs_host = get_env E ''DB_HOST'' ''localhost'', dbs_port = get_env E ''DB_PORT'' ''5432'',
     dbs_name = get_env E ''DB_NAME'' ''p3dx_governance'', dbs_user = get_env E ''DB_USER'' ''postgres'',
     dbs_password = get_env E ''DB_PASSWORD'' ''postgres''\<rparr>"

text \<open>\<^verbatim>\<open>dsn\<close>: libpq's connection string, without quoting.\<close>

definition dsn :: "db_settings \<Rightarrow> string \<Rightarrow> string" where
  "dsn C name = ''host='' @ dbs_host C @ '' port='' @ dbs_port C @ '' user='' @ dbs_user C @
     '' password='' @ dbs_password C @ '' dbname='' @ name @ '' sslmode=disable''"

definition load_keycloak_client :: "(string \<Rightarrow> string) \<Rightarrow> keycloak_client" where
  "load_keycloak_client E = \<lparr>kc_token_url = keycloak_token_url E, kc_client_id = E ''KEYCLOAK_CLIENT_ID'',
     kc_secret = E ''KEYCLOAK_CLIENT_SECRET''\<rparr>"

definition new_directory_client :: "(string \<Rightarrow> string) \<Rightarrow> directory_client" where
  "new_directory_client E = \<lparr>
     dc_base_url = trim_right_slash (get_env E ''USER_KEYCLOAK_BASE_URL'' ''http://localhost:8080''),
     dc_realm = get_env E ''USER_KEYCLOAK_REALM'' ''master'',
     dc_user = E ''USER_KEYCLOAK_ADMIN_USER'', dc_password = E ''USER_KEYCLOAK_ADMIN_PASSWORD'',
     dc_client_id = E ''USER_KEYCLOAK_CLIENT_ID'', dc_client_secret = E ''USER_KEYCLOAK_CLIENT_SECRET''\<rparr>"

definition fl_output_max_bytes :: "(string \<Rightarrow> string) \<Rightarrow> int" where
  "fl_output_max_bytes E = get_env_int64 E ''FL_OUTPUT_MAX_BYTES'' (2 * 2 ^ 30)"

definition gov_signing_key_path :: "(string \<Rightarrow> string) \<Rightarrow> string" where
  "gov_signing_key_path E = get_env E ''GOV_SIGNING_KEY_PATH'' ''keys/governance_signing_key.pem''"

definition gov_ca_cert_path :: "(string \<Rightarrow> string) \<Rightarrow> string" where
  "gov_ca_cert_path E = get_env E ''GOV_CA_CERT_PATH'' ''./keys/governance_ca.pem''"

text \<open>
  The rest, by its users: the server and its outgoing calls, and the tools of federated learning, whose
  paths default to places under the repository. \<open>repo_root\<close> is the parent of the working directory, as
  a clean absolute path, or two dots when it is not known.
\<close>

definition parent_dir :: "string \<Rightarrow> string" where
  "parent_dir path =
     (let p = rev (dropWhile (\<lambda>c. c \<noteq> CHR ''/'') (rev path)) in
      if p = ''/'' \<or> p = '''' then ''/'' else butlast p)"

definition repo_root :: "string option \<Rightarrow> string" where
  "repo_root cwd = (case cwd of None \<Rightarrow> ''..'' | Some path \<Rightarrow> parent_dir path)"

definition join_path :: "string \<Rightarrow> string \<Rightarrow> string" where
  "join_path dir name = (if dir = ''/'' then dir @ name else dir @ ''/'' @ name)"

record server_settings =
  sst_rest_port :: string
  sst_node_env :: string
  sst_cors_raw :: string
  sst_keycloak_timeout :: time
  sst_push_auth_token :: string
  sst_forms_push_token :: string
  sst_vm_registry_token :: string
  sst_owner_self_ips :: string
  sst_tee_poll_interval :: time
  sst_tee_attest_timeout :: time
  sst_catalogue_timeout :: time

definition load_server_settings :: "(string \<Rightarrow> string) \<Rightarrow> server_settings" where
  "load_server_settings E = \<lparr>
     sst_rest_port = get_env E ''PORT'' ''8083'', sst_node_env = E ''NODE_ENV'', sst_cors_raw = E ''CORS_ORIGINS'',
     sst_keycloak_timeout = get_env_ms E ''KEYCLOAK_TOKEN_TIMEOUT_MS'' 8000,
     sst_push_auth_token = E ''PUSH_AUTH_TOKEN'', sst_forms_push_token = E ''FORMS_PUSH_TOKEN'',
     sst_vm_registry_token = E ''VM_REGISTRY_TOKEN'', sst_owner_self_ips = E ''OWNER_SELF_IPS'',
     sst_tee_poll_interval = get_env_ms E ''TEE_POLL_INTERVAL_MS'' 5000,
     sst_tee_attest_timeout = get_env_ms E ''TEE_ATTEST_TIMEOUT_MS'' 180000,
     sst_catalogue_timeout = get_env_ms E ''CATALOGUE_TIMEOUT_MS'' 10000\<rparr>"

record fl_settings =
  fls_distribute_script :: string
  fls_provider_provision_path :: string
  fls_provision_timeout :: time
  fls_provision_env_path :: string
  fls_provision_requirements :: string
  fls_client_config_template :: string
  fls_provider_receiver_path :: string
  fls_push_timeout :: time
  fls_fedml_src :: string
  fls_fedml_venv_py :: string
  fls_owner_provision_path :: string
  fls_owner_start_server_path :: string
  fls_owner_start_session_path :: string
  fls_owner_env_receiver_fallback :: string
  fls_owner_requirements :: string
  fls_session_config :: string
  fls_server_endpoint :: string
  fls_checkpoint_dir :: string
  fls_log_dir :: string
  fls_provider_start_client_path :: string
  fls_client_delay :: time
  fls_session_delay :: time

definition load_fl_settings :: "string \<Rightarrow> (string \<Rightarrow> string) \<Rightarrow> fl_settings" where
  "load_fl_settings root E =
     (let src = join_path root ''fedml-ng-release-v1.0/src'' in \<lparr>
      fls_distribute_script = get_env E ''DISTRIBUTE_SCRIPT'' (join_path root ''send_output_owner_config.sh''),
      fls_provider_provision_path = get_env E ''PROVIDER_PROVISION_PATH'' ''/provision-env'',
      fls_provision_timeout = get_env_ms E ''PROVISION_TIMEOUT_MS'' 600000,
      fls_provision_env_path = E ''PROVISION_ENV_PATH'',
      fls_provision_requirements = get_env E ''PROVISION_REQUIREMENTS'' (src @ ''/client/requirements.txt''),
      fls_client_config_template = get_env E ''CLIENT_CONFIG_TEMPLATE'' (src @ ''/config/client_config.yaml''),
      fls_provider_receiver_path = get_env E ''PROVIDER_RECEIVER_PATH'' ''/update-config'',
      fls_push_timeout = get_env_ms E ''PUSH_TIMEOUT_MS'' 15000,
      fls_fedml_src = get_env E ''FEDML_SRC'' src,
      fls_fedml_venv_py = get_env E ''FEDML_VENV_PY'' (join_path root ''venv/bin/python''),
      fls_owner_provision_path = get_env E ''OWNER_RECEIVER_PROVISION_PATH'' ''/provision-env'',
      fls_owner_start_server_path = get_env E ''OWNER_RECEIVER_START_SERVER_PATH'' ''/start-server'',
      fls_owner_start_session_path = get_env E ''OWNER_RECEIVER_START_SESSION_PATH'' ''/start-session'',
      fls_owner_env_receiver_fallback = owner_env_receiver_fallback E,
      fls_owner_requirements = get_env E ''OWNER_REQUIREMENTS'' (src @ ''/server/requirements.txt''),
      fls_session_config = get_env E ''FL_SESSION_CONFIG'' ''../config/flotilla_quicksetup_config.yaml'',
      fls_server_endpoint = get_env E ''FL_SERVER_ENDPOINT'' ''localhost:12345'',
      fls_checkpoint_dir = get_env E ''CHECKPOINT_DIR'' (src @ ''/checkpoint''),
      fls_log_dir = get_env E ''FL_LOG_DIR'' (join_path root ''logs''),
      fls_provider_start_client_path = get_env E ''PROVIDER_START_CLIENT_PATH'' ''/start-client'',
      fls_client_delay = get_env_ms E ''FL_CLIENT_DELAY_MS'' 5000,
      fls_session_delay = get_env_ms E ''FL_SESSION_DELAY_MS'' 30000\<rparr>)"

lemma get_env_bool_False:
  "get_env_bool E key fallback = False \<longleftrightarrow>
     parse_bool (trim_space (E key)) = Some False \<or>
     (parse_bool (trim_space (E key)) = None \<and> \<not> fallback)"
  by (auto simp: get_env_bool_def Let_def parse_bool_def split: option.splits)

text \<open>
  The switches that protect runs fail safe: signatures, attestation and infrastructure approval are
  each required unless their variable, trimmed, is one of the spellings of false; a blank or a mistyped
  value leaves the requirement on, where only the older name of the signature switch can still turn it
  off, and a configured contract validity is always positive.
\<close>

theorem switches_fail_safe:
  "(cfg_require_signed_contract (load_config P E) \<longleftrightarrow>
      parse_bool (trim_space (E ''REQUIRE_SIGNED_CONTRACT'')) = Some True \<or>
      (parse_bool (trim_space (E ''REQUIRE_SIGNED_CONTRACT'')) = None \<and>
       parse_bool (trim_space (E ''TEE_REQUIRE_SIGNED_CONTRACT'')) \<noteq> Some False)) \<and>
   (cfg_tee_attestation_required (load_config P E) \<longleftrightarrow>
      parse_bool (trim_space (E ''TEE_ATTESTATION_REQUIRED'')) \<noteq> Some False) \<and>
   (cfg_require_infra_approval (load_config P E) \<longleftrightarrow>
      parse_bool (trim_space (E ''REQUIRE_INFRA_APPROVAL'')) \<noteq> Some False) \<and>
   0 < cfg_fl_contract_validity (load_config P E)"
proof -
  have switch: "get_env_bool E key fallback \<longleftrightarrow>
      parse_bool (trim_space (E key)) = Some True \<or> (parse_bool (trim_space (E key)) = None \<and> fallback)" for key fallback
    using get_env_bool_False [of E key fallback] by (cases "parse_bool (trim_space (E key))") auto
  have on: "get_env_bool E key True \<longleftrightarrow> parse_bool (trim_space (E key)) \<noteq> Some False" for key
    using get_env_bool_False [of E key True] by (cases "parse_bool (trim_space (E key))") auto
  have "0 < get_env_duration P E key default_fl_contract_validity" for key
    by (auto simp: get_env_duration_def Let_def split: option.split)
  then show ?thesis
    unfolding load_config_def config.simps on by (simp add: switch [of _ "_ \<noteq> _"])
qed

section \<open>The signing key\<close>

datatype private_key = RsaPrivate string | OtherPrivate string

record ca_template =
  ca_serial :: nat
  ca_common_name :: string
  ca_organization :: string
  ca_not_before :: time
  ca_not_after :: time
  ca_is_ca :: bool
  ca_max_path_len :: nat
  ca_key_usage :: "string list"
  ca_subject_key_id :: string

record certificate =
  ce_public_key :: string
  ce_not_after :: time

record key_lib =
  kl_pem_decode :: "string \<Rightarrow> (string \<times> string) option"  \<comment> \<open>the first block: its type and bytes\<close>
  kl_pem_encode :: "string \<Rightarrow> string \<Rightarrow> string"
  kl_parse_pkcs8 :: "string \<Rightarrow> private_key result"
  kl_marshal_pkcs8 :: "string \<Rightarrow> string result"
  kl_generate :: "string result"  \<comment> \<open>an RSA key of 2048 bits\<close>
  kl_public :: "string \<Rightarrow> string"
  kl_marshal_pkix :: "string \<Rightarrow> string result"
  kl_bit_string :: "string \<Rightarrow> string result"  \<comment> \<open>the \<^verbatim>\<open>subjectPublicKey\<close> of the encoding\<close>
  kl_sha1 :: "string \<Rightarrow> string"
  kl_random_below :: "nat \<Rightarrow> nat result"
  kl_create_cert :: "ca_template \<Rightarrow> string \<Rightarrow> string \<Rightarrow> string result"  \<comment> \<open>for a public, with a private key\<close>
  kl_parse_cert :: "string \<Rightarrow> certificate result"

text \<open>Files by path, and which calls on which path fail (other than for want of the file).\<close>

record key_files =
  kf_files :: "string \<rightharpoonup> string"
  kf_fault :: "string \<Rightarrow> string \<Rightarrow> string option"

definition write_new_file :: "string \<Rightarrow> string \<Rightarrow> key_files \<Rightarrow> unit result \<times> key_files" where
  "write_new_file path bytes D =
     (case (kf_fault D ''MkdirAll'' path, kf_fault D ''WriteFile'' path) of
        (Some e, f) \<Rightarrow> (Inl (''create dir: '' @ e), D)
      | (None, Some e) \<Rightarrow> (Inl (''write '' @ path @ '': '' @ e), D)
      | (None, None) \<Rightarrow> (Inr (), D\<lparr>kf_files := (kf_files D)(path \<mapsto> bytes)\<rparr>))"

record governance_key =
  gv_priv :: string
  gv_public_key_pem :: string

definition new_governance_key :: "key_lib \<Rightarrow> string \<Rightarrow> governance_key result" where
  "new_governance_key L priv =
     and_then (kl_marshal_pkix L (kl_public L priv)) (\<lambda>der.
     Inr \<lparr>gv_priv = priv, gv_public_key_pem = kl_pem_encode L ''PUBLIC KEY'' der\<rparr>)"

definition read_governance_key :: "key_lib \<Rightarrow> string \<Rightarrow> string \<Rightarrow> governance_key result" where
  "read_governance_key L path bytes =
     and_then (some_or (''governance key '' @ path @ '' is not valid PEM'') (kl_pem_decode L bytes)) (\<lambda>(ty, der).
     and_then (or_fail (\<lambda>e. ''parse governance key '' @ path @ '': '' @ e) (kl_parse_pkcs8 L der)) (\<lambda>key.
     case key of
       RsaPrivate priv \<Rightarrow> new_governance_key L priv
     | OtherPrivate k \<Rightarrow> Inl (''governance key '' @ path @ '' is not an RSA key'')))"

definition make_governance_key :: "key_lib \<Rightarrow> (string \<times> string) result" where
  "make_governance_key L =
     and_then (or_fail (\<lambda>e. ''generate governance key: '' @ e) (kl_generate L)) (\<lambda>priv.
     and_then (kl_marshal_pkcs8 L priv) (\<lambda>der. Inr (priv, kl_pem_encode L ''PRIVATE KEY'' der)))"

definition load_or_create_governance_key ::
  "key_lib \<Rightarrow> string \<Rightarrow> key_files \<Rightarrow> governance_key result \<times> key_files" where
  "load_or_create_governance_key L path D =
     (case (kf_fault D ''ReadFile'' path, kf_files D path) of
        (Some e, f) \<Rightarrow> (Inl (''read governance key '' @ path @ '': '' @ e), D)
      | (None, Some bytes) \<Rightarrow> (read_governance_key L path bytes, D)
      | (None, None) \<Rightarrow>
          (case make_governance_key L of
             Inl e \<Rightarrow> (Inl e, D)
           | Inr (priv, pem) \<Rightarrow>
               (case write_new_file path pem D of
                  (Inl e, D) \<Rightarrow> (Inl e, D)
                | (Inr u, D) \<Rightarrow> (new_governance_key L priv, D))))"

section \<open>The certificate authority\<close>

abbreviation governance_ca_validity :: time where
  "governance_ca_validity \<equiv> 5 * 365 * 24 * hour"

definition random_serial :: "key_lib \<Rightarrow> nat result" where
  "random_serial L = and_then (kl_random_below L (2 ^ 128)) (\<lambda>n. Inr (if n = 0 then 1 else n))"

definition subject_key_id :: "key_lib \<Rightarrow> string \<Rightarrow> string result" where
  "subject_key_id L pub =
     and_then (kl_marshal_pkix L pub) (\<lambda>der.
     and_then (kl_bit_string L der) (\<lambda>bits. Inr (kl_sha1 L bits)))"

definition new_governance_ca_cert ::
  "key_lib \<Rightarrow> governance_key \<Rightarrow> time \<Rightarrow> (certificate \<times> string) result" where
  "new_governance_ca_cert L K now =
     and_then (or_fail (\<lambda>e. ''generate CA serial: '' @ e) (random_serial L)) (\<lambda>serial.
     and_then (subject_key_id L (kl_public L (gv_priv K))) (\<lambda>skid.
     let tmpl = \<lparr>ca_serial = serial, ca_common_name = ''P3DX Governance CA'', ca_organization = ''P3DX'',
           ca_not_before = now - 5 * 60 * second, ca_not_after = now + governance_ca_validity,
           ca_is_ca = True, ca_max_path_len = 0, ca_key_usage = [''CertSign'', ''CRLSign''],
           ca_subject_key_id = skid\<rparr>
     in and_then (or_fail (\<lambda>e. ''create governance CA certificate: '' @ e)
          (kl_create_cert L tmpl (kl_public L (gv_priv K)) (gv_priv K))) (\<lambda>der.
        and_then (kl_parse_cert L der) (\<lambda>cert.
        Inr (cert, kl_pem_encode L ''CERTIFICATE'' der)))))"

text \<open>The stored certificate, when it can be read and is for this key.\<close>

definition stored_ca_cert :: "key_lib \<Rightarrow> governance_key \<Rightarrow> string \<Rightarrow> (certificate \<times> string) option" where
  "stored_ca_cert L K bytes =
     (case kl_pem_decode L bytes of
        Some (ty, der) \<Rightarrow>
          if ty \<noteq> ''CERTIFICATE'' then None
          else (case kl_parse_cert L der of
              Inl e \<Rightarrow> None
            | Inr cert \<Rightarrow> if ce_public_key cert = kl_public L (gv_priv K)
                then Some (cert, kl_pem_encode L ty der) else None)
      | None \<Rightarrow> None)"

definition load_or_create_governance_ca_cert ::
  "key_lib \<Rightarrow> string \<Rightarrow> governance_key \<Rightarrow> time \<Rightarrow> key_files \<Rightarrow> (certificate \<times> string) result \<times> key_files" where
  "load_or_create_governance_ca_cert L path K now D =
     (case kf_fault D ''ReadFile'' path of
        Some e \<Rightarrow> (Inl (''read governance CA certificate '' @ path @ '': '' @ e), D)
      | None \<Rightarrow>
          (case Option.bind (kf_files D path) (stored_ca_cert L K) of
             Some r \<Rightarrow> (Inr r, D)
           | None \<Rightarrow>
               (case new_governance_ca_cert L K now of
                  Inl e \<Rightarrow> (Inl e, D)
                | Inr (cert, pem) \<Rightarrow>
                    (case write_new_file path pem D of
                       (Inl e, D) \<Rightarrow> (Inl e, D)
                     | (Inr u, D) \<Rightarrow> (Inr (cert, pem), D)))))"

section \<open>What a restart finds\<close>

text \<open>The documented contract: PEM and PKCS 8 read what they wrote, a certificate carries its key.\<close>

definition key_lib_ok :: "key_lib \<Rightarrow> bool" where
  "key_lib_ok L \<longleftrightarrow>
     (\<forall>ty \<in> {''PRIVATE KEY'', ''CERTIFICATE''}. \<forall>b. kl_pem_decode L (kl_pem_encode L ty b) = Some (ty, b)) \<and>
     (\<forall>k der. kl_marshal_pkcs8 L k = Inr der \<longrightarrow> kl_parse_pkcs8 L der = Inr (RsaPrivate k)) \<and>
     (\<forall>tmpl pub priv der cert. kl_create_cert L tmpl pub priv = Inr der \<longrightarrow> kl_parse_cert L der = Inr cert \<longrightarrow>
        ce_public_key cert = pub)"

text \<open>The same library with another source of randomness.\<close>

definition reseeded :: "key_lib \<Rightarrow> key_lib \<Rightarrow> bool" where
  "reseeded L L' \<longleftrightarrow> L' = L\<lparr>kl_generate := kl_generate L', kl_random_below := kl_random_below L',
     kl_create_cert := kl_create_cert L'\<rparr>"

lemma write_new_file_Inr:
  "write_new_file path bytes D = (Inr u, D') \<Longrightarrow>
   D' = D\<lparr>kf_files := (kf_files D)(path \<mapsto> bytes)\<rparr>"
  by (auto simp: write_new_file_def split: option.splits)

lemma reseeded_same:
  assumes "reseeded L L'"
  shows "new_governance_key L' = new_governance_key L" and "read_governance_key L' = read_governance_key L"
    and "stored_ca_cert L' = stored_ca_cert L"
proof -
  have same [simp]: "kl_pem_decode L' = kl_pem_decode L" "kl_pem_encode L' = kl_pem_encode L"
    "kl_parse_pkcs8 L' = kl_parse_pkcs8 L" "kl_marshal_pkix L' = kl_marshal_pkix L" "kl_public L' = kl_public L"
    "kl_parse_cert L' = kl_parse_cert L"
    by (subst assms [unfolded reseeded_def], simp)+
  show new: "new_governance_key L' = new_governance_key L"
    by (simp add: new_governance_key_def fun_eq_iff)
  show "read_governance_key L' = read_governance_key L"
    by (intro ext) (simp only: read_governance_key_def new same)
  show "stored_ca_cert L' = stored_ca_cert L"
    by (intro ext) (simp only: stored_ca_cert_def same)
qed

lemma loaded_key_stored:
  assumes "key_lib_ok L" and "load_or_create_governance_key L path D = (Inr K, D')"
  shows "kf_fault D' = kf_fault D \<and> kf_fault D ''ReadFile'' path = None \<and>
    (\<exists>bytes. kf_files D' path = Some bytes \<and> read_governance_key L path bytes = Inr K)"
proof (cases "kf_files D path")
  case (Some bytes)
  then show ?thesis using assms(2) by (auto simp: load_or_create_governance_key_def split: option.splits)
next
  case None
  then obtain priv pem where made: "make_governance_key L = Inr (priv, pem)"
    and new: "new_governance_key L priv = Inr K" and D': "D' = D\<lparr>kf_files := (kf_files D)(path \<mapsto> pem)\<rparr>"
    and read: "kf_fault D ''ReadFile'' path = None"
    using assms(2) by (auto simp: load_or_create_governance_key_def dest: write_new_file_Inr
        split: option.splits sum.splits prod.splits)
  obtain der where "kl_marshal_pkcs8 L priv = Inr der" "pem = kl_pem_encode L ''PRIVATE KEY'' der"
    using made by (auto simp: make_governance_key_def early_return)
  then have "read_governance_key L path pem = Inr K"
    using assms(1) new by (simp add: key_lib_ok_def read_governance_key_def)
  then show ?thesis using D' read by simp
qed

text \<open>
  Signatures stay verifiable across restarts: once the program has started with a signing key, read
  or newly made, every later start with the key file as it was left finds the same key pair and
  leaves the files alone, whatever the random source says then.
\<close>

theorem restart_keeps_signing_key:
  assumes "key_lib_ok L" and "load_or_create_governance_key L path D = (Inr K, D')" and "reseeded L L'"
  shows "load_or_create_governance_key L' path D' = (Inr K, D')"
  using loaded_key_stored [OF assms(1,2)] reseeded_same(2) [OF assms(3)]
  by (auto simp: load_or_create_governance_key_def)

lemma stored_ca_cert_made:
  assumes "key_lib_ok L" and "new_governance_ca_cert L K now = Inr (cert, pem)"
  shows "stored_ca_cert L K pem = Some (cert, pem)" and "ce_public_key cert = kl_public L (gv_priv K)"
proof -
  obtain tmpl der where der: "kl_create_cert L tmpl (kl_public L (gv_priv K)) (gv_priv K) = Inr der"
    and parse: "kl_parse_cert L der = Inr cert" and pem: "pem = kl_pem_encode L ''CERTIFICATE'' der"
    using assms(2) unfolding new_governance_ca_cert_def Let_def early_return by blast
  then show key: "ce_public_key cert = kl_public L (gv_priv K)" using assms(1) unfolding key_lib_ok_def by blast
  show "stored_ca_cert L K pem = Some (cert, pem)"
    using assms(1) parse key unfolding pem by (simp add: key_lib_ok_def stored_ca_cert_def)
qed

lemma stored_ca_cert_key:
  "stored_ca_cert L K bytes = Some (cert, pem) \<Longrightarrow> ce_public_key cert = kl_public L (gv_priv K)"
  by (auto simp: stored_ca_cert_def split: option.splits sum.splits if_splits)

text \<open>
  The certificate authority follows the signing key: a start that succeeds has a certificate for
  the governance key it started with, never another's; the certificate is on file, and a later start with
  the same key finds that certificate whatever the time and the random source; and a file with a certificate
  for another key is replaced.
\<close>

theorem ca_certificate_follows_key:
  assumes lib: "key_lib_ok L" and start: "load_or_create_governance_ca_cert L path K now D = (Inr (cert, pem), D')"
  shows "ce_public_key cert = kl_public L (gv_priv K) \<and>
    (\<exists>bytes. kf_files D' path = Some bytes \<and> stored_ca_cert L K bytes = Some (cert, pem)) \<and>
    (\<forall>L' now'. reseeded L L' \<longrightarrow>
       load_or_create_governance_ca_cert L' path K now' D' = (Inr (cert, pem), D')) \<and>
    (Option.bind (kf_files D path) (stored_ca_cert L K) = None \<longrightarrow>
       new_governance_ca_cert L K now = Inr (cert, pem) \<and> kf_files D' = (kf_files D)(path \<mapsto> pem))"
proof -
  have fault: "kf_fault D ''ReadFile'' path = None"
    using start by (auto simp: load_or_create_governance_ca_cert_def split: option.splits)
  have "ce_public_key cert = kl_public L (gv_priv K) \<and> kf_fault D' = kf_fault D \<and>
    (\<exists>bytes. kf_files D' path = Some bytes \<and> stored_ca_cert L K bytes = Some (cert, pem)) \<and>
    (Option.bind (kf_files D path) (stored_ca_cert L K) = None \<longrightarrow>
       new_governance_ca_cert L K now = Inr (cert, pem) \<and> kf_files D' = (kf_files D)(path \<mapsto> pem))"
  proof (cases "Option.bind (kf_files D path) (stored_ca_cert L K)")
    case (Some r)
    then have "r = (cert, pem)" "D' = D" using start fault by (auto simp: load_or_create_governance_ca_cert_def)
    with Some show ?thesis by (auto simp: bind_eq_Some_conv dest: stored_ca_cert_key)
  next
    case None
    then have made: "new_governance_ca_cert L K now = Inr (cert, pem)"
      and D': "D' = D\<lparr>kf_files := (kf_files D)(path \<mapsto> pem)\<rparr>"
      using start fault by (auto simp: load_or_create_governance_ca_cert_def dest: write_new_file_Inr
          split: sum.splits prod.splits)
    then show ?thesis using stored_ca_cert_made [OF lib made] by simp
  qed
  then show ?thesis
    using fault reseeded_same(3) by (auto simp: load_or_create_governance_ca_cert_def)
qed

section \<open>A concrete start\<close>

text \<open>PEM writes the type, a colon and the bytes; keys and certificates are encoded as themselves.\<close>

definition sample_key_lib :: "string \<Rightarrow> key_lib" where
  "sample_key_lib seed = \<lparr>
     kl_pem_decode = (\<lambda>s. case dropWhile (\<lambda>c. c \<noteq> CHR '':'') s of [] \<Rightarrow> None
       | c # der \<Rightarrow> Some (takeWhile (\<lambda>c. c \<noteq> CHR '':'') s, der)),
     kl_pem_encode = (\<lambda>ty der. ty @ '':'' @ der),
     kl_parse_pkcs8 = (\<lambda>der. Inr (RsaPrivate der)), kl_marshal_pkcs8 = Inr, kl_generate = Inr seed,
     kl_public = (\<lambda>k. k), kl_marshal_pkix = Inr, kl_bit_string = Inr, kl_sha1 = (\<lambda>b. b),
     kl_random_below = (\<lambda>n. Inr 0), kl_create_cert = (\<lambda>tmpl pub priv. Inr pub),
     kl_parse_cert = (\<lambda>der. Inr \<lparr>ce_public_key = der, ce_not_after = 0\<rparr>)\<rparr>"

definition empty_disk :: key_files where
  "empty_disk = \<lparr>kf_files = Map.empty, kf_fault = (\<lambda>call path. None)\<rparr>"

lemma sample_key_lib_ok: "key_lib_ok (sample_key_lib seed)"
  by (simp add: key_lib_ok_def sample_key_lib_def)

lemma sample_key_lib_reseeded: "reseeded (sample_key_lib a) (sample_key_lib b)"
  by (simp add: reseeded_def sample_key_lib_def)

definition sample_governance_key :: governance_key where
  "sample_governance_key = \<lparr>gv_priv = ''seed'', gv_public_key_pem = ''PUBLIC KEY:seed''\<rparr>"

theorem restart_keeps_signing_key_witness:
  "\<exists>D. load_or_create_governance_key (sample_key_lib ''seed'') ''k'' empty_disk = (Inr sample_governance_key, D) \<and>
     load_or_create_governance_key (sample_key_lib ''other'') ''k'' D = (Inr sample_governance_key, D)"
proof -
  have "load_or_create_governance_key (sample_key_lib ''seed'') ''k'' empty_disk =
      (Inr sample_governance_key, empty_disk\<lparr>kf_files := [''k'' \<mapsto> ''PRIVATE KEY:seed'']\<rparr>)"
    by (simp add: load_or_create_governance_key_def make_governance_key_def new_governance_key_def
        write_new_file_def sample_key_lib_def empty_disk_def sample_governance_key_def)
  with restart_keeps_signing_key [OF sample_key_lib_ok this sample_key_lib_reseeded] show ?thesis by blast
qed

theorem ca_certificate_follows_key_witness:
  "\<exists>cert pem D. load_or_create_governance_ca_cert (sample_key_lib ''s'') ''c'' sample_governance_key 7 empty_disk =
       (Inr (cert, pem), D) \<and> ce_public_key cert = ''seed'' \<and>
     load_or_create_governance_ca_cert (sample_key_lib ''t'') ''c'' sample_governance_key 9 D = (Inr (cert, pem), D)"
proof -
  have start: "load_or_create_governance_ca_cert (sample_key_lib ''s'') ''c'' sample_governance_key 7 empty_disk =
      (Inr (\<lparr>ce_public_key = ''seed'', ce_not_after = 0\<rparr>, ''CERTIFICATE:seed''),
       empty_disk\<lparr>kf_files := [''c'' \<mapsto> ''CERTIFICATE:seed'']\<rparr>)"
    by (simp add: load_or_create_governance_ca_cert_def new_governance_ca_cert_def random_serial_def
        subject_key_id_def write_new_file_def sample_key_lib_def empty_disk_def sample_governance_key_def)
  from ca_certificate_follows_key [OF sample_key_lib_ok start] sample_key_lib_reseeded
  have "load_or_create_governance_ca_cert (sample_key_lib ''t'') ''c'' sample_governance_key 9
      (empty_disk\<lparr>kf_files := [''c'' \<mapsto> ''CERTIFICATE:seed'']\<rparr>) =
      (Inr (\<lparr>ce_public_key = ''seed'', ce_not_after = 0\<rparr>, ''CERTIFICATE:seed''),
       empty_disk\<lparr>kf_files := [''c'' \<mapsto> ''CERTIFICATE:seed'']\<rparr>)" by blast
  with start show ?thesis by auto
qed

end
