(* ===== verification/Messages.thy ===== *)
theory Messages
  imports Gate
begin

text \<open>
  The messages an output owner sends a provider outside the notifications (\<^verbatim>\<open>httpapi/fl_forms.go\<close>,
  \<^verbatim>\<open>db/fl_messages.go\<close>) and the combined session reports (\<^verbatim>\<open>db/fl_reports.go\<close>). Both live in tables of
  their own, which no other part of the program reads.
\<close>

section \<open>Tables\<close>

text \<open>A time stamp that does not parse is passed to Postgres as it is.\<close>

datatype message_time = NoTime | ParsedTime time | RawTime string

record message_row =
  mr_id :: string
  mr_provider_id :: string
  mr_provider_email :: string
  mr_provider_name :: string
  mr_output_owner_id :: string
  mr_message :: string
  mr_timestamp :: message_time

record report_row =
  rr_id :: string
  rr_submission_id :: string
  rr_form_id :: "string option"
  rr_output_owner_id :: "string option"
  rr_report :: json
  rr_updated_at :: time

record side_tables =
  t_messages :: "message_row list"
  t_reports :: "report_row list"

definition side_write :: "world \<Rightarrow> string \<Rightarrow> string list \<Rightarrow> 'a \<Rightarrow> side_tables \<Rightarrow> side_tables \<Rightarrow> 'a result \<times> side_tables" where
  "side_write W m args v t' t = (case w_fault W (Db m args) of Some e \<Rightarrow> (Inl e, t) | None \<Rightarrow> (Inr v, t'))"

section \<open>Messages\<close>

record message_input =
  mi_provider_id :: string
  mi_provider_email :: string
  mi_provider_name :: string
  mi_output_owner_id :: string
  mi_message :: string
  mi_timestamp :: "string option"

abbreviation rfc3339_nano :: string where "rfc3339_nano \<equiv> ''2006-01-02T15:04:05.999999999Z07:00''"

definition message_timestamp :: "world \<Rightarrow> string option \<Rightarrow> message_time" where
  "message_timestamp W ts =
     (case ts of None \<Rightarrow> NoTime
      | Some s \<Rightarrow> if s = '''' then NoTime
          else case w_parse_time W rfc3339_nano s of Some t \<Rightarrow> ParsedTime t
          | None \<Rightarrow> (case w_parse_time W rfc3339 s of Some t \<Rightarrow> ParsedTime t | None \<Rightarrow> RawTime s))"

text \<open>The table is created first when it does not exist, by a statement that can fail of its own.\<close>

definition store_provider_message ::
  "world \<Rightarrow> message_input \<Rightarrow> side_tables \<Rightarrow> string result \<times> side_tables" where
  "store_provider_message W i t =
     (let mid = w_new_id W ''msg'' (length (t_messages t)) in
      case w_fault W (Db ''StoreProviderMessage'' [''CREATE'']) of
        Some e \<Rightarrow> (Inl e, t)
      | None \<Rightarrow> side_write W ''StoreProviderMessage'' [mid] mid (t\<lparr>t_messages := t_messages t @
          [\<lparr>mr_id = mid, mr_provider_id = mi_provider_id i, mr_provider_email = mi_provider_email i,
            mr_provider_name = mi_provider_name i, mr_output_owner_id = mi_output_owner_id i,
            mr_message = mi_message i, mr_timestamp = message_timestamp W (mi_timestamp i)\<rparr>]\<rparr>) t)"

definition send_provider_message ::
  "world \<Rightarrow> message_input option \<Rightarrow> side_tables \<Rightarrow> (string \<times> message_input) response \<times> side_tables" where
  "send_provider_message W body t =
     (case body of
        None \<Rightarrow> (Inl (HttpError 400 ''INVALID_JSON'' ''Invalid JSON in request body''), t)
      | Some i \<Rightarrow>
          if mi_provider_id i = '''' \<or> mi_provider_email i = '''' then
            (Inl (HttpError 400 ''MISSING_PROVIDER_INFO'' ''provider_id and provider_email are required''), t)
          else (case store_provider_message W i t of
              (Inl e, t) \<Rightarrow> (Inl (HttpError 500 ''INTERNAL_ERROR'' ''Failed to send provider message''), t)
            | (Inr mid, t) \<Rightarrow> (Inr (mid, i), t)))"

section \<open>Session reports\<close>

definition null_if_empty :: "string \<Rightarrow> string option" where
  "null_if_empty s = (if s = '''' then None else Some s)"

definition store_session_report ::
  "world \<Rightarrow> string \<Rightarrow> string \<Rightarrow> string \<Rightarrow> json \<Rightarrow> side_tables \<Rightarrow> string result \<times> side_tables" where
  "store_session_report W sub form owner report t =
     (case w_fault W (Db ''StoreSessionReport'' [''SELECT'', sub]) of
        Some e \<Rightarrow> (Inl e, t)
      | None \<Rightarrow>
          (case List.find (\<lambda>r. rr_submission_id r = sub) (t_reports t) of
             Some r \<Rightarrow> side_write W ''StoreSessionReport'' [''UPDATE'', sub] (rr_id r)
               (t\<lparr>t_reports := update_rows (\<lambda>r. rr_submission_id r = sub)
                 (\<lambda>r. r\<lparr>rr_form_id := null_if_empty form, rr_output_owner_id := null_if_empty owner,
                    rr_report := report, rr_updated_at := w_now W\<rparr>) (t_reports t)\<rparr>) t
           | None \<Rightarrow>
               let rid = w_new_id W ''rpt'' (length (t_reports t)) in
               side_write W ''StoreSessionReport'' [''INSERT'', sub] rid
                 (t\<lparr>t_reports := t_reports t @ [\<lparr>rr_id = rid, rr_submission_id = sub, rr_form_id = null_if_empty form,
                    rr_output_owner_id = null_if_empty owner, rr_report = report, rr_updated_at = w_now W\<rparr>]\<rparr>) t))"

definition get_session_report :: "world \<Rightarrow> side_tables \<Rightarrow> string \<Rightarrow> json option result" where
  "get_session_report W t sub =
     (case w_fault W (Db ''GetSessionReport'' [sub]) of
        Some e \<Rightarrow> Inl e
      | None \<Rightarrow> Inr (map_option rr_report (List.find (\<lambda>r. rr_submission_id r = sub) (t_reports t))))"

text \<open>A stored report is read back, under one row for each submission, and no other is touched.\<close>

lemma find_update_rows:
  "(\<And>r. p r \<Longrightarrow> q (f r)) \<Longrightarrow> (\<And>r. q r = p r) \<Longrightarrow>
   List.find q (update_rows p f rs) = map_option f (List.find q rs)"
  by (induction rs) (auto simp: update_rows_def)

lemma side_write_Inr:
  "side_write W m args v t' t = (Inr x, u) \<longleftrightarrow> w_fault W (Db m args) = None \<and> x = v \<and> u = t'"
  by (auto simp: side_write_def split: option.split)

lemma find_append: "List.find q (xs @ ys) = (case List.find q xs of None \<Rightarrow> List.find q ys | Some r \<Rightarrow> Some r)"
  by (induction xs) auto

lemma other_report:
  "sub' \<noteq> sub \<Longrightarrow> (\<And>r. rr_submission_id (f r) = rr_submission_id r) \<Longrightarrow>
   List.find (\<lambda>r. rr_submission_id r = sub') (update_rows (\<lambda>r. rr_submission_id r = sub) f rs) =
   List.find (\<lambda>r. rr_submission_id r = sub') rs"
  by (induction rs) (auto simp: update_rows_def)

lemma session_report_stored:
  assumes "store_session_report W sub form owner report t = (Inr rid, t')" and "w_fault W' = (\<lambda>c. None)"
  shows "get_session_report W' t' sub = Inr (Some report)"
    and "sub' \<noteq> sub \<Longrightarrow> get_session_report W' t' sub' = get_session_report W' t sub'"
  using assms
  by (auto simp: other_report store_session_report_def get_session_report_def side_write_Inr Let_def find_update_rows
      find_append dest: find_Some split: option.splits)

end
