(* ===== verification/Schema.thy ===== *)
theory Schema
  imports Database
begin

text \<open>
  The schema of the Postgres database (\<^verbatim>\<open>db.go\<close>): the keys each table declares, and the
  migration that runs at every start.
\<close>

section \<open>The keys\<close>

definition final_contracts_key :: "final_contract list \<Rightarrow> bool" where
  "final_contracts_key fs \<longleftrightarrow> distinct (map fc_job_id fs)"

definition job_participants_key :: "job_participant list \<Rightarrow> bool" where
  "job_participants_key ps \<longleftrightarrow> distinct (map participant_key ps)"

definition notifications_key :: "notification list \<Rightarrow> bool" where
  "notifications_key ns \<longleftrightarrow> distinct (map nf_id ns)"

definition provider_public_keys_key :: "key_row list \<Rightarrow> bool" where
  "provider_public_keys_key ks \<longleftrightarrow> distinct (map kr_username ks)"

definition removed_providers_key :: "removed_provider list \<Rightarrow> bool" where
  "removed_providers_key rs \<longleftrightarrow> distinct (map (\<lambda>r. (rp_submission_id r, rp_username r)) rs)"

definition projects_key :: "project_row list \<Rightarrow> bool" where
  "projects_key ps \<longleftrightarrow> distinct (map pj_project_id ps)"

definition gateway_certs_key :: "gateway_cert list \<Rightarrow> bool" where
  "gateway_certs_key gs \<longleftrightarrow> distinct (map gc_serial gs)"

definition vm_registry_key :: "vm_entry list \<Rightarrow> bool" where
  "vm_registry_key vs \<longleftrightarrow> distinct (map (\<lambda>v. (vm_role v, vm_participant v)) vs)"

definition schema :: "db \<Rightarrow> bool" where
  "schema d \<longleftrightarrow> contracts_unique (t_contracts d) \<and> final_contracts_key (t_final d) \<and>
     job_participants_key (t_participants d) \<and> notifications_key (t_notifications d) \<and>
     provider_public_keys_key (t_keys d) \<and> removed_providers_key (t_removed d) \<and>
     projects_key (t_projects d) \<and> gateway_certs_key (t_gateway_certs d) \<and> vm_registry_key (t_vms d)"

lemmas schema_defs = schema_def final_contracts_key_def job_participants_key_def notifications_key_def
  provider_public_keys_key_def removed_providers_key_def projects_key_def gateway_certs_key_def
  vm_registry_key_def

text \<open>A database just created.\<close>

definition created :: db where
  "created = \<lparr>t_contracts = [], t_final = [], t_audit = [], t_events = [], t_participants = [],
     t_notifications = [], t_keys = [], t_removed = [], t_projects = [], t_gateway_certs = [], t_vms = []\<rparr>"

lemma distinct_upsert:
  assumes "distinct (map key rs)" and "\<And>x. same r x \<longleftrightarrow> key x = key r" and "\<And>x. key x = key r \<Longrightarrow> key (m r x) = key r"
  shows "distinct (map key (upsert_row same m r rs))"
proof (cases "list_ex (same r) rs")
  case True
  have "map key (upsert_row same m r rs) = map key rs"
    using True assms(2,3) by (simp add: upsert_row_def)
  then show ?thesis using assms(1) by simp
next
  case False
  then show ?thesis using assms(1,2) by (auto simp: upsert_row_def list_ex_iff)
qed

lemma contracts_unique_update:
  assumes "\<And>r. cr_id (f r) = cr_id r \<and> cr_project_id (f r) = cr_project_id r \<and> cr_job_id (f r) = cr_job_id r \<and>
    cr_session_id (f r) = cr_session_id r"
  shows "contracts_unique (update_rows p f rs) = contracts_unique rs"
proof -
  have "List.map_filter cr_job_id (update_rows p f rs) = List.map_filter cr_job_id rs"
    using assms by (induction rs) (simp_all add: update_rows_def List.map_filter_def)
  then show ?thesis using assms by (simp add: contracts_unique_def map_update_rows)
qed


section \<open>Migration\<close>

text \<open>
  Rows of older versions get a job id, drawn for the column only; the unique indexes are created
  after that, which fails on rows that clash. A start whose migration fails goes no further.
\<close>

fun backfill_job_ids :: "world \<Rightarrow> nat \<Rightarrow> contract_row list \<Rightarrow> contract_row list" where
  "backfill_job_ids W n [] = []"
| "backfill_job_ids W n (r # rs) =
     (case cr_job_id r of None \<Rightarrow> r\<lparr>cr_job_id := Some (w_new_id W ''job'' n)\<rparr> | Some j \<Rightarrow> r) #
       backfill_job_ids W (Suc n) rs"

definition migrate :: "world \<Rightarrow> db \<Rightarrow> unit result \<times> db" where
  "migrate W d =
     (let rows = backfill_job_ids W 0 (t_contracts d) in
      case w_fault W (Db ''migrate'' []) of
        Some e \<Rightarrow> (Inl (''migrate: '' @ e), d)
      | None \<Rightarrow>
          if contracts_unique rows then (Inr (), d\<lparr>t_contracts := rows\<rparr>)
          else (Inl ''migrate: could not create unique index'', d))"

text \<open>
  \<^verbatim>\<open>Initialize\<close>: the database is created when it is not there (\<open>None\<close>), then migrated.
\<close>

definition open_step :: "world \<Rightarrow> string \<Rightarrow> string \<Rightarrow> string \<Rightarrow> unit result" where
  "open_step W m dbname msg =
     (case w_fault W (Db m [dbname]) of Some e \<Rightarrow> Inl (msg @ '': '' @ e) | None \<Rightarrow> Inr ())"

definition open_database :: "world \<Rightarrow> string \<Rightarrow> db option \<Rightarrow> unit result \<times> db option" where
  "open_database W dbname s =
     (case and_then (open_step W ''New'' ''postgres'' ''connect to default database'') (\<lambda>u.
           and_then (open_step W ''Ping'' ''postgres'' ''ping default database'') (\<lambda>u.
           open_step W ''pg_database'' dbname ''check database existence'')) of
        Inl e \<Rightarrow> (Inl e, s)
      | Inr u \<Rightarrow>
          (case s of
             Some d \<Rightarrow> (Inr (), Some d)
           | None \<Rightarrow>
               (case open_step W ''CREATE DATABASE'' dbname (''create database '' @ go_quote dbname) of
                  Inl e \<Rightarrow> (Inl e, None) | Inr u \<Rightarrow> (Inr (), Some created))))"

definition initialize :: "world \<Rightarrow> string \<Rightarrow> db option \<Rightarrow> unit result \<times> db option" where
  "initialize W dbname s =
     (case open_database W dbname s of
        (Inr u, Some d) \<Rightarrow>
          (case and_then (open_step W ''New'' dbname ''connect to target database'') (\<lambda>u.
                open_step W ''Ping'' dbname ''ping target database'') of
             Inl e \<Rightarrow> (Inl e, Some d)
           | Inr u \<Rightarrow> (case migrate W d of (r, d) \<Rightarrow> (r, Some d)))
      | (Inr u, None) \<Rightarrow> (Inr (), None)
      | (Inl e, s) \<Rightarrow> (Inl e, s))"

lemma schema_created [simp]: "schema created"
  by (simp add: schema_defs created_def contracts_unique_def List.map_filter_def)

lemma backfill_set: "list_all (\<lambda>r. cr_job_id r \<noteq> None) rs \<Longrightarrow> backfill_job_ids W n rs = rs"
  by (induction rs arbitrary: n) auto

lemma backfill_complete: "list_all (\<lambda>r. cr_job_id r \<noteq> None) (backfill_job_ids W n rs)"
  by (induction rs arbitrary: n) (auto split: option.split)

text \<open>A start that succeeds leaves every row with a job id and no two rows with the same key.\<close>

lemma migrate_keys:
  assumes "migrate W d = (Inr u, d')"
  shows "contracts_unique (t_contracts d') \<and> list_all (\<lambda>r. cr_job_id r \<noteq> None) (t_contracts d')"
  using assms backfill_complete by (auto simp: migrate_def Let_def split: option.splits if_splits)

lemma migrate_again:
  assumes "migrate W d = (Inr u, d')" and "w_fault W' (Db ''migrate'' []) = None"
  shows "migrate W' d' = (Inr (), d')"
  using migrate_keys [OF assms(1)] assms(2) by (simp add: migrate_def backfill_set)

lemma initialize_migrates:
  assumes "initialize W dbname s = (Inr u, Some d')"
  shows "\<exists>d. migrate W d = (Inr (), d') \<and> (s = Some d \<or> s = None \<and> d = created)"
  using assms unfolding initialize_def open_database_def
  by (auto split: sum.splits option.splits prod.splits)

end
