(* ===== verification/Api.thy ===== *)
theory Api
  imports Contract_Edit Job_Requests TEE_Job Negotiation FL_Contracts Gateway General_Contract
    Provider_Keys Consent Schema
begin

text \<open>
  The service as one program: every call that reaches the database through
  \<^verbatim>\<open>httpapi/server.go\<close>, served one after the other, and the CORS headers in front of them. The
  routes that only read, and those on the TEE registries, leave the database as it is.
\<close>

section \<open>CORS\<close>

abbreviation cors_methods :: string where "cors_methods \<equiv> ''GET,POST,OPTIONS''"

definition cors_headers :: "string \<Rightarrow> (string \<times> string) list" where
  "cors_headers origin =
     (if origin = '''' then [(''Access-Control-Allow-Origin'', ''*'')]
      else [(''Access-Control-Allow-Origin'', origin), (''Vary'', ''Origin'')]) @
     [(''Access-Control-Allow-Methods'', cors_methods),
      (''Access-Control-Allow-Headers'', ''Content-Type,Authorization'')]"

text \<open>A preflight is answered with 204 and goes no further.\<close>

definition cors_middleware ::
  "(string \<Rightarrow> 's \<Rightarrow> nat \<times> 's) \<Rightarrow> string \<Rightarrow> string \<Rightarrow> 's \<Rightarrow> (nat \<times> (string \<times> string) list) \<times> 's" where
  "cors_middleware handler verb origin s =
     (if verb = ''OPTIONS'' then ((204, cors_headers origin), s)
      else case handler verb s of (code, s) \<Rightarrow> ((code, cors_headers origin), s))"

section \<open>The calls\<close>

text \<open>
  One constructor per handler that writes, with the \<^verbatim>\<open>Authorization\<close> header, the path parameters
  and the decoded body it reads. The watcher of a started run and a restart on the database of that
  name are the service's own.
\<close>

datatype api_call =
    PutProviderKey string string "string option"
  | PostNotifications "notifications_body option"
  | PatchNotificationRead string "string option"
  | RespondToNotification string "respond_body option"
  | HandleContract "submission option"
  | PostContract "contract_body option"
  | HandleGenerateContract string "generate_request option"
  | HandleSignContract string string "sign_body option"
  | HandleWithdrawConsent string string "string option"
  | HandleSetConsentExpiry string string "string option"
  | EditContract string string "edit_body option"
  | HandleDataProviderApproval string "approval_body option"
  | HandleInfraProviderApproval string "approval_body option"
  | GetJobStatus string string
  | PostGatewayCert string "gateway_body option"
  | EnableJobTee string string
  | PostVMRegistry string "(string \<times> string \<times> string) option"
  | RunTeeJob "string option"
  | GetTeeJob string
  | WatchTeeRun string time "world list"
  | Restart string

section \<open>The routing table\<close>

text \<open>Method, pattern and handler of every route, in the order they are registered.\<close>

definition api_routes :: "(string \<times> string \<times> string) list" where
  "api_routes =
     [(''GET'', ''/data-providers'', ''getDataProviders''),
      (''PUT'', ''/provider-keys/{role}'', ''putProviderKey''),
      (''GET'', ''/provider-keys/{role}/status'', ''getProviderKeyStatus''),
      (''POST'', ''/send-provider-message'', ''sendProviderMessage''),
      (''POST'', ''/notifications'', ''postNotifications''),
      (''GET'', ''/notifications/by-sender/{key}'', ''getNotificationsBySender''),
      (''GET'', ''/notifications/{key}'', ''getNotifications''),
      (''PATCH'', ''/notifications/{key}/read'', ''patchNotificationRead''),
      (''POST'', ''/notifications/{key}/respond'', ''respondToNotification''),
      (''GET'', ''/sessions/{submissionId}/removed-providers'', ''getRemovedProviders''),
      (''POST'', ''/contract'', ''handleContract''),
      (''GET'', ''/contract/{sessionId}'', ''getContract''),
      (''POST'', ''/contracts'', ''postContract''),
      (''GET'', ''/contracts/by-project/{projectId}'', ''getContractByProject''),
      (''GET'', ''/projects/{sessionId}'', ''getProject''),
      (''GET'', ''/projects'', ''getProjects''),
      (''POST'', ''/generate-contract'', ''handleGenerateContract''),
      (''POST'', ''/contracts/{contractId}/sign'', ''handleSignContract''),
      (''POST'', ''/contracts/{contractId}/withdraw-consent'', ''handleWithdrawConsent''),
      (''POST'', ''/contracts/{contractId}/consent-expiry'', ''handleSetConsentExpiry''),
      (''GET'', ''/contracts/{contractId}'', ''getConsumerContract''),
      (''GET'', ''/contracts/{contractId}/signatures'', ''getContractSignatures''),
      (''PUT'', ''/contracts/{contractId}'', ''editContract''),
      (''GET'', ''/workloads'', ''listWorkloads''),
      (''GET'', ''/contracts/by-session/{sessionId}/signatures'', ''getSessionContractSignatures''),
      (''POST'', ''/job/approval/data-provider'', ''handleDataProviderApproval''),
      (''POST'', ''/job/approval/infra-provider'', ''handleInfraProviderApproval''),
      (''GET'', ''/job/{jobId}/status'', ''getJobStatus''),
      (''POST'', ''/gateway-certs'', ''postGatewayCert''),
      (''GET'', ''/governance/ca-cert'', ''getGovernanceCACert''),
      (''POST'', ''/job/{jobId}/tee'', ''enableJobTEE''),
      (''GET'', ''/job/{jobId}/contract/{contractId}'', ''getJobContract''),
      (''GET'', ''/jobs/user/{userId}'', ''getUserJobs''),
      (''GET'', ''/jobs/consumer/{userId}'', ''getConsumerJobs''),
      (''GET'', ''/jobs/provider/{userId}'', ''getProviderJobs''),
      (''GET'', ''/final-models'', ''getFinalModels''),
      (''GET'', ''/final-model/download'', ''getFinalModelDownload''),
      (''GET'', ''/final-model/summary'', ''getFinalModelSummary''),
      (''POST'', ''/fl-output/{submissionId}'', ''postFLOutput''),
      (''GET'', ''/fl-output/{submissionId}'', ''getFLOutput''),
      (''GET'', ''/fl-output/{submissionId}/download'', ''getFLOutputDownload''),
      (''POST'', ''/vm-registry'', ''postVMRegistry''),
      (''GET'', ''/vm-registry/output-owner'', ''getOutputOwnerVM''),
      (''GET'', ''/vm-registry/data-providers'', ''getDataProviderVMs'')]"

definition tee_routes :: "(string \<times> string \<times> string) list" where
  "tee_routes =
     [(''POST'', ''/v1/tee/provision'', ''provisionTEE''),
      (''POST'', ''/v1/tee/run'', ''runTEEJob''),
      (''GET'', ''/v1/tee/jobs/{jobId}'', ''getTEEJob''),
      (''GET'', ''/v1/tee/jobs/{jobId}/result'', ''getTEEJobResult''),
      (''GET'', ''/v1/tee/{teeId}/state'', ''teeState''),
      (''POST'', ''/v1/tee/{teeId}/attest'', ''attestTEE''),
      (''POST'', ''/v1/tee/{teeId}/run'', ''runTEE''),
      (''GET'', ''/v1/tee/{teeId}/output'', ''teeOutput''),
      (''DELETE'', ''/v1/tee/{teeId}/terminate'', ''terminateTEE''),
      (''POST'', ''/v1/tee/{teeId}/key-bundle'', ''teeKeyBundle'')]"

definition tee_session_routes :: "(string \<times> string \<times> string) list" where
  "tee_session_routes =
     [(''POST'', ''/v1/tee/sessions/'', ''startTEESession''),
      (''GET'', ''/v1/tee/sessions/{sessionId}/'', ''getTEESession''),
      (''GET'', ''/v1/tee/sessions/{sessionId}/output'', ''getTEESessionOutput''),
      (''DELETE'', ''/v1/tee/sessions/{sessionId}/'', ''terminateTEESession'')]"

definition api_docs_routes :: "(string \<times> string \<times> string) list" where
  "api_docs_routes = [(''GET'', ''/apis'', ''apiDocsPage''), (''GET'', ''/apis/'', ''apiDocsPage''),
     (''GET'', ''/apis/spec'', ''apiDocsSpec'')]"

text \<open>The API under both of its prefixes, the TEE routes and the docs at the root.\<close>

definition mounted_at :: "string \<Rightarrow> (string \<times> string \<times> string) list \<Rightarrow> (string \<times> string \<times> string) list" where
  "mounted_at pre rs = map (\<lambda>(m, p, h). (m, pre @ p, h)) rs"

definition all_routes :: "(string \<times> string \<times> string) list" where
  "all_routes = mounted_at ''/api/v1'' api_routes @ mounted_at ''/governance'' api_routes @
     tee_routes @ tee_session_routes @ api_docs_routes"

text \<open>The handler that serves a call.\<close>

fun handler_of :: "api_call \<Rightarrow> string" where
  "handler_of (PutProviderKey r a b) = ''putProviderKey''"
| "handler_of (PostNotifications b) = ''postNotifications''"
| "handler_of (PatchNotificationRead n b) = ''patchNotificationRead''"
| "handler_of (RespondToNotification n b) = ''respondToNotification''"
| "handler_of (HandleContract sb) = ''handleContract''"
| "handler_of (PostContract cb) = ''postContract''"
| "handler_of (HandleGenerateContract a gb) = ''handleGenerateContract''"
| "handler_of (HandleSignContract a i s) = ''handleSignContract''"
| "handler_of (HandleWithdrawConsent a i b) = ''handleWithdrawConsent''"
| "handler_of (HandleSetConsentExpiry a i b) = ''handleSetConsentExpiry''"
| "handler_of (EditContract a i e) = ''editContract''"
| "handler_of (HandleDataProviderApproval a ab) = ''handleDataProviderApproval''"
| "handler_of (HandleInfraProviderApproval a ab) = ''handleInfraProviderApproval''"
| "handler_of (GetJobStatus a j) = ''getJobStatus''"
| "handler_of (PostGatewayCert a gwb) = ''postGatewayCert''"
| "handler_of (EnableJobTee a j) = ''enableJobTEE''"
| "handler_of (PostVMRegistry h vb) = ''postVMRegistry''"
| "handler_of (RunTeeJob b) = ''runTEEJob''"
| "handler_of (GetTeeJob j) = ''getTEEJob''"
| "handler_of (WatchTeeRun j t Ws) = ''watchTEERun''"
| "handler_of (Restart n) = ''Initialize''"

definition routed :: "api_call \<Rightarrow> (string \<times> string) list" where
  "routed c = map (\<lambda>(m, p, h). (m, p)) (filter (\<lambda>(m, p, h). h = handler_of c) all_routes)"



text \<open>
  The preflight answer does not offer the methods that two edits and the read mark are registered
  under, so a browser on another origin does not send them.
\<close>

lemma put_not_offered:
  "(''PUT'', ''/api/v1/provider-keys/{role}'') \<in> set (routed (PutProviderKey r a b))"
  "(''PUT'', ''/api/v1/contracts/{contractId}'') \<in> set (routed (EditContract a i e))"
  "(''PATCH'', ''/api/v1/notifications/{key}/read'') \<in> set (routed (PatchNotificationRead n b))"
  "\<not> contains cors_methods ''PUT''" "\<not> contains cors_methods ''PATCH''"
  by code_simp+

lemma preflight_stops: "cors_middleware h ''OPTIONS'' origin s = ((204, cors_headers origin), s)"
  by (simp add: cors_middleware_def)

section \<open>Serving\<close>

text \<open>A served call: what it asks, and the world and host it meets.\<close>

record request =
  rq_call :: api_call
  rq_world :: world
  rq_host :: host

text \<open>The service: the server, its X.509 library, whether the CA is loaded, the VM registry secret.\<close>

record service =
  sv_server :: server
  sv_x509 :: x509_lib
  sv_has_ca :: bool
  sv_vm_registry_token :: string

definition serve :: "service \<Rightarrow> request \<Rightarrow> db \<Rightarrow> db" where
  "serve V q d =
     (let S = sv_server V; W = rq_world q in
      case rq_call q of
        PutProviderKey role auth body \<Rightarrow> snd (put_provider_key S W role auth body d)
      | PostNotifications body \<Rightarrow> snd (post_notifications W body d)
      | PatchNotificationRead nid body \<Rightarrow> snd (patch_notification_read W nid body d)
      | RespondToNotification nid body \<Rightarrow> snd (respond_to_notification W nid body d)
      | HandleContract body \<Rightarrow> snd (handle_contract S W (rq_host q) body d)
      | PostContract body \<Rightarrow> snd (post_contract S W body d)
      | HandleGenerateContract auth body \<Rightarrow> snd (handle_generate_contract S W auth body d)
      | HandleSignContract auth cid body \<Rightarrow> snd (handle_sign_contract S W auth cid body d)
      | HandleWithdrawConsent auth cid body \<Rightarrow> snd (withdraw_consent S W auth cid body d)
      | HandleSetConsentExpiry auth cid body \<Rightarrow> snd (set_consent_expiry S W auth cid body d)
      | EditContract auth cid body \<Rightarrow> snd (edit_contract S W auth cid body d)
      | HandleDataProviderApproval auth body \<Rightarrow> snd (handle_data_provider_approval S W auth body d)
      | HandleInfraProviderApproval auth body \<Rightarrow> snd (handle_infra_provider_approval S W auth body d)
      | GetJobStatus auth job_id \<Rightarrow> snd (get_job_status S W auth job_id d)
      | PostGatewayCert auth body \<Rightarrow> snd (post_gateway_cert S W (sv_x509 V) (sv_has_ca V) auth body d)
      | EnableJobTee auth job_id \<Rightarrow> snd (enable_job_tee S W auth job_id d)
      | PostVMRegistry header body \<Rightarrow>
          if require_vm_registry_token (sv_vm_registry_token V) header \<noteq> None then d
          else snd (post_vm_registry W body d)
      | RunTeeJob body \<Rightarrow> snd (run_tee_job S W body d)
      | GetTeeJob coord_job \<Rightarrow> snd (get_tee_job S W coord_job d)
      | WatchTeeRun coord_job start Ws \<Rightarrow> watch_tee_run S coord_job start Ws d
      | Restart dbname \<Rightarrow> (case snd (initialize W dbname (Some d)) of None \<Rightarrow> d | Some d \<Rightarrow> d))"

text \<open>The database after a run of requests.\<close>

definition serve_all :: "service \<Rightarrow> request list \<Rightarrow> db \<Rightarrow> db" where
  "serve_all V qs d = fold (serve V) qs d"

lemma serve_all_Nil [simp]: "serve_all V [] d = d"
  by (simp add: serve_all_def)

lemma serve_all_Cons [simp]: "serve_all V (q # qs) d = serve_all V qs (serve V q d)"
  by (simp add: serve_all_def)

lemma serve_all_append: "serve_all V (qs @ rs) d = serve_all V rs (serve_all V qs d)"
  by (simp add: serve_all_def)

end
