(* ===== verification/Statements.thy ===== *)
theory Statements
  imports Api
begin

text \<open>
  What the service does to the database, statement by statement: every call is a sequence of the
  write statements of \<^verbatim>\<open>internal/db\<close>. What each statement keeps is kept by every call, and by
  every interleaving of calls served at the same time.
\<close>

section \<open>The statements\<close>

text \<open>Every statement, and the migration, but the one that registers a public key.\<close>

inductive statement :: "db \<Rightarrow> db \<Rightarrow> bool" where
  UpdateContract: "statement d (snd (update_contract_by_contract_id W cid raw d))"
| StoreContract: "statement d (snd (store_contract W c fin path d))"
| StoreGenerated: "statement d (snd (store_generated_contract W u ids tq cid job_id raw d))"
| MarkSent: "statement d (snd (mark_sign_requests_sent W job_id d))"
| MarkFinal: "statement d (snd (mark_job_final W job_id d))"
| EnableTee: "statement d (snd (enable_job_tee_row W job_id d))"
| MarkTee: "statement d (snd (mark_contract_tee_enabled W cid d))"
| CreateFinal: "statement d (snd (create_final_contract W job_id cid h raw d))"
| InsertAudit: "statement d (snd (insert_audit_entries W es d))"
| AddEvent: "statement d (snd (add_contract_event W cid job_id ev detail actor d))"
| ReplaceParticipants: "statement d (snd (replace_job_participants W job_id rows d))"
| SetParticipantStatus: "statement d (snd (set_job_participant_status W job_id role pid item st uid un d))"
| SetJobStatus: "statement d (snd (set_job_status W job_id st d))"
| CreateNotification: "statement d (snd (create_notification W rid un sender msg payload d))"
| RespondNotification: "statement d (snd (respond_to_notification_row W nid un resp msg d))"
| MarkRead: "statement d (snd (mark_notification_as_read W nid un d))"
| SupersedeRequests: "statement d (snd (supersede_contract_sign_requests W cid d))"
| RemoveProvider: "statement d (snd (remove_provider_row W sub un reason d))"
| SignParty: "statement d (snd (sign_data_provider_party W sid un d))"
| UpsertProject: "statement d (snd (upsert_project W pid sid owner ps d))"
| InsertCert: "statement d (snd (insert_gateway_cert W g d))"
| UpsertVM: "statement d (snd (upsert_vm_registry W role part ip d))"
| Migrate: "statement d (snd (migrate W d))"

inductive_cases statementE: "statement d d'"

abbreviation writes :: "db \<Rightarrow> db \<Rightarrow> bool" where
  "writes \<equiv> statement\<^sup>*\<^sup>*"

lemma writes_statement: "statement d d' \<Longrightarrow> writes d0 d \<Longrightarrow> writes d0 d'"
  by (rule rtranclp.rtrancl_into_rtrancl)

lemmas writes_ops = statement.intros [THEN writes_statement]

text \<open>
  How a handler's result is reached: one rule per way the handlers thread the database, so that a
  handler is taken apart along its own text.
\<close>

lemma wp_pair: "writes d0 d \<Longrightarrow> writes d0 (snd (x, d))"
  by simp

lemma wp_bind:
  "writes d0 (snd p) \<Longrightarrow> (\<And>x d. writes d0 d \<Longrightarrow> writes d0 (snd (f x d))) \<Longrightarrow> writes d0 (snd (case p of (x, d) \<Rightarrow> f x d))"
  by (cases p) simp

lemma wp_bind_db:
  "writes d0 (snd p) \<Longrightarrow> (\<And>x d. writes d0 d \<Longrightarrow> writes d0 (f x d)) \<Longrightarrow> writes d0 (case p of (x, d) \<Rightarrow> f x d)"
  by (cases p) simp

lemma wp_bind3:
  "writes d0 (snd (snd p)) \<Longrightarrow> (\<And>x y d. writes d0 d \<Longrightarrow> writes d0 (snd (f x y d))) \<Longrightarrow>
   writes d0 (snd (case p of (x, y, d) \<Rightarrow> f x y d))"
  by (cases p) simp

lemma wp_let_pair:
  "writes d0 (snd p) \<Longrightarrow> (\<And>x d. writes d0 d \<Longrightarrow> writes d0 (snd (f x d))) \<Longrightarrow>
   writes d0 (snd (let (x, d) = p in f x d))"
  by (cases p) (simp add: Let_def)

lemma wp_let_db:
  "writes d0 v \<Longrightarrow> (\<And>d. writes d0 d \<Longrightarrow> writes d0 (snd (f d))) \<Longrightarrow> writes d0 (snd (let d = v in f d))"
  by (simp add: Let_def)

lemma wp_let_db_db:
  "writes d0 v \<Longrightarrow> (\<And>d. writes d0 d \<Longrightarrow> writes d0 (f d)) \<Longrightarrow> writes d0 (let d = v in f d)"
  by (simp add: Let_def)

lemma wp_let: "(\<And>x. writes d0 (snd (f x))) \<Longrightarrow> writes d0 (snd (let x = v in f x))"
  by (simp add: Let_def)

lemma wp_let': "(\<And>x. writes d0 (f x)) \<Longrightarrow> writes d0 (let x = v in f x)"
  by (simp add: Let_def)

lemma wp_prod: "(\<And>x y. writes d0 (snd (f x y))) \<Longrightarrow> writes d0 (snd (case p of (x, y) \<Rightarrow> f x y))"
  by (cases p) simp

lemma wp_prod': "(\<And>x y. writes d0 (f x y)) \<Longrightarrow> writes d0 (case p of (x, y) \<Rightarrow> f x y)"
  by (cases p) simp

lemma wp_sum:
  "(\<And>e. writes d0 (snd (f e))) \<Longrightarrow> (\<And>x. writes d0 (snd (g x))) \<Longrightarrow>
   writes d0 (snd (case s of Inl e \<Rightarrow> f e | Inr x \<Rightarrow> g x))"
  by (cases s) simp_all

lemma wp_sum': "(\<And>e. writes d0 (f e)) \<Longrightarrow> (\<And>x. writes d0 (g x)) \<Longrightarrow> writes d0 (case s of Inl e \<Rightarrow> f e | Inr x \<Rightarrow> g x)"
  by (cases s) simp_all

lemma wp_option:
  "writes d0 (snd f) \<Longrightarrow> (\<And>x. writes d0 (snd (g x))) \<Longrightarrow> writes d0 (snd (case s of None \<Rightarrow> f | Some x \<Rightarrow> g x))"
  by (cases s) simp_all

lemma wp_option': "writes d0 f \<Longrightarrow> (\<And>x. writes d0 (g x)) \<Longrightarrow> writes d0 (case s of None \<Rightarrow> f | Some x \<Rightarrow> g x)"
  by (cases s) simp_all

lemma wp_bool: "writes d0 (snd f) \<Longrightarrow> writes d0 (snd g) \<Longrightarrow> writes d0 (snd (case b of True \<Rightarrow> f | False \<Rightarrow> g))"
  by (cases b) simp_all

lemma wp_bool': "writes d0 f \<Longrightarrow> writes d0 g \<Longrightarrow> writes d0 (case b of True \<Rightarrow> f | False \<Rightarrow> g)"
  by (cases b) simp_all

lemma wp_if: "writes d0 (snd f) \<Longrightarrow> writes d0 (snd g) \<Longrightarrow> writes d0 (snd (if b then f else g))"
  by simp

lemma wp_if': "writes d0 f \<Longrightarrow> writes d0 g \<Longrightarrow> writes d0 (if b then f else g)"
  by simp

lemma wp_fold: "(\<And>x d. writes d0 d \<Longrightarrow> writes d0 (f x d)) \<Longrightarrow> writes d0 d \<Longrightarrow> writes d0 (fold f xs d)"
  by (induction xs arbitrary: d) simp_all

lemmas wp = wp_pair wp_bind3 wp_bind wp_bind_db wp_let_pair wp_let_db wp_let_db_db wp_let wp_let' wp_sum wp_sum'
  wp_option wp_option' wp_bool wp_bool' wp_if wp_if' wp_prod wp_prod' wp_fold writes_ops

section \<open>The steps the handlers share\<close>

lemma wp_event: "writes d0 d \<Longrightarrow> writes d0 (record_contract_event S W c ev detail actor d)"
  unfolding record_contract_event_def by (assumption | rule wp)+

lemma wp_marks:
  "writes d0 d \<Longrightarrow> writes d0 (mark_participant_status W c p u n st d)"
  "writes d0 d \<Longrightarrow> writes d0 (mark_signed_participant W c p u n d)"
  "writes d0 d \<Longrightarrow> writes d0 (mark_job_participants W j st d)"
  "writes d0 d \<Longrightarrow> writes d0 (mark_approval_participants W kind j own caller d)"
  unfolding mark_signed_participant_def mark_participant_status_def mark_job_participants_def
    mark_approval_participants_def
  by (assumption | rule wp)+

lemma wp_notify_signers: "writes d0 (snd acc) \<Longrightarrow> writes d0 (snd (notify_signers W c s v pem seen ps acc))"
proof (induction ps arbitrary: seen acc)
  case (Cons p ps)
  obtain sent d where acc: "acc = (sent, d)" by (cases acc)
  have "writes d0 d" using Cons.prems by (simp add: acc)
  then show ?case unfolding acc notify_signers.simps by - (assumption | rule Cons.IH wp)+
qed simp

lemma wp_notify:
  "writes d0 d \<Longrightarrow> writes d0 (snd (notify_contract_signers S W c s d))"
  "writes d0 d \<Longrightarrow> writes d0 (snd (send_sign_requests_once S W c s d))"
  unfolding send_sign_requests_once_def notify_contract_signers_def
  by (assumption | rule wp_notify_signers wp)+

lemma wp_send_job_requests: "writes d0 (snd acc) \<Longrightarrow> writes d0 (snd (send_job_requests W c h s rs acc))"
proof (induction rs arbitrary: acc)
  case (Cons r rs)
  obtain sent d where acc: "acc = (sent, d)" by (cases acc)
  have "writes d0 d" using Cons.prems by (simp add: acc)
  then show ?case unfolding acc send_job_requests.simps by - (assumption | rule Cons.IH wp)+
qed simp

lemma wp_job_requests:
  "writes d0 d \<Longrightarrow> writes d0 (snd (notify_job_request S W c s d))"
  "writes d0 d \<Longrightarrow> writes d0 (record_job_participants W c u d)"
  unfolding notify_job_request_def record_job_participants_def
  by (assumption | rule wp_send_job_requests wp)+

lemma wp_stored:
  "writes d0 d \<Longrightarrow> writes d0 (snd (store_job_contract W c d))"
  "writes d0 d \<Longrightarrow> writes d0 (snd (sign_approved_items W kind c own signer hash v d))"
  "writes d0 d \<Longrightarrow> writes d0 (snd (seal_contract S W c d))"
  unfolding sign_approved_items_def seal_contract_def store_job_contract_def
  by (assumption | rule wp)+

lemma wp_record_approval: "writes d0 d \<Longrightarrow> writes d0 (snd (record_job_approval S W kind j c es own caller b d))"
  unfolding record_job_approval_def save_job_approval_def by (assumption | rule wp_stored wp)+

lemma wp_finalize:
  "writes d0 d \<Longrightarrow> writes d0 (snd (finalize_job S W j c d))"
  "writes d0 d \<Longrightarrow> writes d0 (snd (approve_job S W j c st parties d))"
  unfolding approve_job_def finalize_job_def by (assumption | rule wp_stored wp_marks wp)+

lemma wp_runs:
  "writes d0 d \<Longrightarrow> writes d0 (refuse_run S W oc e d)"
  "writes d0 d \<Longrightarrow> writes d0 (record_started S W cid c k d)"
  "writes d0 d \<Longrightarrow> writes d0 (snd (start_run S W cid c d))"
  "writes d0 d \<Longrightarrow> writes d0 (snd (settle_tee_run S W raw d))"
  unfolding start_run_def refuse_run_def record_started_def settle_tee_run_def
  by (assumption | rule wp_event wp_marks wp)+

lemma wp_watch: "writes d0 d \<Longrightarrow> writes d0 (watch_polls S k deadline Ws d)"
proof (induction Ws arbitrary: d)
  case (Cons W Ws)
  show ?case
    unfolding watch_polls.simps
    using Cons.prems by - (assumption | rule wp_runs(4) Cons.IH wp)+
qed simp

lemma wp_negotiation:
  "writes d0 d \<Longrightarrow> writes d0 (try_notify W rid u s m p d)"
  "writes d0 d \<Longrightarrow> writes d0 (send_updates W sub oo u owner msg rm wl ps d)"
proof -
  show t: "writes d0 d \<Longrightarrow> writes d0 (try_notify W rid u s m p d)" for rid u s m p d
    unfolding try_notify_def by (assumption | rule wp)+
  show "writes d0 d \<Longrightarrow> writes d0 (send_updates W sub oo u owner msg rm wl ps d)"
  proof (induction ps arbitrary: d)
    case (Cons p ps)
    from Cons.prems show ?case unfolding send_updates.simps Let_def by - (assumption | rule Cons.IH t)+
  qed simp
qed

lemma wp_removal:
  "writes d0 d \<Longrightarrow> writes d0 (snd (remove_provider_from_session W n sub oo reason d))"
  unfolding remove_provider_from_session_def removal_messages_def
  by (assumption | rule wp_negotiation wp)+

lemma wp_send: "writes d0 d \<Longrightarrow> writes d0 (snd (send_notifications W b removed rs acc d))"
proof (induction rs arbitrary: acc d)
  case Nil
  then show ?case by (cases acc) simp
next
  case (Cons r rs)
  obtain sent skipped where acc: "acc = (sent, skipped)" by (cases acc)
  obtain rid u where r: "r = (rid, u)" by (cases r)
  show ?case unfolding acc r send_notifications.simps using Cons.prems by - (assumption | rule Cons.IH wp)+
qed

lemma wp_store_submitted: "writes d0 d \<Longrightarrow> writes d0 (store_submitted S W doc p d)"
  unfolding store_submitted_def by (assumption | rule wp)+

section \<open>The handlers\<close>

lemma wp_sign_contract: "writes d0 d \<Longrightarrow> writes d0 (snd (sign_contract S W auth cid body d))"
  unfolding sign_contract_def sign_finish_def by (assumption | rule wp_event wp_marks wp)+

lemma wp_announce: "writes d0 d \<Longrightarrow> writes d0 (snd (announce_expiry S W cid signer until again c d))"
  unfolding announce_expiry_def by (assumption | rule wp_event wp_marks wp_notify wp)+

lemma wp_contract_handlers:
  "writes d0 d \<Longrightarrow> writes d0 (snd (handle_sign_contract S W auth cid sb d))"
  "writes d0 d \<Longrightarrow> writes d0 (snd (withdraw_consent S W auth cid nid d))"
  "writes d0 d \<Longrightarrow> writes d0 (snd (set_consent_expiry S W auth cid until d))"
  "writes d0 d \<Longrightarrow> writes d0 (snd (edit_contract S W auth cid eb d))"
  unfolding handle_sign_contract_def withdraw_consent_def withdraw_finish_def set_consent_expiry_def expiry_finish_def edit_contract_def edit_finish_def
  by (assumption | rule wp_event wp_marks wp_sign_contract wp_announce wp)+

lemma wp_job_handlers:
  "writes d0 d \<Longrightarrow> writes d0 (snd (handle_data_provider_approval S W auth ab d))"
  "writes d0 d \<Longrightarrow> writes d0 (snd (handle_infra_provider_approval S W auth ab d))"
  "writes d0 d \<Longrightarrow> writes d0 (snd (get_job_status S W auth j d))"
  "writes d0 d \<Longrightarrow> writes d0 (snd (enable_job_tee S W auth j d))"
  unfolding handle_data_provider_approval_def data_approval_finish_def handle_infra_provider_approval_def infra_approval_finish_def get_job_status_def status_reads_def
    enable_job_tee_def
  by (assumption | rule wp_record_approval wp_finalize wp_marks wp)+

lemma wp_run_handlers:
  "writes d0 d \<Longrightarrow> writes d0 (snd (run_tee_job S W rb d))"
  "writes d0 d \<Longrightarrow> writes d0 (snd (get_tee_job S W k d))"
  "writes d0 d \<Longrightarrow> writes d0 (watch_tee_run S k start Ws d)"
  unfolding run_tee_job_def get_tee_job_def watch_tee_run_def
  by (assumption | rule wp_runs wp_watch wp)+

lemma wp_generate:
  "writes d0 d \<Longrightarrow> writes d0 (snd (snd (request_signatures S W c st u d)))"
  "writes d0 d \<Longrightarrow> writes d0 (snd (publish_generated S W claims key c d))"
  "writes d0 d \<Longrightarrow> writes d0 (snd (handle_generate_contract S W auth gb d))"
proof -
  show r: "writes d0 d \<Longrightarrow> writes d0 (snd (snd (request_signatures S W c st u d)))" for S W c st u d
    using wp_notify(2) [of d0 d S W c u] wp_event [of d0 _ S W "Some c"]
    by (auto simp: request_signatures_def split: prod.split)
  show p: "writes d0 d \<Longrightarrow> writes d0 (snd (publish_generated S W claims key c d))" for S W claims key c d
    unfolding publish_generated_def by (assumption | rule r wp_event wp_job_requests wp)+
  show "writes d0 d \<Longrightarrow> writes d0 (snd (handle_generate_contract S W auth gb d))"
    unfolding handle_generate_contract_def by (assumption | rule p wp)+
qed

lemma wp_submission:
  "writes d0 d \<Longrightarrow> writes d0 (snd (handle_fl_contract S W doc d))"
  "writes d0 d \<Longrightarrow> writes d0 (snd (deploy_general S W H doc sig priv i d))"
  "writes d0 d \<Longrightarrow> writes d0 (snd (handle_general_contract S W H doc sig claims d))"
  "writes d0 d \<Longrightarrow> writes d0 (snd (handle_contract S W H sm d))"
  unfolding handle_contract_def handle_general_contract_def handle_fl_contract_def deploy_general_def
  by (assumption | rule wp_store_submitted wp)+

lemma wp_other_handlers:
  "writes d0 d \<Longrightarrow> writes d0 (snd (post_contract S W cb d))"
  "writes d0 d \<Longrightarrow> writes d0 (snd (post_gateway_cert S W X ca auth gwb d))"
  "writes d0 d \<Longrightarrow> writes d0 (snd (post_notifications W nb d))"
  "writes d0 d \<Longrightarrow> writes d0 (snd (respond_to_notification W nid rb d))"
  "writes d0 d \<Longrightarrow> writes d0 (snd (patch_notification_read W nid u d))"
  "writes d0 d \<Longrightarrow> writes d0 (snd (post_vm_registry W vb d))"
  unfolding post_contract_def post_gateway_cert_def post_notifications_def respond_to_notification_def
    patch_notification_read_def post_vm_registry_def
  by (assumption | rule wp_notify wp_send wp_removal wp)+

lemma wp_restart: "writes d0 d \<Longrightarrow> writes d0 (case snd (initialize W n (Some d)) of None \<Rightarrow> d | Some d \<Rightarrow> d)"
  using writes_statement [OF Migrate, of d0 d W]
  by (auto simp: initialize_def open_database_def split: sum.split prod.split)

lemmas wp_handlers = wp_contract_handlers wp_job_handlers wp_run_handlers wp_generate(3)
  wp_submission(4) wp_other_handlers wp_restart

definition registers_key :: "api_call \<Rightarrow> bool" where
  "registers_key q = (case q of PutProviderKey role auth body \<Rightarrow> True | _ \<Rightarrow> False)"

text \<open>Every call but a key registration is a sequence of statements.\<close>

theorem serve_writes: "\<not> registers_key (rq_call q) \<Longrightarrow> writes d (serve V q d)"
  by (cases "rq_call q") (simp_all add: serve_def Let_def registers_key_def wp_handlers)

text \<open>A key registration writes one key, of the user its token names, or nothing.\<close>

lemma serve_key:
  assumes "rq_call q = PutProviderKey role auth body"
  shows "serve V q d = d \<or> (\<exists>i pem n fp. body = Some pem \<and>
    provider_from_token (sv_server V) (rq_world q) role auth = Inr i \<and>
    normalise_provider_key (srv_crypto (sv_server V)) pem = Inr (n, fp) \<and>
    serve V q d = snd (upsert_provider_public_key (rq_world q) (pi_username i) (pi_user_id i) role n fp d))"
  unfolding serve_def put_provider_key_def assms
  by (auto simp: Let_def split: sum.split prod.splits)

end
