(* ===== verification/System.thy ===== *)
theory System
  imports Statements Gate General_Facts "HOL-Library.Sublist"
begin

text \<open>
  What holds of the service whatever calls it serves: the tables keep the keys their schema
  declares (\<^verbatim>\<open>db.go\<close>, \<^verbatim>\<open>migrate\<close>), the histories only grow, and every public key was
  registered by its own user, so that no run starts without every provider having signed with a key
  they registered themselves.
\<close>

section \<open>From the statements to the service\<close>

text \<open>
  What every statement and every key registration does to the database, a service that serves any
  calls does: the interface between the statements and the properties of the service.
\<close>

locale kept =
  fixes R :: "db \<Rightarrow> db \<Rightarrow> bool"
  assumes refl: "R d d"
    and trans: "R a b \<Longrightarrow> R b c \<Longrightarrow> R a c"
    and by_statement: "statement d d' \<Longrightarrow> R d d'"
    and by_key: "R d (snd (upsert_provider_public_key W un uid role pem fp d))"
begin

lemma by_writes: "writes d d' \<Longrightarrow> R d d'"
  by (induction rule: rtranclp_induct) (blast intro: refl trans by_statement)+

lemma by_call: "R d (serve V q d)"
proof (cases "registers_key (rq_call q)")
  case True
  then obtain role auth body where "rq_call q = PutProviderKey role auth body"
    by (cases "rq_call q") (auto simp: registers_key_def)
  from serve_key [OF this, of V d] show ?thesis using refl [of d] by_key by auto
qed (auto intro: by_writes serve_writes)

lemma by_service: "R d (serve_all V qs d)"
proof (induction qs arbitrary: d)
  case (Cons q qs)
  show ?case using trans [OF by_call Cons.IH] by simp
qed (simp add: refl)

end

section \<open>The schema is kept\<close>

lemma contract_statements_schema:
  assumes "schema d"
  shows "schema (snd (update_contract_by_contract_id W cid raw d))"
    and "schema (snd (mark_sign_requests_sent W j d))" and "schema (snd (mark_job_final W j d))"
    and "schema (snd (enable_job_tee_row W j d))" and "schema (snd (mark_contract_tee_enabled W cid d))"
    and "schema (snd (sign_data_provider_party W sid un d))" and "schema (snd (migrate W d))"
  using assms
  by (simp_all add: schema_def update_contract_by_contract_id_def mark_sign_requests_sent_def mark_job_final_def
      enable_job_tee_row_def mark_contract_tee_enabled_def sign_data_provider_party_def db_write_def Let_def
      migrate_def contracts_unique_update put_document_def split: option.split)

lemma store_statements_schema:
  assumes "schema d"
  shows "schema (snd (store_contract W c fin path d))"
    and "schema (snd (store_generated_contract W u ids tq cid j raw d))"
proof -
  have s: "schema (snd (store_contract_rows W m i rows d))" for m i rows
    using assms by (simp add: schema_def store_contract_rows_def db_write_def split: option.split)
  show "schema (snd (store_contract W c fin path d))"
    using assms by (simp add: store_contract_def Let_def s split: sum.split)
  show "schema (snd (store_generated_contract W u ids tq cid j raw d))"
    by (simp add: store_generated_contract_def Let_def s)
qed

lemma log_statements_schema:
  assumes "schema d"
  shows "schema (snd (create_final_contract W j cid h raw d))" and "schema (snd (insert_audit_entries W es d))"
    and "schema (snd (add_contract_event W cid j ev detail actor d))"
    and "schema (snd (create_notification W rid un sender msg pl d))"
    and "schema (snd (remove_provider_row W sub un reason d))" and "schema (snd (insert_gateway_cert W g d))"
  using assms
  by (auto simp: schema_defs create_final_contract_def insert_audit_entries_def add_contract_event_def
      create_notification_def remove_provider_row_def is_removed_def insert_gateway_cert_def db_write_def Let_def
      list_ex_iff split: option.split)

lemma update_statements_schema:
  assumes "schema d"
  shows "schema (snd (set_job_participant_status W j role pid item st uid un d))"
    and "schema (snd (set_job_status W j st d))"
    and "schema (snd (respond_to_notification_row W nid un resp msg d))"
    and "schema (snd (mark_notification_as_read W nid un d))"
    and "schema (snd (supersede_contract_sign_requests W cid d))"
  using assms
  by (simp_all add: schema_defs set_job_participant_status_def set_job_status_def respond_to_notification_row_def
      mark_notification_as_read_def supersede_contract_sign_requests_def answer_notification_def db_write_def Let_def
      map_update_rows participant_key_def split: option.split)

lemma upsert_statements_schema:
  assumes "schema d"
  shows "schema (snd (upsert_project W pid sid owner ps d))" and "schema (snd (upsert_vm_registry W role part ip d))"
    and "schema (snd (upsert_provider_public_key W un uid role2 pem fp d))"
  using assms
  by (auto simp: schema_defs upsert_project_def upsert_vm_registry_def upsert_provider_public_key_def put_key_def
      db_write_def Let_def intro!: distinct_upsert split: option.split)

lemma replace_participants_schema:
  assumes "schema d"
  shows "schema (snd (replace_job_participants W j rows d))"
proof -
  have "distinct (map participant_key (fold (\<lambda>r rs. upsert_row (\<lambda>a b. participant_key b = participant_key a)
      (m r) (f r) rs) rows kept))"
    if "distinct (map participant_key kept)" and "\<And>r a b. participant_key (m r a b) = participant_key b" for m f kept
    using that(1)
  proof (induction rows arbitrary: kept)
    case (Cons r rows)
    have "distinct (map participant_key (upsert_row (\<lambda>a b. participant_key b = participant_key a) (m r) (f r) kept))"
      using Cons.prems that(2) by (intro distinct_upsert) auto
    then show ?case using Cons.IH by simp
  qed simp
  note keep = this
  show ?thesis
    using assms
    by (auto simp: schema_defs replace_job_participants_def db_write_def Let_def distinct_map_filter
        intro!: keep split: option.split) (simp add: participant_key_def)
qed

lemma statement_schema: "statement d d' \<Longrightarrow> schema d \<Longrightarrow> schema d'"
  by (erule statementE)
    (simp_all add: contract_statements_schema store_statements_schema log_statements_schema
      update_statements_schema upsert_statements_schema replace_participants_schema)

interpretation schema_kept: kept "\<lambda>d d'. schema d \<longrightarrow> schema d'"
  by unfold_locales (auto simp: statement_schema upsert_statements_schema)

text \<open>
  From a new database on, whatever calls are served in whatever order, every table keeps the
  keys its schema declares: contracts are found by one id, project, job and preview session, a job has
  one final contract, a user one public key, a provider one removal per session, a gateway
  certificate its own serial.
\<close>

theorem served_schema: "schema (serve_all V qs created)"
  using schema_kept.by_service [of created] by simp

section \<open>The histories\<close>

text \<open>A notification only changes by being read or answered; it never becomes unanswered.\<close>

definition note_grows :: "notification \<Rightarrow> notification \<Rightarrow> bool" where
  "note_grows n m \<longleftrightarrow> nf_id m = nf_id n \<and> nf_recipient_username m = nf_recipient_username n \<and>
     nf_sender_username m = nf_sender_username n \<and> nf_message m = nf_message n \<and>
     nf_payload m = nf_payload n \<and> nf_created_at m = nf_created_at n \<and>
     (nf_read n \<longrightarrow> nf_read m) \<and> (nf_response n \<noteq> None \<longrightarrow> nf_response m \<noteq> None)"

definition notes_grow :: "notification list \<Rightarrow> notification list \<Rightarrow> bool" where
  "notes_grow ns ms \<longleftrightarrow> length ns \<le> length ms \<and> list_all2 note_grows ns (take (length ns) ms)"

definition history_kept :: "db \<Rightarrow> db \<Rightarrow> bool" where
  "history_kept d d' \<longleftrightarrow> prefix (t_audit d) (t_audit d') \<and> prefix (t_events d) (t_events d') \<and>
     prefix (t_final d) (t_final d') \<and> prefix (t_removed d) (t_removed d') \<and>
     prefix (t_gateway_certs d) (t_gateway_certs d') \<and> notes_grow (t_notifications d) (t_notifications d')"

lemma note_grows_refl [simp]: "note_grows n n"
  by (simp add: note_grows_def)

lemma note_grows_trans: "note_grows a b \<Longrightarrow> note_grows b c \<Longrightarrow> note_grows a c"
  by (simp add: note_grows_def)

lemma notes_grow_refl [simp]: "notes_grow ns ns"
  by (simp add: notes_grow_def list.rel_refl)

lemma notes_grow_trans:
  assumes "notes_grow as bs" and "notes_grow bs cs"
  shows "notes_grow as cs"
proof -
  let ?n = "length as"
  have "list_all2 note_grows (take ?n bs) (take ?n (take (length bs) cs))"
    using assms(2) unfolding notes_grow_def by (blast intro: list_all2_takeI)
  moreover have "take ?n (take (length bs) cs) = take ?n cs" using assms(1) by (simp add: notes_grow_def)
  ultimately have "list_all2 note_grows as (take ?n cs)"
    using assms(1) list_all2_trans [of note_grows note_grows note_grows] note_grows_trans
    unfolding notes_grow_def by metis
  then show ?thesis using assms by (simp add: notes_grow_def)
qed

lemma notes_grow_append [simp]: "notes_grow ns (ns @ ms)"
  by (simp add: notes_grow_def list.rel_refl)

lemma notes_grow_update: "(\<And>n. note_grows n (f n)) \<Longrightarrow> notes_grow ns (update_rows p f ns)"
  by (simp add: notes_grow_def update_rows_def list_all2_conv_all_nth)

lemma history_refl [simp]: "history_kept d d"
  by (simp add: history_kept_def)

lemma history_trans: "history_kept a b \<Longrightarrow> history_kept b c \<Longrightarrow> history_kept a c"
  unfolding history_kept_def by (blast intro: prefix_order.trans notes_grow_trans)

lemma history_write: "history_kept d d' \<Longrightarrow> history_kept d (snd (db_write W m args v d' d))"
  by (simp add: db_write_def split: option.split)

lemma history_contracts [simp]: "history_kept d (d\<lparr>t_contracts := rows\<rparr>)"
  by (simp add: history_kept_def)

lemma answer_grows: "note_grows n (answer_notification r m now n)" "note_grows n (n\<lparr>nf_read := True, nf_read_at := t\<rparr>)"
  by (simp_all add: note_grows_def answer_notification_def)

lemma contract_statements_history:
  "history_kept d (snd (update_contract_by_contract_id W cid raw d))"
  "history_kept d (snd (store_contract W c fin path d))"
  "history_kept d (snd (store_generated_contract W u ids tq cid j raw d))"
  "history_kept d (snd (mark_sign_requests_sent W j d))" "history_kept d (snd (mark_job_final W j d))"
  "history_kept d (snd (enable_job_tee_row W j d))" "history_kept d (snd (mark_contract_tee_enabled W cid d))"
  "history_kept d (snd (sign_data_provider_party W sid un d))" "history_kept d (snd (migrate W d))"
  by (simp_all add: update_contract_by_contract_id_def store_contract_def store_generated_contract_def
      store_contract_rows_def mark_sign_requests_sent_def mark_job_final_def enable_job_tee_row_def
      mark_contract_tee_enabled_def sign_data_provider_party_def migrate_def Let_def history_write
      split: option.split sum.split)

lemma other_statements_history:
  "history_kept d (snd (create_final_contract W j cid h raw d))"
  "history_kept d (snd (insert_audit_entries W es d))"
  "history_kept d (snd (add_contract_event W cid j ev detail actor d))"
  "history_kept d (snd (replace_job_participants W j rows d))"
  "history_kept d (snd (set_job_participant_status W j role pid item st uid un d))"
  "history_kept d (snd (set_job_status W j st d))"
  "history_kept d (snd (create_notification W rid un sender msg pl d))"
  "history_kept d (snd (respond_to_notification_row W nid un resp msg d))"
  "history_kept d (snd (mark_notification_as_read W nid un d))"
  "history_kept d (snd (supersede_contract_sign_requests W cid d))"
  "history_kept d (snd (remove_provider_row W sub un reason d))"
  "history_kept d (snd (upsert_project W pid sid owner ps d))"
  "history_kept d (snd (insert_gateway_cert W g d))"
  "history_kept d (snd (upsert_vm_registry W role part ip d))"
  "history_kept d (snd (upsert_provider_public_key W un uid role pem fp d))"
  by (auto simp: create_final_contract_def insert_audit_entries_def add_contract_event_def
      replace_job_participants_def set_job_participant_status_def set_job_status_def create_notification_def
      respond_to_notification_row_def mark_notification_as_read_def supersede_contract_sign_requests_def
      remove_provider_row_def upsert_project_def insert_gateway_cert_def upsert_vm_registry_def
      upsert_provider_public_key_def db_write_def history_kept_def Let_def
      intro!: notes_grow_update answer_grows split: option.split)

lemma statement_history: "statement d d' \<Longrightarrow> history_kept d d'"
  by (erule statementE) (simp_all add: contract_statements_history other_statements_history)

interpretation history: kept history_kept
  by unfold_locales (auto simp: other_statements_history intro: history_trans statement_history)

text \<open>
  C3. No call, and no run of calls, loses history: the audit trail, the contract events, the final
  contracts, the removals and the issued gateway certificates only get longer, with every earlier
  entry in its place, and a notification is never deleted, changed, unread or unanswered.
\<close>

theorem served_history_kept: "history_kept d (serve_all V qs d)"
  by (rule history.by_service)

section \<open>Where the public keys come from\<close>

text \<open>The call that registered a key: its user is the one the token names.\<close>

definition registered_by :: "service \<Rightarrow> request \<Rightarrow> key_row \<Rightarrow> bool" where
  "registered_by V q k \<longleftrightarrow>
     (case rq_call q of
        PutProviderKey role auth (Some pem) \<Rightarrow>
          (case (provider_from_token (sv_server V) (rq_world q) role auth,
                 normalise_provider_key (srv_crypto (sv_server V)) pem) of
             (Inr i, Inr (n, fp)) \<Rightarrow> kr_username k = to_lower (pi_username i) \<and> kr_user_id k = pi_user_id i \<and>
               kr_role k = role \<and> kr_public_key_pem k = n \<and> kr_fingerprint k = fp
           | _ \<Rightarrow> False)
      | _ \<Rightarrow> False)"

lemma keys_frame [simp]:
  "t_keys (snd (store_contract_rows W m i rows d)) = t_keys d"
  "t_keys (snd (store_contract W c fin path d)) = t_keys d"
  "t_keys (snd (store_generated_contract W u ids tq cid j raw d)) = t_keys d"
  "t_keys (snd (mark_notification_as_read W nid un d)) = t_keys d"
  "t_keys (snd (remove_provider_row W sub un reason d)) = t_keys d"
  "t_keys (snd (sign_data_provider_party W sid un d)) = t_keys d"
  "t_keys (snd (upsert_project W pid sid owner ps d)) = t_keys d"
  "t_keys (snd (insert_gateway_cert W g d)) = t_keys d"
  "t_keys (snd (upsert_vm_registry W role part ip d)) = t_keys d" "t_keys (snd (migrate W d)) = t_keys d"
proof -
  show s: "t_keys (snd (store_contract_rows W m i rows d)) = t_keys d" for m i rows
    by (simp add: store_contract_rows_def db_write_def split: option.split)
  show "t_keys (snd (store_contract W c fin path d)) = t_keys d"
    unfolding store_contract_def Let_def by (cases "marshal_contract c") (simp_all add: s split: sum.split)
  show "t_keys (snd (store_generated_contract W u ids tq cid j raw d)) = t_keys d"
    unfolding store_generated_contract_def Let_def by (rule s)
qed (simp_all add: mark_notification_as_read_def remove_provider_row_def sign_data_provider_party_def
    upsert_project_def insert_gateway_cert_def upsert_vm_registry_def migrate_def db_write_def Let_def
    split: option.split)

lemma writes_keys: "writes d d' \<Longrightarrow> t_keys d' = t_keys d"
proof (induction rule: rtranclp_induct)
  case (step b c)
  have "t_keys c = t_keys b"
    using step(2) by (rule statementE)
      simp_all
  then show ?case using step(3) by simp
qed simp

lemma serve_keys:
  assumes "k \<in> set (t_keys (serve V q d))"
  shows "k \<in> set (t_keys d) \<or> registered_by V q k"
proof (cases "registers_key (rq_call q)")
  case True
  then obtain role auth body where q: "rq_call q = PutProviderKey role auth body"
    by (cases "rq_call q") (auto simp: registers_key_def)
  from serve_key [OF q, of V d] show ?thesis
    using assms by (auto simp: upsert_provider_public_key_def put_key_def upsert_row_def db_write_def Let_def
        registered_by_def q split: option.splits if_splits)
qed (use assms writes_keys [OF serve_writes] in auto)

lemma served_keys:
  "k \<in> set (t_keys (serve_all V qs d)) \<Longrightarrow> k \<in> set (t_keys d) \<or> (\<exists>q \<in> set qs. registered_by V q k)"
proof (induction qs arbitrary: d)
  case (Cons q qs)
  then show ?case using serve_keys [of k V q d] by fastforce
qed simp

text \<open>
  C2. In a service that started on a new database, a contract passes the run gate only if every
  data provider on it has signed its hash with a key that the signer themselves registered: among the
  calls served there is a registration, under a valid token of that signer, of the very key the
  signature verifies with.
\<close>

theorem run_needs_registered_signers:
  assumes "require_all_providers_signed (sv_server V) W (serve_all V qs created) cid = Inr c"
    and "p \<in> set (data_providers c)"
  shows "\<exists>q \<in> set qs. \<exists>k. registered_by V q k \<and> kr_username k = to_lower (sg_signer (dp_signature p)) \<and>
    (party_provider_id p = '''' \<or> provider_id_for_username (sg_signer (dp_signature p)) = party_provider_id p) \<and>
    verifies (sv_server V) (kr_public_key_pem k) (ct_contract_hash c) (sg_value (dp_signature p))"
proof -
  let ?S = "sv_server V"
  let ?d = "serve_all V qs created"
  let ?sig = "dp_signature p"
  have "good_signature ?S W ?d (ct_contract_hash c) ?sig (party_provider_id p)"
    using assms by (auto simp: gate_iff_authorised run_authorised_def data_parties_consent_def list_all_iff)
  then have key: "\<exists>pub. provider_public_key W ?d (sg_signer ?sig) = Inr pub \<and> verifies ?S pub (ct_contract_hash c) (sg_value ?sig)"
      and id: "party_provider_id p = '''' \<or> provider_id_for_username (sg_signer ?sig) = party_provider_id p"
    by (auto simp: good_signature_def split: sum.splits)
  then obtain k where k: "key_of (t_keys ?d) (to_lower (sg_signer ?sig)) = Some k"
      and v: "verifies ?S (kr_public_key_pem k) (ct_contract_hash c) (sg_value ?sig)"
    by (auto simp: provider_public_key_def split: option.splits)
  have "k \<in> set (t_keys ?d)" "kr_username k = to_lower (sg_signer ?sig)"
    using k by (auto simp: key_of_def find_Some_iff)
  then show ?thesis
    using served_keys [of k V qs created] v id by (auto simp: created_def)
qed

text \<open>A provider registers a key, the output owner sends out the final roster, the provider signs it.\<close>

definition sample_service :: service where
  "sample_service = \<lparr>sv_server = sample_server, sv_x509 = sample_x509, sv_has_ca = True,
     sv_vm_registry_token = ''''\<rparr>"

definition sample_request :: "time \<Rightarrow> api_call \<Rightarrow> request" where
  "sample_request t q = \<lparr>rq_call = q, rq_world = sample_world t, rq_host = sample_host\<rparr>"

definition sample_calls :: "request list" where
  "sample_calls =
     [sample_request 1 (PutProviderKey ''data-provider'' ''Bearer a'' (Some ''a'')),
      sample_request 2 (PostContract (Some roster_body)),
      sample_request 3 (HandleSignContract ''Bearer a'' ''uuid0'' (Some \<lparr>sb_provider_username = '''',
        sb_notification_id = '''', sb_contract_hash = ''sha256:uuid0u'', sb_signature = ''asha256:uuid0u''\<rparr>))]"

theorem run_needs_registered_signers_witness:
  "\<exists>c p. require_all_providers_signed sample_server (sample_world 4)
       (serve_all sample_service sample_calls created) ''uuid0'' = Inr c \<and> p \<in> set (data_providers c) \<and>
     (\<exists>q \<in> set sample_calls. \<exists>k. registered_by sample_service q k \<and>
       kr_username k = to_lower (sg_signer (dp_signature p)))"
proof -
  have V: "sv_server sample_service = sample_server" by (simp add: sample_service_def)
  have "case require_all_providers_signed sample_server (sample_world 4)
      (serve_all sample_service sample_calls created) ''uuid0'' of Inl e \<Rightarrow> False | Inr c \<Rightarrow> data_providers c \<noteq> []"
    by code_simp
  then obtain c where c: "require_all_providers_signed (sv_server sample_service) (sample_world 4)
      (serve_all sample_service sample_calls created) ''uuid0'' = Inr c" and "data_providers c \<noteq> []"
    unfolding V by (auto split: sum.splits)
  then obtain p where p: "p \<in> set (data_providers c)" by (cases "data_providers c") auto
  from run_needs_registered_signers [OF c p] c p show ?thesis unfolding V by blast
qed

end
