(* ===== verification/Launch.thy ===== *)
theory Launch
  imports Startup Schema Sample "HOL-Library.Word"
begin

unbundle bit_operations_syntax

text \<open>
  The program's start (\<^verbatim>\<open>cmd/server/main.go\<close>): the database, the signing key, the certificate of the
  authority, in this order, any of which ends it; and the ids the service draws
  (\<^verbatim>\<open>db/helpers.go\<close>, \<^verbatim>\<open>NewUUID\<close>).
\<close>

section \<open>Starting\<close>

definition launch ::
  "key_lib \<Rightarrow> world \<Rightarrow> string \<Rightarrow> string \<Rightarrow> string \<Rightarrow> db option \<Rightarrow> key_files \<Rightarrow>
   (governance_key \<times> certificate \<times> string) result \<times> db option \<times> key_files" where
  "launch L W dbname key_path ca_path s D =
     (case initialize W dbname s of
        (Inl e, s) \<Rightarrow> (Inl (''Failed to start server: '' @ e), s, D)
      | (Inr u, s) \<Rightarrow>
          (case load_or_create_governance_key L key_path D of
             (Inl e, D) \<Rightarrow> (Inl (''Failed to load governance signing key: '' @ e), s, D)
           | (Inr K, D) \<Rightarrow>
               (case load_or_create_governance_ca_cert L ca_path K (w_now W) D of
                  (Inl e, D) \<Rightarrow> (Inl (''Failed to load governance CA certificate: '' @ e), s, D)
                | (Inr (cert, pem), D) \<Rightarrow> (Inr (K, cert, pem), s, D))))"

lemma initialize_Inr:
  assumes "initialize W dbname s = (Inr u, s')"
  obtains d d' where "s' = Some d'" and "migrate W d = (Inr (), d')" and "s = Some d \<or> s = None \<and> d = created"
proof -
  obtain d' where "s' = Some d'"
    using assms unfolding initialize_def open_database_def
    by (auto split: sum.splits option.splits prod.splits)
  then show thesis using initialize_migrates [of W dbname s u d'] assms that by blast
qed

lemma launch_Inr:
  assumes "launch L W n kp cp s D = (Inr (K, cert, pem), s', D')"
  obtains u D1 where "initialize W n s = (Inr u, s')"
    and "load_or_create_governance_key L kp D = (Inr K, D1)"
    and "load_or_create_governance_ca_cert L cp K (w_now W) D1 = (Inr (cert, pem), D')"
  using assms unfolding launch_def by (auto split: sum.splits prod.splits)

lemma other_file_kept:
  assumes "load_or_create_governance_ca_cert L cp K now D = (r, D')" and "kp \<noteq> cp"
  shows "kf_files D' kp = kf_files D kp \<and> kf_fault D' = kf_fault D"
  using assms unfolding load_or_create_governance_ca_cert_def write_new_file_def
  by (auto split: option.splits sum.splits prod.splits)

text \<open>
  C40. A restart changes nothing: once the program has started, on an empty machine or an old one, every
  later start on the database and the key files it left finds the same signing key and the same
  certificate and leaves database and files exactly as they were, whatever the time and the random
  source. It assumes the database answers and the two files have different paths.
\<close>

theorem relaunch_same_service:
  assumes "key_lib_ok L" and "reseeded L L'" and "kp \<noteq> cp"
    and "launch L W n kp cp s D = (Inr (K, cert, pem), s', D')" and "w_fault W' = (\<lambda>c. None)"
  shows "launch L' W' n kp cp s' D' = (Inr (K, cert, pem), s', D')"
proof -
  obtain u D1 where i: "initialize W n s = (Inr u, s')"
      and k: "load_or_create_governance_key L kp D = (Inr K, D1)"
      and c: "load_or_create_governance_ca_cert L cp K (w_now W) D1 = (Inr (cert, pem), D')"
    using assms(4) by (rule launch_Inr)
  obtain d d' where s': "s' = Some d'" and m: "migrate W d = (Inr (), d')"
    using i by (rule initialize_Inr)
  have "initialize W' n s' = (Inr (), s')"
    using migrate_again [OF m, of W'] assms(5)
    by (simp add: s' initialize_def open_database_def open_step_def)
  moreover have "load_or_create_governance_key L' kp D' = (Inr K, D')"
  proof -
    obtain bytes where b: "kf_files D1 kp = Some bytes" "read_governance_key L kp bytes = Inr K" "kf_fault D1 ''ReadFile'' kp = None"
      using loaded_key_stored [OF assms(1) k] by auto
    then have "kf_files D' kp = Some bytes" "kf_fault D' ''ReadFile'' kp = None"
      using other_file_kept [OF c assms(3)] by simp_all
    then show ?thesis
      using b(2) reseeded_same(2) [OF assms(2)] by (simp add: load_or_create_governance_key_def)
  qed
  moreover have "load_or_create_governance_ca_cert L' cp K (w_now W') D' = (Inr (cert, pem), D')"
    using ca_certificate_follows_key [OF assms(1) c] assms(2) by blast
  ultimately show ?thesis by (simp add: launch_def)
qed

theorem relaunch_same_service_witness:
  "\<exists>s D. launch (sample_key_lib ''seed'') (sample_world 1) ''db'' ''k'' ''c'' None empty_disk =
       (Inr (sample_governance_key, \<lparr>ce_public_key = ''seed'', ce_not_after = 0\<rparr>, ''CERTIFICATE:seed''), s, D) \<and>
     launch (sample_key_lib ''other'') (sample_world 2) ''db'' ''k'' ''c'' s D =
       (Inr (sample_governance_key, \<lparr>ce_public_key = ''seed'', ce_not_after = 0\<rparr>, ''CERTIFICATE:seed''), s, D)"
proof -
  have "launch (sample_key_lib ''seed'') (sample_world 1) ''db'' ''k'' ''c'' None empty_disk =
      (Inr (sample_governance_key, \<lparr>ce_public_key = ''seed'', ce_not_after = 0\<rparr>, ''CERTIFICATE:seed''), Some created,
       empty_disk\<lparr>kf_files := [''k'' \<mapsto> ''PRIVATE KEY:seed'', ''c'' \<mapsto> ''CERTIFICATE:seed'']\<rparr>)"
    by (simp add: launch_def initialize_def open_database_def open_step_def migrate_def created_def
        contracts_unique_def List.map_filter_def sample_world_def load_or_create_governance_key_def
        make_governance_key_def new_governance_key_def load_or_create_governance_ca_cert_def new_governance_ca_cert_def
        random_serial_def subject_key_id_def write_new_file_def sample_key_lib_def empty_disk_def sample_governance_key_def)
  from relaunch_same_service [OF sample_key_lib_ok sample_key_lib_reseeded [of "''seed''" "''other''"] _ this,
      of "sample_world 2"] this
  show ?thesis by (auto simp: sample_world_def)
qed

section \<open>Ids\<close>

abbreviation base36 :: string where "base36 \<equiv> ''0123456789abcdefghijklmnopqrstuvwxyz''"

text \<open>Random indices below 36; the clock in milliseconds.\<close>

definition rand_base36 :: "nat list \<Rightarrow> string" where
  "rand_base36 ns = map (nth base36) ns"

definition new_id :: "string \<Rightarrow> nat \<Rightarrow> nat list \<Rightarrow> string" where
  "new_id pre millis ns = pre @ ''-'' @ decimal millis @ ''-'' @ rand_base36 ns"

definition hex_byte :: "8 word \<Rightarrow> string" where
  "hex_byte b = [hex_digit (unat b div 16), hex_digit (unat b mod 16)]"

text \<open>16 random bytes with the version and variant of an RFC 4122 random id.\<close>

definition new_uuid :: "8 word list \<Rightarrow> string" where
  "new_uuid bs =
     (let b = bs[6 := (bs ! 6 AND 0x0f) OR 0x40]; b = b[8 := (b ! 8 AND 0x3f) OR 0x80];
          hex = (\<lambda>i j. concat (map hex_byte (take (j - i) (drop i b))))
      in hex 0 4 @ ''-'' @ hex 4 6 @ ''-'' @ hex 6 8 @ ''-'' @ hex 8 10 @ ''-'' @ hex 10 16)"

lemma hex_digit_hex: "n < 16 \<Longrightarrow> is_hex_char (hex_digit n)"
  by (auto simp: is_hex_char_def hex_digit_def Let_def)

lemma hex_byte_hex [simp]:
  "is_hex_char (hex_digit (unat (b :: 8 word) div 16))" "is_hex_char (hex_digit (unat b mod 16))"
proof -
  have "unat b < 2 ^ LENGTH(8)" by (rule unsigned_less)
  then have "unat b < 256" by simp
  then show "is_hex_char (hex_digit (unat b div 16))" "is_hex_char (hex_digit (unat b mod 16))"
    by (simp_all add: hex_digit_hex)
qed

lemma nibble: "unat (b :: 8 word) div 16 = unat (drop_bit 4 b)"
  by (simp add: drop_bit_eq_div unat_div)

lemma version_nibble: "hex_digit (unat ((b AND 0x0f) OR 0x40 :: 8 word) div 16) = CHR ''4''"
proof -
  have "drop_bit 4 ((b AND 0x0f) OR 0x40) = (4 :: 8 word)"
    by (rule bit_word_eqI) (auto simp: bit_simps)
  then have "unat ((b AND 0x0f) OR 0x40) div 16 = 4"
    by (simp add: nibble)
  moreover have "hex_digit 4 = CHR ''4''" by code_simp
  ultimately show ?thesis by simp
qed

text \<open>A drawn contract id is a UUID of version 4.\<close>

lemma new_uuid_version_4:
  assumes "length bs = 16"
  shows "is_uuid (new_uuid bs) \<and> new_uuid bs ! 14 = CHR ''4''"
proof -
  obtain a0 a1 a2 a3 a4 a5 a6 a7 a8 a9 b0 b1 b2 b3 b4 b5
    where "bs = [a0, a1, a2, a3, a4, a5, a6, a7, a8, a9, b0, b1, b2, b3, b4, b5]"
    using assms by (auto simp: length_Suc_conv numeral_eq_Suc)
  moreover have "[0..<36] = [0, 1, 2, 3, 4, 5, 6, 7, 8, 9, 10, 11, 12, 13, 14, 15, 16, 17, 18, 19, 20, 21, 22, 23, 24,
      25, 26, 27, 28, 29, 30, 31, 32, 33, 34, 35]" by code_simp
  moreover have "is_hex_char (CHR ''4'')" by code_simp
  ultimately show ?thesis
    by (simp add: new_uuid_def Let_def hex_byte_def is_uuid_def version_nibble)
qed

end
