(* ===== verification/Races.thy ===== *)
theory Races
  imports System
begin

text \<open>
  Calls served at the same time. \<^verbatim>\<open>net/http\<close> runs every call in its own goroutine; the handlers that
  change a contract read the document, change their copy and write it back whole
  (\<^verbatim>\<open>UpdateContractByContractID\<close>) without a transaction or a version, so that writes of other calls
  may fall between. Each of them is split at its first write, as \<^theory_text>\<open>X_checks\<close> and \<^theory_text>\<open>X_finish\<close> in its own
  theory; calls are interleaved at that grain.
\<close>

section \<open>Reading and writing\<close>

text \<open>The calls that read a contract document to write it back.\<close>

datatype doc_call =
    SignDocument string string "sign_body option"
  | WithdrawConsent string string "string option"
  | SetExpiry string string "string option"
  | EditDocument string string "edit_body option"
  | ApproveDatasets string "approval_body option"
  | ApproveInfras string "approval_body option"
  | AskStatus string string

text \<open>What such a call holds between its reads and its writes.\<close>

datatype doc_copy =
    SignCopy string "provider_identity \<times> sign_body \<times> contract \<times> string"
  | WithdrawCopy string "provider_identity \<times> string \<times> contract"
  | ExpiryCopy string "provider_identity \<times> time \<times> contract"
  | EditCopy string "json \<times> contract \<times> string list \<times> string \<times> json"
  | DataApprovalCopy approval_read
  | InfraApprovalCopy approval_read
  | StatusCopy string contract job_approval_state "party_status list"

definition serve_document :: "server \<Rightarrow> world \<Rightarrow> doc_call \<Rightarrow> db \<Rightarrow> db" where
  "serve_document S W q d =
     (case q of
        SignDocument auth cid b \<Rightarrow> snd (sign_contract S W auth cid b d)
      | WithdrawConsent auth cid b \<Rightarrow> snd (withdraw_consent S W auth cid b d)
      | SetExpiry auth cid b \<Rightarrow> snd (set_consent_expiry S W auth cid b d)
      | EditDocument auth cid b \<Rightarrow> snd (edit_contract S W auth cid b d)
      | ApproveDatasets auth b \<Rightarrow> snd (handle_data_provider_approval S W auth b d)
      | ApproveInfras auth b \<Rightarrow> snd (handle_infra_provider_approval S W auth b d)
      | AskStatus auth job_id \<Rightarrow> snd (get_job_status S W auth job_id d))"

text \<open>The reads; \<open>None\<close> when the call is answered without writing.\<close>

definition read_document :: "server \<Rightarrow> world \<Rightarrow> doc_call \<Rightarrow> db \<Rightarrow> doc_copy option" where
  "read_document S W q d =
     (case q of
        SignDocument auth cid b \<Rightarrow>
          (case sign_checks S W auth cid b d of Inl e \<Rightarrow> None | Inr x \<Rightarrow> Some (SignCopy cid x))
      | WithdrawConsent auth cid b \<Rightarrow>
          (case withdraw_checks S W auth cid b d of Inl e \<Rightarrow> None | Inr x \<Rightarrow> Some (WithdrawCopy cid x))
      | SetExpiry auth cid b \<Rightarrow>
          (case expiry_checks S W auth cid b d of Inl e \<Rightarrow> None | Inr x \<Rightarrow> Some (ExpiryCopy cid x))
      | EditDocument auth cid b \<Rightarrow>
          (case edit_steps S W auth cid b d of Inl e \<Rightarrow> None | Inr x \<Rightarrow> Some (EditCopy cid x))
      | ApproveDatasets auth b \<Rightarrow>
          (case data_approval_checks S W auth b d of Inl e \<Rightarrow> None | Inr x \<Rightarrow> Some (DataApprovalCopy x))
      | ApproveInfras auth b \<Rightarrow>
          (case infra_approval_checks S W auth b d of Inl e \<Rightarrow> None | Inr x \<Rightarrow> Some (InfraApprovalCopy x))
      | AskStatus auth job_id \<Rightarrow>
          (case status_reads S W auth job_id d of
             Inl r \<Rightarrow> None | Inr (c, st, parties) \<Rightarrow> Some (StatusCopy job_id c st parties)))"

definition write_document :: "server \<Rightarrow> world \<Rightarrow> doc_copy \<Rightarrow> db \<Rightarrow> db" where
  "write_document S W k d =
     (case k of
        SignCopy cid x \<Rightarrow> snd (sign_finish S W cid x d)
      | WithdrawCopy cid x \<Rightarrow> snd (withdraw_finish W cid x d)
      | ExpiryCopy cid x \<Rightarrow> snd (expiry_finish S W cid x d)
      | EditCopy cid x \<Rightarrow> snd (edit_finish S W cid x d)
      | DataApprovalCopy x \<Rightarrow> snd (data_approval_finish S W x d)
      | InfraApprovalCopy x \<Rightarrow> snd (infra_approval_finish S W x d)
      | StatusCopy job_id c st parties \<Rightarrow> snd (approve_job S W job_id c st parties d))"

lemma serve_read_write:
  "serve_document S W q d =
     (case read_document S W q d of None \<Rightarrow> d | Some k \<Rightarrow> write_document S W k d)"
  by (cases q)
    (simp_all add: serve_document_def read_document_def write_document_def sign_contract_def withdraw_consent_def
      set_consent_expiry_def edit_contract_def handle_data_provider_approval_def
      handle_infra_provider_approval_def get_job_status_def split: sum.split prod.split)

section \<open>Interleaved calls\<close>

text \<open>
  The database and the copies the calls in flight hold, each with the world its call runs in. Every
  other call is some sequence of statements, which may fall anywhere between.
\<close>

type_synonym in_flight = "db \<times> (world \<times> doc_copy) list"

inductive race_step :: "server \<Rightarrow> in_flight \<Rightarrow> in_flight \<Rightarrow> bool" for S where
  Read: "read_document S W q d = Some k \<Longrightarrow> race_step S (d, ps) (d, (W, k) # ps)"
| Write: "race_step S (d, ps @ (W, k) # qs) (write_document S W k d, ps @ qs)"
| Statement: "statement d d' \<Longrightarrow> race_step S (d, ps) (d', ps)"
| RegisterKey: "race_step S (d, ps) (snd (upsert_provider_public_key W un uid role pem fp d), ps)"

inductive_cases race_stepE: "race_step S s s'"

abbreviation races :: "server \<Rightarrow> in_flight \<Rightarrow> in_flight \<Rightarrow> bool" where
  "races S \<equiv> (race_step S)\<^sup>*\<^sup>*"

text \<open>Serving a call by itself is one of the interleavings.\<close>

lemma serve_document_races: "races S (d, ps) (serve_document S W q d, ps)"
proof (cases "read_document S W q d")
  case (Some k)
  then have "race_step S (d, ps) (d, (W, k) # ps)" by (rule Read)
  moreover have "race_step S (d, (W, k) # ps) (write_document S W k d, ps)"
    using Write [of S d "[]" W k ps] by simp
  ultimately show ?thesis by (simp add: serve_read_write Some)
qed (simp add: serve_read_write)

lemma writes_races: "writes d d' \<Longrightarrow> races S (d, ps) (d', ps)"
  by (induction rule: rtranclp_induct) (auto intro: Statement rtranclp.rtrancl_into_rtrancl)

lemma serve_races: "races S (d, ps) (serve V q d, ps)"
proof (cases "registers_key (rq_call q)")
  case True
  then obtain role auth body where "rq_call q = PutProviderKey role auth body"
    by (cases "rq_call q") (auto simp: registers_key_def)
  from serve_key [OF this, of V d] show ?thesis
    using r_into_rtranclp [where r = "race_step S", OF RegisterKey] by auto
qed (simp add: serve_writes writes_races)

section \<open>What no interleaving breaks\<close>

lemma write_document_writes: "writes d (write_document S W k d)"
proof -
  have "writes d d" by simp
  then show ?thesis
    unfolding write_document_def
    by (cases k)
      (simp_all only: doc_copy.case sign_finish_def withdraw_finish_def expiry_finish_def edit_finish_def
          data_approval_finish_def infra_approval_finish_def,
        (assumption | rule wp_event wp_marks wp_announce wp_record_approval wp_finalize wp)+)
qed

context kept
begin

lemma by_race_step: "race_step S s s' \<Longrightarrow> R (fst s) (fst s')"
  by (erule race_stepE) (auto intro: refl by_statement by_key by_writes write_document_writes)

lemma by_races: "races S s s' \<Longrightarrow> R (fst s) (fst s')"
  by (induction rule: rtranclp_induct) (blast intro: refl trans by_race_step)+

end

text \<open>However the calls interleave, each table keeps its keys and no history is lost.\<close>

lemma interleaved_service_kept:
  assumes "races S (d, ps) (d', qs)" and "schema d"
  shows "schema d' \<and> history_kept d d'"
  using schema_kept.by_races [OF assms(1)] history.by_races [OF assms(1)] assms(2) by simp

section \<open>Calls about different contracts\<close>

text \<open>The contract a call is about, where the call names it.\<close>

definition document_of :: "doc_call \<Rightarrow> string option" where
  "document_of q =
     (case q of
        SignDocument auth cid b \<Rightarrow> Some cid
      | WithdrawConsent auth cid b \<Rightarrow> Some cid
      | SetExpiry auth cid b \<Rightarrow> Some cid
      | EditDocument auth cid b \<Rightarrow> Some cid
      | ApproveDatasets auth b \<Rightarrow> None
      | ApproveInfras auth b \<Rightarrow> None
      | AskStatus auth job_id \<Rightarrow> None)"

abbreviation rows_of :: "string \<Rightarrow> db \<Rightarrow> contract_row list" where
  "rows_of cid d \<equiv> filter (row_has_contract_id cid) (t_contracts d)"

text \<open>What a row is found by: its keys and the contract id in its document.\<close>

definition row_names :: "contract_row \<Rightarrow> string \<times> string \<times> string \<times> string option \<times> json" where
  "row_names r = (cr_id r, cr_project_id r, cr_session_id r, cr_job_id r, jget ''contract_id'' (cr_contract r))"

definition names :: "db \<Rightarrow> (string \<times> string \<times> string \<times> string option \<times> json) list" where
  "names d = map row_names (t_contracts d)"

text \<open>
  The store of the document of one contract changes the rows of that contract only, and none of the
  names; the keys and the approval audit stay.
\<close>

definition beside :: "string \<Rightarrow> db \<Rightarrow> db \<Rightarrow> bool" where
  "beside cid d d' \<longleftrightarrow> names d' = names d \<and> t_keys d' = t_keys d \<and> t_audit d' = t_audit d \<and>
     (\<forall>other. other = cid \<or> rows_of other d' = rows_of other d)"

lemma beside_refl [simp]: "beside cid d d"
  by (simp add: beside_def)

lemma beside_frame:
  assumes "beside cid d d1" and "t_contracts d' = t_contracts d1" and "t_keys d' = t_keys d1"
    and "t_audit d' = t_audit d1"
  shows "beside cid d d'"
  using assms by (simp add: beside_def names_def)

lemma names_update_rows:
  assumes "\<And>r. p r \<Longrightarrow> row_names (f r) = row_names r"
  shows "names (d\<lparr>t_contracts := update_rows p f (t_contracts d)\<rparr>) = names d"
  using assms by (simp add: names_def map_update_rows)

lemma row_names_put_document:
  "ct_contract_id c = cid \<Longrightarrow> row_has_contract_id cid r \<Longrightarrow>
   row_names (put_document (enc_contract c) now r) = row_names r"
  by (simp add: row_names_def put_document_def row_has_contract_id_def)

lemma update_beside:
  assumes "ct_contract_id c = cid" and "marshal_contract c = Inr raw"
    and "update_contract_by_contract_id W cid raw d = (r, d')"
  shows "beside cid d d'"
proof -
  have raw: "raw = enc_contract c" using assms(2) by (simp add: marshal_contract_def split: if_splits)
  show ?thesis
  proof (cases "r = Inr True")
    case True
    then have "d' = put_contract (w_now W) cid c d" using assms(3) by (auto simp: raw intro: update_contract_True)
    moreover have "names (put_contract (w_now W) cid c d) = names d"
      unfolding put_contract_def by (rule names_update_rows) (rule row_names_put_document [OF assms(1)])
    moreover have "other \<noteq> cid \<Longrightarrow> rows_of other (put_contract (w_now W) cid c d) = rows_of other d" for other
      by (simp add: put_contract_def filter_other_id [OF assms(1)])
    ultimately show ?thesis by (auto simp: beside_def)
  qed (use update_contract_not_True [OF assms(3)] in simp)
qed

text \<open>Each of the four calls stores a document of the contract it names.\<close>

lemma sign_finish_beside:
  assumes "ct_contract_id c = cid"
  shows "beside cid d (snd (sign_finish S W cid (signer, b, c, hash) d))"
proof -
  let ?c = "put_provider_signature (provider_id_for_username (pi_username signer))
    (signature_over (w_now W) (pi_username signer) hash (sb_signature b)) c"
  show ?thesis
  proof (cases "marshal_contract ?c")
    case (Inr raw)
    obtain r d1 where u: "update_contract_by_contract_id W cid raw d = (r, d1)" by (metis surj_pair)
    have "ct_contract_id ?c = cid" using assms by simp
    from update_beside [OF this Inr u] show ?thesis
      by (auto simp: sign_finish_def Let_def Inr u split: sum.split bool.split elim: beside_frame)
  qed (simp add: sign_finish_def)
qed

lemma withdraw_finish_beside:
  assumes "ct_contract_id c = cid"
  shows "beside cid d (snd (withdraw_finish W cid (signer, n, c) d))"
proof -
  let ?c = "withdraw_party (w_now W) (pi_username signer) (provider_id_for_username (pi_username signer)) c"
  show ?thesis
  proof (cases "marshal_contract ?c")
    case (Inr raw)
    obtain r d1 where u: "update_contract_by_contract_id W cid raw d = (r, d1)" by (metis surj_pair)
    have "ct_contract_id ?c = cid" using assms by simp
    from update_beside [OF this Inr u] show ?thesis
      by (auto simp: withdraw_finish_def Let_def Inr u split: sum.split bool.split elim: beside_frame)
  qed (simp add: withdraw_finish_def)
qed



lemma expiry_finish_beside:
  assumes "ct_contract_id c0 = cid"
  shows "beside cid d (snd (expiry_finish S W cid (signer, until, c0) d))"
proof (cases "hash_and_govern S W (put_consent_expiry (provider_id_for_username (pi_username signer)) until c0)")
  case hg: (Inr c)
  have id: "ct_contract_id c = cid" using hash_and_govern_Inr [OF hg] assms by auto
  show ?thesis
  proof (cases "marshal_contract c")
    case (Inr raw)
    obtain r d1 where u: "update_contract_by_contract_id W cid raw d = (r, d1)" by (metis surj_pair)
    obtain s d2 where an: "announce_expiry S W cid signer until (resigners c0) c d1 = (s, d2)" by (metis surj_pair)
    from update_beside [OF id Inr u] show ?thesis
      by (auto simp: expiry_finish_def Inr hg u an split: sum.split bool.split
          elim!: beside_frame simp: announce_expiry_frame [OF an])
  qed (simp add: expiry_finish_def hg)
qed (simp add: expiry_finish_def)

lemma edit_finish_beside:
  assumes "ct_contract_id c = cid" and "marshal_contract c = Inr raw"
  shows "beside cid d (snd (edit_finish S W cid (claims, c, changes, hash, raw) d))"
proof -
  obtain r d1 where u: "update_contract_by_contract_id W cid raw d = (r, d1)" by (metis surj_pair)
  from update_beside [OF assms u] show ?thesis
    by (auto simp: edit_finish_def Let_def u split: sum.split bool.split elim: beside_frame)
qed

text \<open>What a call that names its contract holds when it writes: that contract.\<close>

definition copy_beside :: "server \<Rightarrow> world \<Rightarrow> string \<Rightarrow> doc_copy \<Rightarrow> bool" where
  "copy_beside S W cid k \<longleftrightarrow> (\<forall>d. beside cid d (write_document S W k d))"

lemma loaded_id: "load_contract W d cid = Inr (Some c) \<Longrightarrow> ct_contract_id c = cid"
  using contracts.load_id by (auto simp: load_contract_Some)

lemma read_copy_beside:
  assumes "read_document S W q d = Some k" and "document_of q = Some cid"
  shows "copy_beside S W cid k"
proof (cases q)
  case (SignDocument auth x b)
  with assms obtain signer b' c hash where k: "k = SignCopy cid (signer, b', c, hash)"
    and chk: "sign_checks S W auth cid b d = Inr (signer, b', c, hash)"
    by (auto simp: read_document_def document_of_def split: sum.splits)
  have "ct_contract_id c = cid" using sign_checks_Inr(3) [OF chk] by (rule loaded_id)
  then show ?thesis by (simp add: copy_beside_def write_document_def k sign_finish_beside)
next
  case (WithdrawConsent auth x b)
  with assms obtain signer n c where k: "k = WithdrawCopy cid (signer, n, c)"
    and chk: "withdraw_checks S W auth cid b d = Inr (signer, n, c)"
    by (auto simp: read_document_def document_of_def split: sum.splits)
  have "ct_contract_id c = cid" using withdraw_checks_Inr [OF chk] loaded_id by blast
  then show ?thesis by (simp add: copy_beside_def write_document_def k withdraw_finish_beside)
next
  case (SetExpiry auth x b)
  with assms obtain signer until c where k: "k = ExpiryCopy cid (signer, until, c)"
    and chk: "expiry_checks S W auth cid b d = Inr (signer, until, c)"
    by (auto simp: read_document_def document_of_def split: sum.splits)
  have "ct_contract_id c = cid" using expiry_checks_Inr [OF chk] loaded_id by blast
  then show ?thesis by (simp add: copy_beside_def write_document_def k expiry_finish_beside)
next
  case (EditDocument auth x body)
  with assms obtain claims c2 ch h raw where k: "k = EditCopy cid (claims, c2, ch, h, raw)"
    and steps: "edit_steps S W auth cid body d = Inr (claims, c2, ch, h, raw)"
    by (auto simp: read_document_def document_of_def split: sum.splits)
  then obtain b c c1 where chk: "edit_checks S W auth cid body d = Inr (claims, b, c)"
    and app: "apply_edit W b c = Inr (c1, ch)" and am: "amend_sign S W c1 = Inr (h, c2)"
    and raw: "marshal_contract c2 = Inr raw" by (auto simp: edit_steps_def)
  have "ct_contract_id c = cid" using edit_checks_Inr [OF chk] loaded_id by blast
  then have "ct_contract_id c2 = cid"
    using apply_edit_same [OF app] amend_sign_Inr [OF am] by (auto simp: same_signers_def)
  then show ?thesis using raw by (simp add: copy_beside_def write_document_def k edit_finish_beside)
qed (use assms(2) in \<open>simp_all add: document_of_def\<close>)

lemma serve_beside:
  assumes "document_of q = Some cid"
  shows "beside cid d (serve_document S W q d)"
  using read_copy_beside [OF _ assms] by (auto simp: serve_read_write copy_beside_def split: option.split)

text \<open>The reads of a call that names its contract look at that contract, the keys and the audit.\<close>

lemma beside_reads:
  assumes "beside cid d d'" and "other \<noteq> cid"
  shows "load_contract W d' other = load_contract W d other"
    and "ct_contract_id c = other \<Longrightarrow> signing_allowed S W d' c = signing_allowed S W d c"
    and "provider_public_key W d' un = provider_public_key W d un"
    and "stored_contract d' other = stored_contract d other"
proof -
  have t: "rows_of other d' = rows_of other d" "t_audit d' = t_audit d" "t_keys d' = t_keys d"
    using assms by (auto simp: beside_def)
  show "load_contract W d' other = load_contract W d other"
    by (simp add: load_contract_def get_contract_by_contract_id_def t)
  show "provider_public_key W d' un = provider_public_key W d un"
    unfolding provider_public_key_def t by (rule refl)
  show "stored_contract d' other = stored_contract d other"
    using t(1) by (rule stored_contract_filter)
  assume c: "ct_contract_id c = other"
  have "load_job_approval_state S W d' = load_job_approval_state S W d"
    unfolding fun_eq_iff load_job_approval_state_def list_audit_by_job_def t by (rule allI, rule refl)
  moreover have "get_job_id_by_contract_id W d' other = get_job_id_by_contract_id W d other"
    by (simp add: get_job_id_by_contract_id_def t)
  ultimately show "signing_allowed S W d' c = signing_allowed S W d c"
    unfolding signing_allowed_def c by (simp only:)
qed

lemma read_beside:
  assumes "beside cid d d'" and "document_of q = Some other" and "other \<noteq> cid"
  shows "read_document S W q d' = read_document S W q d"
proof -
  note same = beside_reads [OF assms(1,3)]
  have "sign_checks S W auth other b d' = sign_checks S W auth other b d" for auth b
  proof (cases "load_contract W d other")
    case (Inr l)
    then show ?thesis
      using same(2) [OF loaded_id, of W d _ S W] by (cases l) (simp_all add: sign_checks_def same(1,3))
  qed (simp add: sign_checks_def same(1))
  moreover have "withdraw_checks S W auth other b d' = withdraw_checks S W auth other b d" for auth b
    unfolding withdraw_checks_def same(1) by (rule refl)
  moreover have "expiry_checks S W auth other b d' = expiry_checks S W auth other b d" for auth b
    unfolding expiry_checks_def same(1) by (rule refl)
  moreover have "edit_steps S W auth other b d' = edit_steps S W auth other b d" for auth b
    unfolding edit_steps_def edit_checks_def same(1) by (rule refl)
  ultimately show ?thesis using assms(2) by (cases q) (simp_all add: read_document_def document_of_def)
qed

text \<open>
  C13. Signing, withdrawing, setting an expiry and editing are about the one contract they name.
  While such a call is between its reads and its write, one about another contract may be served
  whole: the first then writes what it would have written if it had been served after the second,
  it leaves the second's contract as the second stored it, and the second left the first's contract
  alone. Only calls about the same contract can lose one another's changes.
\<close>

theorem calls_about_other_contracts_serial:
  assumes "read_document S W q d = Some k" and "document_of q = Some cid"
    and "document_of q' = Some other" and "other \<noteq> cid" and "serve_document S W' q' d = d1"
  shows "write_document S W k d1 = serve_document S W q d1 \<and>
    stored_contract (write_document S W k d1) other = stored_contract d1 other \<and>
    stored_contract d1 cid = stored_contract d cid"
proof -
  have b: "beside other d d1" using serve_beside [OF assms(3)] unfolding assms(5) [symmetric] .
  have "read_document S W q d1 = Some k" using read_beside [OF b assms(2)] assms(1,4) by simp
  then have "write_document S W k d1 = serve_document S W q d1" by (simp add: serve_read_write)
  moreover have "beside cid d1 (write_document S W k d1)"
    using read_copy_beside [OF assms(1,2)] by (simp add: copy_beside_def)
  ultimately show ?thesis using beside_reads(4) [OF b] beside_reads(4) assms(4) by metis
qed

section \<open>The names of the rows\<close>

text \<open>No call that reads a document to write it back renames a row, moves it or takes it away.\<close>

lemma names_frame: "t_contracts d' = t_contracts d \<Longrightarrow> names d' = names d"
  by (simp add: names_def)

lemma store_job_contract_names [simp]: "names (snd (store_job_contract W c d)) = names d"
proof (cases "marshal_contract c")
  case (Inr raw)
  obtain r d1 where u: "update_contract_by_contract_id W (ct_contract_id c) raw d = (r, d1)" by (metis surj_pair)
  from update_beside [OF refl Inr u] show ?thesis
    by (auto simp: store_job_contract_def Inr u beside_def split: sum.split bool.split)
qed (simp add: store_job_contract_def)

lemma mark_job_final_names [simp]: "names (snd (mark_job_final W j d)) = names d"
  by (simp add: mark_job_final_def Let_def db_write_def names_update_rows row_names_def split: option.split)

lemma record_job_approval_names [simp]:
  "names (snd (record_job_approval S W kind j c entries own caller b d)) = names d"
proof -
  obtain c' n where p: "sign_parties kind own (signature_over (w_now W) (pc_username caller) (ab_contract_hash b)
      (ab_signature b)) c = (c', n)" by (metis surj_pair)
  obtain r d1 where s: "store_job_contract W c' d = (r, d1)" by (metis surj_pair)
  obtain r2 d2 where i: "insert_audit_entries W entries d = (r2, d2)" by (metis surj_pair)
  obtain r3 d3 where i': "insert_audit_entries W entries d1 = (r3, d3)" by (metis surj_pair)
  have n: "names d1 = names d" using store_job_contract_names [of W c' d] by (simp add: s)
  have "t_contracts d2 = t_contracts d" "t_contracts d3 = t_contracts d1"
    using insert_audit_entries_frame(1) [of W entries d] insert_audit_entries_frame(1) [of W entries d1]
    by (simp_all add: i i')
  then show ?thesis using n
    by (auto simp: record_job_approval_def sign_approved_items_def save_job_approval_def p s i i' names_def
        split: sum.split)
qed

lemma approve_job_names: "names (snd (approve_job S W j c st parties d)) = names d"
proof -
  have sealed: "names (snd (seal_contract S W c d)) = names d" for c :: contract and d
  proof (cases "compute_hash (srv_crypto S) c")
    case (Inr h)
    obtain r d1 where s: "store_job_contract W (c\<lparr>ct_contract_hash := h\<rparr>) d = (r, d1)" by (metis surj_pair)
    show ?thesis using store_job_contract_names [of W "c\<lparr>ct_contract_hash := h\<rparr>" d]
      by (simp add: seal_contract_def Let_def Inr s split: sum.split)
  qed (simp add: seal_contract_def)
  have fin: "names (snd (finalize_job S W j c d)) = names d" for c d
  proof -
    obtain ps ok v where vs: "verify_contract_signatures S W d c = (ps, ok, v)" by (metis prod_cases3)
    show ?thesis
    proof (cases "marshal_contract c")
    case (Inr raw)
    obtain r d1 where f: "create_final_contract W j (ct_contract_id c) (ct_contract_hash c) raw d = (r, d1)"
      by (metis surj_pair)
    obtain r2 d2 where m: "mark_job_final W j d1 = (r2, d2)" by (metis surj_pair)
    have "names d1 = names d" using create_final_contract_frame(1) [of W j "ct_contract_id c" "ct_contract_hash c" raw d]
      by (intro names_frame) (simp add: f)
    then show ?thesis using mark_job_final_names [of W j d1]
      by (simp add: finalize_job_def vs Inr f m split: sum.split)
    qed (simp add: finalize_job_def vs)
  qed
  obtain r d1 where s: "seal_contract S W (c\<lparr>ct_job_id := j\<rparr>) d = (r, d1)" by (metis surj_pair)
  have n1: "names d1 = names d" using sealed [of "c\<lparr>ct_job_id := j\<rparr>" d] by (simp add: s)
  show ?thesis
  proof (cases r)
    case (Inr c')
    obtain r2 d2 where f: "finalize_job S W j c' d1 = (r2, d2)" by (metis surj_pair)
    have "names d2 = names d" using fin [of c' d1] n1 by (simp add: f)
    then show ?thesis
      by (auto simp: approve_job_def s Inr f Let_def names_def split: sum.split prod.split)
  qed (simp add: approve_job_def s n1)
qed

lemma write_names:
  assumes "document_of q = None" and "read_document S W q d = Some k"
  shows "names (write_document S W k d') = names d'"
proof (cases k)
  case (DataApprovalCopy x)
  obtain caller b c entries own where x: "x = (caller, b, c, entries, own)" by (metis prod_cases5)
  obtain r d1 where a: "record_job_approval S W ''data-provider'' (ab_job_id b) c entries own caller b d' = (r, d1)"
    by (metis surj_pair)
  have "names d1 = names d'" using record_job_approval_names by (metis a snd_conv)
  then show ?thesis
    by (auto simp: write_document_def DataApprovalCopy x data_approval_finish_def a names_def split: sum.split)
next
  case (InfraApprovalCopy x)
  obtain caller b c entries own where x: "x = (caller, b, c, entries, own)" by (metis prod_cases5)
  obtain r d1 where a: "record_job_approval S W ''infra-provider'' (ab_job_id b) c entries own caller b d' = (r, d1)"
    by (metis surj_pair)
  have "names d1 = names d'" using record_job_approval_names by (metis a snd_conv)
  then show ?thesis
    by (auto simp: write_document_def InfraApprovalCopy x infra_approval_finish_def a names_def split: sum.split)
next
  case (StatusCopy j c st parties)
  then show ?thesis by (simp add: write_document_def approve_job_names)
qed (use assms in \<open>cases q; auto simp: document_of_def read_document_def split: sum.splits\<close>)+

lemma serve_document_names: "names (serve_document S W q d) = names d"
proof (cases "document_of q")
  case None
  then show ?thesis
    by (auto simp: serve_read_write write_names split: option.split)
next
  case (Some cid)
  from serve_beside [OF this] show ?thesis by (simp add: beside_def)
qed

lemma serve_documents_names: "names (fold (\<lambda>(W, q). serve_document S W q) ws d) = names d"
  by (induction ws arbitrary: d) (auto simp: serve_document_names)

section \<open>A withdrawal that is lost\<close>

text \<open>The gate looks at the stored document and at the keys only.\<close>

lemma run_authorised_cong:
  assumes "stored_contract d' cid = stored_contract d cid" and "t_keys d' = t_keys d"
  shows "run_authorised S W d' cid c \<longleftrightarrow> run_authorised S W d cid c"
  unfolding run_authorised_def data_parties_consent_def infra_parties_consent_def
    good_signature_cong [OF assms(2)] load_contract_Some assms(1) by (rule refl)

text \<open>A sign leaves the same document whatever was stored since it read its own.\<close>

lemma sign_finish_overwrites:
  assumes "sign_checks S W auth cid body d = Inr x" and "sign_finish S W cid x d1 = (Inr (a, c'), d2)"
    and "stored_contract d1 cid \<noteq> None"
  obtains d' where "sign_contract S W auth cid body d = (Inr (a, c'), d')"
    and "stored_contract d' cid = Some c'" and "stored_contract d2 cid = Some c'"
    and "t_keys d' = t_keys d" and "t_keys d2 = t_keys d1"
proof -
  obtain signer b c hash where x: "x = (signer, b, c, hash)" by (metis prod_cases4)
  note fin = sign_finish_Inr [OF assms(2) [unfolded x]]
  have loaded: "stored_contract d cid = Some c"
    using sign_checks_Inr(3) [OF assms(1) [unfolded x]] by (simp add: load_contract_Some)
  then obtain a' c'' d' where again: "sign_finish S W cid x d = (Inr (a', c''), d')"
    using sign_finish_stores [of signer W hash b c cid d S] fin(1,2,3) unfolding x by auto
  note fin' = sign_finish_Inr [OF again [unfolded x]]
  have same: "c'' = c'" "a' = a" using fin(1,8) fin'(1,8) by simp_all
  have cid: "ct_contract_id c' = cid" using contracts.load_id [OF loaded] by (simp add: fin(1))
  show thesis
  proof (rule that)
    show "sign_contract S W auth cid body d = (Inr (a, c'), d')"
      using assms(1) again by (simp add: sign_contract_def same)
    show "stored_contract d' cid = Some c'"
      unfolding stored_contract_cong [OF fin'(4)] same using loaded cid by (intro contracts.load_store) simp_all
    show "stored_contract d2 cid = Some c'"
      unfolding stored_contract_cong [OF fin(4)] using assms(3) cid by (intro contracts.load_store)
    show "t_keys d' = t_keys d" "t_keys d2 = t_keys d1" by (rule fin'(5), rule fin(5))
  qed
qed

lemma overtaken_withdrawal_races:
  assumes "sign_checks S W auth cid body d = Inr x" and "withdraw_consent S W' auth' cid nid d = (r, d1)"
    and "sign_finish S W cid x d1 = (r', d2)"
  shows "races S (d, []) (d2, [])"
proof -
  have "race_step S (d, []) (d, [(W, SignCopy cid x)])"
    by (rule Read [where q = "SignDocument auth cid body"]) (simp add: read_document_def assms(1))
  moreover have "races S (d, [(W, SignCopy cid x)]) (d1, [(W, SignCopy cid x)])"
    using serve_document_races [of S d _ W' "WithdrawConsent auth' cid nid"] assms(2)
    by (simp add: serve_document_def)
  moreover have "race_step S (d1, [(W, SignCopy cid x)]) (d2, [])"
    using Write [of S d1 "[]" W "SignCopy cid x" "[]"] by (simp add: write_document_def assms(3))
  ultimately show ?thesis
    by (meson converse_rtranclp_into_rtranclp rtranclp.rtrancl_into_rtrancl)
qed

text \<open>
  C6. A withdrawal served while another provider's sign is between its read and its write is lost.
  It is answered as done and the gate refuses the contract; then the sign puts back the document it
  read, with the withdrawn signature on it, and where that completes the signatures the gate opens.
\<close>

theorem withdrawal_lost_to_race:
  assumes read: "sign_checks S W auth cid body d = Inr x"
    and withdrawn: "withdraw_consent S W' auth' cid nid d = (Inr t, d1)"
    and written: "sign_finish S W cid x d1 = (Inr (True, c'), d2)"
    and c: "stored_contract d cid = Some c" "recorded_good S W d c" "srv_has_db S" "cid \<noteq> ''''"
      "\<not> job_approval_required c" "list_all (\<lambda>p. \<not> consent_expired (w_now W) p) (data_providers c)"
  shows "races S (d, []) (d2, []) \<and> require_all_providers_signed S W d1 cid \<noteq> Inr c'' \<and>
    require_all_providers_signed S W d2 cid = Inr c' \<and>
    (\<exists>signer sig. provider_token_identity S W auth = Inr signer \<and>
       signed_by (provider_id_for_username (pi_username signer)) sig c c')"
proof -
  obtain w where w: "stored_contract d1 cid = Some w" "require_all_providers_signed S W d1 cid \<noteq> Inr c''"
    using withdraw_effect [OF withdrawn, where W' = W and c'' = c'' and h = "''''" and ok = True and w = "''''"]
    by blast
  then have d1: "stored_contract d1 cid \<noteq> None" by simp
  have k1: "t_keys d1 = t_keys d" using withdrawn by (rule withdraw_consent_Inr)
  obtain d' where serial: "sign_contract S W auth cid body d = (Inr (True, c'), d')"
    and stored: "stored_contract d' cid = Some c'" "stored_contract d2 cid = Some c'"
    and keys: "t_keys d' = t_keys d" "t_keys d2 = t_keys d1"
    using read written d1 by (rule sign_finish_overwrites)
  have "run_authorised S W d' cid c'"
    using all_signed_opens [OF serial c] by (simp add: gate_iff_authorised)
  then have "require_all_providers_signed S W d2 cid = Inr c'"
    using run_authorised_cong [of d2 cid d' S W c'] stored keys k1 by (simp add: gate_iff_authorised)
  moreover obtain signer sig where "provider_token_identity S W auth = Inr signer"
    "signed_by (provider_id_for_username (pi_username signer)) sig c c'"
    using sign_contract_signed_by [OF serial c(1)] by blast
  ultimately show ?thesis using overtaken_withdrawal_races [OF read withdrawn written] w(2) by blast
qed

section \<open>Witnesses\<close>

lemma sample_race_withdrawal:
  "\<exists>t d1. withdraw_consent sample_server (sample_world 10) ''Bearer a'' ''c'' (Some '''')
     (sample_db (sample_signed [''a''])) = (Inr t, d1)"
proof -
  have "case withdraw_consent sample_server (sample_world 10) ''Bearer a'' ''c'' (Some '''')
     (sample_db (sample_signed [''a''])) of (Inr r, d) \<Rightarrow> True | _ \<Rightarrow> False" by code_simp
  then show ?thesis by (auto split: prod.splits sum.splits)
qed

text \<open>Provider b's sign has read the contract provider a signed; a withdraws; b's sign writes.\<close>

lemma sample_race:
  obtains x t d1 c' d2 where
    "sign_checks sample_server (sample_world 10) ''Bearer b'' ''c'' (Some (sample_sign_body ''b''))
       (sample_db (sample_signed [''a''])) = Inr x"
    and "withdraw_consent sample_server (sample_world 10) ''Bearer a'' ''c'' (Some '''')
       (sample_db (sample_signed [''a''])) = (Inr t, d1)"
    and "sign_finish sample_server (sample_world 10) ''c'' x d1 = (Inr (True, c'), d2)"
proof -
  let ?d = "sample_db (sample_signed [''a''])"
  obtain t d1 where w: "withdraw_consent sample_server (sample_world 10) ''Bearer a'' ''c'' (Some '''') ?d = (Inr t, d1)"
    using sample_race_withdrawal by blast
  obtain c d where "sign_contract sample_server (sample_world 10) ''Bearer b'' ''c'' (Some (sample_sign_body ''b'')) ?d =
      (Inr (True, c), d)" using sample_sign by blast
  then obtain signer b c0 hash where chk: "sign_checks sample_server (sample_world 10) ''Bearer b'' ''c''
      (Some (sample_sign_body ''b'')) ?d = Inr (signer, b, c0, hash)"
    and fin: "sign_finish sample_server (sample_world 10) ''c'' (signer, b, c0, hash) ?d = (Inr (True, c), d)"
    by (auto simp: sign_contract_def split: sum.splits)
  have "stored_contract d1 ''c'' \<noteq> None" using withdraw_effect [OF w] by blast
  then obtain a' c' d2 where again: "sign_finish sample_server (sample_world 10) ''c'' (signer, b, c0, hash) d1 =
      (Inr (a', c'), d2)"
    using sign_finish_stores [of signer "sample_world 10" hash b c0 "''c''" d1 sample_server] sign_finish_Inr(1,2,3) [OF fin]
    by auto
  moreover have a: "a' = True" using sign_finish_Inr(1,8) [OF fin] sign_finish_Inr(1,8) [OF again] by simp
  ultimately show thesis using that [OF chk w] unfolding a by blast
qed

theorem withdrawal_lost_to_race_witness:
  "\<exists>d c. races sample_server (sample_db (sample_signed [''a'']), []) (d, []) \<and>
     require_all_providers_signed sample_server (sample_world 10) d ''c'' = Inr c"
proof -
  obtain x t d1 c' d2 where r:
    "sign_checks sample_server (sample_world 10) ''Bearer b'' ''c'' (Some (sample_sign_body ''b''))
       (sample_db (sample_signed [''a''])) = Inr x"
    "withdraw_consent sample_server (sample_world 10) ''Bearer a'' ''c'' (Some '''')
       (sample_db (sample_signed [''a''])) = (Inr t, d1)"
    "sign_finish sample_server (sample_world 10) ''c'' x d1 = (Inr (True, c'), d2)"
    by (rule sample_race)
  have "stored_contract (sample_db (sample_signed [''a''])) ''c'' = Some (sample_signed [''a''])" by simp
  moreover have "recorded_good sample_server (sample_world 10) (sample_db (sample_signed [''a'']))
      (sample_signed [''a''])" by code_simp
  moreover have "srv_has_db sample_server" "''c'' \<noteq> ''''" "\<not> job_approval_required (sample_signed [''a''])"
    "list_all (\<lambda>p. \<not> consent_expired (w_now (sample_world 10)) p) (data_providers (sample_signed [''a'']))"
    by code_simp+
  ultimately show ?thesis using withdrawal_lost_to_race [OF r] by blast
qed

text \<open>Two contracts provider a has signed: b signs the one while a withdraws from the other.\<close>

definition sample_pair :: db where
  "sample_pair = (sample_db (sample_signed [''a'']))\<lparr>t_contracts :=
     [sample_row (sample_signed [''a'']),
      (sample_row ((sample_signed [''a''])\<lparr>ct_contract_id := ''k''\<rparr>))\<lparr>cr_id := ''rk''\<rparr>]\<rparr>"

abbreviation sample_b_signs :: doc_call where
  "sample_b_signs \<equiv> SignDocument ''Bearer b'' ''c'' (Some (sample_sign_body ''b''))"

abbreviation sample_a_withdraws :: doc_call where
  "sample_a_withdraws \<equiv> WithdrawConsent ''Bearer a'' ''k'' (Some '''')"

lemma sample_pair_read:
  "read_document sample_server (sample_world 10) sample_b_signs sample_pair \<noteq> None"
  by code_simp

lemma sample_pair_withdrawn:
  "map_option (\<lambda>c. map (\<lambda>p. sg_value (dp_signature p) = '''') (data_providers c))
     (stored_contract (serve_document sample_server (sample_world 10) sample_a_withdraws sample_pair) ''k'') =
     Some [True, True]"
  by code_simp

theorem calls_about_other_contracts_serial_witness:
  "\<exists>k d1. read_document sample_server (sample_world 10) sample_b_signs sample_pair = Some k \<and>
     serve_document sample_server (sample_world 10) sample_a_withdraws sample_pair = d1 \<and>
     write_document sample_server (sample_world 10) k d1 =
       serve_document sample_server (sample_world 10) sample_b_signs d1 \<and>
     map_option (\<lambda>c. map (\<lambda>p. sg_value (dp_signature p) = '''') (data_providers c))
       (stored_contract (write_document sample_server (sample_world 10) k d1) ''k'') = Some [True, True]"
proof -
  obtain k where k: "read_document sample_server (sample_world 10) sample_b_signs sample_pair = Some k"
    using sample_pair_read by auto
  have "document_of sample_b_signs = Some ''c''" "document_of sample_a_withdraws = Some ''k''"
    by (simp_all add: document_of_def)
  from calls_about_other_contracts_serial [OF k this _ refl, of "sample_world 10"] show ?thesis
    using k sample_pair_withdrawn by auto
qed



end
