(* ===== verification/Regeneration.thy ===== *)
theory Regeneration
  imports Races Generation_Facts
begin

text \<open>
  Generating a selection of datasets again (\<^verbatim>\<open>StoreGeneratedContract\<close>, an upsert on the consumer,
  the selection and the technique) while the earlier contract has been signed, edited or approved.
\<close>

section \<open>What depends on the names of the rows only\<close>

lemma names_projections:
  "map cr_id (t_contracts d) = map fst (names d)"
  "map cr_project_id (t_contracts d) = map (fst \<circ> snd) (names d)"
  "map cr_session_id (t_contracts d) = map (fst \<circ> snd \<circ> snd) (names d)"
  "map cr_job_id (t_contracts d) = map (fst \<circ> snd \<circ> snd \<circ> snd) (names d)"
  "map (\<lambda>r. (cr_session_id r, jget ''contract_id'' (cr_contract r))) (t_contracts d) =
     map (\<lambda>(i, p, s, j, c). (s, c)) (names d)"
  "length (t_contracts d) = length (names d)"
  by (simp_all add: names_def row_names_def)

lemma map_filter_map: "List.map_filter f xs = List.map_filter (\<lambda>x. x) (map f xs)"
  by (simp add: List.map_filter_def filter_map comp_def)

lemma names_unique:
  assumes "names d' = names d"
  shows "contracts_unique (t_contracts d') = contracts_unique (t_contracts d)"
  unfolding contracts_unique_def map_filter_map [of cr_job_id] names_projections(1-4) assms by (rule refl)

lemma names_documents:
  assumes "names d' = names d" and "(s, j) \<in> set (documents d')"
  obtains j0 where "(s, j0) \<in> set (documents d)" and "jget ''contract_id'' j0 = jget ''contract_id'' j"
proof -
  have "(s, jget ''contract_id'' j) \<in> set (map (\<lambda>r. (cr_session_id r, jget ''contract_id'' (cr_contract r))) (t_contracts d'))"
    using assms(2) by (auto simp: documents_def)
  then have "(s, jget ''contract_id'' j) \<in> set (map (\<lambda>r. (cr_session_id r, jget ''contract_id'' (cr_contract r))) (t_contracts d))"
    unfolding names_projections(5) assms(1) .
  then obtain r where "r \<in> set (t_contracts d)" "s = cr_session_id r"
    "jget ''contract_id'' j = jget ''contract_id'' (cr_contract r)" by auto
  then show thesis by (intro that [of "cr_contract r"]) (auto simp: documents_def)
qed

lemma names_fresh:
  assumes "names d' = names d"
  shows "fresh_draft_ids W d' = fresh_draft_ids W d"
proof -
  let ?P = "\<lambda>u c j (i, p, s, jo, cid). cid \<noteq> JStr u \<and> i \<noteq> c \<and> p \<noteq> u \<and> jo \<noteq> Some j"
  have "fresh_draft_ids W d = (let n = length (names d) in
      list_all (?P (w_new_id W ''uuid'' n) (w_new_id W ''con'' n) (w_new_id W ''job'' n)) (names d))" for d
    by (simp add: fresh_draft_ids_def names_def row_names_def list.pred_map comp_def row_has_contract_id_def Let_def)
  then show ?thesis by (simp add: assms)
qed

section \<open>The earlier contract is gone\<close>

text \<open>
  C30. Generating the same selection of datasets again, whatever its order, replaces the earlier
  contract whatever calls were served on contract documents in between, in any number and order:
  signing, withdrawing, setting an expiry, editing, approving datasets and infrastructures, asking
  for the status (which makes an approved job final). The consumer has one row for the selection as
  before, the earlier contract is no longer stored, even signed by all, and no run on it passes the
  gate any more. The final record of an approved job stays in its own table.
\<close>

theorem regeneration_retires_contract:
  assumes "handle_generate_contract S W auth (Some q) d = (Inr (g, notices), d1)"
    and "fold (\<lambda>(V, c). serve_document S V c) calls d1 = d1'"
    and "handle_generate_contract S W2 auth (Some q2) d1' = (Inr (g2, notices2), d2)"
    and "w_access_token W2 = w_access_token W"
    and "mset (map fst (gq_datasets q2)) = mset (map fst (gq_datasets q))" and "gq_technique q2 = gq_technique q"
    and "w_fault W (Db ''StoreGeneratedContract'' []) = None" and "w_fault W2 (Db ''StoreGeneratedContract'' []) = None"
    and "marshals_now W" and "marshals_now W2"
    and "contracts_unique (t_contracts d)" and "fresh_draft_ids W d" and "fresh_draft_ids W2 d1'"
  shows "stored_contract d2 (ct_contract_id (gd_contract g)) = None \<and>
    require_all_providers_signed S W' d2 (ct_contract_id (gd_contract g)) \<noteq> Inr c' \<and>
    length (t_contracts d2) = length (t_contracts d1)"
proof -
  let ?c = "gd_contract g" and ?c2 = "gd_contract g2"
  have n: "names d1' = names d1" using serve_documents_names unfolding assms(2) [symmetric] .
  obtain claims where tok: "w_access_token W (case bearer_token auth of None \<Rightarrow> '''' | Some t \<Rightarrow> t) = Inr (True, claims)"
      and d1: "documents d1 = put_at (preview_session (claim_str ''sub'' claims)
        (dataset_key (map fst (gq_datasets q))) (gq_technique q)) (enc_contract ?c) (documents d)"
      and u1: "contracts_unique (t_contracts d1)" and new: "\<forall>r \<in> set (t_contracts d). \<not> row_has_contract_id (ct_contract_id ?c) r"
    using assms(1,7,9,11,12) by (rule generate_publishes)
  have u1': "contracts_unique (t_contracts d1')" using u1 names_unique [OF n] by simp
  obtain claims2 where tok2: "w_access_token W2 (case bearer_token auth of None \<Rightarrow> '''' | Some t \<Rightarrow> t) = Inr (True, claims2)"
      and d2': "documents d2 = put_at (preview_session (claim_str ''sub'' claims2)
        (dataset_key (map fst (gq_datasets q2))) (gq_technique q2)) (enc_contract ?c2) (documents d1')"
      and new2: "\<forall>r \<in> set (t_contracts d1'). \<not> row_has_contract_id (ct_contract_id ?c2) r"
    using assms(3,8,10) u1' assms(13) by (rule generate_publishes)
  let ?s = "preview_session (claim_str ''sub'' claims) (dataset_key (map fst (gq_datasets q))) (gq_technique q)"
  have "dataset_key (map fst (gq_datasets q2)) = dataset_key (map fst (gq_datasets q))"
    using assms(5) unfolding dataset_key_def by (metis sorted_list_of_multiset_mset)
  then have d2: "documents d2 = put_at ?s (enc_contract ?c2) (documents d1')"
    using d2' tok tok2 assms(4,6) by simp
  have "(?s, enc_contract ?c) \<in> set (documents d1)" by (simp add: d1 set_put_at)
  then obtain j where j: "(?s, j) \<in> set (documents d1')" "jget ''contract_id'' j = JStr (ct_contract_id ?c)"
    using names_documents [OF n [symmetric]] by (metis jget_enc_contract_id)
  then have ne: "ct_contract_id ?c2 \<noteq> ct_contract_id ?c"
    using new2 by (auto simp: documents_def row_has_contract_id_def)
  have gone: "stored_contract d2 (ct_contract_id ?c) = None"
  proof (rule stored_documents_None)
    fix s i
    assume "(s, i) \<in> set (documents d2)"
    then consider "i = enc_contract ?c2" | "(s, i) \<in> set (documents d1')" "s \<noteq> ?s"
      unfolding d2 set_put_at by auto
    then show "jget ''contract_id'' i \<noteq> JStr (ct_contract_id ?c)"
    proof cases
      case 2
      obtain j0 where j0: "(s, j0) \<in> set (documents d1)" "jget ''contract_id'' j0 = jget ''contract_id'' i"
        using n 2(1) by (rule names_documents)
      then have "(s, j0) \<in> set (documents d)" using 2(2) by (auto simp only: d1 set_put_at fst_conv)
      then show ?thesis using new j0(2) by (auto simp: documents_def row_has_contract_id_def)
    qed (use ne in simp)
  qed
  then have "require_all_providers_signed S W' d2 (ct_contract_id ?c) \<noteq> Inr c'"
    by (auto simp: gate_iff_authorised run_authorised_def load_contract_Some)
  moreover have "?s \<in> fst ` set (documents d1')" using j(1) by force
  then have "length (documents d2) = length (documents d1')" by (simp add: d2 length_put_at)
  ultimately show ?thesis using gone n by (simp add: documents_def names_projections(6))
qed

section \<open>A contract signed by all, replaced\<close>

text \<open>A catalogue in which \<open>b\<close> uploaded both datasets, and \<open>b\<close>'s signature on the contract.\<close>

definition catalogue_world :: world where
  "catalogue_world = (sample_world 1)\<lparr>w_http_get := (\<lambda>url tok.
     HttpReply 200 (Some (JObj [(''result'', JArr [JObj [(''id'', JStr ''x''), (''uploadedBy'', JStr ''b'')]])])))\<rparr>"

definition catalogue_draft :: contract where
  "catalogue_draft = seal_generated sample_server catalogue_world (build_generated_contract sample_crypto 1 ''uuid0'' ''job0''
     (fst (generate_input_of sample_server catalogue_world ''u'' (sample_claims ''u'') (generate_body [''x'', ''y'']))))"

definition catalogue_sign :: sign_body where
  "catalogue_sign = \<lparr>sb_provider_username = '''', sb_notification_id = '''',
     sb_contract_hash = ''sha256:uuid0u'', sb_signature = ''bsha256:uuid0u''\<rparr>"

abbreviation draft_generated :: "generated \<Rightarrow> private_notice list \<Rightarrow> db \<Rightarrow> bool" where
  "draft_generated g ns d \<equiv> handle_generate_contract sample_server catalogue_world ''Bearer u''
     (Some (generate_body [''x'', ''y''])) empty_db = (Inr (g, ns), d)"

lemma catalogue_world_simps:
  "w_access_token catalogue_world = w_access_token (sample_world 1)" "marshals_now catalogue_world"
  "w_fault catalogue_world x = None" "w_new_id catalogue_world = w_new_id (sample_world 1)" "w_now catalogue_world = 1"
  "generate_checks catalogue_world auth body = generate_checks (sample_world 1) auth body"
  using sample_marshals(1) by (simp_all add: catalogue_world_def sample_world_def marshals_now_def generate_checks_def)

lemma sample_server_crypto: "srv_crypto sample_server = sample_crypto"
  by (simp add: sample_server_def)

lemma catalogue_generated:
  obtains g ns d where "draft_generated g ns d" and "gd_contract g = catalogue_draft"
    and "stored_contract d ''uuid0'' = Some catalogue_draft" and "t_keys d = t_keys empty_db"
    and "fresh_draft_ids later_world d"
proof -
  let ?W = catalogue_world and ?q = "generate_body [''x'', ''y'']"
  obtain inp ns where gi: "generate_input_of sample_server ?W ''u'' (sample_claims ''u'') ?q = (inp, ns)"
    by (metis surj_pair)
  obtain g d where p: "publish_generated sample_server ?W (sample_claims ''u'')
      (dataset_key (map fst (gq_datasets ?q))) catalogue_draft empty_db = (g, d)" by (metis surj_pair)
  have draft: "catalogue_draft = seal_generated sample_server ?W (build_generated_contract (srv_crypto sample_server)
      (w_now ?W) (w_new_id ?W ''uuid'' (length (t_contracts empty_db))) (w_new_id ?W ''job'' (length (t_contracts empty_db))) inp)"
    by (simp add: catalogue_draft_def gi catalogue_world_simps empty_id sample_new_id sample_server_crypto)
  have "handle_generate_contract sample_server ?W ''Bearer u'' (Some ?q) empty_db = (Inr (g, ns), d)"
    using p by (simp add: handle_generate_contract_def catalogue_world_simps(6) generate_checks_ok gi draft Let_def)
  note r = this
  have ok: "json_ok (enc_contract catalogue_draft)"
    unfolding draft by (intro seal_marshals build_marshals catalogue_world_simps(2))
  have ids: "ct_contract_id catalogue_draft = w_new_id ?W ''uuid'' (length (t_contracts empty_db))"
      "ct_job_id catalogue_draft = w_new_id ?W ''job'' (length (t_contracts empty_db))"
    by (simp_all add: draft seal_ids build_simps)
  obtain rid d0 where g: "gd_contract g = catalogue_draft" and d0: "drafts d = drafts d0"
      and st: "store_generated_contract ?W (claim_str ''sub'' (sample_claims ''u''))
        (dataset_key (map fst (gq_datasets ?q))) (ct_technique catalogue_draft) (ct_contract_id catalogue_draft)
        (ct_job_id catalogue_draft) (enc_contract catalogue_draft) empty_db = (Inr rid, d0)"
    using p catalogue_world_simps(3) ok empty_unique empty_fresh ids by (rule publish_stored)
  have "fresh_draft_ids later_world d"
    unfolding fresh_draft_drafts d0 unfolding drafts_def using st
    by (auto simp: store_generated_contract_def store_contract_rows_def Let_def db_write_Inr upsert_row_def
        empty_db_def row_has_contract_id_def ids catalogue_world_simps(4) sample_new_id split: if_splits)
  moreover have "t_keys d = t_keys empty_db"
    using writes_keys [OF wp_generate(3) [of empty_db empty_db sample_server ?W "''Bearer u''" "Some ?q"]]
    by (simp add: r)
  moreover have "stored_contract d ''uuid0'' = Some catalogue_draft"
    using generate_stores [OF r catalogue_world_simps(3) catalogue_world_simps(2) empty_unique empty_fresh]
    by (simp add: g ids catalogue_world_simps(4) empty_id sample_new_id)
  ultimately show thesis using r g by (intro that)
qed

lemma catalogue_signed:
  assumes "stored_contract d ''uuid0'' = Some catalogue_draft" and "t_keys d = t_keys empty_db"
  obtains c d' where "sign_contract sample_server (sample_world 2) ''Bearer b'' ''uuid0'' (Some catalogue_sign) d =
    (Inr (True, c), d')"
proof -
  let ?b = "\<lparr>pi_username = ''b'', pi_user_id = ''b'', pi_roles = [''provider'', ''infra-provider'']\<rparr>"
  have id: "provider_token_identity sample_server (sample_world 2) ''Bearer b'' = Inr ?b" by code_simp
  have key: "provider_public_key (sample_world 2) d ''b'' = Inr ''b''"
    unfolding provider_public_key_def assms(2) by code_simp
  have load: "load_contract (sample_world 2) d ''uuid0'' = Inr (Some catalogue_draft)"
    using assms(1) by (simp add: load_contract_Some sample_no_fault)
  have facts: "signable catalogue_draft" "\<not> job_approval_required catalogue_draft"
    "compute_hash (srv_crypto sample_server) catalogue_draft = Inr ''sha256:uuid0u''"
    "ct_contract_hash catalogue_draft = ''sha256:uuid0u''"
    "governance_signature_valid sample_server catalogue_draft ''sha256:uuid0u''"
    "list_ex (\<lambda>p. party_provider_id p = provider_id_for_username ''b'') (data_providers catalogue_draft)"
    by code_simp+
  have body: "sb_provider_username catalogue_sign = ''''" "sb_contract_hash catalogue_sign = ''sha256:uuid0u''"
    "sb_signature catalogue_sign = ''bsha256:uuid0u''"
    by (simp_all add: catalogue_sign_def)
  have sig: "verify_contract_hash_signature (srv_crypto sample_server) ''b'' ''sha256:uuid0u'' ''bsha256:uuid0u'' = None"
    by code_simp
  have "sign_checks sample_server (sample_world 2) ''Bearer b'' ''uuid0'' (Some catalogue_sign) d =
      Inr (?b, catalogue_sign, catalogue_draft, ''sha256:uuid0u'')"
    by (simp add: sign_checks_def id load body facts signing_allowed_def hash_to_sign_def key sig Let_def)
  moreover have "json_ok (enc_contract (put_provider_signature (provider_id_for_username (pi_username ?b))
      (signature_over (w_now (sample_world 2)) (pi_username ?b) ''sha256:uuid0u'' (sb_signature catalogue_sign))
      catalogue_draft))" by code_simp
  then obtain a c d' where fin: "sign_finish sample_server (sample_world 2) ''uuid0''
      (?b, catalogue_sign, catalogue_draft, ''sha256:uuid0u'') d = (Inr (a, c), d')"
    using sign_finish_stores [OF _ sample_no_fault] assms(1) by blast
  moreover have "list_all (\<lambda>p. sg_value (dp_signature p) \<noteq> '''') (data_providers
      (put_provider_signature (provider_id_for_username ''b'') (signature_over 2 ''b'' ''sha256:uuid0u'' ''bsha256:uuid0u'')
        catalogue_draft))" by code_simp
  then have "a" using sign_finish_Inr(1,8) [OF fin] body(3) by (simp add: sample_world_def)
  ultimately show thesis using that by (simp add: sign_contract_def)
qed

theorem regeneration_retires_contract_witness:
  "\<exists>g ns d1 d1' c g2 ns2 d2. draft_generated g ns d1 \<and>
     serve_document sample_server (sample_world 2) (SignDocument ''Bearer b'' ''uuid0'' (Some catalogue_sign)) d1 = d1' \<and>
     require_all_providers_signed sample_server (sample_world 2) d1' ''uuid0'' = Inr c \<and>
     handle_generate_contract sample_server later_world ''Bearer u'' (Some (generate_body [''y'', ''x''])) d1' =
       (Inr (g2, ns2), d2) \<and>
     require_all_providers_signed sample_server (sample_world 2) d2 ''uuid0'' \<noteq> Inr c"
proof -
  obtain g ns d1 where r: "draft_generated g ns d1" and g: "gd_contract g = catalogue_draft"
    and stored: "stored_contract d1 ''uuid0'' = Some catalogue_draft" and keys: "t_keys d1 = t_keys empty_db"
    and fresh: "fresh_draft_ids later_world d1" by (rule catalogue_generated)
  obtain c d1' where s: "sign_contract sample_server (sample_world 2) ''Bearer b'' ''uuid0'' (Some catalogue_sign) d1 =
    (Inr (True, c), d1')" using stored keys by (rule catalogue_signed)
  let ?sign = "SignDocument ''Bearer b'' ''uuid0'' (Some catalogue_sign)"
  have step: "serve_document sample_server (sample_world 2) ?sign d1 = d1'" by (simp add: serve_document_def s)
  have "list_all (\<lambda>p. sg_value (dp_signature p) = '''') (data_providers catalogue_draft)" by code_simp
  then have good: "recorded_good sample_server (sample_world 2) d1 catalogue_draft"
    by (auto simp: recorded_good_def list_all_iff)
  have other: "srv_has_db sample_server" "''uuid0'' \<noteq> ''''" "\<not> job_approval_required catalogue_draft"
    "list_all (\<lambda>p. \<not> consent_expired (w_now (sample_world 2)) p) (data_providers catalogue_draft)" by code_simp+
  have gate: "require_all_providers_signed sample_server (sample_world 2) d1' ''uuid0'' = Inr c"
    using s stored good other by (rule all_signed_opens)
  obtain g2 ns2 d2 where r2: "handle_generate_contract sample_server later_world ''Bearer u''
        (Some (generate_body [''y'', ''x''])) d1' = (Inr (g2, ns2), d2)"
    using generate_checks_ok(2) [of 1] unfolding later_world_simps(5) [symmetric] by (rule generate_succeeds)
  have calls: "fold (\<lambda>(V, c). serve_document sample_server V c) [(sample_world 2, ?sign)] d1 = d1'" by (simp add: step)
  have fresh': "fresh_draft_ids later_world d1'"
    using fresh names_fresh [OF serve_document_names] unfolding step [symmetric] by blast
  have id: "ct_contract_id catalogue_draft = ''uuid0''" by (simp add: catalogue_draft_def seal_ids build_simps)
  have same: "w_access_token later_world = w_access_token catalogue_world"
    "mset (map fst (gq_datasets (generate_body [''y'', ''x'']))) = mset (map fst (gq_datasets (generate_body [''x'', ''y''])))"
    "gq_technique (generate_body [''y'', ''x'']) = gq_technique (generate_body [''x'', ''y''])"
    by (simp only: catalogue_world_simps(1) later_world_simps(1), simp_all add: generate_body_def)
  from regeneration_retires_contract [OF r calls r2 same catalogue_world_simps(3) later_world_simps(3)
      catalogue_world_simps(2) later_world_simps(2) empty_unique empty_fresh fresh', of "sample_world 2" c]
  have "require_all_providers_signed sample_server (sample_world 2) d2 ''uuid0'' \<noteq> Inr c" unfolding g id by blast
  then show ?thesis using r step gate r2 by blast
qed

end
