(* ===== verification/Wire.thy ===== *)
theory Wire
  imports Negotiation TEE_Orchestrator
begin

text \<open>
  What goes over the wire around the handlers: request bodies (\<^verbatim>\<open>decodeJSON\<close> and \<^verbatim>\<open>readBody\<close> in
  \<^verbatim>\<open>httpapi/server.go\<close>), the TEE errors as answers (\<^verbatim>\<open>writeTEEError\<close>), the time stamps Postgres keeps
  without a zone (\<^verbatim>\<open>asIST\<close> in \<^verbatim>\<open>db/fl_notifications.go\<close>) and the embedded API documentation
  (\<^verbatim>\<open>httpapi/apidocs.go\<close>).
\<close>

section \<open>Request bodies\<close>

abbreviation max_body_bytes :: nat where "max_body_bytes \<equiv> 5 * 1024 * 1024"

text \<open>
  \<open>first_value\<close> is \<^verbatim>\<open>encoding/json\<close>'s scanner: the value a text begins with, after white space, if it
  is complete; what follows it is never looked at. The body is cut at the limit, and a value that
  is not complete by then is an error, as is any other text but an empty one.
\<close>

datatype body_error = Body_EOF | Body_Too_Large | Body_Syntax

definition decode_json :: "(string \<Rightarrow> json option) \<Rightarrow> string \<Rightarrow> body_error + json" where
  "decode_json first_value body =
     (let seen = take max_body_bytes body in
      case first_value seen of
        Some j \<Rightarrow> Inr j
      | None \<Rightarrow> Inl (if length body > max_body_bytes then Body_Too_Large
          else if list_all is_space seen then Body_EOF else Body_Syntax))"

text \<open>
  The handlers' body parameter: \<open>None\<close> is the 400 \<^verbatim>\<open>INVALID_JSON\<close>. An empty body leaves the struct at
  its zero value; \<open>into\<close> stores a value in the struct, and may refuse its type.
\<close>

definition read_body :: "(string \<Rightarrow> json option) \<Rightarrow> (json \<Rightarrow> 'a option) \<Rightarrow> 'a \<Rightarrow> string \<Rightarrow> 'a option" where
  "read_body first_value into zero body =
     (case decode_json first_value body of
        Inr j \<Rightarrow> into j
      | Inl e \<Rightarrow> if e = Body_EOF then Some zero else None)"

text \<open>\<^verbatim>\<open>handleWithdrawConsent\<close> does not read a body whose length is announced as 0.\<close>

definition withdraw_body :: "(string \<Rightarrow> json option) \<Rightarrow> (json \<Rightarrow> string option) \<Rightarrow> int \<Rightarrow> string \<Rightarrow> string option" where
  "withdraw_body first_value into content_length body =
     (if content_length \<noteq> 0 then read_body first_value into '''' body else Some '''')"

lemma read_body_zero:
  "first_value body = None \<Longrightarrow> list_all is_space body \<Longrightarrow> length body \<le> max_body_bytes \<Longrightarrow>
   read_body first_value into zero body = Some zero"
  by (simp add: read_body_def decode_json_def)

text \<open>Nothing after the first value matters, and a body is refused only with the 400.\<close>

lemma read_body_first_value:
  assumes "first_value (take max_body_bytes body) = Some j"
  shows "read_body first_value into zero body = into j"
  using assms by (simp add: read_body_def decode_json_def)

lemma read_body_refuses:
  "read_body first_value into zero body = None \<longleftrightarrow>
     (case first_value (take max_body_bytes body) of
        Some j \<Rightarrow> into j = None
      | None \<Rightarrow> length body > max_body_bytes \<or> \<not> list_all is_space body)"
  by (auto simp: read_body_def decode_json_def Let_def split: option.split)

section \<open>TEE errors as answers\<close>

text \<open>An error that is no \<^verbatim>\<open>teeAPIError\<close> is \<open>Inr\<close> its text. The answer is the status and the JSON fields.\<close>

definition write_tee_error :: "tee_error + string \<Rightarrow> nat \<times> (string \<times> json) list" where
  "write_tee_error e =
     (case e of
        Inl a \<Rightarrow> (te_status a,
          [(''status'', JStr ''FAILED''), (''error'', JStr (te_code a)), (''message'', JStr (te_message a))] @
          (if te_detail a \<noteq> '''' then [(''detail'', JStr (te_detail a))] else []))
      | Inr m \<Rightarrow> (500,
          [(''status'', JStr ''FAILED''), (''error'', JStr ''INTERNAL_ERROR''), (''message'', JStr m)]))"

text \<open>The answer determines the error: the status, code, message and detail are all in it.\<close>

lemma write_tee_error_inject: "write_tee_error (Inl a) = write_tee_error (Inl b) \<Longrightarrow> a = b"
  by (cases a; cases b) (auto simp: write_tee_error_def split: if_splits)

section \<open>Time stamps without a zone\<close>

text \<open>
  A column of type \<^verbatim>\<open>TIMESTAMP\<close> holds the wall clock of the database's session zone, \<open>off\<close> ahead of
  UTC, and pgx reads it as if it were UTC. \<^verbatim>\<open>asIST\<close> takes the same digits as Indian time.
\<close>

definition scanned :: "time \<Rightarrow> time \<Rightarrow> time" where
  "scanned off t = t + off"

definition ist_offset :: time where
  "ist_offset = (5 * 3600 + 1800) * second"

definition as_ist :: "time option \<Rightarrow> time option" where
  "as_ist t = map_option (\<lambda>t. t - ist_offset) t"

definition fix_timezones :: "notification \<Rightarrow> notification" where
  "fix_timezones n = n\<lparr>nf_read_at := as_ist (nf_read_at n), nf_created_at := the (as_ist (Some (nf_created_at n))),
     nf_responded_at := as_ist (nf_responded_at n)\<rparr>"

text \<open>A notification as pgx reads it from a database in that zone.\<close>

definition scanned_notification :: "time \<Rightarrow> notification \<Rightarrow> notification" where
  "scanned_notification off n = n\<lparr>nf_read_at := map_option (scanned off) (nf_read_at n),
     nf_created_at := scanned off (nf_created_at n), nf_responded_at := map_option (scanned off) (nf_responded_at n)\<rparr>"

definition scanned_removal :: "time \<Rightarrow> removed_provider \<Rightarrow> removed_provider" where
  "scanned_removal off p = p\<lparr>rp_removed_at := scanned off (rp_removed_at p)\<rparr>"

definition fix_removal :: "removed_provider \<Rightarrow> removed_provider" where
  "fix_removal p = p\<lparr>rp_removed_at := the (as_ist (Some (rp_removed_at p)))\<rparr>"

definition scanned_event :: "time \<Rightarrow> contract_event \<Rightarrow> contract_event" where
  "scanned_event off e = e\<lparr>ev_at := scanned off (ev_at e)\<rparr>"

text \<open>On a database in Indian time the correction recovers the instants the tables are modelled with.\<close>

theorem notification_times_recovered: "fix_timezones (scanned_notification ist_offset n) = n"
  by (cases n) (simp add: fix_timezones_def scanned_notification_def scanned_def as_ist_def option.map_comp o_def option.map_ident)

theorem removal_times_recovered: "fix_removal (scanned_removal ist_offset p) = p"
  by (cases p) (simp add: fix_removal_def scanned_removal_def scanned_def as_ist_def)

text \<open>
  Events are not corrected: where the correction of notifications is right, a job's events are
  dated five and a half hours after they happened; on a database in UTC it is the other way round.
\<close>

theorem event_times_off:
  "fix_timezones (scanned_notification off n) = n \<Longrightarrow> ev_at (scanned_event off e) = ev_at e + ist_offset"
  "ev_at (scanned_event 0 e) = ev_at e"
  "nf_created_at (fix_timezones (scanned_notification 0 n)) = nf_created_at n - ist_offset"
  by (cases n; simp add: fix_timezones_def scanned_notification_def scanned_event_def scanned_def as_ist_def)+

section \<open>The embedded API documentation\<close>

text \<open>\<open>embedded\<close> is the file system the build embeds. The answer: status, content type and body.\<close>

definition serve_api_doc :: "(string \<Rightarrow> string option) \<Rightarrow> string \<Rightarrow> string \<Rightarrow> nat \<times> string \<times> string" where
  "serve_api_doc embedded path content_type =
     (case embedded path of
        None \<Rightarrow> (500, ''text/plain; charset=utf-8'', ''api docs missing'' @ [CHR 0x0A])
      | Some body \<Rightarrow> (200, content_type, body))"

definition api_docs_page :: "(string \<Rightarrow> string option) \<Rightarrow> nat \<times> string \<times> string" where
  "api_docs_page embedded = serve_api_doc embedded ''apidocs/index.html'' ''text/html; charset=utf-8''"

definition api_docs_spec :: "(string \<Rightarrow> string option) \<Rightarrow> nat \<times> string \<times> string" where
  "api_docs_spec embedded = serve_api_doc embedded ''apidocs/openapi.yaml'' ''application/x-yaml''"

end
