(* ===== verification/Spec2Isabelle.thy ===== *)
theory Spec2Isabelle
  imports Contract_Edit Job_Requests TEE_Job_Facts TEE_Facts Negotiation_Facts Provider_Keys
    Generation_Facts General_Facts Output_Facts Tokens
    Startup Messages System Launch Races Regeneration Wire
begin

text \<open>
  \<^bold>\<open>The P3DX governance layer (\<^verbatim>\<open>p3dx_gov_layer\<close>), modelled and verified.\<close>

  \<^bold>\<open>The program.\<close> The governance layer is a Go HTTP service between the parties of a data-sharing
  job: a consumer who selects datasets and a workload, the data providers who own the datasets, the
  infrastructure providers who own the machines. It generates the contract between them, has every
  provider sign its hash, records their approvals, lets them bound or withdraw their consent, and
  lets a trusted execution environment (TEE) or a federated-learning (FL) session run only under a
  contract that is signed. Its state is a Postgres database; its own RSA key signs contracts
  and is the certificate authority of the session gateways.

  \<^bold>\<open>How the model is laid out.\<close> One theory per component, each a shallow embedding of the Go files it
  names; the theories whose names end in \<^verbatim>\<open>_Facts\<close> hold the theorems of a component that outgrew
  its file.

    \<^item> \<^theory_text>\<open>Prelude\<close>: Go's string functions, early returns (\<open>require\<close>, \<open>and_then\<close>, \<open>some_or\<close>), tables as
      lists of rows, and the interfaces \<open>append_log\<close>, \<open>keyed_table\<close> and \<open>keyed_rows\<close>.
    \<^item> \<^theory_text>\<open>Json\<close>, \<^theory_text>\<open>Contract\<close>, \<^theory_text>\<open>Marshal\<close>: JSON documents, the structs of \<^verbatim>\<open>internal/contract/contract.go\<close>
      with encoder and decoder, the contract hash, the sub-contract sent to the coordinator.
    \<^item> \<^theory_text>\<open>World\<close>: everything a request sees besides its input and the database, as one record of
      parameters (clock, token libraries, HTTP answers, processes, failing database calls), with
      the server and its configuration.
    \<^item> \<^theory_text>\<open>Identity\<close>: callers, roles and provider ids out of Keycloak tokens (\<^verbatim>\<open>httpapi/job_approval.go\<close>,
      \<^verbatim>\<open>provider_keys.go\<close>, \<^verbatim>\<open>service_auth.go\<close>).
    \<^item> \<^theory_text>\<open>Database\<close>: the tables and queries of \<^verbatim>\<open>internal/db\<close>.
    \<^item> \<^theory_text>\<open>Job_State\<close>, \<^theory_text>\<open>Approval\<close>, \<^theory_text>\<open>Approval_Facts\<close>, \<^theory_text>\<open>Job_Requests\<close>: job approval
      (\<^verbatim>\<open>job_approval.go\<close>, \<^verbatim>\<open>job_participants.go\<close>, \<^verbatim>\<open>job_request.go\<close>).
    \<^item> \<^theory_text>\<open>Signing\<close>, \<^theory_text>\<open>Gate\<close>: signatures over the hash and the gate every run passes
      (\<^verbatim>\<open>contract_signing.go\<close>, \<^verbatim>\<open>services/contract_signature.go\<close>, \<^verbatim>\<open>services/governance_key.go\<close>).
    \<^item> \<^theory_text>\<open>Consent\<close>, \<^theory_text>\<open>Workloads\<close>, \<^theory_text>\<open>Contract_Edit\<close>: consent expiry and withdrawal, the workload
      catalogue, the consumer's edit.
    \<^item> \<^theory_text>\<open>Apd\<close>: policies and catalogues (\<^verbatim>\<open>services/apd.go\<close>, \<^verbatim>\<open>catalogue.go\<close>, \<^verbatim>\<open>dx_catalogue.go\<close>,
      \<^verbatim>\<open>iudx_apd.go\<close>).
    \<^item> \<^theory_text>\<open>TEE_Job\<close>, \<^theory_text>\<open>TEE_Job_Facts\<close>: the run of a signed contract and its watcher (\<^verbatim>\<open>job_tee.go\<close>,
      \<^verbatim>\<open>tee_outcome.go\<close>).
    \<^item> \<^theory_text>\<open>Attestation\<close>, \<^theory_text>\<open>TEE_Orchestrator\<close>, \<^theory_text>\<open>TEE_Session\<close>, \<^theory_text>\<open>TEE_Facts\<close>: attestation tokens, the
      confidential VM, and sessions whose goroutines interleave with the handlers.
    \<^item> \<^theory_text>\<open>Negotiation\<close>, \<^theory_text>\<open>Negotiation_Facts\<close>, \<^theory_text>\<open>FL_Contracts\<close>, \<^theory_text>\<open>Gateway\<close>, \<^theory_text>\<open>FL_Facts\<close>: federated
      learning, from the participation requests to the gateway certificate.
    \<^item> \<^theory_text>\<open>Provider_Keys\<close>: the registry of public keys and of participant machines.
    \<^item> \<^theory_text>\<open>Generation\<close>, \<^theory_text>\<open>Generation_Facts\<close>: contract generation.
    \<^item> \<^theory_text>\<open>General_Contract\<close>, \<^theory_text>\<open>General_Facts\<close>: POST /contract.
    \<^item> \<^theory_text>\<open>Checkpoints\<close>, \<^theory_text>\<open>FL_Output\<close>, \<^theory_text>\<open>Output_Facts\<close>: the model files of FL sessions, the upload of their
      output and what its owner reads (\<^verbatim>\<open>model.go\<close>, \<^verbatim>\<open>fl_output.go\<close>).
    \<^item> \<^theory_text>\<open>Messages\<close>: provider messages, session reports and the fixed forms (\<^verbatim>\<open>fl_messages.go\<close>,
      \<^verbatim>\<open>fl_reports.go\<close>, \<^verbatim>\<open>fl_forms.go\<close>).
    \<^item> \<^theory_text>\<open>Tokens\<close>: the Keycloak clients, the cached service token, the user directory
      (\<^verbatim>\<open>services/keycloak.go\<close>, \<^verbatim>\<open>keycloak/keycloak.go\<close>, \<^verbatim>\<open>userdir/userdir.go\<close>).
    \<^item> \<^theory_text>\<open>Startup\<close>, \<^theory_text>\<open>Schema\<close>, \<^theory_text>\<open>Launch\<close>: the configuration, the signing key and the CA certificate, the
      schema with its migration, and the start that composes them (\<^verbatim>\<open>config.go\<close>,
      \<^verbatim>\<open>governance_key.go\<close>, \<^verbatim>\<open>governance_ca.go\<close>, \<^verbatim>\<open>db.go\<close>, \<^verbatim>\<open>cmd/server/main.go\<close>).
    \<^item> \<^theory_text>\<open>Api\<close>, \<^theory_text>\<open>Statements\<close>, \<^theory_text>\<open>System\<close>: the routing table and the calls of \<^verbatim>\<open>server.go\<close>, each call as a
      sequence of database statements, and what holds of the database whatever calls are served.
    \<^item> \<^theory_text>\<open>Races\<close>: calls served at the same time. The seven handlers that change a contract document are
      split at their first write (\<open>sign_checks\<close> and \<open>sign_finish\<close>, and so on), and \<open>race_step\<close>
      interleaves them with each other and with the statements of every other call.
    \<^item> \<^theory_text>\<open>Regeneration\<close>: a selection generated again while its earlier contract was signed or edited.
    \<^item> \<^theory_text>\<open>Wire\<close>: request bodies and TEE errors (\<^verbatim>\<open>server.go\<close>, \<^verbatim>\<open>tee_orchestrator.go\<close>), the time zone
      correction of \<^verbatim>\<open>db/fl_notifications.go\<close>, the embedded documentation (\<^verbatim>\<open>apidocs.go\<close>).
    \<^item> \<^theory_text>\<open>Sample\<close>: the concrete instance of the parameters at which the properties' hypotheses are
      shown to hold.

  \<^bold>\<open>How state and effects are modelled.\<close> A handler is a function from the server, the world and its
  request to a response and the new database; a response is an HTTP error (status, code, message) or
  the value of the 2xx body. Any database call can fail (\<open>w_fault\<close>), and a failed
  write leaves the database as it was; the handlers are not transactions in the code, and the model
  keeps the order of their writes. Times are nanoseconds since Go's zero time. Cryptography, JWT,
  X.509 and \<^verbatim>\<open>encoding/json\<close>'s bytes are parameters; where a theorem relies on one, the documented
  behaviour is a hypothesis of that theorem. Goroutines are sequences of steps, and their
  interleaving with the handlers is the relation \<open>tee_step\<close>.

  \<^bold>\<open>What is shown.\<close>
    \<^item> Signing and the gate: the gate passes exactly the contracts that satisfy a declarative
      condition; a changed, withdrawn or expired contract is refused; what passes has the content
      whose hash was signed (up to collisions of SHA-256); the last signature opens the gate when the
      earlier ones still verify. A selection generated again replaces its contract, even one signed
      by all.
    \<^item> Approval: a job is approved exactly when the latest check of every dataset and infrastructure
      accepts, and reported approved only with every data provider's signature verified (an infra's
      only where its approval is required, and by its owner only when APD names one); a final
      contract is recorded once and never replaced.
    \<^item> Runs: only authorised contracts are enabled and started, a refused run changes nothing but
      its event, an outcome is recorded at most once.
    \<^item> TEE: in every reachable state a run started by request or by a session rests, where attestation
      is required, on a fresh verdict about a genuine guest, and a token answers one challenge only;
      however sessions, handlers and terminations interleave, a session shows its position or that it
      was terminated and moves forward, and it ends within its budget of calls and polls; the shared
      registry refines a map. A termination does not stop the goroutine.
    \<^item> The service as a whole: every call is a sequence of the statements of \<^theory_text>\<open>Statements\<close> or a key
      registration; served in turn or interleaved, the tables keep the keys of the schema and the
      histories only grow; served in turn from a new database, a run passes the gate only on keys
      their signers registered themselves. A restart finds the same key, certificate and rows.
    \<^item> Concurrency: calls about different contracts do not disturb one another: interleaved, they have
      the effect of being served in turn. Of two about the same contract one overwrites the other,
      and a withdrawal of consent can be lost that way.
    \<^item> Session output: what the orchestrator uploads is what the output owner, and through
      GET /fl-output nobody else, downloads; the deprecated GET /final-model/download serves the same
      files to anyone.
    \<^item> Tokens: valid ones are signed by a configured Keycloak, a cached one is never served past its
      lifetime, and listing the holders of a role ends with all of them.
    \<^item> Federated learning: a second decline removes; a removed provider stays removed, gets no further
      ask of the session and answers none (the notice of the removal can still be accepted); a final
      roster starts unsigned, a gateway certificate names a signed and unexpired contract.
    \<^item> Keys, generation and deployment: what is stored is what was checked.
  Several theorems state behaviour that differs from the code's comments (an edited contract still
  runs, a submitted contract is deployed without comparison with the signed one): the manifest lists
  them as findings.

  \<^bold>\<open>Bounds and fuel.\<close> A TEE session's poll loop is bounded in the code by its deadline; the model steps
  it call by call and \<open>session_ends\<close> gives the bound. The watcher of a run polls for as long as it
  is given polls, and what it records does not depend on how many. The page loop of the user
  directory asks an API that may answer full pages forever: it is a \<^verbatim>\<open>partial_function\<close>, and
  \<open>role_listing_complete\<close> shows that it returns for an API that serves a finite list. Every other
  loop of the code is a recursion over a finite list.

  \<^bold>\<open>Not modelled.\<close> The matching of a path against the routing table (the chi router), the HTTP listener
  and its shutdown, logging, the \<^verbatim>\<open>.env\<close> file (godotenv), and the SQL types and plain indexes of the
  schema. The contents of the embedded documentation are a parameter. HTTP headers, timeouts and retries inside the clients
  are part of \<open>World\<close>'s outcomes. Strings are byte strings, and case folding is on ASCII. JSON numbers
  are integers, except in session output, where they are rationals. The policies \<^verbatim>\<open>handleFLContract\<close>
  fetches are left out: a notice e-mail and a log line is all that comes of them. The functional theorems of a
  handler are about the call served by itself; \<^theory_text>\<open>Races\<close> says when interleaved calls behave like that.
\<close>

end
